(* ===== verification/Gnodi_Prelude.thy ===== *)
theory Gnodi_Prelude
  imports Main "HOL-Library.Word" "HOL-Library.Signed_Division"
begin

text \<open>
  Shared vocabulary of the development: the machine types of the Go sources, the three ways a
  Go call can end (a value, an error value, a panic), the actions that thread the chain state
  through keeper calls, and the generic lemmas the components share.
\<close>

named_theorems outcome_simps \<open>unfolding rules of the outcome and action combinators\<close>
named_theorems outcome_inv \<open>inversion rules: what a successful outcome or action must have done\<close>
named_theorems u64_simps \<open>values of uint64 expressions as natural numbers\<close>

section \<open>Machine types\<close>

type_synonym u64 = "64 word"
type_synonym byte = "8 word"
type_synonym bytes = "byte list"

text \<open>A Go string is a sequence of bytes: the conversions \<^verbatim>\<open>[]byte(s)\<close> and \<^verbatim>\<open>string(b)\<close>.\<close>

definition string_bytes :: "string \<Rightarrow> bytes" where
  "string_bytes s = map (\<lambda>c. word_of_nat (of_char c)) s"

definition bytes_string :: "bytes \<Rightarrow> string" where
  "bytes_string b = map (\<lambda>w. char_of (unat w)) b"

lemma bytes_string_inverse [simp]: "bytes_string (string_bytes s) = s"
proof -
  have "unat (word_of_nat (of_char c) :: byte) = of_char c" for c
    by (simp add: unat_of_nat of_char_def)
  then show ?thesis by (simp add: bytes_string_def string_bytes_def map_idI)
qed

lemma string_bytes_inverse [simp]: "string_bytes (bytes_string b) = b"
proof -
  have "word_of_nat (of_char (char_of (unat w) :: char)) = w" for w :: byte
    using unsigned_less [of w, where ?'a = nat] by (simp add: of_char_of)
  then show ?thesis by (simp add: bytes_string_def string_bytes_def map_idI)
qed

lemma string_bytes_length [simp]: "length (string_bytes s) = length s" "length (bytes_string b) = length b"
  by (simp_all add: string_bytes_def bytes_string_def)

lemma string_bytes_eq_iff [simp]: "string_bytes s = string_bytes t \<longleftrightarrow> s = t"
  by (metis bytes_string_inverse)

text \<open>
  A Go \<^verbatim>\<open>int\<close> is 64 bits wide on every platform the node is built for. \<open>go_int\<close> is the
  conversion \<^verbatim>\<open>int(x)\<close> of an out-of-range value: two's complement wrap-around.
\<close>

definition go_int :: "int \<Rightarrow> int" where
  "go_int x = signed_take_bit 63 x"

lemma go_int_id: "- (2 ^ 63) \<le> x \<Longrightarrow> x < 2 ^ 63 \<Longrightarrow> go_int x = x"
  by (simp add: go_int_def signed_take_bit_int_eq_self)

lemma go_int_nonneg_id: "0 \<le> x \<Longrightarrow> x < 2 ^ 63 \<Longrightarrow> go_int x = x"
  by (rule go_int_id) simp_all

section \<open>Outcomes of a Go call\<close>

datatype grpc_code = InvalidArgument | NotFound | Internal | Unimplemented

text \<open>
  The error values of the modelled code: the registered SDK and module errors wrapped with a
  message, plain \<^verbatim>\<open>fmt.Errorf\<close> and \<^verbatim>\<open>errors.New\<close> texts, gRPC status errors, and errors
  made by packages outside the repository (\<open>ErrForeign\<close>).
\<close>

datatype go_error =
    ErrNotFound string
  | ErrUnauthorized string
  | ErrInvalidRequest string
  | ErrInvalidAddress string
  | ErrInvalidSigner string
  | ErrText string
  | ErrStatus grpc_code string
  | ErrForeign string
  | ErrWrap string go_error

datatype 'a outcome = Ok 'a | Err go_error | Panic string

primrec bindO :: "'a outcome \<Rightarrow> ('a \<Rightarrow> 'b outcome) \<Rightarrow> 'b outcome" where
  "bindO (Ok x) f = f x"
| "bindO (Err e) f = Err e"
| "bindO (Panic p) f = Panic p"

text \<open>\<^verbatim>\<open>errorsmod.Wrap(err, msg)\<close> and \<^verbatim>\<open>fmt.Errorf("msg: %w", err)\<close> on the error branch.\<close>

primrec wrapErr :: "string \<Rightarrow> 'a outcome \<Rightarrow> 'a outcome" where
  "wrapErr msg (Ok x) = Ok x"
| "wrapErr msg (Err e) = Err (ErrWrap msg e)"
| "wrapErr msg (Panic p) = Panic p"

text \<open>Replacing the error by one of our own, as \<^verbatim>\<open>if err != nil { return ..., newErr }\<close> does.\<close>

primrec replaceErr :: "go_error \<Rightarrow> 'a outcome \<Rightarrow> 'a outcome" where
  "replaceErr e (Ok x) = Ok x"
| "replaceErr e (Err e') = Err e"
| "replaceErr e (Panic p) = Panic p"

definition is_ok :: "'a outcome \<Rightarrow> bool" where
  "is_ok r \<longleftrightarrow> (case r of Ok _ \<Rightarrow> True | _ \<Rightarrow> False)"

lemma is_ok_simps [simp]:
  "is_ok (Ok x)" "\<not> is_ok (Err e)" "\<not> is_ok (Panic p)"
  by (simp_all add: is_ok_def)

lemma is_ok_iff: "is_ok r \<longleftrightarrow> (\<exists>x. r = Ok x)"
  by (cases r) auto

lemma bindO_eq_Ok [outcome_inv]:
  "bindO m f = Ok y \<longleftrightarrow> (\<exists>x. m = Ok x \<and> f x = Ok y)"
  by (cases m) auto

lemma wrapErr_eq_Ok [simp]: "wrapErr msg m = Ok x \<longleftrightarrow> m = Ok x"
  by (cases m) auto

lemma replaceErr_eq_Ok [simp]: "replaceErr e m = Ok x \<longleftrightarrow> m = Ok x"
  by (cases m) auto

lemma is_ok_bindO: "is_ok (bindO m f) \<longleftrightarrow> (\<exists>x. m = Ok x \<and> is_ok (f x))"
  by (cases m) auto

lemma is_ok_wrapErr [simp]: "is_ok (wrapErr msg m) = is_ok m"
  by (cases m) auto

lemma unit_outcome_ok: "is_ok (r :: unit outcome) \<longleftrightarrow> r = Ok ()"
  by (cases r) auto

section \<open>Actions on the chain state\<close>

text \<open>
  A keeper call reads and writes the multistore behind its context. An action returns the
  store together with the outcome, also when it fails: what a failed handler has already
  written stays in the store until the caller discards it.
\<close>

type_synonym ('s, 'a) action = "'s \<Rightarrow> 's \<times> 'a outcome"

definition returnA :: "'a \<Rightarrow> ('s, 'a) action" where
  "returnA x s = (s, Ok x)"

definition liftO :: "'a outcome \<Rightarrow> ('s, 'a) action" where
  "liftO r s = (s, r)"

text \<open>Reading the store.\<close>

definition readA :: "('s \<Rightarrow> 'a outcome) \<Rightarrow> ('s, 'a) action" where
  "readA f s = (s, f s)"

definition bindA :: "('s, 'a) action \<Rightarrow> ('a \<Rightarrow> ('s, 'b) action) \<Rightarrow> ('s, 'b) action" where
  "bindA m f s =
     (case m s of
        (s', Ok x) \<Rightarrow> f x s'
      | (s', Err e) \<Rightarrow> (s', Err e)
      | (s', Panic p) \<Rightarrow> (s', Panic p))"

lemma bindA_Ok [outcome_simps]: "m s = (s', Ok x) \<Longrightarrow> bindA m f s = f x s'"
  by (simp add: bindA_def)

lemma bindA_eq_Ok [outcome_inv]:
  "bindA m f s = (s'', Ok y) \<longleftrightarrow> (\<exists>s' x. m s = (s', Ok x) \<and> f x s' = (s'', Ok y))"
  by (auto simp: bindA_def split: prod.splits outcome.splits)

lemma liftO_apply [outcome_simps]: "liftO r s = (s, r)"
  by (simp add: liftO_def)

lemma readA_apply [outcome_simps]: "readA f s = (s, f s)"
  by (simp add: readA_def)

lemma readA_eq_Ok [outcome_inv]: "readA f s = (s', Ok x) \<longleftrightarrow> s' = s \<and> f s = Ok x"
  by (auto simp: readA_def)

lemma returnA_apply [outcome_simps]: "returnA x s = (s, Ok x)"
  by (simp add: returnA_def)

lemma liftO_eq_Ok [outcome_inv]: "liftO r s = (s', Ok x) \<longleftrightarrow> s' = s \<and> r = Ok x"
  by (auto simp: liftO_def)

lemma returnA_eq_Ok [outcome_inv]: "returnA y s = (s', Ok x) \<longleftrightarrow> s' = s \<and> x = y"
  by (auto simp: returnA_def)

text \<open>Answering a call by a fixed value, and calling on a value that is there.\<close>

lemma bindA_returnA_const: "bindA m (\<lambda>_. returnA x) s = (fst (m s), bindO (snd (m s)) (\<lambda>_. Ok x))"
  by (cases "m s"; cases "snd (m s)") (simp_all add: bindA_def returnA_def)

lemma bindA_liftO_Ok [outcome_simps]: "bindA (liftO (Ok x)) f = f x"
  by (simp add: bindA_def liftO_def fun_eq_iff)

lemma bindA_liftO_bindO: "bindA (liftO (bindO m (\<lambda>x. Ok (g x)))) f = bindA (liftO m) (\<lambda>x. f (g x))"
  by (cases m) (simp_all add: bindA_def liftO_def fun_eq_iff)

text \<open>Wrapping the error of a call, and turning it into a panic.\<close>

definition wrapErrA :: "string \<Rightarrow> ('s, 'a) action \<Rightarrow> ('s, 'a) action" where
  "wrapErrA msg m s = (case m s of (s', r) \<Rightarrow> (s', wrapErr msg r))"

definition panicOnErr :: "string \<Rightarrow> ('s, 'a) action \<Rightarrow> ('s, 'a) action" where
  "panicOnErr msg m s =
     (case m s of (s', r) \<Rightarrow> (s', case r of Ok x \<Rightarrow> Ok x | Err _ \<Rightarrow> Panic msg | Panic p \<Rightarrow> Panic p))"

lemma wrapErrA_eq_Ok [outcome_inv]: "wrapErrA msg m s = (s', Ok x) \<longleftrightarrow> m s = (s', Ok x)"
  by (auto simp: wrapErrA_def split: prod.splits)

lemma panicOnErr_eq_Ok [outcome_inv]: "panicOnErr msg m s = (s', Ok x) \<longleftrightarrow> m s = (s', Ok x)"
  by (auto simp: panicOnErr_def split: prod.splits outcome.splits)

lemma panicOnErr_no_Err: "panicOnErr msg m s \<noteq> (s', Err e)"
  by (auto simp: panicOnErr_def split: prod.splits outcome.splits)

text \<open>The same for a plain outcome: an error that ends the process, by a panic or by \<^verbatim>\<open>os.Exit\<close>.\<close>

definition mustO :: "string \<Rightarrow> 'a outcome \<Rightarrow> 'a outcome" where
  "mustO msg r = (case r of Ok x \<Rightarrow> Ok x | Err _ \<Rightarrow> Panic msg | Panic p \<Rightarrow> Panic p)"

lemma mustO_simps [simp]:
  "mustO msg (Ok x) = Ok x" "mustO msg (Err e) = Panic msg" "mustO msg (Panic p) = Panic p"
  by (simp_all add: mustO_def)

lemma mustO_eq_Ok [simp, outcome_inv]: "mustO msg r = Ok x \<longleftrightarrow> r = Ok x"
  by (cases r) (simp_all add: mustO_def)

lemma mustO_no_Err: "mustO msg r \<noteq> Err e"
  by (cases r) (simp_all add: mustO_def)

text \<open>A run that changed the store got past its checks, which only compute or read.\<close>

lemma bindA_liftO_changed:
  "bindA (liftO m) f s = (s', r) \<Longrightarrow> s' \<noteq> s \<Longrightarrow> \<exists>x. m = Ok x \<and> f x s = (s', r)"
  by (cases m) (auto simp: bindA_def liftO_def)

lemma bindA_readA_changed:
  "bindA (readA g) f s = (s', r) \<Longrightarrow> s' \<noteq> s \<Longrightarrow> \<exists>x. g s = Ok x \<and> f x s = (s', r)"
  by (cases "g s") (auto simp: bindA_def readA_def)

text \<open>A left-to-right loop whose body may fail: \<^verbatim>\<open>for _, x := range xs { if err := body(x); ... }\<close>.\<close>

fun forA :: "'x list \<Rightarrow> ('x \<Rightarrow> ('s, unit) action) \<Rightarrow> ('s, unit) action" where
  "forA [] body = returnA ()"
| "forA (x # xs) body = bindA (body x) (\<lambda>_. forA xs body)"

lemma forA_map: "forA (map f xs) body = forA xs (\<lambda>x. body (f x))"
  by (induction xs) simp_all

lemma forA_total:
  assumes "\<And>x s. x \<in> set xs \<Longrightarrow> \<exists>s'. body x s = (s', Ok ())"
  shows "\<exists>s'. forA xs body s = (s', Ok ())"
  using assms
proof (induction xs arbitrary: s)
  case (Cons x xs)
  then obtain s1 where "body x s = (s1, Ok ())" by (meson list.set_intros(1))
  with Cons show ?case by (simp add: bindA_def)
qed (simp add: returnA_def)

lemma forA_invariant:
  assumes "\<And>x s s' r. x \<in> set xs \<Longrightarrow> I s \<Longrightarrow> body x s = (s', r) \<Longrightarrow> I s'"
    and "I s" and "forA xs body s = (s', r)"
  shows "I s'"
  using assms
proof (induction xs arbitrary: s)
  case Nil
  then show ?case by (simp add: returnA_def)
next
  case (Cons x xs)
  obtain s1 r1 where b: "body x s = (s1, r1)" by fastforce
  with Cons.prems have I1: "I s1" by (meson list.set_intros(1))
  show ?case
  proof (cases r1)
    case (Ok u)
    with b Cons.prems(3) have "forA xs body s1 = (s', r)" by (simp add: bindA_def)
    with Cons.IH [OF _ I1] Cons.prems(1) show ?thesis by (meson list.set_intros(2))
  qed (use b Cons.prems(3) I1 in \<open>simp_all add: bindA_def\<close>)
qed

text \<open>A loop whose rounds each add to what has been achieved.\<close>

lemma forA_collect:
  assumes step: "\<And>x A s s'. x \<in> set xs \<Longrightarrow> I A s \<Longrightarrow> body x s = (s', Ok ()) \<Longrightarrow> I (A \<union> f x) s'"
    and "I A s" and "forA xs body s = (s', Ok ())"
  shows "I (A \<union> \<Union> (f ` set xs)) s'"
  using assms
proof (induction xs arbitrary: A s)
  case Nil
  then show ?case by (simp add: outcome_inv)
next
  case (Cons x xs)
  from Cons.prems(3) obtain s1 where 1: "body x s = (s1, Ok ())" and 2: "forA xs body s1 = (s', Ok ())"
    by (auto simp: outcome_inv)
  have "I (A \<union> f x) s1" using Cons.prems(1) [OF _ Cons.prems(2) 1] by simp
  with Cons.prems(1) 2 have "I (A \<union> f x \<union> \<Union> (f ` set xs)) s'" by (intro Cons.IH) auto
  then show ?case by (simp add: Un_assoc)
qed

section \<open>uint64 arithmetic read as natural numbers\<close>

lemma unat_u64_less [simp]: "unat (x :: u64) < 2 ^ 64"
  using unsigned_less [of x] by simp

lemma unat_u64_less_num: "unat (x :: u64) < 18446744073709551616"
  using unat_u64_less [of x] by simp

lemma unat_add_u64 [u64_simps]:
  "unat (a :: u64) + unat b < 2 ^ 64 \<Longrightarrow> unat (a + b) = unat a + unat b"
  by (simp add: unat_word_ariths)

lemma unat_mult_u64 [u64_simps]:
  "unat (a :: u64) * unat b < 2 ^ 64 \<Longrightarrow> unat (a * b) = unat a * unat b"
  by (simp add: unat_word_ariths)

lemma unat_of_int_u64 [u64_simps]:
  "0 \<le> i \<Longrightarrow> i < 2 ^ 64 \<Longrightarrow> unat (word_of_int i :: u64) = nat i"
  by (simp add: unat_eq_nat_uint uint_word_of_int)

lemma unat_of_nat_u64 [u64_simps]:
  "n < 2 ^ 64 \<Longrightarrow> unat (word_of_nat n :: u64) = n"
  by (simp add: unat_of_nat)

lemma unat_div_u64 [u64_simps]: "unat ((a :: u64) div b) = unat a div unat b"
  by (rule unat_div_distrib)

text \<open>An element of duplicate-free lists in a row belongs to one of them.\<close>

lemma distinct_concat_owner:
  "distinct (concat (map f xs)) \<Longrightarrow> x \<in> set xs \<Longrightarrow> y \<in> set xs \<Longrightarrow> k \<in> set (f x) \<Longrightarrow> k \<in> set (f y) \<Longrightarrow> x = y"
  by (induction xs) auto

end
