(* ===== verification/Go_Time.thy ===== *)
theory Go_Time
  imports Gnodi_Prelude
begin

text \<open>
  The part of Go's \<^verbatim>\<open>time\<close> package the distribution schedule uses: civil dates of the
  proleptic Gregorian calendar in UTC, the normalising constructor \<^verbatim>\<open>time.Date\<close>,
  \<^verbatim>\<open>AddDate\<close>, \<^verbatim>\<open>Before\<close>, the saturating \<^verbatim>\<open>Sub\<close>, and the layout
  \<^verbatim>\<open>2006-01-02\<close> of \<^verbatim>\<open>Format\<close> and \<^verbatim>\<open>Parse\<close>. Every time the modelled code
  handles is in UTC. Years are unbounded integers here; Go keeps seconds since the year 1 in an
  int64, so the two agree for years up to about 2.9 * 10^11, and theorems that build dates from
  a parameter bound it accordingly.
\<close>

section \<open>The calendar\<close>

definition leap_year :: "int \<Rightarrow> bool" where
  "leap_year y \<longleftrightarrow> y mod 4 = 0 \<and> (y mod 100 \<noteq> 0 \<or> y mod 400 = 0)"

definition days_in_month :: "int \<Rightarrow> int \<Rightarrow> int" where
  "days_in_month y m =
     (if m = 2 then (if leap_year y then 29 else 28)
      else if m = 4 \<or> m = 6 \<or> m = 9 \<or> m = 11 then 30
      else 31)"

text \<open>
  Months are numbered through: month index \<open>k\<close> is month \<open>k mod 12 + 1\<close> of year
  \<open>k div 12\<close>. It turns carries between months and years into integer arithmetic.
\<close>

definition month_index :: "int \<Rightarrow> int \<Rightarrow> int" where
  "month_index y m = 12 * y + (m - 1)"

definition dim :: "int \<Rightarrow> int" where
  "dim k = days_in_month (k div 12) (k mod 12 + 1)"

lemma dim_bounds: "28 \<le> dim k" "dim k \<le> 31"
  by (simp_all add: dim_def days_in_month_def)

lemma month_index_split [simp]:
  "1 \<le> m \<Longrightarrow> m \<le> 12 \<Longrightarrow> month_index y m div 12 = y"
  "1 \<le> m \<Longrightarrow> m \<le> 12 \<Longrightarrow> month_index y m mod 12 = m - 1"
  by (rule int_div_pos_eq [where r = "m - 1"] int_mod_pos_eq [where q = y]; simp add: month_index_def)+

lemma dim_month_index: "1 \<le> m \<Longrightarrow> m \<le> 12 \<Longrightarrow> dim (month_index y m) = days_in_month y m"
  by (simp add: dim_def)

lemma month_index_inverse [simp]: "month_index (k div 12) (k mod 12 + 1) = k"
  by (simp add: month_index_def)

text \<open>
  Days before the first of month \<open>k\<close>, counted from the first of January of year 0: the
  closed form with the leap-year corrections of the years before, and the cumulative table of
  the months before.
\<close>

definition days_before_month :: "int \<Rightarrow> int \<Rightarrow> int" where
  "days_before_month y j =
     (if j = 0 then 0 else if j = 1 then 31
      else (if j = 2 then 59 else if j = 3 then 90 else if j = 4 then 120 else if j = 5 then 151
            else if j = 6 then 181 else if j = 7 then 212 else if j = 8 then 243
            else if j = 9 then 273 else if j = 10 then 304 else 334)
           + (if leap_year y then 1 else 0))"

definition days_before_year :: "int \<Rightarrow> int" where
  "days_before_year y = 365 * y + (y + 3) div 4 - (y + 99) div 100 + (y + 399) div 400"

definition month_start :: "int \<Rightarrow> int" where
  "month_start k = days_before_year (k div 12) + days_before_month (k div 12) (k mod 12)"

lemma round_up_div_Suc:
  fixes n y :: int
  assumes "0 < n"
  shows "(y + n) div n = (y + (n - 1)) div n + (if y mod n = 0 then 1 else 0)"
proof -
  define q r where "q = y div n" and "r = y mod n"
  then have y: "y = q * n + r" and r: "0 \<le> r" "r < n" using assms by simp_all
  have "(y + (n - 1)) div n = q + (r + (n - 1)) div n"
    using assms by (simp add: y add.assoc)
  also have "(r + (n - 1)) div n = (if r = 0 then 0 else 1)"
    using r assms by (auto simp: div_pos_geq div_pos_pos_trivial)
  finally have "(y + (n - 1)) div n = q + (if r = 0 then 0 else 1)" .
  moreover have "(y + n) div n = q + 1"
    using div_add_self2 [of n y] assms by (simp add: q_def)
  ultimately show ?thesis by (simp add: r_def)
qed

lemma leap_year_count:
  "(if leap_year y then 1 else 0) =
   (if y mod 4 = 0 then 1 else 0) - (if y mod 100 = 0 then 1 else 0) + (if y mod 400 = 0 then 1 else (0 :: int))"
proof -
  have "(100 :: int) dvd 400" "(4 :: int) dvd 100" by simp_all
  then have "y mod 400 = 0 \<Longrightarrow> y mod 100 = 0" and "y mod 100 = 0 \<Longrightarrow> y mod 4 = 0"
    by (meson dvd_trans mod_0_imp_dvd dvd_imp_mod_0)+
  then show ?thesis
    unfolding leap_year_def
    by (cases "y mod 4 = 0"; cases "y mod 100 = 0"; cases "y mod 400 = 0"; simp only: if_True if_False; simp)
qed

lemma days_before_year_Suc:
  "days_before_year (y + 1) = days_before_year y + 365 + (if leap_year y then 1 else 0)"
proof -
  have "y + 1 + 3 = y + 4" "y + 1 + 99 = y + 100" "y + 1 + 399 = y + 400" by simp_all
  then have "days_before_year (y + 1) =
      365 * y + 365 + (y + 4) div 4 - (y + 100) div 100 + (y + 400) div 400"
    unfolding days_before_year_def by (simp only: distrib_left mult_1_right add.assoc)
  moreover have "(y + 4) div 4 = (y + 3) div 4 + (if y mod 4 = 0 then 1 else 0)"
    using round_up_div_Suc [of 4 y] by simp
  moreover have "(y + 100) div 100 = (y + 99) div 100 + (if y mod 100 = 0 then 1 else 0)"
    using round_up_div_Suc [of 100 y] by simp
  moreover have "(y + 400) div 400 = (y + 399) div 400 + (if y mod 400 = 0 then 1 else 0)"
    using round_up_div_Suc [of 400 y] by simp
  ultimately show ?thesis
    unfolding days_before_year_def leap_year_count by (simp only: algebra_simps)
qed

lemma month_table_Suc:
  assumes "0 \<le> j" "j < 11"
  shows "days_before_month y (j + 1) = days_before_month y j + days_in_month y (j + 1)"
proof -
  have "j = 0 \<or> j = 1 \<or> j = 2 \<or> j = 3 \<or> j = 4 \<or> j = 5 \<or> j = 6 \<or> j = 7 \<or> j = 8 \<or> j = 9 \<or> j = 10"
    using assms by presburger
  then show ?thesis
    by (elim disjE) (simp_all add: days_before_month_def days_in_month_def)
qed

lemma month_index_Suc_mod:
  fixes k :: int
  shows "k mod 12 = 11 \<Longrightarrow> (k + 1) div 12 = k div 12 + 1 \<and> (k + 1) mod 12 = 0"
    and "k mod 12 \<noteq> 11 \<Longrightarrow> (k + 1) div 12 = k div 12 \<and> (k + 1) mod 12 = k mod 12 + 1"
proof -
  define q r where "q = k div 12" and "r = k mod 12"
  have k: "k = 12 * q + r" unfolding q_def r_def by simp
  have r: "0 \<le> r" "r < 12" unfolding r_def by simp_all
  have "(k + 1) div 12 = q + 1 \<and> (k + 1) mod 12 = 0" if "r = 11"
  proof -
    have "k + 1 = 12 * (q + 1) + 0" unfolding k that by simp
    from int_div_pos_eq [OF this] int_mod_pos_eq [OF this] show ?thesis by simp
  qed
  then show "k mod 12 = 11 \<Longrightarrow> (k + 1) div 12 = k div 12 + 1 \<and> (k + 1) mod 12 = 0"
    unfolding q_def r_def by blast
  have "(k + 1) div 12 = q \<and> (k + 1) mod 12 = r + 1" if "r \<noteq> 11"
  proof -
    have "k + 1 = 12 * q + (r + 1)" unfolding k by simp
    from int_div_pos_eq [OF this] int_mod_pos_eq [OF this] r that show ?thesis by simp
  qed
  then show "k mod 12 \<noteq> 11 \<Longrightarrow> (k + 1) div 12 = k div 12 \<and> (k + 1) mod 12 = k mod 12 + 1"
    unfolding q_def r_def by blast
qed

lemma month_start_Suc: "month_start (k + 1) = month_start k + dim k"
proof (cases "k mod 12 = 11")
  case True
  have dec: "days_before_month y 11 + days_in_month y 12 = 365 + (if leap_year y then 1 else 0)" for y
    by (simp add: days_before_month_def days_in_month_def)
  have "month_start (k + 1) = days_before_year (k div 12 + 1)"
    unfolding month_start_def using month_index_Suc_mod(1) [OF True] by (simp add: days_before_month_def)
  also have "\<dots> = days_before_year (k div 12) + (days_before_month (k div 12) 11 + days_in_month (k div 12) 12)"
    by (simp only: days_before_year_Suc dec add.assoc)
  finally show ?thesis by (simp add: month_start_def dim_def True)
next
  case False
  define j y where "j = k mod 12" and "y = k div 12"
  have "0 \<le> j" "j < 11" using False pos_mod_bound [of 12 k] by (simp_all add: j_def)
  from month_table_Suc [OF this, of y] show ?thesis
    unfolding month_start_def dim_def
    using month_index_Suc_mod(2) [OF False] by (simp only: j_def y_def add.assoc)
qed

lemma month_start_strict: "k < l \<Longrightarrow> month_start k + dim k \<le> month_start l"
proof (induction l rule: int_gr_induct)
  case base
  then show ?case by (simp add: month_start_Suc)
next
  case (step l)
  then show ?case using dim_bounds(1) [of l] by (simp add: month_start_Suc)
qed

lemma month_start_mono: "k \<le> l \<Longrightarrow> month_start k \<le> month_start l"
  using month_start_strict [of k l] dim_bounds(1) [of k] by (cases "k = l") auto

section \<open>Times\<close>

record gotime =
  t_year :: int
  t_month :: int
  t_day :: int
  t_hour :: int
  t_minute :: int
  t_second :: int
  t_nano :: int

definition valid_time :: "gotime \<Rightarrow> bool" where
  "valid_time t \<longleftrightarrow>
     1 \<le> t_month t \<and> t_month t \<le> 12 \<and>
     1 \<le> t_day t \<and> t_day t \<le> days_in_month (t_year t) (t_month t) \<and>
     0 \<le> t_hour t \<and> t_hour t < 24 \<and> 0 \<le> t_minute t \<and> t_minute t < 60 \<and>
     0 \<le> t_second t \<and> t_second t < 60 \<and> 0 \<le> t_nano t \<and> t_nano t < 10 ^ 9"

definition t_index :: "gotime \<Rightarrow> int" where
  "t_index t = month_index (t_year t) (t_month t)"

definition day_number :: "gotime \<Rightarrow> int" where
  "day_number t = month_start (t_index t) + t_day t"

definition ns_of_day :: "gotime \<Rightarrow> int" where
  "ns_of_day t = ((t_hour t * 60 + t_minute t) * 60 + t_second t) * 10 ^ 9 + t_nano t"

definition ns_per_day :: int where
  "ns_per_day = 86400 * 10 ^ 9"

definition instant :: "gotime \<Rightarrow> int" where
  "instant t = day_number t * ns_per_day + ns_of_day t"

text \<open>A date: a time at midnight, as the layout \<^verbatim>\<open>2006-01-02\<close> parses.\<close>

definition midnight :: "gotime \<Rightarrow> bool" where
  "midnight t \<longleftrightarrow> t_hour t = 0 \<and> t_minute t = 0 \<and> t_second t = 0 \<and> t_nano t = 0"

abbreviation valid_date :: "gotime \<Rightarrow> bool" where
  "valid_date t \<equiv> valid_time t \<and> midnight t"

definition mk_date :: "int \<Rightarrow> int \<Rightarrow> int \<Rightarrow> gotime" where
  "mk_date y m d = \<lparr>t_year = y, t_month = m, t_day = d,
     t_hour = 0, t_minute = 0, t_second = 0, t_nano = 0\<rparr>"

lemma mk_date_sel [simp]:
  "t_year (mk_date y m d) = y" "t_month (mk_date y m d) = m" "t_day (mk_date y m d) = d"
  "midnight (mk_date y m d)"
  by (simp_all add: mk_date_def midnight_def)

lemma valid_mk_date:
  "valid_time (mk_date y m d) \<longleftrightarrow> 1 \<le> m \<and> m \<le> 12 \<and> 1 \<le> d \<and> d \<le> days_in_month y m"
  by (simp add: valid_time_def mk_date_def)

lemma midnight_mk_date: "midnight t \<Longrightarrow> t = mk_date (t_year t) (t_month t) (t_day t)"
  by (simp add: mk_date_def midnight_def)

lemma valid_time_day: "valid_time t \<Longrightarrow> 1 \<le> t_day t \<and> t_day t \<le> dim (t_index t)"
  by (simp add: valid_time_def t_index_def dim_month_index)

lemma t_index_split:
  "valid_time t \<Longrightarrow> t_index t div 12 = t_year t"
  "valid_time t \<Longrightarrow> t_index t mod 12 = t_month t - 1"
  by (simp_all add: t_index_def valid_time_def)

lemma valid_time_eqI:
  assumes "valid_date t" "valid_date u" "t_index t = t_index u" "t_day t = t_day u"
  shows "t = u"
  using assms t_index_split [of t] t_index_split [of u] midnight_mk_date [of t] midnight_mk_date [of u]
  by simp

lemma instant_midnight: "midnight t \<Longrightarrow> instant t = day_number t * ns_per_day"
  by (simp add: instant_def midnight_def ns_of_day_def)

lemma ns_per_day_pos [simp]: "0 < ns_per_day" "ns_per_day \<noteq> 0"
  by (simp_all add: ns_per_day_def)

text \<open>On dates, the order of instants is the lexicographic order of month and day.\<close>

lemma day_number_less_iff:
  assumes "valid_time t" "valid_time u"
  shows "day_number t < day_number u \<longleftrightarrow>
    t_index t < t_index u \<or> t_index t = t_index u \<and> t_day t < t_day u"
proof -
  have td: "1 \<le> t_day t" "t_day t \<le> dim (t_index t)" and ud: "1 \<le> t_day u" "t_day u \<le> dim (t_index u)"
    using assms valid_time_day by blast+
  consider "t_index t < t_index u" | "t_index t = t_index u" | "t_index u < t_index t" by linarith
  then show ?thesis
    by cases
      (use month_start_strict [of "t_index t" "t_index u"] month_start_strict [of "t_index u" "t_index t"]
        td ud in \<open>auto simp: day_number_def\<close>)
qed

lemma day_number_le_iff:
  assumes "valid_time t" "valid_time u"
  shows "day_number t \<le> day_number u \<longleftrightarrow>
    t_index t < t_index u \<or> t_index t = t_index u \<and> t_day t \<le> t_day u"
  using day_number_less_iff [OF assms(2,1)] by auto

section \<open>time.Date and AddDate\<close>

text \<open>
  \<^verbatim>\<open>time.Date\<close> accepts values outside their usual ranges and normalises them (October 32
  is November 1, day 0 is the last day of the month before). \<open>norm_day\<close> carries days between
  months.
\<close>

function norm_day :: "int \<Rightarrow> int \<Rightarrow> int \<times> int" where
  "norm_day k d =
     (if d < 1 then norm_day (k - 1) (d + dim (k - 1))
      else if dim k < d then norm_day (k + 1) (d - dim k)
      else (k, d))"
  by pat_completeness auto
termination
proof (relation "measure (\<lambda>(k, d). if d < 1 then nat (100 - d) else nat d)")
  fix k d :: int
  show "((k - 1, d + dim (k - 1)), k, d) \<in> measure (\<lambda>(k, d). if d < 1 then nat (100 - d) else nat d)"
    if "d < 1"
    using that dim_bounds [of "k - 1"] by auto
  show "((k + 1, d - dim k), k, d) \<in> measure (\<lambda>(k, d). if d < 1 then nat (100 - d) else nat d)"
    if "\<not> d < 1" "dim k < d"
    using that dim_bounds [of k] by auto
qed simp

declare norm_day.simps [simp del]

lemma norm_day_id: "1 \<le> d \<Longrightarrow> d \<le> dim k \<Longrightarrow> norm_day k d = (k, d)"
  by (subst norm_day.simps) simp

lemma norm_day_zero: "norm_day k 0 = (k - 1, dim (k - 1))"
  using dim_bounds(1) [of "k - 1"] by (subst norm_day.simps) (simp add: norm_day_id)

lemma norm_day_valid: "norm_day k d = (k', d') \<Longrightarrow> 1 \<le> d' \<and> d' \<le> dim k'"
proof (induction k d rule: norm_day.induct)
  case (1 k d)
  then show ?case by (subst (asm) norm_day.simps) (auto split: if_splits)
qed

lemma norm_day_number: "norm_day k d = (k', d') \<Longrightarrow> month_start k' + d' = month_start k + d"
proof (induction k d rule: norm_day.induct)
  case (1 k d)
  then show ?case
    using month_start_Suc [of k] month_start_Suc [of "k - 1"]
    by (subst (asm) norm_day.simps) (auto split: if_splits)
qed

definition time_Date :: "int \<Rightarrow> int \<Rightarrow> int \<Rightarrow> int \<Rightarrow> int \<Rightarrow> int \<Rightarrow> int \<Rightarrow> gotime" where
  "time_Date y m d h mi s ns =
     (let s' = s + ns div 10 ^ 9;
          mi' = mi + s' div 60;
          h' = h + mi' div 60;
          d' = d + h' div 24;
          (k, dd) = norm_day (month_index y m) d'
      in \<lparr>t_year = k div 12, t_month = k mod 12 + 1, t_day = dd,
          t_hour = h' mod 24, t_minute = mi' mod 60, t_second = s' mod 60, t_nano = ns mod 10 ^ 9\<rparr>)"

definition time_AddDate :: "gotime \<Rightarrow> int \<Rightarrow> int \<Rightarrow> int \<Rightarrow> gotime" where
  "time_AddDate t years months days =
     time_Date (t_year t + years) (t_month t + months) (t_day t + days)
       (t_hour t) (t_minute t) (t_second t) (t_nano t)"

lemma time_Date_midnight:
  "time_Date y m d 0 0 0 0 = (let (k, dd) = norm_day (month_index y m) d in mk_date (k div 12) (k mod 12 + 1) dd)"
  by (simp add: time_Date_def mk_date_def Let_def split: prod.splits)

lemma time_Date_valid_date:
  "valid_date (time_Date y m d 0 0 0 0)"
proof -
  obtain k dd where n: "norm_day (month_index y m) d = (k, dd)" by fastforce
  have "1 \<le> dd \<and> dd \<le> dim k" by (rule norm_day_valid [OF n])
  moreover have "0 \<le> k mod 12" "k mod 12 < 12" by simp_all
  ultimately show ?thesis
    by (simp add: time_Date_midnight n valid_mk_date dim_def)
qed

lemma time_Date_day_number:
  "day_number (time_Date y m d 0 0 0 0) = month_start (month_index y m) + d"
proof -
  obtain k dd where n: "norm_day (month_index y m) d = (k, dd)" by fastforce
  then show ?thesis
    using norm_day_number [OF n] by (simp add: time_Date_midnight day_number_def t_index_def)
qed

text \<open>The last day of a month, computed as the code does: day 0 of the month after.\<close>

lemma last_day_of_month:
  "1 \<le> m \<Longrightarrow> m \<le> 12 \<Longrightarrow> t_day (time_Date y (m + 1) 0 0 0 0 0) = days_in_month y m"
proof -
  assume m: "1 \<le> m" "m \<le> 12"
  have "month_index y (m + 1) - 1 = month_index y m" by (simp add: month_index_def)
  with m show ?thesis
    by (simp add: time_Date_midnight norm_day_zero dim_month_index)
qed

lemma time_AddDate_midnight:
  "midnight t \<Longrightarrow> time_AddDate t y m d = time_Date (t_year t + y) (t_month t + m) (t_day t + d) 0 0 0 0"
  by (simp add: time_AddDate_def midnight_def)

section \<open>Comparing times\<close>

definition time_Before :: "gotime \<Rightarrow> gotime \<Rightarrow> bool" where
  "time_Before t u \<longleftrightarrow> instant t < instant u"

text \<open>\<^verbatim>\<open>Sub\<close> saturates at the largest and smallest int64 duration (about 292 years).\<close>

definition time_Sub :: "gotime \<Rightarrow> gotime \<Rightarrow> int" where
  "time_Sub t u = max (- (2 ^ 63)) (min (2 ^ 63 - 1) (instant t - instant u))"

text \<open>
  \<^verbatim>\<open>uint64(d.Hours() / 24)\<close> for a duration \<open>d \<ge> 0\<close>. The float64 quotient is exact
  for a whole number of days (below 2^53), and for the saturated duration it is 106751.99...,
  so the truncation is the integer quotient in every case that arises.
\<close>

definition duration_days_u64 :: "int \<Rightarrow> u64" where
  "duration_days_u64 d = word_of_int (d div ns_per_day)"

lemma time_Before_dates:
  "midnight t \<Longrightarrow> midnight u \<Longrightarrow> time_Before t u \<longleftrightarrow> day_number t < day_number u"
  by (simp add: time_Before_def instant_midnight)

definition max_duration_days :: int where
  "max_duration_days = (2 ^ 63 - 1) div ns_per_day"

lemma max_duration_days_val: "max_duration_days = 106751"
  by (simp add: max_duration_days_def ns_per_day_def)

lemma days_between_dates:
  assumes "midnight t" "midnight u" "day_number u \<le> day_number t"
  shows "unat (duration_days_u64 (time_Sub t u)) = nat (min (day_number t - day_number u) max_duration_days)"
proof -
  let ?n = "day_number t - day_number u"
  have diff: "instant t - instant u = ?n * ns_per_day"
    using assms by (simp add: instant_midnight left_diff_distrib)
  have n0: "0 \<le> ?n" using assms by simp
  then have "0 \<le> ?n * ns_per_day" by (simp add: less_imp_le)
  then have sub: "time_Sub t u = min (2 ^ 63 - 1) (?n * ns_per_day)"
    unfolding time_Sub_def diff
    by (intro max_absorb2 min.boundedI) (simp, rule order.trans [of _ 0], simp_all)
  have "min (2 ^ 63 - 1) (?n * ns_per_day) div ns_per_day = min max_duration_days ?n"
  proof (cases "2 ^ 63 - 1 \<le> ?n * ns_per_day")
    case True
    then have "max_duration_days \<le> ?n * ns_per_day div ns_per_day"
      unfolding max_duration_days_def by (intro zdiv_mono1) simp_all
    with True show ?thesis by (simp add: max_duration_days_def)
  next
    case False
    then have "?n * ns_per_day div ns_per_day \<le> max_duration_days"
      unfolding max_duration_days_def by (intro zdiv_mono1) simp_all
    with False show ?thesis by simp
  qed
  moreover have "min max_duration_days ?n < 2 ^ 64" "0 \<le> min max_duration_days ?n"
    using n0 by (simp_all add: max_duration_days_val)
  ultimately show ?thesis
    by (simp add: duration_days_u64_def sub u64_simps min.commute)
qed

end
