(* ===== verification/Cosmos_Env.thy ===== *)
theory Cosmos_Env
  imports Go_Time
begin

text \<open>
  What the modelled code uses of the Cosmos SDK, which is not part of the repository: the
  functions are fields of the records below, passed as arguments to the definitions that call
  them, over an arbitrary type of chain states. The predicates at the end of the theory state
  the documented behaviour that some properties rely on; each of them appears as an explicit
  hypothesis where it is used. \<^verbatim>\<open>math.Uint\<close> values are natural numbers and
  \<^verbatim>\<open>math.Int\<close> values are integers.
\<close>

section \<open>Data of the SDK\<close>

record coin =
  coin_Denom :: string
  coin_Amount :: int

type_synonym coins = "coin list"

text \<open>The parts of \<^verbatim>\<open>sdk.Context\<close> that are not the store.\<close>

record sdk_context =
  ctx_BlockTime :: gotime
  ctx_BlockHeight :: int

section \<open>Functions of the SDK\<close>

record cosmos_lib =
  math_NewUint :: "u64 \<Rightarrow> nat"
  math_UintAdd :: "nat \<Rightarrow> nat \<Rightarrow> nat outcome"
  math_UintGT :: "nat \<Rightarrow> nat \<Rightarrow> bool"
  math_UintUint64 :: "nat \<Rightarrow> u64 outcome"
  math_IntUint64 :: "int \<Rightarrow> u64 outcome"
  math_NewIntFromUint64 :: "u64 \<Rightarrow> int"
  sdk_NewCoin :: "string \<Rightarrow> int \<Rightarrow> coin outcome"
  sdk_NewCoins :: "coins \<Rightarrow> coins outcome"
  sdk_ValidateDenom :: "string \<Rightarrow> unit outcome"
  sdk_AccAddressFromBech32 :: "string \<Rightarrow> bytes outcome"

record address_codec =
  addr_StringToBytes :: "string \<Rightarrow> bytes outcome"
  addr_BytesToString :: "bytes \<Rightarrow> string outcome"

text \<open>\<^verbatim>\<open>collections.Item\<close>: a single value kept in the store.\<close>

record ('s, 'v) store_item =
  item_Get :: "'s \<Rightarrow> 'v outcome"
  item_Set :: "'v \<Rightarrow> ('s, unit) action"

text \<open>The methods of the bank keeper that the repository calls.\<close>

record 's bank_keeper =
  bank_GetSupply :: "'s \<Rightarrow> string \<Rightarrow> coin"
  bank_GetBalance :: "'s \<Rightarrow> bytes \<Rightarrow> string \<Rightarrow> coin"
  bank_GetAllBalances :: "'s \<Rightarrow> bytes \<Rightarrow> coins"
  bank_MintCoins :: "string \<Rightarrow> coins \<Rightarrow> ('s, unit) action"
  bank_BurnCoins :: "string \<Rightarrow> coins \<Rightarrow> ('s, unit) action"
  bank_SendCoinsFromModuleToAccount :: "string \<Rightarrow> bytes \<Rightarrow> coins \<Rightarrow> ('s, unit) action"
  bank_SendCoinsFromAccountToModule :: "bytes \<Rightarrow> string \<Rightarrow> coins \<Rightarrow> ('s, unit) action"

section \<open>Sentinel errors\<close>

definition collections_ErrNotFound :: go_error where
  "collections_ErrNotFound = ErrForeign ''collections: not found''"

text \<open>\<^verbatim>\<open>errors.Is\<close>: the error itself or one that it wraps.\<close>

fun errors_Is :: "go_error \<Rightarrow> go_error \<Rightarrow> bool" where
  "errors_Is (ErrWrap msg e) target \<longleftrightarrow> ErrWrap msg e = target \<or> errors_Is e target"
| "errors_Is e target \<longleftrightarrow> e = target"

section \<open>Documented behaviour\<close>

text \<open>
  \<^verbatim>\<open>cosmossdk.io/math\<close>: \<^verbatim>\<open>Uint\<close> is an unsigned integer of at most 256 bits;
  \<^verbatim>\<open>Uint64()\<close> panics when the value does not fit.
\<close>

definition math_laws :: "'z cosmos_lib_scheme \<Rightarrow> bool" where
  "math_laws L \<longleftrightarrow>
     (\<forall>x. math_NewUint L x = unat x) \<and>
     (\<forall>a b. a + b < 2 ^ 256 \<longrightarrow> math_UintAdd L a b = Ok (a + b)) \<and>
     (\<forall>a b. math_UintGT L a b \<longleftrightarrow> b < a) \<and>
     (\<forall>x. math_UintUint64 L (unat x) = Ok x) \<and>
     (\<forall>x. math_IntUint64 L (uint x) = Ok x) \<and>
     (\<forall>i. i < 0 \<or> 2 ^ 64 \<le> i \<longrightarrow> (\<exists>p. math_IntUint64 L i = Panic p)) \<and>
     (\<forall>x. math_NewIntFromUint64 L x = uint x)"

text \<open>
  \<^verbatim>\<open>sdk.NewCoin\<close> returns the coin for a valid denomination and a non-negative amount and
  panics otherwise; \<^verbatim>\<open>sdk.NewCoins\<close> of a single valid coin drops it when it is zero.
\<close>

definition coin_laws :: "'z cosmos_lib_scheme \<Rightarrow> bool" where
  "coin_laws L \<longleftrightarrow>
     (\<forall>d a. 0 \<le> a \<and> is_ok (sdk_ValidateDenom L d) \<longrightarrow>
        sdk_NewCoin L d a = Ok \<lparr>coin_Denom = d, coin_Amount = a\<rparr> \<and>
        sdk_NewCoins L [\<lparr>coin_Denom = d, coin_Amount = a\<rparr>] =
          Ok (if a = 0 then [] else [\<lparr>coin_Denom = d, coin_Amount = a\<rparr>])) \<and>
     (\<forall>d a. a < 0 \<or> \<not> is_ok (sdk_ValidateDenom L d) \<longrightarrow> (\<exists>p. sdk_NewCoin L d a = Panic p))"

text \<open>The total amount of a denomination in a list of coins.\<close>

definition coins_amount :: "string \<Rightarrow> coins \<Rightarrow> int" where
  "coins_amount d cs = sum_list (map coin_Amount (filter (\<lambda>c. coin_Denom c = d) cs))"

lemma coins_amount_simps [simp]:
  "coins_amount d [] = 0"
  "coins_amount d (c # cs) = (if coin_Denom c = d then coin_Amount c else 0) + coins_amount d cs"
  by (simp_all add: coins_amount_def)

text \<open>
  The bank module: minting raises the supply by the minted coins and sending from a module
  account moves coins to the recipient without changing any supply. A call that fails or
  panics says nothing about the state it leaves, since the transaction is rolled back.
\<close>

definition bank_mint_laws :: "'s bank_keeper \<Rightarrow> (string \<Rightarrow> bytes) \<Rightarrow> bool" where
  "bank_mint_laws B modAddr \<longleftrightarrow>
     (\<forall>m cs s s'. bank_MintCoins B m cs s = (s', Ok ()) \<longrightarrow>
        (\<forall>d. coin_Amount (bank_GetSupply B s' d) = coin_Amount (bank_GetSupply B s d) + coins_amount d cs) \<and>
        (\<forall>a d. coin_Amount (bank_GetBalance B s' a d) =
           coin_Amount (bank_GetBalance B s a d) + (if a = modAddr m then coins_amount d cs else 0)))"

definition bank_send_laws :: "'s bank_keeper \<Rightarrow> (string \<Rightarrow> bytes) \<Rightarrow> bool" where
  "bank_send_laws B modAddr \<longleftrightarrow>
     (\<forall>m a cs s s'. bank_SendCoinsFromModuleToAccount B m a cs s = (s', Ok ()) \<longrightarrow>
        (\<forall>d. coin_Amount (bank_GetSupply B s' d) = coin_Amount (bank_GetSupply B s d)) \<and>
        (\<forall>b d. coin_Amount (bank_GetBalance B s' b d) =
           coin_Amount (bank_GetBalance B s b d)
           - (if b = modAddr m then coins_amount d cs else 0)
           + (if b = a then coins_amount d cs else 0)))"

text \<open>A store item returns what was last set.\<close>

definition item_laws :: "('s, 'v) store_item \<Rightarrow> bool" where
  "item_laws I \<longleftrightarrow>
     (\<forall>v s s'. item_Set I v s = (s', Ok ()) \<longrightarrow> item_Get I s' = Ok v)"

text \<open>The bank does not write the item, whose store key belongs to another module.\<close>

definition bank_frame :: "'s bank_keeper \<Rightarrow> ('s, 'v) store_item \<Rightarrow> bool" where
  "bank_frame B I \<longleftrightarrow>
     (\<forall>m cs s s' r. bank_MintCoins B m cs s = (s', r) \<longrightarrow> item_Get I s' = item_Get I s) \<and>
     (\<forall>m a cs s s' r. bank_SendCoinsFromModuleToAccount B m a cs s = (s', r) \<longrightarrow>
        item_Get I s' = item_Get I s)"

lemma math_laws_simps:
  assumes "math_laws L"
  shows "math_NewUint L x = unat x"
    and "a + b < 2 ^ 256 \<Longrightarrow> math_UintAdd L a b = Ok (a + b)"
    and "math_UintGT L a b \<longleftrightarrow> b < a"
    and "math_UintUint64 L (unat x) = Ok x"
    and "math_IntUint64 L (uint x) = Ok x"
    and "math_NewIntFromUint64 L x = uint x"
  using assms by (simp_all add: math_laws_def)

lemma unat_add_256: "unat (x :: u64) + unat (y :: u64) < 2 ^ 256"
  using unat_u64_less [of x] unat_u64_less [of y] by simp

end
