(* ===== verification/Go_Date_Layout.thy ===== *)
theory Go_Date_Layout
  imports Go_Time
begin

text \<open>
  \<^verbatim>\<open>time.Format\<close> and \<^verbatim>\<open>time.Parse\<close> for the one layout the repository uses,
  \<^verbatim>\<open>2006-01-02\<close>: a four-digit year (more digits, or a sign, where the year does not fit),
  a two-digit month and a two-digit day. The two are inverse to each other exactly on the years
  0 to 9999.
\<close>

section \<open>Decimal digits\<close>

definition digit_char :: "nat \<Rightarrow> char" where
  "digit_char n = char_of (48 + n)"

definition is_digit :: "char \<Rightarrow> bool" where
  "is_digit c \<longleftrightarrow> 48 \<le> (of_char c :: nat) \<and> (of_char c :: nat) \<le> 57"

definition digit_val :: "char \<Rightarrow> nat" where
  "digit_val c = of_char c - 48"

lemma digit_char_props [simp]:
  assumes "n < 10"
  shows "is_digit (digit_char n)" "digit_val (digit_char n) = n"
  using assms by (simp_all add: is_digit_def digit_val_def digit_char_def)

lemma digit_val_props:
  assumes "is_digit c"
  shows "digit_val c < 10" "digit_char (digit_val c) = c"
  using assms by (auto simp: is_digit_def digit_val_def digit_char_def)

fun dec :: "nat \<Rightarrow> string" where
  "dec n = (if n < 10 then [digit_char n] else dec (n div 10) @ [digit_char (n mod 10)])"

declare dec.simps [simp del]

definition pad :: "nat \<Rightarrow> string \<Rightarrow> string" where
  "pad w s = replicate (w - length s) (CHR ''0'') @ s"

text \<open>\<^verbatim>\<open>appendInt\<close>: an optional sign, then the digits padded with zeros on the left.\<close>

definition appendInt :: "int \<Rightarrow> nat \<Rightarrow> string" where
  "appendInt x w = (if x < 0 then ''-'' else []) @ pad w (dec (nat \<bar>x\<bar>))"

definition time_Format :: "gotime \<Rightarrow> string" where
  "time_Format t =
     appendInt (t_year t) 4 @ ''-'' @ appendInt (t_month t) 2 @ ''-'' @ appendInt (t_day t) 2"

lemma zero_digit: "CHR ''0'' = digit_char 0"
  using char_of_char [of "CHR ''0''", where ?'a = nat] by (simp add: digit_char_def)

lemma pad_one: "n < 10 \<Longrightarrow> pad (Suc 0) (dec n) = [digit_char n]"
  by (simp add: dec.simps [of n] pad_def)

lemma pad_Suc:
  assumes "1 \<le> w"
  shows "pad (Suc w) (dec n) = pad w (dec (n div 10)) @ [digit_char (n mod 10)]"
proof (cases "n < 10")
  case True
  then have "n div 10 = 0" "n mod 10 = n" by simp_all
  moreover have "replicate w c = replicate (w - 1) c @ [c]" for c :: char
    using assms by (metis Suc_diff_le diff_Suc_1 One_nat_def replicate_append_same replicate_Suc)
  ultimately show ?thesis
    using True by (simp add: dec.simps [of n] dec.simps [of 0] pad_def zero_digit)
next
  case False
  then show ?thesis by (simp add: dec.simps [of n] pad_def)
qed

lemma pad2: "n < 100 \<Longrightarrow> pad 2 (dec n) = [digit_char (n div 10), digit_char (n mod 10)]"
  using pad_one [of "n div 10"] by (simp add: numeral_2_eq_2 pad_Suc)

lemma pad4:
  assumes "n < 10000"
  shows "pad 4 (dec n) =
    [digit_char (n div 10 div 10 div 10), digit_char (n div 10 div 10 mod 10),
     digit_char (n div 10 mod 10), digit_char (n mod 10)]"
proof -
  have "n div 10 div 10 div 10 < 10" using assms by simp
  moreover have "4 = Suc (Suc (Suc (Suc 0)))" by simp
  ultimately show ?thesis
    by (simp only: pad_Suc pad_one le_SucI One_nat_def le_refl Suc_le_mono le0 append.simps)
qed

text \<open>Digits of a number in Horner form.\<close>

lemma horner_digit:
  assumes "(r :: nat) < 10"
  shows "(q * 10 + r) div 10 = q" "(q * 10 + r) mod 10 = r"
  using assms by simp_all

lemma horner_less: "(q :: nat) < n \<Longrightarrow> r < 10 \<Longrightarrow> q * 10 + r < n * 10"
  by linarith

section \<open>Parsing\<close>

definition syntax_error :: "'a outcome" where
  "syntax_error = Err (ErrText ''cannot parse date'')"

text \<open>\<^verbatim>\<open>stdLongYear\<close>: four characters that are all digits.\<close>

fun parse_year :: "string \<Rightarrow> (nat \<times> string) outcome" where
  "parse_year (a # b # c # d # rest) =
     (if is_digit a \<and> is_digit b \<and> is_digit c \<and> is_digit d
      then Ok (((digit_val a * 10 + digit_val b) * 10 + digit_val c) * 10 + digit_val d, rest)
      else syntax_error)"
| "parse_year _ = syntax_error"

fun skip_dash :: "string \<Rightarrow> string outcome" where
  "skip_dash (c # rest) = (if c = CHR ''-'' then Ok rest else syntax_error)"
| "skip_dash [] = syntax_error"

text \<open>\<^verbatim>\<open>getnum(value, fixed = true)\<close>: exactly two digits.\<close>

fun getnum :: "string \<Rightarrow> (nat \<times> string) outcome" where
  "getnum (a # b # rest) =
     (if is_digit a \<and> is_digit b then Ok (digit_val a * 10 + digit_val b, rest) else syntax_error)"
| "getnum _ = syntax_error"

definition time_Parse :: "string \<Rightarrow> gotime outcome" where
  "time_Parse s =
     bindO (parse_year s) (\<lambda>(y, s1).
     bindO (skip_dash s1) (\<lambda>s2.
     bindO (getnum s2) (\<lambda>(m, s3).
     if m = 0 \<or> 12 < m then Err (ErrText ''month out of range'') else
     bindO (skip_dash s3) (\<lambda>s4.
     bindO (getnum s4) (\<lambda>(d, s5).
     if s5 \<noteq> [] then Err (ErrText ''extra text'') else
     if d < 1 \<or> days_in_month (int y) (int m) < int d then Err (ErrText ''day out of range'') else
     Ok (mk_date (int y) (int m) (int d)))))))"

lemma parse_year_Ok:
  assumes "parse_year s = Ok (y, rest)"
  shows "y < 10000" "s = pad 4 (dec y) @ rest"
proof -
  obtain a b c d where s: "s = a # b # c # d # rest"
    and dig: "is_digit a" "is_digit b" "is_digit c" "is_digit d"
    and y: "y = ((digit_val a * 10 + digit_val b) * 10 + digit_val c) * 10 + digit_val d"
    using assms by (cases s rule: parse_year.cases) (auto simp: syntax_error_def split: if_splits)
  note v = digit_val_props(1) [OF dig(1)] digit_val_props(1) [OF dig(2)]
    digit_val_props(1) [OF dig(3)] digit_val_props(1) [OF dig(4)]
  from v have "y < 10 * 10 * 10 * 10" unfolding y by (intro horner_less)
  then show lt: "y < 10000" by simp
  show "s = pad 4 (dec y) @ rest"
    unfolding pad4 [OF lt] s
    by (simp only: y horner_digit v digit_val_props(2) dig append.simps)
qed

lemma getnum_Ok:
  assumes "getnum s = Ok (n, rest)"
  shows "n < 100" "s = pad 2 (dec n) @ rest"
proof -
  obtain a b where s: "s = a # b # rest" and dig: "is_digit a" "is_digit b"
    and n: "n = digit_val a * 10 + digit_val b"
    using assms by (cases s rule: getnum.cases) (auto simp: syntax_error_def split: if_splits)
  note v = digit_val_props(1) [OF dig(1)] digit_val_props(1) [OF dig(2)]
  show lt: "n < 100" using v unfolding n by linarith
  show "s = pad 2 (dec n) @ rest"
    unfolding pad2 [OF lt] s
    by (simp only: n horner_digit v digit_val_props(2) dig append.simps)
qed

lemma skip_dash_Ok: "skip_dash s = Ok rest \<longleftrightarrow> s = CHR ''-'' # rest"
  by (cases s) (auto simp: syntax_error_def)

lemma parse_year_pad4:
  assumes "n < 10000"
  shows "parse_year (pad 4 (dec n) @ rest) = Ok (n, rest)"
proof -
  have "n div 10 div 10 div 10 < 10" using assms by simp
  moreover have "((n div 10 div 10 div 10 * 10 + n div 10 div 10 mod 10) * 10 + n div 10 mod 10) * 10 + n mod 10 = n"
    by (simp only: div_mult_mod_eq)
  ultimately show ?thesis
    by (simp only: pad4 [OF assms] append.simps parse_year.simps digit_char_props) simp
qed

lemma getnum_pad2: "n < 100 \<Longrightarrow> getnum (pad 2 (dec n) @ rest) = Ok (n, rest)"
  by (simp add: pad2 less_mult_imp_div_less)

lemma skip_dash_dash: "skip_dash (''-'' @ rest) = Ok rest"
  by simp

text \<open>A parsed date is a valid date of a year from 0 to 9999, and its text is the formatted date.\<close>

lemma time_Parse_Ok:
  assumes "time_Parse s = Ok t"
  shows "valid_date t" "0 \<le> t_year t" "t_year t \<le> 9999" "s = time_Format t"
proof -
  from assms obtain y s1 s2 m s3 s4 d where
    y: "parse_year s = Ok (y, s1)" and s1: "skip_dash s1 = Ok s2" and m: "getnum s2 = Ok (m, s3)"
    and s3: "skip_dash s3 = Ok s4" and d: "getnum s4 = Ok (d, [])"
    and mr: "1 \<le> m" "m \<le> 12" and dr: "1 \<le> d" "int d \<le> days_in_month (int y) (int m)"
    and t: "t = mk_date (int y) (int m) (int d)"
    by (auto simp: time_Parse_def outcome_inv split: if_splits)
  show "valid_date t" using mr dr by (simp add: t valid_mk_date)
  show "0 \<le> t_year t" "t_year t \<le> 9999" using parse_year_Ok(1) [OF y] by (simp_all add: t)
  show "s = time_Format t"
    using parse_year_Ok(2) [OF y] getnum_Ok(2) [OF m] getnum_Ok(2) [OF d] s1 s3
    by (simp add: time_Format_def appendInt_def t skip_dash_Ok)
qed

lemma time_Format_year_negative:
  assumes "t_year t < 0"
  shows "time_Parse (time_Format t) = syntax_error"
proof -
  have dash: "\<not> is_digit (CHR ''-'')" by (simp add: is_digit_def)
  have "4 \<le> length (pad 4 (dec (nat \<bar>t_year t\<bar>)))" by (simp add: pad_def)
  then obtain b c d e r0 where "pad 4 (dec (nat \<bar>t_year t\<bar>)) = b # c # d # e # r0"
    by (auto simp: Suc_le_length_iff numeral_eq_Suc)
  then obtain r where "time_Format t = CHR ''-'' # b # c # d # e # r"
    using assms by (auto simp: time_Format_def appendInt_def)
  then show ?thesis by (simp add: time_Parse_def dash syntax_error_def)
qed

text \<open>
  The block time is formatted and parsed again: for a year from 0 to 9999 this is truncation to
  midnight, for every other year it fails.
\<close>

lemma time_Parse_Format:
  assumes "valid_time t" "0 \<le> t_year t" "t_year t \<le> 9999"
  shows "time_Parse (time_Format t) = Ok (mk_date (t_year t) (t_month t) (t_day t))"
proof -
  define y m d where "y = nat (t_year t)" and "m = nat (t_month t)" and "d = nat (t_day t)"
  have dim: "days_in_month (t_year t) (t_month t) \<le> 31" by (simp add: days_in_month_def)
  have y: "t_year t = int y" "y < 10000" and m: "t_month t = int m" "1 \<le> m" "m \<le> 12"
    and d: "t_day t = int d" "1 \<le> d" "d < 100" "int d \<le> days_in_month (int y) (int m)"
    using assms dim by (auto simp: y_def m_def d_def valid_time_def)
  have "getnum (pad 2 (dec d)) = Ok (d, [])"
    using getnum_pad2 [OF d(3), of "[]"] by simp
  with y m d show ?thesis
    by (simp add: time_Parse_def time_Format_def appendInt_def parse_year_pad4 getnum_pad2)
qed

lemma time_Parse_Format_date:
  assumes "valid_date t" "0 \<le> t_year t" "t_year t \<le> 9999"
  shows "time_Parse (time_Format t) = Ok t"
  using time_Parse_Format [of t] midnight_mk_date [of t] assms by simp

end
