(* ===== verification/Distro_Calendar.thy ===== *)
theory Distro_Calendar
  imports Go_Date_Layout
begin

text \<open>
  The month arithmetic of \<^verbatim>\<open>x/distro/keeper/msg_server_mint.go\<close>: \<open>addMonths\<close>, which
  clamps to the last day of a month, and \<open>monthsBetween\<close>, which counts the months that have
  elapsed. The interface \<open>month_calendar\<close> states what the schedule relies on, that the two
  are inverse to each other in the sense of a floor, and is interpreted on the code's functions.
\<close>

section \<open>The functions of the code\<close>

definition parseDate :: "string \<Rightarrow> gotime outcome" where
  "parseDate dateStr = time_Parse dateStr"

definition addMonths :: "gotime \<Rightarrow> int \<Rightarrow> gotime" where
  "addMonths t months =
     (let y = t_year t; m = t_month t; d = t_day t;
          targetMonth = go_int (m + months);
          targetYear = y + go_int (targetMonth - 1) sdiv 12;
          targetMonth1 = go_int (targetMonth - 1) smod 12 + 1;
          targetMonth2 = (if targetMonth1 < 1 then targetMonth1 + 12 else targetMonth1);
          targetYear2 = (if targetMonth1 < 1 then targetYear - 1 else targetYear);
          lastDay = t_day (time_Date targetYear2 (targetMonth2 + 1) 0 0 0 0 0);
          d' = (if d > lastDay then lastDay else d)
      in time_Date targetYear2 targetMonth2 d' (t_hour t) (t_minute t) (t_second t) (t_nano t))"

definition monthsBetween :: "gotime \<Rightarrow> gotime \<Rightarrow> int" where
  "monthsBetween start fin =
     (if time_Before fin start then -1
      else
        let years = t_year fin - t_year start;
            months = years * 12 + t_month fin - t_month start;
            endIsLastDay =
              (t_day fin = t_day (time_Date (t_year fin) (t_month fin + 1) 0 0 0 0 0));
            months' = (if t_day fin < t_day start \<and> \<not> endIsLastDay then months - 1 else months)
        in if months' < 0 then 0 else months')"

section \<open>What addMonths and monthsBetween compute\<close>

text \<open>Truncating division with the code's correction is division rounding down.\<close>

lemma month_carry:
  fixes x :: int
  shows "(if x smod 12 + 1 < 1 then x sdiv 12 - 1 else x sdiv 12) = x div 12"
    and "(if x smod 12 + 1 < 1 then x smod 12 + 1 + 12 else x smod 12 + 1) = x mod 12 + 1"
proof -
  have "x sdiv 12 = x div 12 \<and> x smod 12 = x mod 12" if "0 \<le> x"
    using that by (auto simp: signed_divide_int_def signed_modulo_int_def sgn_if minus_div_mult_eq_mod)
  moreover have "x sdiv 12 = (if x mod 12 = 0 then x div 12 else x div 12 + 1) \<and>
      x smod 12 = (if x mod 12 = 0 then 0 else x mod 12 - 12)" if "x < 0"
  proof -
    define a where "a = - x"
    have x: "x = - a" by (simp add: a_def)
    have q: "x sdiv 12 = - (a div 12)" using that by (simp add: signed_divide_int_def a_def)
    have r: "x smod 12 = - (a mod 12)" using that by (simp add: signed_modulo_int_def a_def)
    show ?thesis
      unfolding q r unfolding x using pos_mod_bound [of 12 a]
      by (auto simp: zdiv_zminus1_eq_if zmod_zminus1_eq_if simp del: pos_mod_bound)
  qed
  moreover have "0 \<le> x mod 12" "x mod 12 < 12" by simp_all
  ultimately show "(if x smod 12 + 1 < 1 then x sdiv 12 - 1 else x sdiv 12) = x div 12"
    and "(if x smod 12 + 1 < 1 then x smod 12 + 1 + 12 else x smod 12 + 1) = x mod 12 + 1"
    by (cases "0 \<le> x"; simp)+
qed

text \<open>The months the date arithmetic is used for; far beyond any date, and below the int64 range.\<close>

definition month_limit :: int where
  "month_limit = 2 ^ 62"

lemma addMonths_eq:
  assumes t: "valid_time t" and n: "\<bar>n\<bar> \<le> month_limit"
  shows "addMonths t n =
    (let k = t_index t + n in
     t\<lparr>t_year := k div 12, t_month := k mod 12 + 1, t_day := min (t_day t) (dim k)\<rparr>)"
proof -
  let ?x = "t_month t + n - 1" and ?k = "t_index t + n"
  have m: "1 \<le> t_month t" "t_month t \<le> 12" using t by (simp_all add: valid_time_def)
  have gi: "go_int (t_month t + n) = t_month t + n" "go_int (t_month t + n - 1) = ?x"
    using m n by (auto intro!: go_int_id simp: month_limit_def)
  have k: "?k = ?x + t_year t * 12" by (simp add: t_index_def month_index_def)
  have ky: "t_year t + ?x div 12 = ?k div 12" and km: "?x mod 12 = ?k mod 12"
    unfolding k by simp_all
  have yr: "(if ?x smod 12 + 1 < 1 then t_year t + ?x sdiv 12 - 1 else t_year t + ?x sdiv 12) = ?k div 12"
    using month_carry(1) [of ?x] unfolding ky [symmetric] by (simp split: if_splits)
  have mo: "(if ?x smod 12 + 1 < 1 then ?x smod 12 + 1 + 12 else ?x smod 12 + 1) = ?k mod 12 + 1"
    using month_carry(2) [of ?x] by (simp only: km)
  have last: "t_day (time_Date (?k div 12) (?k mod 12 + 1 + 1) 0 0 0 0 0) = dim ?k"
    by (subst last_day_of_month) (simp_all add: dim_def)
  have day: "(if t_day t > dim ?k then dim ?k else t_day t) = min (t_day t) (dim ?k)" by simp
  have "addMonths t n =
      time_Date (?k div 12) (?k mod 12 + 1) (min (t_day t) (dim ?k)) (t_hour t) (t_minute t) (t_second t) (t_nano t)"
    unfolding addMonths_def Let_def gi yr mo last day ..
  moreover have "norm_day ?k (min (t_day t) (dim ?k)) = (?k, min (t_day t) (dim ?k))"
    using valid_time_day [OF t] dim_bounds(1) [of ?k] by (intro norm_day_id) auto
  ultimately show ?thesis
    using t by (simp add: time_Date_def Let_def valid_time_def)
qed

lemma addMonths_index:
  assumes "valid_time t" "\<bar>n\<bar> \<le> month_limit"
  shows "t_index (addMonths t n) = t_index t + n" "t_day (addMonths t n) = min (t_day t) (dim (t_index t + n))"
  using assms by (simp_all add: addMonths_eq Let_def t_index_def [of "t\<lparr>t_year := _, t_month := _, t_day := _\<rparr>"])

lemma addMonths_valid:
  assumes "valid_time t" "\<bar>n\<bar> \<le> month_limit"
  shows "valid_time (addMonths t n)" "midnight (addMonths t n) = midnight t"
proof -
  let ?k = "t_index t + n"
  have "1 \<le> min (t_day t) (dim ?k)" using valid_time_day [OF assms(1)] dim_bounds(1) [of ?k] by simp
  moreover have "0 \<le> ?k mod 12" "?k mod 12 < 12" by simp_all
  ultimately show "valid_time (addMonths t n)"
    using assms by (simp add: addMonths_eq Let_def valid_time_def dim_def)
  show "midnight (addMonths t n) = midnight t"
    using assms by (simp add: addMonths_eq Let_def midnight_def)
qed

lemma addMonths_zero: "valid_time t \<Longrightarrow> addMonths t 0 = t"
  using valid_time_day [of t] t_index_split [of t]
  by (simp add: addMonths_eq month_limit_def Let_def)

lemma addMonths_strict:
  assumes "valid_time t" "m < n" "\<bar>m\<bar> \<le> month_limit" "\<bar>n\<bar> \<le> month_limit"
  shows "day_number (addMonths t m) < day_number (addMonths t n)"
  using assms by (subst day_number_less_iff) (simp_all add: addMonths_valid addMonths_index)

text \<open>
  For dates in order, the elapsed months are the difference of the month indices, less one when
  the day of the month has not been reached (and the month is long enough to have it).
\<close>

lemma monthsBetween_eq:
  assumes s: "valid_date s" and e: "valid_date e" and le: "day_number s \<le> day_number e"
  shows "monthsBetween s e =
    t_index e - t_index s - (if t_day e < min (t_day s) (dim (t_index e)) then 1 else 0)"
proof -
  let ?n = "t_index e - t_index s"
  have me: "1 \<le> t_month e" "t_month e \<le> 12" using e by (simp_all add: valid_time_def)
  have last: "t_day (time_Date (t_year e) (t_month e + 1) 0 0 0 0 0) = dim (t_index e)"
    using me by (simp add: last_day_of_month t_index_def dim_month_index)
  have nb: "\<not> time_Before e s" using s e le by (simp add: time_Before_dates)
  have months: "(t_year e - t_year s) * 12 + t_month e - t_month s = ?n"
    by (simp add: t_index_def month_index_def)
  have ede: "t_day e \<le> dim (t_index e)" using e valid_time_day by blast
  have guard: "t_day e < t_day s \<and> t_day e \<noteq> dim (t_index e) \<longleftrightarrow> t_day e < min (t_day s) (dim (t_index e))"
    using ede by auto
  have "?n \<ge> (if t_day e < min (t_day s) (dim (t_index e)) then 1 else 0)"
    using le s e by (auto simp: day_number_le_iff)
  then show ?thesis
    unfolding monthsBetween_def Let_def months last guard using nb by auto
qed

lemma monthsBetween_before:
  assumes "valid_date s" "valid_date e"
  shows "monthsBetween s e < 0 \<longleftrightarrow> day_number e < day_number s"
proof (cases "day_number e < day_number s")
  case True
  then show ?thesis using assms by (simp add: monthsBetween_def time_Before_dates)
next
  case False
  then show ?thesis using assms by (simp add: monthsBetween_def time_Before_dates Let_def)
qed

section \<open>The interface the schedule relies on\<close>

locale month_calendar =
  fixes add :: "'d \<Rightarrow> int \<Rightarrow> 'd"
    and between :: "'d \<Rightarrow> 'd \<Rightarrow> int"
    and num :: "'d \<Rightarrow> int"
    and ok :: "'d \<Rightarrow> bool"
    and lim :: int
  assumes add_ok: "ok d \<Longrightarrow> 0 \<le> n \<Longrightarrow> n \<le> lim \<Longrightarrow> ok (add d n)"
    and add_zero: "ok d \<Longrightarrow> add d 0 = d"
    and add_strict: "ok d \<Longrightarrow> 0 \<le> m \<Longrightarrow> m < n \<Longrightarrow> n \<le> lim \<Longrightarrow> num (add d m) < num (add d n)"
    and between_neg: "ok s \<Longrightarrow> ok e \<Longrightarrow> between s e < 0 \<longleftrightarrow> num e < num s"
    and between_lower: "ok s \<Longrightarrow> ok e \<Longrightarrow> num s \<le> num e \<Longrightarrow> between s e \<le> lim \<Longrightarrow>
      num (add s (between s e)) \<le> num e"
    and between_upper: "ok s \<Longrightarrow> ok e \<Longrightarrow> num s \<le> num e \<Longrightarrow> between s e < lim \<Longrightarrow>
      num e < num (add s (between s e + 1))"
begin

lemma add_mono:
  assumes "ok d" "0 \<le> m" "m \<le> n" "n \<le> lim"
  shows "num (add d m) \<le> num (add d n)"
  using add_strict [of d m n] assms by (cases "m = n") auto

lemma between_nonneg: "ok s \<Longrightarrow> ok e \<Longrightarrow> num s \<le> num e \<Longrightarrow> 0 \<le> between s e"
  using between_neg [of s e] by linarith

lemma between_ge:
  assumes "ok s" "ok e" "between s e < lim" "0 \<le> n" "n \<le> lim" "num (add s n) \<le> num e"
  shows "n \<le> between s e"
proof (rule ccontr)
  assume n: "\<not> n \<le> between s e"
  have se: "num s \<le> num e"
    using add_mono [of s 0 n] assms by (simp add: add_zero)
  have "num (add s (between s e + 1)) \<le> num (add s n)"
    using n assms between_nonneg [of s e] se by (intro add_mono) auto
  with between_upper [of s e] assms se show False by simp
qed

lemma between_unique:
  assumes "ok s" "ok e" "between s e < lim" "0 \<le> n" "n < lim"
    and "num (add s n) \<le> num e" "num e < num (add s (n + 1))"
  shows "between s e = n"
proof -
  have se: "num s \<le> num e" using add_mono [of s 0 n] assms by (simp add: add_zero)
  have "n \<le> between s e" using assms by (intro between_ge) auto
  moreover have "between s e \<le> n"
  proof (rule ccontr)
    assume "\<not> between s e \<le> n"
    then have "num (add s (n + 1)) \<le> num (add s (between s e))"
      using assms by (intro add_mono) auto
    with between_lower [of s e] assms se show False by simp
  qed
  ultimately show ?thesis by simp
qed

lemma between_mono:
  assumes "ok s" "ok e" "ok e'" "num s \<le> num e" "num e \<le> num e'" "between s e' < lim" "between s e \<le> lim"
  shows "between s e \<le> between s e'"
  using assms between_nonneg [of s e] between_lower [of s e]
  by (intro between_ge [of s e' "between s e"]) auto

text \<open>
  Periods of \<open>M\<close> months: the period with index \<open>between s e div M\<close> starts on or before
  \<open>e\<close> and ends after it.
\<close>

lemma period_start:
  assumes "ok s" "ok e" "num s \<le> num e" "between s e < lim" "0 < M"
  shows "num (add s (between s e div M * M)) \<le> num e"
proof -
  have "0 \<le> between s e div M * M" "between s e div M * M \<le> between s e"
    using between_nonneg [of s e] assms div_mult_mod_eq [of "between s e" M] pos_mod_sign [of M "between s e"]
    by (simp add: pos_imp_zdiv_nonneg_iff, linarith)
  then have "num (add s (between s e div M * M)) \<le> num (add s (between s e))"
    using assms by (intro add_mono) auto
  with between_lower [of s e] assms show ?thesis by simp
qed

lemma period_end:
  assumes "ok s" "ok e" "num s \<le> num e" "0 < M" "(between s e div M + 1) * M \<le> lim"
  shows "num e < num (add s ((between s e div M + 1) * M))"
proof -
  have b: "between s e + 1 \<le> (between s e div M + 1) * M"
    using div_mult_mod_eq [of "between s e" M] pos_mod_bound [of M "between s e"] assms(4)
    unfolding distrib_right by linarith
  with assms have lt: "between s e < lim" by linarith
  have "num (add s (between s e + 1)) \<le> num (add s ((between s e div M + 1) * M))"
    using b assms between_nonneg [of s e] by (intro add_mono) auto
  with between_upper [of s e] assms lt show ?thesis by simp
qed

end

interpretation cal: month_calendar addMonths monthsBetween day_number valid_date month_limit
proof (unfold_locales, goal_cases)
  case (1 d n)
  then show ?case by (simp add: addMonths_valid)
next
  case (2 d)
  then show ?case by (simp add: addMonths_zero)
next
  case (3 d m n)
  then show ?case by (simp add: addMonths_strict)
next
  case (4 s e)
  then show ?case by (simp add: monthsBetween_before)
next
  case (5 s e)
  then have nn: "0 \<le> monthsBetween s e" using monthsBetween_before [of s e] by linarith
  with 5 show ?case
    by (subst day_number_le_iff)
       (auto simp: addMonths_valid addMonths_index monthsBetween_eq split: if_splits)
next
  case (6 s e)
  then have nn: "0 \<le> monthsBetween s e" using monthsBetween_before [of s e] by linarith
  with 6 show ?case
    by (subst day_number_less_iff)
       (auto simp: addMonths_valid addMonths_index monthsBetween_eq split: if_splits)
qed

end
