(* ===== verification/Distro_Types.thy ===== *)
theory Distro_Types
  imports Cosmos_Env Distro_Calendar
begin

text \<open>
  The data of the distro module and its validation (\<^verbatim>\<open>x/distro/types\<close>): the module
  parameters, the genesis state, the messages, and the two validations that guard the
  parameters, the strict one for updates and the lenient one for the genesis file.
\<close>

section \<open>Parameters\<close>

record params =
  p_MintingAddress :: string
  p_ReceivingAddress :: string
  p_Denom :: string
  p_MaxSupply :: u64
  p_DistributionStartDate :: string
  p_MonthsInHalvingPeriod :: u64

definition DefaultMintingAddress :: string where "DefaultMintingAddress = ''''"
definition DefaultReceivingAddress :: string where "DefaultReceivingAddress = ''''"
definition DefaultDenom :: string where "DefaultDenom = ''uGNOD''"
definition DefaultMaxSupply :: u64 where "DefaultMaxSupply = 35000000000000000"
definition DefaultDistributionStartDate :: string where "DefaultDistributionStartDate = ''2025-07-22''"
definition DefaultMonthsInHalvingPeriod :: u64 where "DefaultMonthsInHalvingPeriod = 12"

definition NewParams :: "string \<Rightarrow> string \<Rightarrow> string \<Rightarrow> u64 \<Rightarrow> string \<Rightarrow> u64 \<Rightarrow> params" where
  "NewParams minting_address receiving_address denom max_supply distribution_start_date months_in_halving_period =
     \<lparr>p_MintingAddress = minting_address,
      p_ReceivingAddress = receiving_address,
      p_Denom = denom,
      p_MaxSupply = max_supply,
      p_DistributionStartDate = distribution_start_date,
      p_MonthsInHalvingPeriod = months_in_halving_period\<rparr>"

definition DefaultParams :: params where
  "DefaultParams =
     NewParams DefaultMintingAddress DefaultReceivingAddress DefaultDenom DefaultMaxSupply
       DefaultDistributionStartDate DefaultMonthsInHalvingPeriod"

lemmas default_params_defs =
  DefaultParams_def NewParams_def DefaultMintingAddress_def DefaultReceivingAddress_def
  DefaultDenom_def DefaultMaxSupply_def DefaultDistributionStartDate_def
  DefaultMonthsInHalvingPeriod_def

section \<open>Validation of the parameters\<close>

definition validateMintingAddress :: "cosmos_lib \<Rightarrow> string \<Rightarrow> unit outcome" where
  "validateMintingAddress L v =
     (if v = '''' then Err (ErrText ''minting address cannot be empty'')
      else bindO (wrapErr ''invalid minting address'' (sdk_AccAddressFromBech32 L v)) (\<lambda>_. Ok ()))"

definition validateReceivingAddress :: "cosmos_lib \<Rightarrow> string \<Rightarrow> unit outcome" where
  "validateReceivingAddress L v =
     (if v = '''' then Err (ErrText ''receiving address cannot be empty'')
      else bindO (wrapErr ''invalid receiving address'' (sdk_AccAddressFromBech32 L v)) (\<lambda>_. Ok ()))"

definition validateDenom :: "cosmos_lib \<Rightarrow> string \<Rightarrow> unit outcome" where
  "validateDenom L v = wrapErr ''invalid denom'' (sdk_ValidateDenom L v)"

definition validateMaxSupply :: "u64 \<Rightarrow> unit outcome" where
  "validateMaxSupply v =
     (if v = 0 then Err (ErrText ''max supply must be greater than zero'') else Ok ())"

definition validateDistributionStartDate :: "string \<Rightarrow> unit outcome" where
  "validateDistributionStartDate v =
     (if v = '''' then Err (ErrText ''distribution start date cannot be empty'')
      else bindO (wrapErr ''distribution start date must be in YYYY-MM-DD format'' (time_Parse v)) (\<lambda>_. Ok ()))"

definition validateMonthsInHalvingPeriod :: "u64 \<Rightarrow> unit outcome" where
  "validateMonthsInHalvingPeriod v =
     (if v = 0 then Err (ErrText ''months in halving period must be greater than zero'') else Ok ())"

definition Params_Validate :: "cosmos_lib \<Rightarrow> params \<Rightarrow> unit outcome" where
  "Params_Validate L p =
     bindO (validateMintingAddress L (p_MintingAddress p)) (\<lambda>_.
     bindO (validateReceivingAddress L (p_ReceivingAddress p)) (\<lambda>_.
     bindO (validateDenom L (p_Denom p)) (\<lambda>_.
     bindO (validateMaxSupply (p_MaxSupply p)) (\<lambda>_.
     bindO (validateDistributionStartDate (p_DistributionStartDate p)) (\<lambda>_.
     bindO (validateMonthsInHalvingPeriod (p_MonthsInHalvingPeriod p)) (\<lambda>_.
     Ok ()))))))"

section \<open>Genesis state\<close>

record genesis_state =
  gs_Params :: params

definition DefaultGenesis :: genesis_state where
  "DefaultGenesis = \<lparr>gs_Params = DefaultParams\<rparr>"

definition GenesisState_Validate :: "cosmos_lib \<Rightarrow> genesis_state \<Rightarrow> unit outcome" where
  "GenesisState_Validate L gs =
     (let p = gs_Params gs in
      bindO (if p_MintingAddress p \<noteq> ''''
             then wrapErr ''invalid minting address'' (sdk_AccAddressFromBech32 L (p_MintingAddress p))
             else Ok []) (\<lambda>_.
      bindO (if p_ReceivingAddress p \<noteq> ''''
             then wrapErr ''invalid receiving address'' (sdk_AccAddressFromBech32 L (p_ReceivingAddress p))
             else Ok []) (\<lambda>_.
      bindO (validateDenom L (p_Denom p)) (\<lambda>_.
      bindO (validateDistributionStartDate (p_DistributionStartDate p)) (\<lambda>_.
      bindO (validateMonthsInHalvingPeriod (p_MonthsInHalvingPeriod p)) (\<lambda>_.
      Ok ()))))))"

section \<open>Messages\<close>

definition ModuleName :: string where "ModuleName = ''distro''"
definition StoreKey :: string where "StoreKey = ModuleName"
definition GovModuleName :: string where "GovModuleName = ''gov''"

record msg_mint =
  mm_Amount :: u64
  mm_Signer :: string

definition NewMsgMint :: "u64 \<Rightarrow> string \<Rightarrow> msg_mint" where
  "NewMsgMint amount signer = \<lparr>mm_Amount = amount, mm_Signer = signer\<rparr>"

record msg_update_params =
  mu_Authority :: string
  mu_Params :: params

definition ErrInvalidSigner_distro :: "string \<Rightarrow> go_error" where
  "ErrInvalidSigner_distro msg = ErrInvalidSigner msg"

section \<open>What the validations accept\<close>

lemmas field_validator_defs =
  validateMintingAddress_def validateReceivingAddress_def validateDenom_def validateMaxSupply_def
  validateDistributionStartDate_def validateMonthsInHalvingPeriod_def

lemma time_Parse_empty: "\<not> is_ok (time_Parse '''')"
  by (simp add: time_Parse_def syntax_error_def)

lemma validateDistributionStartDate_ok:
  "validateDistributionStartDate v = Ok () \<longleftrightarrow> is_ok (time_Parse v)"
  using time_Parse_empty
  by (cases "time_Parse v") (auto simp: validateDistributionStartDate_def)

lemma address_validator_ok:
  "validateMintingAddress L v = Ok () \<longleftrightarrow> v \<noteq> '''' \<and> is_ok (sdk_AccAddressFromBech32 L v)"
  "validateReceivingAddress L v = Ok () \<longleftrightarrow> v \<noteq> '''' \<and> is_ok (sdk_AccAddressFromBech32 L v)"
  by (cases "sdk_AccAddressFromBech32 L v"; simp add: field_validator_defs)+

lemma number_validator_ok:
  "validateMaxSupply n = Ok () \<longleftrightarrow> n \<noteq> 0"
  "validateMonthsInHalvingPeriod n = Ok () \<longleftrightarrow> n \<noteq> 0"
  by (simp_all add: field_validator_defs)

lemmas field_validator_ok =
  address_validator_ok number_validator_ok validateDistributionStartDate_ok

lemma Params_Validate_ok:
  "Params_Validate L p = Ok () \<longleftrightarrow>
     p_MintingAddress p \<noteq> '''' \<and> is_ok (sdk_AccAddressFromBech32 L (p_MintingAddress p)) \<and>
     p_ReceivingAddress p \<noteq> '''' \<and> is_ok (sdk_AccAddressFromBech32 L (p_ReceivingAddress p)) \<and>
     is_ok (sdk_ValidateDenom L (p_Denom p)) \<and> p_MaxSupply p \<noteq> 0 \<and>
     is_ok (time_Parse (p_DistributionStartDate p)) \<and> p_MonthsInHalvingPeriod p \<noteq> 0"
  by (auto simp: Params_Validate_def bindO_eq_Ok field_validator_ok validateDenom_def unit_outcome_ok)

lemma GenesisState_Validate_ok:
  "GenesisState_Validate L gs = Ok () \<longleftrightarrow>
     (let p = gs_Params gs in
      (p_MintingAddress p \<noteq> '''' \<longrightarrow> is_ok (sdk_AccAddressFromBech32 L (p_MintingAddress p))) \<and>
      (p_ReceivingAddress p \<noteq> '''' \<longrightarrow> is_ok (sdk_AccAddressFromBech32 L (p_ReceivingAddress p))) \<and>
      is_ok (sdk_ValidateDenom L (p_Denom p)) \<and>
      is_ok (time_Parse (p_DistributionStartDate p)) \<and> p_MonthsInHalvingPeriod p \<noteq> 0)"
  by (auto simp: GenesisState_Validate_def Let_def bindO_eq_Ok field_validator_ok validateDenom_def is_ok_iff)

lemma default_start_date: "time_Parse DefaultDistributionStartDate = Ok (mk_date 2025 7 22)"
proof -
  have "valid_date (mk_date 2025 7 22)" by (simp add: valid_mk_date days_in_month_def leap_year_def)
  then have "time_Parse (time_Format (mk_date 2025 7 22)) = Ok (mk_date 2025 7 22)"
    by (rule time_Parse_Format_date) (simp_all)
  moreover have "time_Format (mk_date 2025 7 22) = DefaultDistributionStartDate"
    by code_simp
  ultimately show ?thesis by simp
qed

end
