(* ===== verification/Distro_Schedule.thy ===== *)
theory Distro_Schedule
  imports Distro_Types
begin

text \<open>
  The emission schedule of \<^verbatim>\<open>x/distro/keeper/msg_server_mint.go\<close>: the limit of a halving
  period, the loop over the elapsed periods, the pro-rata share of the current period and
  \<open>validateMintingLimits\<close>, at the width of the source's \<^verbatim>\<open>uint64\<close>. The interface
  \<open>halving_limits\<close> holds what makes the sum of all periods stay below the supply.
\<close>

section \<open>The functions of the code\<close>

definition halvingPeriodLimit :: "u64 \<Rightarrow> u64 \<Rightarrow> u64" where
  "halvingPeriodLimit maxSupply period =
     (if period = 0 \<or> period > 64 then 0
      else maxSupply div push_bit (unat (period - 1)) 1 div 2)"

lemma u64_Suc_less: "(p :: u64) < c \<Longrightarrow> unat (p + 1) = Suc (unat p)"
  using unat_u64_less [of c] by (subst unat_add_u64) (auto simp: word_less_nat_alt)

text \<open>The loop \<^verbatim>\<open>for period := uint64(1); period < currentHalvingPeriod; period++\<close>.\<close>

function sumPeriods :: "u64 \<Rightarrow> u64 \<Rightarrow> u64 \<Rightarrow> u64 \<Rightarrow> u64" where
  "sumPeriods maxSupply currentHalvingPeriod period totalDistributable =
     (if period < currentHalvingPeriod
      then sumPeriods maxSupply currentHalvingPeriod (period + 1)
             (totalDistributable + halvingPeriodLimit maxSupply period)
      else totalDistributable)"
  by pat_completeness auto

termination
  by (relation "measure (\<lambda>(m, c, p, t). unat c - unat p)") (auto simp: u64_Suc_less word_less_nat_alt)

declare sumPeriods.simps [simp del]

text \<open>The share of the current period that the elapsed days give.\<close>

definition currentPeriodShare :: "u64 \<Rightarrow> u64 \<Rightarrow> u64 \<Rightarrow> u64" where
  "currentPeriodShare periodYearlyLimit daysElapsed0 daysInPeriod =
     (let daysElapsed = (if daysElapsed0 > daysInPeriod then daysInPeriod else daysElapsed0)
      in if daysInPeriod \<noteq> 0 then (periodYearlyLimit * daysElapsed) div daysInPeriod else 0)"

definition totalDistributable :: "params \<Rightarrow> gotime \<Rightarrow> gotime \<Rightarrow> int \<Rightarrow> u64 outcome" where
  "totalDistributable params startDate targetDate months =
     (if p_MonthsInHalvingPeriod params = 0 then Panic ''runtime error: integer divide by zero''
      else
        let currentHalvingPeriod = 1 + word_of_int months div p_MonthsInHalvingPeriod params;
            total = sumPeriods (p_MaxSupply params) currentHalvingPeriod 1 0
        in if currentHalvingPeriod > 0 then
             let periodStart = addMonths startDate
                   (sint ((currentHalvingPeriod - 1) * p_MonthsInHalvingPeriod params));
                 periodEnd = time_AddDate
                   (addMonths startDate (sint (currentHalvingPeriod * p_MonthsInHalvingPeriod params)))
                   0 0 (-1);
                 daysInPeriod = duration_days_u64 (time_Sub periodEnd periodStart) + 1;
                 periodYearlyLimit = halvingPeriodLimit (p_MaxSupply params) currentHalvingPeriod;
                 daysElapsed = duration_days_u64 (time_Sub targetDate periodStart)
             in Ok (total + currentPeriodShare periodYearlyLimit daysElapsed daysInPeriod)
           else Ok total)"

definition validateMintingLimits :: "cosmos_lib \<Rightarrow> sdk_context \<Rightarrow> nat \<Rightarrow> nat \<Rightarrow> params \<Rightarrow> unit outcome" where
  "validateMintingLimits L ctx currentSupply amount params =
     bindO (replaceErr (ErrInvalidRequest ''invalid distribution start date'')
              (parseDate (p_DistributionStartDate params))) (\<lambda>startDate.
     bindO (replaceErr (ErrInvalidRequest ''invalid target date'')
              (parseDate (time_Format (ctx_BlockTime ctx)))) (\<lambda>targetDate.
     let months = monthsBetween startDate targetDate in
     if months < 0 then Err (ErrInvalidRequest ''target date is before start date'')
     else
       bindO (totalDistributable params startDate targetDate months) (\<lambda>total.
       bindO (math_UintAdd L amount currentSupply) (\<lambda>sum.
       if math_UintGT L sum (math_NewUint L total)
       then Err (ErrInvalidRequest ''amount exceeds total distributable limit'')
       else Ok ()))))"

section \<open>The limit of a period\<close>

lemma halvingPeriodLimit_unat:
  assumes "p \<noteq> 0"
  shows "unat (halvingPeriodLimit S p) = unat S div 2 ^ unat p"
proof (cases "p > 64")
  case True
  then have "64 < unat p" by (simp add: word_less_nat_alt)
  then have "(2 :: nat) ^ 64 \<le> 2 ^ unat p" by (intro power_increasing) auto
  then have "unat S < 2 ^ unat p" using unat_u64_less [of S] by linarith
  with True show ?thesis by (simp add: halvingPeriodLimit_def)
next
  case False
  define n where "n = unat (p - 1)"
  have "0 < unat p" using assms by (simp add: unat_gt_0)
  then have n: "unat p = Suc n" unfolding n_def
    by (metis Suc_pred' assms unat_minus_one)
  have "unat p \<le> 64" using False by (simp add: word_le_nat_alt not_less)
  with n have "n < 64" by simp
  then have "(2 :: nat) ^ n < 2 ^ 64" by (intro power_strict_increasing) auto
  then have "unat (word_of_nat (2 ^ n) :: u64) = 2 ^ n" by (rule unat_of_nat_u64)
  then have "unat (push_bit n (1 :: u64)) = 2 ^ n" by (simp add: push_bit_eq_mult)
  moreover have "unat S div 2 ^ n div 2 = unat S div 2 ^ Suc n"
    by (simp add: div_mult2_eq [symmetric] mult.commute)
  ultimately show ?thesis
    using False assms n by (simp add: halvingPeriodLimit_def unat_div_u64 n_def)
qed

section \<open>The interface of a halving schedule\<close>

locale halving_limits =
  fixes cap :: nat and lim :: "nat \<Rightarrow> nat" and bound :: nat
  assumes first_half: "1 < bound \<Longrightarrow> 2 * lim 1 \<le> cap"
    and next_half: "0 < p \<Longrightarrow> Suc p < bound \<Longrightarrow> 2 * lim (Suc p) \<le> lim p"
begin

lemma sum_limits: "n < bound \<Longrightarrow> 0 < n \<Longrightarrow> (\<Sum>p = 1..n. lim p) + lim n \<le> cap"
proof (induction n)
  case (Suc n)
  show ?case
  proof (cases "n = 0")
    case True
    with Suc.prems first_half show ?thesis by simp
  next
    case False
    with Suc have "(\<Sum>p = 1..n. lim p) + lim n \<le> cap" by simp
    moreover have "2 * lim (Suc n) \<le> lim n" using next_half [of n] False Suc.prems by simp
    ultimately show ?thesis by simp
  qed
qed simp

lemma sum_limits_le: "n < bound \<Longrightarrow> (\<Sum>p = 1..n. lim p) \<le> cap"
  using sum_limits [of n] by (cases "n = 0") auto

lemma sum_before_le:
  assumes "n < bound" "0 < n"
  shows "(\<Sum>p = 1..<n. lim p) + lim n \<le> cap"
proof -
  have "(\<Sum>p = 1..n. lim p) = (\<Sum>p = 1..<n. lim p) + lim n"
    using assms by (cases n) (simp_all add: atLeastLessThanSuc_atLeastAtMost)
  with sum_limits_le [OF assms(1)] show ?thesis by simp
qed

end

interpretation hpl: halving_limits "unat S" "\<lambda>p. unat (halvingPeriodLimit S (word_of_nat p))" "2 ^ 64" for S
proof (unfold_locales, goal_cases)
  case 1
  then show ?case by (simp add: halvingPeriodLimit_unat)
next
  case (2 p)
  then have nz: "word_of_nat p \<noteq> (0 :: u64)" "word_of_nat (Suc p) \<noteq> (0 :: u64)"
    by (metis Suc_lessD bot_nat_0.not_eq_extremum unat_0 unat_of_nat_u64, metis nat.simps(3) unat_0 unat_of_nat_u64 2(2))
  have "2 * (unat S div 2 ^ Suc p) \<le> unat S div 2 ^ p"
    by (simp add: div_mult2_eq mult.commute [of 2])
  with 2 nz show ?case by (simp add: halvingPeriodLimit_unat unat_of_nat_u64 del: of_nat_Suc)
qed

section \<open>The loop over the elapsed periods\<close>

lemma sumPeriods_unat:
  assumes "0 < c" "0 < p"
    and "unat t + (\<Sum>i = unat p..<unat c. unat (halvingPeriodLimit S (word_of_nat i))) < 2 ^ 64"
  shows "unat (sumPeriods S c p t) = unat t + (\<Sum>i = unat p..<unat c. unat (halvingPeriodLimit S (word_of_nat i)))"
  using assms
proof (induction S c p t rule: sumPeriods.induct)
  case (1 S c p t)
  let ?l = "\<lambda>i. unat (halvingPeriodLimit S (word_of_nat i))"
  show ?case
  proof (cases "p < c")
    case True
    then have pc: "unat p < unat c" and suc: "unat (p + 1) = Suc (unat p)"
      by (simp_all add: word_less_nat_alt u64_Suc_less)
    have split: "(\<Sum>i = unat p..<unat c. ?l i) = unat (halvingPeriodLimit S p) + (\<Sum>i = Suc (unat p)..<unat c. ?l i)"
      using pc by (simp add: sum.atLeast_Suc_lessThan)
    have add: "unat (t + halvingPeriodLimit S p) = unat t + unat (halvingPeriodLimit S p)"
      using 1(4) split by (intro unat_add_u64) simp
    have "0 < p + 1" using suc by (metis nat.simps(3) unat_0 word_neq_0_conv)
    then have "unat (sumPeriods S c (p + 1) (t + halvingPeriodLimit S p)) =
        unat (t + halvingPeriodLimit S p) + (\<Sum>i = unat (p + 1)..<unat c. ?l i)"
      using 1(4) split add suc by (intro 1(1) True 1(2)) simp_all
    with True add suc split show ?thesis by (subst sumPeriods.simps) simp
  next
    case False
    then have "unat c \<le> unat p" by (simp add: word_less_nat_alt)
    with False show ?thesis by (subst sumPeriods.simps) simp
  qed
qed

lemma sumPeriods_eq:
  assumes "0 < c"
  shows "unat (sumPeriods S c 1 0) = (\<Sum>i = 1..<unat c. unat S div 2 ^ i)"
proof -
  let ?l = "\<lambda>i. unat (halvingPeriodLimit S (word_of_nat i))"
  have cpos: "0 < unat c" using assms by (simp add: unat_gt_0 word_neq_0_conv)
  have "(\<Sum>i = 1..<unat c. ?l i) + ?l (unat c) \<le> unat S"
    using hpl.sum_before_le [OF unat_u64_less cpos] .
  then have "(\<Sum>i = 1..<unat c. ?l i) < 2 ^ 64" using unat_u64_less [of S] by linarith
  then have "unat (sumPeriods S c 1 0) = (\<Sum>i = 1..<unat c. ?l i)"
    using sumPeriods_unat [of c 1 0 S] assms by simp
  also have "\<dots> = (\<Sum>i = 1..<unat c. unat S div 2 ^ i)"
  proof (intro sum.cong refl)
    fix i assume "i \<in> {1..<unat c}"
    then have i: "0 < i" "i < 2 ^ 64" using unat_u64_less [of c] by auto
    then have "word_of_nat i \<noteq> (0 :: u64)"
      by (metis less_numeral_extra(3) unat_0 unat_of_nat_u64)
    with i show "?l i = unat S div 2 ^ i" by (simp add: halvingPeriodLimit_unat unat_of_nat_u64)
  qed
  finally show ?thesis .
qed

section \<open>The share of the current period\<close>

lemma currentPeriodShare_le: "unat (currentPeriodShare l e d) \<le> unat l"
proof (cases "d = 0")
  case True
  then show ?thesis by (simp add: currentPeriodShare_def)
next
  case False
  define e' where "e' = (if e > d then d else e)"
  have e': "unat e' \<le> unat d" by (auto simp: e'_def word_less_nat_alt not_less)
  have "unat (l * e') \<le> unat l * unat e'" by (simp add: unat_word_ariths)
  also have "\<dots> \<le> unat l * unat d" using e' by simp
  finally have "unat (l * e') div unat d \<le> unat l * unat d div unat d" by (rule div_le_mono)
  also have "\<dots> = unat l" using False by (simp add: unat_eq_zero)
  finally show ?thesis
    using False by (simp add: currentPeriodShare_def Let_def unat_div_u64 flip: e'_def)
qed

lemma currentPeriodShare_exact:
  assumes "unat e \<le> unat d" "unat l * unat e < 2 ^ 64"
  shows "unat (currentPeriodShare l e d) = unat l * unat e div unat d"
  using assms
  by (auto simp: currentPeriodShare_def Let_def unat_div_u64 unat_mult_u64 word_less_nat_alt unat_eq_zero)

end
