(* ===== verification/Distro_Emission.thy ===== *)
theory Distro_Emission
  imports Distro_Schedule
begin

text \<open>
  The abstract emission schedule, over unbounded naturals, and the proof that the code's
  \<open>totalDistributable\<close> computes it: the sum of the limits of the elapsed periods and the
  pro-rata share, by days, of the current one. The properties of the schedule (never above the
  maximum supply, never decreasing) are proved for the specification and carried over to the
  code; without the bound that rules out overflow the code does not follow the schedule.
\<close>

section \<open>The abstract schedule\<close>

definition elapsed_periods :: "nat \<Rightarrow> gotime \<Rightarrow> gotime \<Rightarrow> nat" where
  "elapsed_periods M s e = nat (monthsBetween s e div int M)"

definition period_first_day :: "nat \<Rightarrow> gotime \<Rightarrow> nat \<Rightarrow> int" where
  "period_first_day M s q = day_number (addMonths s (int q * int M))"

definition emission_spec :: "nat \<Rightarrow> nat \<Rightarrow> gotime \<Rightarrow> gotime \<Rightarrow> nat" where
  "emission_spec S M s e =
     (let q = elapsed_periods M s e;
          elapsed = nat (day_number e - period_first_day M s q);
          days = nat (period_first_day M s (Suc q) - period_first_day M s q)
      in (\<Sum>i = 1..q. S div 2 ^ i) + (S div 2 ^ Suc q) * elapsed div days)"

text \<open>The dates the chain can see: years 0 to 9999, as the date layout has them.\<close>

definition chain_date :: "gotime \<Rightarrow> bool" where
  "chain_date t \<longleftrightarrow> valid_date t \<and> 0 \<le> t_year t \<and> t_year t \<le> 9999"

text \<open>
  Periods of at most 3400 months (283 years) fit a Go duration, which ends at 292 years.
\<close>

definition max_period_months :: nat where
  "max_period_months = 3400"

section \<open>Bounds on months and days\<close>

lemma monthsBetween_le:
  assumes "chain_date s" "chain_date e"
  shows "monthsBetween s e < 120000"
proof (cases "day_number s \<le> day_number e")
  case True
  have "t_index e \<le> 9999 * 12 + 11" "0 \<le> t_index s"
    using assms by (auto simp: chain_date_def valid_time_def t_index_def month_index_def)
  then show ?thesis
    using True assms by (auto simp: chain_date_def monthsBetween_eq split: if_splits)
next
  case False
  then have "monthsBetween s e < 0" using assms by (simp add: chain_date_def monthsBetween_before)
  then show ?thesis by simp
qed

lemma month_start_span: "month_start (k + int n) \<le> month_start k + 31 * int n"
proof (induction n)
  case (Suc n)
  have "month_start (k + int (Suc n)) = month_start (k + int n) + dim (k + int n)"
    using month_start_Suc [of "k + int n"] by (simp add: algebra_simps)
  also have "\<dots> \<le> month_start k + 31 * int (Suc n)"
    using Suc dim_bounds(2) [of "k + int n"] by (simp add: algebra_simps)
  finally show ?case .
qed simp

lemma addMonths_span:
  assumes "valid_time s" "0 \<le> m" "m + int n \<le> month_limit"
  shows "day_number (addMonths s (m + int n)) \<le> day_number (addMonths s m) + 31 * int n + 3"
proof -
  let ?k = "t_index s + m"
  have "day_number (addMonths s m) = month_start ?k + min (t_day s) (dim ?k)"
    using assms by (simp add: day_number_def addMonths_index)
  moreover have "day_number (addMonths s (m + int n)) =
      month_start (?k + int n) + min (t_day s) (dim (?k + int n))"
    using assms addMonths_index [of s "m + int n"] by (simp add: day_number_def add.assoc)
  moreover have "min (t_day s) (dim (?k + int n)) \<le> min (t_day s) (dim ?k) + 3"
    using dim_bounds [of ?k] dim_bounds [of "?k + int n"] by linarith
  ultimately show ?thesis using month_start_span [of ?k n] by linarith
qed

lemma period_first_day_zero: "valid_time s \<Longrightarrow> period_first_day M s 0 = day_number s"
  by (simp add: period_first_day_def addMonths_zero)

text \<open>
  The facts about the current period that both the code and the specification use, gathered
  from the calendar interface.
\<close>

lemma current_period:
  assumes s: "chain_date s" and e: "chain_date e" and le: "day_number s \<le> day_number e"
    and M: "0 < M" "M \<le> max_period_months"
  defines "q \<equiv> elapsed_periods M s e"
  shows "int q = monthsBetween s e div int M" "int (Suc q) * int M \<le> 200000"
    and "period_first_day M s q \<le> day_number e" "day_number e < period_first_day M s (Suc q)"
    and "period_first_day M s (Suc q) \<le> period_first_day M s q + 31 * int M + 3"
proof -
  let ?m = "monthsBetween s e"
  have vs: "valid_date s" and ve: "valid_date e" using s e by (simp_all add: chain_date_def)
  have m: "0 \<le> ?m" "?m < 120000"
    using monthsBetween_before [OF vs ve] le monthsBetween_le [OF s e] by simp_all
  show q: "int q = ?m div int M"
    unfolding q_def elapsed_periods_def using m M by (simp add: pos_imp_zdiv_nonneg_iff)
  have "?m div int M * int M \<le> ?m"
    using div_mult_mod_eq [of ?m "int M"] pos_mod_sign [of "int M" ?m] M by linarith
  then show lim: "int (Suc q) * int M \<le> 200000"
    using m M q by (simp add: distrib_right max_period_months_def)
  have suc: "int (Suc q) * int M = (?m div int M + 1) * int M" using q by simp
  have lim': "(?m div int M + 1) * int M \<le> month_limit" "?m < month_limit"
    using lim m unfolding suc by (simp_all add: month_limit_def)
  show "period_first_day M s q \<le> day_number e"
    unfolding period_first_day_def q using cal.period_start [OF vs ve le lim'(2), of "int M"] M by simp
  show "day_number e < period_first_day M s (Suc q)"
    unfolding period_first_day_def suc using cal.period_end [OF vs ve le _ lim'(1)] M by simp
  have "int (Suc q) * int M = int q * int M + int M" by (simp add: distrib_right)
  then show "period_first_day M s (Suc q) \<le> period_first_day M s q + 31 * int M + 3"
    unfolding period_first_day_def using addMonths_span [of s "int q * int M" M] vs lim
    by (simp add: month_limit_def)
qed

section \<open>Properties of the schedule\<close>

lemma sum_halves: "(\<Sum>i = 1..n. S div 2 ^ i) + S div 2 ^ n \<le> (S :: nat)"
proof (induction n)
  case (Suc n)
  have "2 * (S div 2 ^ Suc n) \<le> S div 2 ^ n" by (simp add: div_mult2_eq mult.commute [of 2])
  with Suc show ?case by simp
qed simp

lemma share_le: "a \<le> d \<Longrightarrow> l * a div d \<le> (l :: nat)"
  by (metis div_le_mono le0 mult_le_mono2 nonzero_mult_div_cancel_right div_by_0)

lemma emission_spec_between:
  assumes "chain_date s" "chain_date e" "day_number s \<le> day_number e" "0 < M" "M \<le> max_period_months"
  shows "(\<Sum>i = 1..elapsed_periods M s e. S div 2 ^ i) \<le> emission_spec S M s e"
    and "emission_spec S M s e \<le> (\<Sum>i = 1..Suc (elapsed_periods M s e). S div 2 ^ i)"
proof -
  note c = current_period [OF assms]
  show "(\<Sum>i = 1..elapsed_periods M s e. S div 2 ^ i) \<le> emission_spec S M s e"
    by (simp add: emission_spec_def Let_def)
  have "nat (day_number e - period_first_day M s (elapsed_periods M s e))
      \<le> nat (period_first_day M s (Suc (elapsed_periods M s e)) - period_first_day M s (elapsed_periods M s e))"
    using c by (intro nat_mono) simp
  then show "emission_spec S M s e \<le> (\<Sum>i = 1..Suc (elapsed_periods M s e). S div 2 ^ i)"
    unfolding emission_spec_def Let_def by (simp add: share_le)
qed

lemma emission_spec_le_supply:
  assumes "chain_date s" "chain_date e" "day_number s \<le> day_number e" "0 < M" "M \<le> max_period_months"
  shows "emission_spec S M s e \<le> S"
  using emission_spec_between(2) [OF assms, of S] sum_halves [of S "Suc (elapsed_periods M s e)"] by linarith

lemma elapsed_periods_mono:
  assumes "chain_date s" "chain_date e" "chain_date e'" "day_number s \<le> day_number e" "day_number e \<le> day_number e'"
  shows "elapsed_periods M s e \<le> elapsed_periods M s e'"
proof -
  have "monthsBetween s e \<le> monthsBetween s e'"
    using assms monthsBetween_le [of s e] monthsBetween_le [of s e']
    by (intro cal.between_mono) (auto simp: chain_date_def month_limit_def)
  then show ?thesis
    unfolding elapsed_periods_def by (cases "M = 0") (simp_all add: nat_mono zdiv_mono1)
qed

lemma emission_spec_mono:
  assumes "chain_date s" "chain_date e" "chain_date e'" "day_number s \<le> day_number e" "day_number e \<le> day_number e'"
    and "0 < M" "M \<le> max_period_months"
  shows "emission_spec S M s e \<le> emission_spec S M s e'"
proof (cases "elapsed_periods M s e = elapsed_periods M s e'")
  case True
  have "S div 2 ^ Suc q * nat (day_number e - a) div d \<le> S div 2 ^ Suc q * nat (day_number e' - a) div d" for q a d
    using assms(5) by (intro div_le_mono mult_le_mono2 nat_mono) simp
  with True show ?thesis by (simp add: emission_spec_def Let_def)
next
  case False
  then have q: "Suc (elapsed_periods M s e) \<le> elapsed_periods M s e'"
    using elapsed_periods_mono [of s e e' M] assms by simp
  have se': "day_number s \<le> day_number e'" using assms by simp
  have "emission_spec S M s e \<le> (\<Sum>i = 1..Suc (elapsed_periods M s e). S div 2 ^ i)"
    using assms by (intro emission_spec_between) auto
  also have "\<dots> \<le> (\<Sum>i = 1..elapsed_periods M s e'. S div 2 ^ i)"
    using q by (intro sum_mono2) auto
  also have "\<dots> \<le> emission_spec S M s e'"
    using assms se' by (intro emission_spec_between) auto
  finally show ?thesis .
qed

lemma emission_spec_boundary:
  assumes "chain_date s" "chain_date e" "day_number s \<le> day_number e" "0 < M" "M \<le> max_period_months"
    and "day_number e = period_first_day M s (elapsed_periods M s e)"
  shows "emission_spec S M s e = (\<Sum>i = 1..elapsed_periods M s e. S div 2 ^ i)"
  using assms(6) by (simp add: emission_spec_def Let_def)

section \<open>The code computes the schedule\<close>

lemma sint_u64: "unat (x :: u64) < 2 ^ 63 \<Longrightarrow> sint x = int (unat x)"
proof -
  assume "unat x < 2 ^ 63"
  then have "int (unat x) < 2 ^ 63" by (metis of_nat_less_numeral_power_cancel_iff of_nat_numeral)
  then have "signed_take_bit 63 (uint x) = uint x"
    by (intro signed_take_bit_int_eq_self) (rule order.trans [of _ 0], simp_all)
  then show ?thesis by (simp add: sint_uint)
qed

lemma sint_product:
  "unat (a :: u64) * unat b < 2 ^ 63 \<Longrightarrow> sint (a * b) = int (unat a) * int (unat b)"
  by (subst sint_u64) (simp_all add: unat_mult_u64)

text \<open>What the code's local variables hold, in terms of the specification.\<close>

lemma code_period:
  assumes s: "chain_date s" and e: "chain_date e" and le: "day_number s \<le> day_number e"
    and M: "0 < unat M" "unat M \<le> max_period_months"
  defines "q \<equiv> elapsed_periods (unat M) s e"
    and "c \<equiv> 1 + word_of_int (monthsBetween s e) div (M :: u64)"
  shows "unat c = Suc q" "c - 1 = word_of_nat q"
    and "day_number (addMonths s (sint ((c - 1) * M))) = period_first_day (unat M) s q"
    and "day_number (addMonths s (sint (c * M))) = period_first_day (unat M) s (Suc q)"
    and "valid_date (addMonths s (sint ((c - 1) * M)))" "valid_date (addMonths s (sint (c * M)))"
proof -
  let ?m = "monthsBetween s e"
  note cp = current_period [OF s e le M, folded q_def]
  have vs: "valid_date s" and ve: "valid_date e" using s e by (simp_all add: chain_date_def)
  have m: "0 \<le> ?m" "?m < 120000"
    using monthsBetween_before [OF vs ve] le monthsBetween_le [OF s e] by simp_all
  have lim: "Suc q * unat M \<le> 200000" using cp(2) by (metis of_nat_le_iff of_nat_mult of_nat_numeral)
  have "Suc q * 1 \<le> Suc q * unat M" using M by (intro mult_le_mono2) simp
  with lim have qle: "Suc q \<le> 200000" by simp
  have "unat (word_of_int ?m div M) = nat ?m div unat M"
    using m by (simp add: unat_div_u64 unat_of_int_u64)
  also have "\<dots> = q"
    unfolding q_def elapsed_periods_def using m by (simp add: nat_div_distrib)
  finally have uq: "unat (word_of_int ?m div M) = q" .
  show uc: "unat c = Suc q" unfolding c_def using qle uq by (subst unat_add_u64) simp_all
  have "c - 1 = word_of_nat (unat (word_of_int ?m div M))" by (simp add: c_def)
  then show c1: "c - 1 = word_of_nat q" unfolding uq .
  then have uc1: "unat (c - 1) = q" using qle by (simp add: unat_of_nat_u64)
  have s1: "sint ((c - 1) * M) = int q * int (unat M)"
    using lim uc1 by (subst sint_product) simp_all
  have s2: "sint (c * M) = int (Suc q) * int (unat M)"
    using lim uc by (subst sint_product) simp_all
  show "day_number (addMonths s (sint ((c - 1) * M))) = period_first_day (unat M) s q"
    "day_number (addMonths s (sint (c * M))) = period_first_day (unat M) s (Suc q)"
    unfolding s1 s2 by (simp_all add: period_first_day_def)
  have b: "\<bar>int q * int (unat M)\<bar> \<le> month_limit" "\<bar>int (Suc q) * int (unat M)\<bar> \<le> month_limit"
    using cp(2) unsigned_greater_eq [of M, where ?'a = int]
    unfolding month_limit_def by (simp_all add: distrib_right, linarith)
  show "valid_date (addMonths s (sint ((c - 1) * M)))" "valid_date (addMonths s (sint (c * M)))"
    unfolding s1 s2 using addMonths_valid [OF conjunct1 [OF vs]] b vs by blast+
qed

lemma day_before:
  assumes "valid_date t"
  shows "midnight (time_AddDate t 0 0 (-1))" "day_number (time_AddDate t 0 0 (-1)) = day_number t - 1"
  using assms time_Date_valid_date [of "t_year t" "t_month t" "t_day t - 1"]
  by (simp_all add: time_AddDate_midnight time_Date_day_number day_number_def [of t] t_index_def)

definition share_fits :: "nat \<Rightarrow> nat \<Rightarrow> gotime \<Rightarrow> gotime \<Rightarrow> bool" where
  "share_fits S M s e \<longleftrightarrow>
     (let q = elapsed_periods M s e in
      S div 2 ^ Suc q * nat (day_number e - period_first_day M s q) < 2 ^ 64)"

lemma totalDistributable_refines:
  fixes p :: params
  defines "M \<equiv> unat (p_MonthsInHalvingPeriod p)" and "S \<equiv> unat (p_MaxSupply p)"
  assumes s: "chain_date s" and e: "chain_date e" and le: "day_number s \<le> day_number e"
    and M: "0 < M" "M \<le> max_period_months"
    and fits: "share_fits S M s e"
  shows "\<exists>T. totalDistributable p s e (monthsBetween s e) = Ok T \<and> unat T = emission_spec S M s e"
proof -
  let ?q = "elapsed_periods M s e"
  define c where "c = 1 + word_of_int (monthsBetween s e) div p_MonthsInHalvingPeriod p"
  define ps where "ps = addMonths s (sint ((c - 1) * p_MonthsInHalvingPeriod p))"
  define pn where "pn = addMonths s (sint (c * p_MonthsInHalvingPeriod p))"
  let ?first = "period_first_day M s"
  note cp = current_period [OF s e le M]
  note code = code_period [OF s e le M [unfolded M_def], folded c_def M_def, folded ps_def pn_def]
  define days where "days = duration_days_u64 (time_Sub (time_AddDate pn 0 0 (-1)) ps) + 1"
  define elapsed where "elapsed = duration_days_u64 (time_Sub e ps)"
  have c0: "0 < c" using code(1) by (metis nat.simps(3) unat_0 word_neq_0_conv)
  have D: "0 < ?first (Suc ?q) - ?first ?q" "?first (Suc ?q) - ?first ?q - 1 \<le> max_duration_days"
    using cp M by (simp_all add: max_duration_days_val max_period_months_def)
  have "unat (duration_days_u64 (time_Sub (time_AddDate pn 0 0 (-1)) ps)) = nat (?first (Suc ?q) - ?first ?q - 1)"
    using days_between_dates [OF day_before(1) [OF code(6)] conjunct2 [OF code(5)]] D
    by (simp add: day_before(2) [OF code(6)] code(3,4) min_def algebra_simps)
  then have ud: "unat days = nat (?first (Suc ?q) - ?first ?q)"
    unfolding days_def using D by (subst unat_add_u64) (simp_all add: max_duration_days_val)
  have ue: "unat elapsed = nat (day_number e - ?first ?q)"
    unfolding elapsed_def using days_between_dates [of e ps] e code(3,5) cp D
    by (simp add: chain_date_def)
  have share: "unat (currentPeriodShare (halvingPeriodLimit (p_MaxSupply p) c) elapsed days) =
      S div 2 ^ Suc ?q * unat elapsed div unat days"
    using c0 cp code(1) fits
    by (subst currentPeriodShare_exact)
       (auto simp: halvingPeriodLimit_unat ud ue share_fits_def Let_def S_def)
  have prior: "unat (sumPeriods (p_MaxSupply p) c 1 0) = (\<Sum>i = 1..?q. S div 2 ^ i)"
    unfolding sumPeriods_eq [OF c0] code(1) S_def by (simp add: atLeastLessThanSuc_atLeastAtMost)
  have eq: "(\<Sum>i = 1..?q. S div 2 ^ i) + S div 2 ^ Suc ?q * unat elapsed div unat days = emission_spec S M s e"
    by (simp add: emission_spec_def Let_def ud ue)
  have "emission_spec S M s e < 2 ^ 64"
    using emission_spec_le_supply [OF s e le M, of S] unat_u64_less [of "p_MaxSupply p"] S_def by linarith
  then have "unat (sumPeriods (p_MaxSupply p) c 1 0 +
      currentPeriodShare (halvingPeriodLimit (p_MaxSupply p) c) elapsed days) = emission_spec S M s e"
    using share prior eq by (subst unat_add_u64) simp_all
  moreover have "p_MonthsInHalvingPeriod p \<noteq> 0" using M by (auto simp: M_def)
  ultimately show ?thesis
    using c0 by (simp add: totalDistributable_def Let_def days_def elapsed_def ps_def pn_def flip: c_def)
qed

text \<open>A bound on the parameters alone under which no share overflows.\<close>

definition schedule_fits :: "params \<Rightarrow> bool" where
  "schedule_fits p \<longleftrightarrow>
     0 < unat (p_MonthsInHalvingPeriod p) \<and> unat (p_MonthsInHalvingPeriod p) \<le> max_period_months \<and>
     unat (p_MaxSupply p) div 2 * (31 * unat (p_MonthsInHalvingPeriod p) + 3) < 2 ^ 64"

lemma schedule_fits_share:
  assumes "schedule_fits p" "chain_date s" "chain_date e" "day_number s \<le> day_number e"
  shows "share_fits (unat (p_MaxSupply p)) (unat (p_MonthsInHalvingPeriod p)) s e"
proof -
  let ?M = "unat (p_MonthsInHalvingPeriod p)" and ?S = "unat (p_MaxSupply p)"
  let ?q = "elapsed_periods ?M s e"
  have M: "0 < ?M" "?M \<le> max_period_months" using assms by (simp_all add: schedule_fits_def)
  note cp = current_period [OF assms(2-4) M]
  have "nat (day_number e - period_first_day ?M s ?q) \<le> nat (31 * int ?M + 3)"
    using cp by (intro nat_mono) simp
  moreover have "nat (31 * int n + 3) = 31 * n + 3" for n by simp
  note this [of ?M]
  moreover have "?S div 2 ^ Suc ?q \<le> ?S div 2 ^ 1" by (intro div_le_mono2 power_increasing) simp_all
  ultimately have "?S div 2 ^ Suc ?q * nat (day_number e - period_first_day ?M s ?q) \<le> ?S div 2 * (31 * ?M + 3)"
    unfolding power_one_right by (intro mult_le_mono) linarith+
  with assms(1) show ?thesis unfolding share_fits_def Let_def schedule_fits_def by linarith
qed

lemma schedule_fits_default: "schedule_fits DefaultParams"
  by (simp add: schedule_fits_def default_params_defs max_period_months_def)

section \<open>Facts that hold whatever the parameters are\<close>

lemma totalDistributable_le_max:
  assumes "totalDistributable p s e m = Ok T"
  shows "unat T \<le> unat (p_MaxSupply p)"
proof -
  define c where "c = 1 + word_of_int m div p_MonthsInHalvingPeriod p"
  show ?thesis
  proof (cases "c = 0")
    case True
    then have "T = sumPeriods (p_MaxSupply p) 0 1 0"
      using assms by (simp add: totalDistributable_def Let_def c_def split: if_splits)
    then show ?thesis by (simp add: sumPeriods.simps)
  next
    case False
    then have c0: "0 < c" by (simp add: word_neq_0_conv)
    with assms obtain l e d where l: "l = halvingPeriodLimit (p_MaxSupply p) c"
      and T: "T = sumPeriods (p_MaxSupply p) c 1 0 + currentPeriodShare l e d"
      by (fastforce simp: totalDistributable_def Let_def c_def split: if_splits)
    let ?S = "unat (p_MaxSupply p)"
    obtain n where n: "unat c = Suc n" using c0 by (metis False not0_implies_Suc unat_eq_0)
    have "(\<Sum>i = 1..<unat c. ?S div 2 ^ i) + ?S div 2 ^ unat c \<le> ?S"
      using sum_halves [of ?S "unat c"] unfolding n by (simp add: atLeastLessThanSuc_atLeastAtMost)
    moreover have "unat l = ?S div 2 ^ unat c" unfolding l using False by (rule halvingPeriodLimit_unat)
    ultimately have "unat (sumPeriods (p_MaxSupply p) c 1 0) + unat (currentPeriodShare l e d) \<le> ?S"
      using sumPeriods_eq [OF c0, of "p_MaxSupply p"] currentPeriodShare_le [of l e d] by linarith
    then show ?thesis
      unfolding T using unat_u64_less [of "p_MaxSupply p"] by (subst unat_add_u64) simp_all
  qed
qed

lemma parseDate_chain_date: "parseDate str = Ok t \<Longrightarrow> chain_date t"
  unfolding parseDate_def chain_date_def using time_Parse_Ok [of str t] by simp

lemma validateMintingLimits_Ok:
  assumes "validateMintingLimits L ctx cs a p = Ok ()"
  obtains s e T sum where "parseDate (p_DistributionStartDate p) = Ok s"
    "parseDate (time_Format (ctx_BlockTime ctx)) = Ok e"
    "day_number s \<le> day_number e" "totalDistributable p s e (monthsBetween s e) = Ok T"
    "math_UintAdd L a cs = Ok sum" "\<not> math_UintGT L sum (math_NewUint L T)"
proof -
  from assms obtain s e T sum where *: "parseDate (p_DistributionStartDate p) = Ok s"
    "parseDate (time_Format (ctx_BlockTime ctx)) = Ok e" "\<not> monthsBetween s e < 0"
    "totalDistributable p s e (monthsBetween s e) = Ok T"
    "math_UintAdd L a cs = Ok sum" "\<not> math_UintGT L sum (math_NewUint L T)"
    by (auto simp: validateMintingLimits_def bindO_eq_Ok Let_def split: if_splits)
  moreover from * have "day_number s \<le> day_number e"
    using monthsBetween_before [of s e] parseDate_chain_date by (auto simp: chain_date_def)
  ultimately show thesis using that by blast
qed

end
