(* ===== verification/Distro_Keeper.thy ===== *)
theory Distro_Keeper
  imports Distro_Emission
begin

text \<open>
  The keeper of the distro module (\<^verbatim>\<open>x/distro/keeper\<close>): construction, authorisation, the
  two transactions \<open>Mint\<close> and \<open>UpdateParams\<close>, genesis import and export and the parameter
  query. Every handler is an action on the chain state.
\<close>

section \<open>The keeper\<close>

text \<open>
  The store service, the codec and the schema are handles of the SDK that only the
  construction of the parameter item uses; the account keeper is never called.
\<close>

record 's keeper =
  k_addressCodec :: address_codec
  k_authority :: bytes
  k_Params :: "('s, params) store_item"
  k_bankKeeper :: "'s bank_keeper"

text \<open>\<open>schema\<close> is the result of building the collections schema, which \<open>NewKeeper\<close> checks.\<close>

definition NewKeeper ::
  "('s, params) store_item \<Rightarrow> unit outcome \<Rightarrow> address_codec \<Rightarrow> bytes \<Rightarrow> 's bank_keeper \<Rightarrow> 's keeper outcome" where
  "NewKeeper paramsItem schema addressCodec authority bankKeeper =
     (case addr_BytesToString addressCodec authority of
        Err e \<Rightarrow> Panic ''invalid authority address''
      | Panic m \<Rightarrow> Panic m
      | Ok _ \<Rightarrow>
          (case schema of
             Err e \<Rightarrow> Panic ''schema''
           | Panic m \<Rightarrow> Panic m
           | Ok _ \<Rightarrow> Ok \<lparr>k_addressCodec = addressCodec, k_authority = authority,
                        k_Params = paramsItem, k_bankKeeper = bankKeeper\<rparr>))"

definition GetAuthority :: "'s keeper \<Rightarrow> bytes" where
  "GetAuthority k = k_authority k"

definition IsAuthorized :: "'s keeper \<Rightarrow> params \<Rightarrow> bytes \<Rightarrow> bool outcome" where
  "IsAuthorized k params signerBytes =
     (case addr_StringToBytes (k_addressCodec k) (p_MintingAddress params) of
        Err _ \<Rightarrow> Ok False
      | Panic m \<Rightarrow> Panic m
      | Ok mintingBytes \<Rightarrow> Ok (mintingBytes = signerBytes))"

section \<open>Minting\<close>

definition depositCoins :: "'s keeper \<Rightarrow> cosmos_lib \<Rightarrow> string \<Rightarrow> u64 \<Rightarrow> string \<Rightarrow> ('s, unit) action" where
  "depositCoins k L toAddress amount denom =
     bindA (liftO (replaceErr (ErrInvalidAddress ''invalid address'')
                     (addr_StringToBytes (k_addressCodec k) toAddress))) (\<lambda>acctBytes.
     bindA (liftO (sdk_NewCoin L denom (math_NewIntFromUint64 L amount))) (\<lambda>c.
     bindA (liftO (sdk_NewCoins L [c])) (\<lambda>coins.
     bank_SendCoinsFromModuleToAccount (k_bankKeeper k) ModuleName acctBytes coins)))"

definition Mint :: "'s keeper \<Rightarrow> cosmos_lib \<Rightarrow> sdk_context \<Rightarrow> msg_mint \<Rightarrow> ('s, unit) action" where
  "Mint k L ctx msg =
     bindA (liftO (wrapErr ''invalid signer address''
                     (addr_StringToBytes (k_addressCodec k) (mm_Signer msg)))) (\<lambda>signerBytes.
     bindA (readA (\<lambda>s. replaceErr (ErrNotFound ''module params not initialized'')
                         (item_Get (k_Params k) s))) (\<lambda>params.
     bindA (liftO (IsAuthorized k params signerBytes)) (\<lambda>authorized.
     if \<not> authorized then liftO (Err (ErrUnauthorized ''unauthorized sender''))
     else
       bindA (readA (\<lambda>s. math_IntUint64 L (coin_Amount (bank_GetSupply (k_bankKeeper k) s (p_Denom params))))) (\<lambda>supply64.
       let currentSupply = math_NewUint L supply64;
           msgAmount = math_NewUint L (mm_Amount msg)
       in
       bindA (liftO (math_UintAdd L currentSupply msgAmount)) (\<lambda>newSupply.
       if math_UintGT L newSupply (math_NewUint L (p_MaxSupply params))
       then liftO (Err (ErrInvalidRequest ''max supply exceeded''))
       else
         bindA (liftO (validateMintingLimits L ctx currentSupply msgAmount params)) (\<lambda>_.
         bindA (liftO (math_UintUint64 L msgAmount)) (\<lambda>amount64.
         bindA (liftO (sdk_NewCoin L (p_Denom params) (math_NewIntFromUint64 L amount64))) (\<lambda>c.
         bindA (liftO (sdk_NewCoins L [c])) (\<lambda>coins.
         bindA (bank_MintCoins (k_bankKeeper k) ModuleName coins) (\<lambda>_.
         bindA (depositCoins k L (p_ReceivingAddress params) (mm_Amount msg) (p_Denom params)) (\<lambda>_.
         returnA ())))))))))))"

section \<open>Updating the parameters\<close>

definition UpdateParams :: "'s keeper \<Rightarrow> cosmos_lib \<Rightarrow> msg_update_params \<Rightarrow> ('s, unit) action" where
  "UpdateParams k L req =
     bindA (liftO (wrapErr ''invalid authority address''
                     (addr_StringToBytes (k_addressCodec k) (mu_Authority req)))) (\<lambda>authority.
     if GetAuthority k \<noteq> authority
     then (case addr_BytesToString (k_addressCodec k) (GetAuthority k) of
             Panic m \<Rightarrow> liftO (Panic m)
           | Ok expected \<Rightarrow> liftO (Err (ErrInvalidSigner_distro
               (''invalid authority; expected '' @ expected @ '', got '' @ mu_Authority req)))
           | Err _ \<Rightarrow> liftO (Err (ErrInvalidSigner_distro
               (''invalid authority; expected , got '' @ mu_Authority req))))
     else
       bindA (liftO (Params_Validate L (mu_Params req))) (\<lambda>_.
       bindA (item_Set (k_Params k) (mu_Params req)) (\<lambda>_.
       returnA ())))"

section \<open>Genesis and query\<close>

definition InitGenesis :: "'s keeper \<Rightarrow> genesis_state \<Rightarrow> ('s, unit) action" where
  "InitGenesis k genState = item_Set (k_Params k) (gs_Params genState)"

definition ExportGenesis :: "'s keeper \<Rightarrow> ('s, genesis_state) action" where
  "ExportGenesis k =
     bindA (readA (item_Get (k_Params k))) (\<lambda>p. returnA (DefaultGenesis\<lparr>gs_Params := p\<rparr>))"

text \<open>A request is the address of a message or nil; its message has no fields.\<close>

definition Query_Params :: "'s keeper \<Rightarrow> unit option \<Rightarrow> ('s, params) action" where
  "Query_Params k req =
     (case req of
        None \<Rightarrow> liftO (Err (ErrStatus InvalidArgument ''invalid request''))
      | Some _ \<Rightarrow> readA (\<lambda>s.
          case item_Get (k_Params k) s of
            Ok params \<Rightarrow> Ok params
          | Err e \<Rightarrow> (if errors_Is e collections_ErrNotFound
                     then Err (ErrStatus NotFound ''module params not initialized'')
                     else Err (ErrStatus Internal ''internal error''))
          | Panic m \<Rightarrow> Panic m))"

section \<open>What a successful transaction has done\<close>

lemma IsAuthorized_Ok:
  "IsAuthorized k p b = Ok a \<Longrightarrow>
     a \<longleftrightarrow> addr_StringToBytes (k_addressCodec k) (p_MintingAddress p) = Ok b"
  by (auto simp: IsAuthorized_def split: outcome.splits)

lemma depositCoins_eq_Ok:
  "depositCoins k L to amt d s = (s', Ok ()) \<longleftrightarrow>
     (\<exists>acct c cs. addr_StringToBytes (k_addressCodec k) to = Ok acct \<and>
        sdk_NewCoin L d (math_NewIntFromUint64 L amt) = Ok c \<and> sdk_NewCoins L [c] = Ok cs \<and>
        bank_SendCoinsFromModuleToAccount (k_bankKeeper k) ModuleName acct cs s = (s', Ok ()))"
  by (auto simp: depositCoins_def outcome_inv)

text \<open>
  The effects of a successful mint, unfolded once: who signed, which checks passed, and the two
  bank calls that follow.
\<close>

lemma Mint_Ok:
  assumes "Mint k L ctx msg s = (s', Ok ())"
  obtains p signer sup sum s1 c cs acct c' cs' a64 where
    "addr_StringToBytes (k_addressCodec k) (mm_Signer msg) = Ok signer"
    "item_Get (k_Params k) s = Ok p"
    "addr_StringToBytes (k_addressCodec k) (p_MintingAddress p) = Ok signer"
    "math_IntUint64 L (coin_Amount (bank_GetSupply (k_bankKeeper k) s (p_Denom p))) = Ok sup"
    "math_UintAdd L (math_NewUint L sup) (math_NewUint L (mm_Amount msg)) = Ok sum"
    "\<not> math_UintGT L sum (math_NewUint L (p_MaxSupply p))"
    "validateMintingLimits L ctx (math_NewUint L sup) (math_NewUint L (mm_Amount msg)) p = Ok ()"
    "math_UintUint64 L (math_NewUint L (mm_Amount msg)) = Ok a64"
    "sdk_NewCoin L (p_Denom p) (math_NewIntFromUint64 L a64) = Ok c" "sdk_NewCoins L [c] = Ok cs"
    "bank_MintCoins (k_bankKeeper k) ModuleName cs s = (s1, Ok ())"
    "addr_StringToBytes (k_addressCodec k) (p_ReceivingAddress p) = Ok acct"
    "sdk_NewCoin L (p_Denom p) (math_NewIntFromUint64 L (mm_Amount msg)) = Ok c'" "sdk_NewCoins L [c'] = Ok cs'"
    "bank_SendCoinsFromModuleToAccount (k_bankKeeper k) ModuleName acct cs' s1 = (s', Ok ())"
proof -
  from assms show thesis
    unfolding Mint_def Let_def outcome_inv if_distrib [of "\<lambda>m. m _"]
    by (auto simp: outcome_inv depositCoins_eq_Ok dest!: IsAuthorized_Ok split: if_splits intro: that)
qed

lemma UpdateParams_eq_Ok:
  "UpdateParams k L req s = (s', Ok ()) \<longleftrightarrow>
     addr_StringToBytes (k_addressCodec k) (mu_Authority req) = Ok (k_authority k) \<and>
     Params_Validate L (mu_Params req) = Ok () \<and>
     item_Set (k_Params k) (mu_Params req) s = (s', Ok ())"
  by (auto simp: UpdateParams_def GetAuthority_def outcome_inv split: if_splits outcome.splits)

section \<open>The effect of a successful mint on the bank\<close>

lemma coin_laws_single:
  assumes "math_laws L" "coin_laws L" "sdk_NewCoin L d (math_NewIntFromUint64 L a) = Ok c" "sdk_NewCoins L [c] = Ok cs"
  shows "coins_amount d cs = uint a" "d' \<noteq> d \<Longrightarrow> coins_amount d' cs = 0" "is_ok (sdk_ValidateDenom L d)"
proof -
  show ok: "is_ok (sdk_ValidateDenom L d)"
  proof (rule ccontr)
    assume "\<not> is_ok (sdk_ValidateDenom L d)"
    with assms(2) obtain m where "sdk_NewCoin L d (math_NewIntFromUint64 L a) = Panic m"
      unfolding coin_laws_def by blast
    with assms(3) show False by simp
  qed
  have u: "math_NewIntFromUint64 L a = uint a" using assms(1) by (simp add: math_laws_simps)
  have "c = \<lparr>coin_Denom = d, coin_Amount = uint a\<rparr>"
    "cs = (if uint a = 0 then [] else [\<lparr>coin_Denom = d, coin_Amount = uint a\<rparr>])"
    using assms(2-4) ok unfolding coin_laws_def u by force+
  then show "coins_amount d cs = uint a" "d' \<noteq> d \<Longrightarrow> coins_amount d' cs = 0" by auto
qed

lemma supply_fits:
  assumes "math_laws L" "math_IntUint64 L i = Ok x"
  shows "i = uint x"
proof -
  have range: "0 \<le> i" "i < 2 ^ 64"
    using assms unfolding math_laws_def by (metis outcome.distinct(3) not_le)+
  then have i: "uint (word_of_int i :: u64) = i" by (simp add: uint_word_of_int)
  then have "math_IntUint64 L i = Ok (word_of_int i)" using math_laws_simps(5) [OF assms(1), of "word_of_int i"] by simp
  with assms(2) i show ?thesis by simp
qed

lemma Mint_effect:
  assumes laws: "math_laws L" "coin_laws L" "bank_mint_laws (k_bankKeeper k) modAddr" "bank_send_laws (k_bankKeeper k) modAddr"
    and mint: "Mint k L ctx msg s = (s', Ok ())"
  obtains p acct where "item_Get (k_Params k) s = Ok p"
    "addr_StringToBytes (k_addressCodec k) (p_ReceivingAddress p) = Ok acct"
    "\<forall>d. coin_Amount (bank_GetSupply (k_bankKeeper k) s' d) =
        coin_Amount (bank_GetSupply (k_bankKeeper k) s d) + (if d = p_Denom p then uint (mm_Amount msg) else 0)"
    "\<forall>a d. coin_Amount (bank_GetBalance (k_bankKeeper k) s' a d) =
        coin_Amount (bank_GetBalance (k_bankKeeper k) s a d)
        + (if a = acct \<and> d = p_Denom p then uint (mm_Amount msg) else 0)"
proof -
  from mint obtain p s1 c cs acct c' cs' a64 where m:
    "item_Get (k_Params k) s = Ok p" "math_UintUint64 L (math_NewUint L (mm_Amount msg)) = Ok a64"
    "sdk_NewCoin L (p_Denom p) (math_NewIntFromUint64 L a64) = Ok c" "sdk_NewCoins L [c] = Ok cs"
    "bank_MintCoins (k_bankKeeper k) ModuleName cs s = (s1, Ok ())"
    "addr_StringToBytes (k_addressCodec k) (p_ReceivingAddress p) = Ok acct"
    "sdk_NewCoin L (p_Denom p) (math_NewIntFromUint64 L (mm_Amount msg)) = Ok c'" "sdk_NewCoins L [c'] = Ok cs'"
    "bank_SendCoinsFromModuleToAccount (k_bankKeeper k) ModuleName acct cs' s1 = (s', Ok ())"
    by (rule Mint_Ok)
  have a64: "a64 = mm_Amount msg" using m(2) laws(1) by (simp add: math_laws_simps)
  have cs: "coins_amount d cs = (if d = p_Denom p then uint (mm_Amount msg) else 0)" for d
    using coin_laws_single [OF laws(1,2) m(3,4)] a64 by simp
  have cs': "coins_amount d cs' = (if d = p_Denom p then uint (mm_Amount msg) else 0)" for d
    using coin_laws_single [OF laws(1,2) m(7,8)] by simp
  note mint1 = laws(3) [unfolded bank_mint_laws_def, rule_format, OF m(5), unfolded cs]
  note send1 = laws(4) [unfolded bank_send_laws_def, rule_format, OF m(9), unfolded cs']
  show thesis
  proof (rule that [OF m(1) m(6)])
    show "\<forall>d. coin_Amount (bank_GetSupply (k_bankKeeper k) s' d) =
        coin_Amount (bank_GetSupply (k_bankKeeper k) s d) + (if d = p_Denom p then uint (mm_Amount msg) else 0)"
      using mint1 send1 by simp
    show "\<forall>a d. coin_Amount (bank_GetBalance (k_bankKeeper k) s' a d) =
        coin_Amount (bank_GetBalance (k_bankKeeper k) s a d)
        + (if a = acct \<and> d = p_Denom p then uint (mm_Amount msg) else 0)"
      using mint1 send1 by simp
  qed
qed

text \<open>The supply after a mint is within the schedule's total at the block's date.\<close>

lemma Mint_within_total:
  assumes laws: "math_laws L" "coin_laws L" "bank_mint_laws (k_bankKeeper k) modAddr" "bank_send_laws (k_bankKeeper k) modAddr"
    and mint: "Mint k L ctx msg s = (s', Ok ())"
  obtains p st e T where "item_Get (k_Params k) s = Ok p"
    "parseDate (p_DistributionStartDate p) = Ok st" "parseDate (time_Format (ctx_BlockTime ctx)) = Ok e"
    "day_number st \<le> day_number e" "totalDistributable p st e (monthsBetween st e) = Ok T"
    "coin_Amount (bank_GetSupply (k_bankKeeper k) s' (p_Denom p)) \<le> uint T"
proof -
  from mint obtain p sup where m: "item_Get (k_Params k) s = Ok p"
    "math_IntUint64 L (coin_Amount (bank_GetSupply (k_bankKeeper k) s (p_Denom p))) = Ok sup"
    "validateMintingLimits L ctx (math_NewUint L sup) (math_NewUint L (mm_Amount msg)) p = Ok ()"
    by (rule Mint_Ok)
  from m(3) obtain st e T sum where v: "parseDate (p_DistributionStartDate p) = Ok st"
    "parseDate (time_Format (ctx_BlockTime ctx)) = Ok e" "day_number st \<le> day_number e"
    "totalDistributable p st e (monthsBetween st e) = Ok T"
    "math_UintAdd L (math_NewUint L (mm_Amount msg)) (math_NewUint L sup) = Ok sum"
    "\<not> math_UintGT L sum (math_NewUint L T)"
    by (rule validateMintingLimits_Ok)
  from laws mint obtain p' where e: "item_Get (k_Params k) s = Ok p'"
    "coin_Amount (bank_GetSupply (k_bankKeeper k) s' (p_Denom p')) =
     coin_Amount (bank_GetSupply (k_bankKeeper k) s (p_Denom p')) + uint (mm_Amount msg)"
    by (rule Mint_effect) simp
  have "unat (mm_Amount msg) + unat sup \<le> unat T"
    using v(5,6) laws(1) unat_add_256 [of "mm_Amount msg" sup] by (simp add: math_laws_simps)
  then have "int (unat (mm_Amount msg) + unat sup) \<le> int (unat T)" by (simp only: of_nat_le_iff)
  moreover have "p' = p" using e(1) m(1) by simp
  ultimately have "coin_Amount (bank_GetSupply (k_bankKeeper k) s' (p_Denom p)) \<le> uint T"
    using e(2) supply_fits [OF laws(1) m(2)] by simp
  with m(1) v(1-4) that show thesis by blast
qed

lemma Mint_params_unchanged:
  assumes "bank_frame (k_bankKeeper k) (k_Params k)" "Mint k L ctx msg s = (s', Ok ())"
  shows "item_Get (k_Params k) s' = item_Get (k_Params k) s"
  using assms(2) by (rule Mint_Ok) (metis assms(1) bank_frame_def)

section \<open>Failing runs and successful ones\<close>

text \<open>A run of \<open>Mint\<close> that wrote to the store, whatever its outcome, has passed every check.\<close>

lemma Mint_changed:
  assumes "Mint k L ctx msg s = (s', r)" "s' \<noteq> s"
  shows "\<exists>p signer sup. addr_StringToBytes (k_addressCodec k) (mm_Signer msg) = Ok signer \<and>
    item_Get (k_Params k) s = Ok p \<and>
    addr_StringToBytes (k_addressCodec k) (p_MintingAddress p) = Ok signer \<and>
    math_IntUint64 L (coin_Amount (bank_GetSupply (k_bankKeeper k) s (p_Denom p))) = Ok sup \<and>
    validateMintingLimits L ctx (math_NewUint L sup) (math_NewUint L (mm_Amount msg)) p = Ok ()"
proof -
  from assms obtain signer p where sp:
    "addr_StringToBytes (k_addressCodec k) (mm_Signer msg) = Ok signer"
    "item_Get (k_Params k) s = Ok p" and
    auth: "IsAuthorized k p signer = Ok True"
    unfolding Mint_def
    by (auto dest!: bindA_liftO_changed bindA_readA_changed simp: liftO_def split: if_splits)
  from assms obtain sup where
    "math_IntUint64 L (coin_Amount (bank_GetSupply (k_bankKeeper k) s (p_Denom p))) = Ok sup"
    "validateMintingLimits L ctx (math_NewUint L sup) (math_NewUint L (mm_Amount msg)) p = Ok ()"
    unfolding Mint_def using sp auth
    by (auto dest!: bindA_liftO_changed bindA_readA_changed simp: liftO_def Let_def split: if_splits)
  with sp IsAuthorized_Ok [OF auth] show ?thesis by auto
qed

lemma UpdateParams_changed:
  assumes "UpdateParams k L req s = (s', r)" "s' \<noteq> s"
  shows "addr_StringToBytes (k_addressCodec k) (mu_Authority req) = Ok (k_authority k) \<and>
    Params_Validate L (mu_Params req) = Ok ()"
  using assms unfolding UpdateParams_def GetAuthority_def
  by (auto dest!: bindA_liftO_changed simp: liftO_def split: if_splits outcome.splits)

text \<open>A request that meets every condition is carried out, if the bank accepts its two calls.\<close>

lemma Mint_succeeds:
  fixes k :: "'s keeper" and L :: cosmos_lib and msg :: msg_mint and p :: params and cur :: u64
  defines "B \<equiv> k_bankKeeper k" and "cs \<equiv> (if mm_Amount msg = 0 then [] else
      [\<lparr>coin_Denom = p_Denom p, coin_Amount = uint (mm_Amount msg)\<rparr>])"
  assumes laws: "math_laws L" "coin_laws L"
    and auth: "addr_StringToBytes (k_addressCodec k) (mm_Signer msg) = Ok signer"
      "item_Get (k_Params k) s = Ok p"
      "addr_StringToBytes (k_addressCodec k) (p_MintingAddress p) = Ok signer"
    and denom: "is_ok (sdk_ValidateDenom L (p_Denom p))"
    and limits: "coin_Amount (bank_GetSupply B s (p_Denom p)) = uint cur"
      "unat cur + unat (mm_Amount msg) \<le> unat (p_MaxSupply p)"
      "validateMintingLimits L ctx (unat cur) (unat (mm_Amount msg)) p = Ok ()"
    and bank: "bank_MintCoins B ModuleName cs s = (s1, Ok ())"
      "addr_StringToBytes (k_addressCodec k) (p_ReceivingAddress p) = Ok acct"
      "bank_SendCoinsFromModuleToAccount B ModuleName acct cs s1 = (s', Ok ())"
  shows "Mint k L ctx msg s = (s', Ok ())"
proof -
  have nc: "sdk_NewCoin L (p_Denom p) (uint (mm_Amount msg)) = Ok \<lparr>coin_Denom = p_Denom p, coin_Amount = uint (mm_Amount msg)\<rparr>"
    "sdk_NewCoins L [\<lparr>coin_Denom = p_Denom p, coin_Amount = uint (mm_Amount msg)\<rparr>] = Ok cs"
    using laws(2) denom by (auto simp: coin_laws_def cs_def uint_0_iff)
  have dep: "depositCoins k L (p_ReceivingAddress p) (mm_Amount msg) (p_Denom p) s1 = (s', Ok ())"
    using bank nc laws(1) by (simp add: depositCoins_eq_Ok math_laws_simps B_def)
  have au: "IsAuthorized k p signer = Ok True" using auth by (simp add: IsAuthorized_def)
  have add: "math_UintAdd L (unat cur) (unat (mm_Amount msg)) = Ok (unat cur + unat (mm_Amount msg))"
    by (rule math_laws_simps(2) [OF laws(1) unat_add_256])
  show ?thesis
    unfolding Mint_def
    by (simp add: bindA_def outcome_simps auth au add limits bank(1) nc dep laws(1) math_laws_simps Let_def flip: B_def
        del: not_less) (use limits(2) in simp)
qed

end
