(* ===== verification/Distro_Chain.thy ===== *)
theory Distro_Chain
  imports Distro_Keeper
begin

text \<open>
  The distro module as a state machine: blocks follow each other in time, and within a block
  the module's transactions run one after the other. A transaction that fails is rolled back by
  the SDK and is no step. The invariants are proved by rule induction over the reachable states.
\<close>

section \<open>Block times\<close>

definition chain_time :: "gotime \<Rightarrow> bool" where
  "chain_time t \<longleftrightarrow> valid_time t \<and> 0 \<le> t_year t \<and> t_year t \<le> 9999"

definition block_date :: "gotime \<Rightarrow> gotime" where
  "block_date t = mk_date (t_year t) (t_month t) (t_day t)"

lemma block_date_parse: "chain_time t \<Longrightarrow> parseDate (time_Format t) = Ok (block_date t)"
  by (simp add: chain_time_def parseDate_def block_date_def time_Parse_Format)

lemma block_date_chain: "chain_time t \<Longrightarrow> chain_date (block_date t)"
  using block_date_parse parseDate_chain_date by blast

lemma block_date_day: "day_number (block_date t) = day_number t"
  by (simp add: day_number_def t_index_def block_date_def)

lemma instant_day_mono:
  assumes "valid_time t" "valid_time u" "instant t \<le> instant u"
  shows "day_number t \<le> day_number u"
proof (rule ccontr)
  assume "\<not> day_number t \<le> day_number u"
  then have "(day_number u + 1) * ns_per_day \<le> day_number t * ns_per_day"
    by (intro mult_right_mono less_imp_le [OF ns_per_day_pos(1)]) simp
  moreover have "ns_of_day u < ns_per_day" "0 \<le> ns_of_day t"
    using assms(1,2) by (simp_all add: valid_time_def ns_of_day_def ns_per_day_def)
  ultimately show False using assms(3) by (simp add: instant_def distrib_right)
qed

section \<open>Steps\<close>

inductive distro_step ::
  "'s keeper \<Rightarrow> cosmos_lib \<Rightarrow> 's \<times> sdk_context \<Rightarrow> 's \<times> sdk_context \<Rightarrow> bool"
  for k :: "'s keeper" and L :: cosmos_lib where
  step_mint: "Mint k L ctx msg s = (s', Ok ()) \<Longrightarrow> distro_step k L (s, ctx) (s', ctx)"
| step_update: "UpdateParams k L req s = (s', Ok ()) \<Longrightarrow> distro_step k L (s, ctx) (s', ctx)"
| step_block: "chain_time (ctx_BlockTime ctx') \<Longrightarrow> instant (ctx_BlockTime ctx) \<le> instant (ctx_BlockTime ctx') \<Longrightarrow>
    distro_step k L (s, ctx) (s, ctx')"

inductive_cases distro_stepE [consumes 1, case_names mint update block]: "distro_step k L (s, ctx) (s', ctx')"

text \<open>The steps between two changes of the parameters.\<close>

inductive mint_step ::
  "'s keeper \<Rightarrow> cosmos_lib \<Rightarrow> 's \<times> sdk_context \<Rightarrow> 's \<times> sdk_context \<Rightarrow> bool"
  for k :: "'s keeper" and L :: cosmos_lib where
  mint_tx: "Mint k L ctx msg s = (s', Ok ()) \<Longrightarrow> mint_step k L (s, ctx) (s', ctx)"
| mint_block: "chain_time (ctx_BlockTime ctx') \<Longrightarrow> instant (ctx_BlockTime ctx) \<le> instant (ctx_BlockTime ctx') \<Longrightarrow>
    mint_step k L (s, ctx) (s, ctx')"

inductive_cases mint_stepE [consumes 1, case_names mint block]: "mint_step k L (s, ctx) (s', ctx')"

lemma mint_step_distro: "mint_step k L c c' \<Longrightarrow> distro_step k L c c'"
  by (auto elim!: mint_step.cases intro: distro_step.intros)

section \<open>The stored parameters stay valid\<close>

definition params_valid :: "'s keeper \<Rightarrow> cosmos_lib \<Rightarrow> 's \<Rightarrow> bool" where
  "params_valid k L s \<longleftrightarrow>
     (case item_Get (k_Params k) s of Ok p \<Rightarrow> Params_Validate L p = Ok () | _ \<Rightarrow> False)"

lemma distro_step_params_valid:
  assumes "item_laws (k_Params k)" "bank_frame (k_bankKeeper k) (k_Params k)"
    and "distro_step k L (s, ctx) (s', ctx')" "params_valid k L s"
  shows "params_valid k L s'"
  using assms(3)
proof (cases rule: distro_stepE)
  case (mint msg)
  then show ?thesis using Mint_params_unchanged [OF assms(2)] assms(4) by (simp add: params_valid_def)
next
  case (update req)
  then have "Params_Validate L (mu_Params req) = Ok ()" "item_Get (k_Params k) s' = Ok (mu_Params req)"
    using assms(1) by (auto simp: UpdateParams_eq_Ok item_laws_def)
  then show ?thesis by (simp add: params_valid_def)
qed (use assms(4) in simp)

lemma distro_reachable_params_valid:
  assumes "item_laws (k_Params k)" "bank_frame (k_bankKeeper k) (k_Params k)"
    and "(distro_step k L)\<^sup>*\<^sup>* c c'" "params_valid k L (fst c)"
  shows "params_valid k L (fst c')"
  using assms(3,4)
proof (induction rule: rtranclp_induct)
  case (step c1 c2)
  then show ?case using distro_step_params_valid [OF assms(1,2)] by (metis prod.collapse)
qed

section \<open>The supply stays within the schedule\<close>

definition emission_limit :: "params \<Rightarrow> gotime \<Rightarrow> nat" where
  "emission_limit p t =
     (case parseDate (p_DistributionStartDate p) of
        Ok st \<Rightarrow> (if day_number (block_date t) < day_number st then 0
                  else emission_spec (unat (p_MaxSupply p)) (unat (p_MonthsInHalvingPeriod p)) st (block_date t))
      | _ \<Rightarrow> 0)"

lemma emission_limit_mono:
  assumes "schedule_fits p" "chain_time t" "chain_time u" "instant t \<le> instant u"
  shows "emission_limit p t \<le> emission_limit p u"
proof (cases "parseDate (p_DistributionStartDate p)")
  case (Ok st)
  have "day_number (block_date t) \<le> day_number (block_date u)"
    using assms instant_day_mono [of t u] by (simp add: chain_time_def block_date_day)
  moreover have "chain_date st" using Ok by (rule parseDate_chain_date)
  ultimately show ?thesis
    using Ok assms block_date_chain emission_spec_mono [of st "block_date t" "block_date u"]
    by (simp add: emission_limit_def schedule_fits_def)
qed (simp_all add: emission_limit_def)

lemma emission_limit_le_max:
  assumes "schedule_fits p" "chain_time t"
  shows "emission_limit p t \<le> unat (p_MaxSupply p)"
  using assms block_date_chain [OF assms(2)] parseDate_chain_date
  by (auto simp: emission_limit_def schedule_fits_def intro: emission_spec_le_supply split: outcome.split)

lemma totalDistributable_limit:
  assumes "schedule_fits p" "chain_time t" "parseDate (p_DistributionStartDate p) = Ok st"
    and "day_number st \<le> day_number (block_date t)"
    and "totalDistributable p st (block_date t) (monthsBetween st (block_date t)) = Ok T"
  shows "unat T = emission_limit p t"
proof -
  have c: "chain_date st" "chain_date (block_date t)"
    using assms parseDate_chain_date block_date_chain by auto
  have "share_fits (unat (p_MaxSupply p)) (unat (p_MonthsInHalvingPeriod p)) st (block_date t)"
    by (rule schedule_fits_share) (use assms c in auto)
  then show ?thesis
    using totalDistributable_refines [OF c assms(4), of p] assms by (auto simp: emission_limit_def schedule_fits_def)
qed

text \<open>A mint leaves the supply at or below the limit of its block, wherever it was before.\<close>

lemma Mint_within_limit:
  assumes laws: "math_laws L" "coin_laws L" "bank_mint_laws (k_bankKeeper k) modAddr" "bank_send_laws (k_bankKeeper k) modAddr"
    and fits: "schedule_fits p" and t: "chain_time (ctx_BlockTime ctx)" and p: "item_Get (k_Params k) s = Ok p"
    and mint: "Mint k L ctx msg s = (s', Ok ())"
  shows "coin_Amount (bank_GetSupply (k_bankKeeper k) s' (p_Denom p)) \<le> int (emission_limit p (ctx_BlockTime ctx))"
proof -
  from laws mint obtain p' st e T where m: "item_Get (k_Params k) s = Ok p'"
    "parseDate (p_DistributionStartDate p') = Ok st" "parseDate (time_Format (ctx_BlockTime ctx)) = Ok e"
    "day_number st \<le> day_number e" "totalDistributable p' st e (monthsBetween st e) = Ok T"
    "coin_Amount (bank_GetSupply (k_bankKeeper k) s' (p_Denom p')) \<le> uint T"
    by (rule Mint_within_total)
  have eq: "p' = p" "e = block_date (ctx_BlockTime ctx)"
    using m(1,3) p block_date_parse [OF t] by simp_all
  have "unat T = emission_limit p (ctx_BlockTime ctx)"
    using totalDistributable_limit [OF fits t] m eq by simp
  then have "uint T = int (emission_limit p (ctx_BlockTime ctx))" by (metis of_nat_unat)
  with m(6) eq show ?thesis by simp
qed

definition supply_within :: "'s keeper \<Rightarrow> params \<Rightarrow> 's \<times> sdk_context \<Rightarrow> bool" where
  "supply_within k p = (\<lambda>(s, ctx).
     item_Get (k_Params k) s = Ok p \<and> chain_time (ctx_BlockTime ctx) \<and>
     coin_Amount (bank_GetSupply (k_bankKeeper k) s (p_Denom p)) \<le> int (emission_limit p (ctx_BlockTime ctx)))"

lemma mint_step_supply_within:
  assumes laws: "math_laws L" "coin_laws L" "bank_mint_laws (k_bankKeeper k) modAddr"
      "bank_send_laws (k_bankKeeper k) modAddr" "bank_frame (k_bankKeeper k) (k_Params k)"
    and fits: "schedule_fits p"
    and step: "mint_step k L (s, ctx) (s', ctx')" and inv: "supply_within k p (s, ctx)"
  shows "supply_within k p (s', ctx')"
  using step
proof (cases rule: mint_stepE)
  case (mint msg)
  from inv have t: "chain_time (ctx_BlockTime ctx)" and p: "item_Get (k_Params k) s = Ok p"
    by (simp_all add: supply_within_def)
  with mint Mint_within_limit [OF laws(1-4) fits t p mint(2)] Mint_params_unchanged [OF laws(5) mint(2)] show ?thesis
    by (simp add: supply_within_def)
next
  case block
  then have "emission_limit p (ctx_BlockTime ctx) \<le> emission_limit p (ctx_BlockTime ctx')"
    using fits inv by (intro emission_limit_mono) (simp_all add: supply_within_def)
  with inv block show ?thesis by (simp add: supply_within_def)
qed

lemma mint_reachable_supply_within:
  assumes laws: "math_laws L" "coin_laws L" "bank_mint_laws (k_bankKeeper k) modAddr"
      "bank_send_laws (k_bankKeeper k) modAddr" "bank_frame (k_bankKeeper k) (k_Params k)"
    and fits: "schedule_fits p"
    and steps: "(mint_step k L)\<^sup>*\<^sup>* c c'" and inv: "supply_within k p c"
  shows "supply_within k p c'"
  using steps inv
proof (induction rule: rtranclp_induct)
  case (step c1 c2)
  then show ?case using mint_step_supply_within [OF laws fits] by (metis prod.collapse)
qed

end
