(* ===== verification/Distro_Expected.thy ===== *)
theory Distro_Expected
  imports Distro_Keeper
begin

text \<open>
  The interfaces that the distro module expects of other modules
  (\<^verbatim>\<open>x/distro/types/expected_keepers.go\<close>). The keeper of the model holds the whole bank keeper of the
  environment; what it gets in Go is only the view through \<^verbatim>\<open>types.BankKeeper\<close>. The lemmas show that
  nothing else of the bank is used: in particular the module cannot burn, nor take from an account.
\<close>

section \<open>The interfaces\<close>

record ('s, 'acc) expected_account_keeper =
  xa_GetModuleAddress :: "string \<Rightarrow> bytes"
  xa_GetModuleAccount :: "string \<Rightarrow> ('s, 'acc) action"
  xa_SetModuleAccount :: "'acc \<Rightarrow> ('s, unit) action"

record 's expected_bank_keeper =
  xb_SpendableCoins :: "'s \<Rightarrow> bytes \<Rightarrow> coins"
  xb_MintCoins :: "string \<Rightarrow> coins \<Rightarrow> ('s, unit) action"
  xb_SendCoinsFromModuleToAccount :: "string \<Rightarrow> bytes \<Rightarrow> coins \<Rightarrow> ('s, unit) action"
  xb_GetSupply :: "'s \<Rightarrow> string \<Rightarrow> coin"

record 's expected_view_keeper =
  xv_GetBalance :: "'s \<Rightarrow> bytes \<Rightarrow> string \<Rightarrow> coin"

text \<open>\<^verbatim>\<open>Get\<close> stores the value it finds into its last argument, which may keep what it held.\<close>

record ('s, 'v) expected_param_subspace =
  xp_Get :: "'s \<Rightarrow> bytes \<Rightarrow> 'v \<Rightarrow> 'v outcome"
  xp_Set :: "bytes \<Rightarrow> 'v \<Rightarrow> ('s, unit) action"

section \<open>The conversion to an interface\<close>

definition as_BankKeeper :: "('s \<Rightarrow> bytes \<Rightarrow> coins) \<Rightarrow> 's bank_keeper \<Rightarrow> 's expected_bank_keeper" where
  "as_BankKeeper spendable B =
     \<lparr>xb_SpendableCoins = spendable, xb_MintCoins = bank_MintCoins B,
      xb_SendCoinsFromModuleToAccount = bank_SendCoinsFromModuleToAccount B, xb_GetSupply = bank_GetSupply B\<rparr>"

definition as_ViewKeeper :: "'s bank_keeper \<Rightarrow> 's expected_view_keeper" where
  "as_ViewKeeper B = \<lparr>xv_GetBalance = bank_GetBalance B\<rparr>"

section \<open>Nothing else is used\<close>

lemma as_BankKeeper_eq:
  "as_BankKeeper sp B = as_BankKeeper sp' B' \<longleftrightarrow>
     sp = sp' \<and> bank_MintCoins B = bank_MintCoins B' \<and>
     bank_SendCoinsFromModuleToAccount B = bank_SendCoinsFromModuleToAccount B' \<and> bank_GetSupply B = bank_GetSupply B'"
  by (auto simp: as_BankKeeper_def)

lemma Mint_through_interface:
  assumes "as_BankKeeper sp B = as_BankKeeper sp B'"
  shows "Mint (k\<lparr>k_bankKeeper := B\<rparr>) L ctx msg = Mint (k\<lparr>k_bankKeeper := B'\<rparr>) L ctx msg"
proof -
  have "IsAuthorized (k\<lparr>k_bankKeeper := B\<rparr>) = IsAuthorized (k\<lparr>k_bankKeeper := B'\<rparr>)"
    by (simp add: IsAuthorized_def fun_eq_iff)
  moreover have "depositCoins (k\<lparr>k_bankKeeper := B\<rparr>) = depositCoins (k\<lparr>k_bankKeeper := B'\<rparr>)"
    using assms by (intro ext) (simp add: depositCoins_def as_BankKeeper_eq)
  ultimately show ?thesis using assms by (simp add: Mint_def as_BankKeeper_eq Let_def cong: if_cong)
qed

lemma UpdateParams_without_bank:
  "UpdateParams (k\<lparr>k_bankKeeper := B\<rparr>) L req = UpdateParams k L req"
  by (simp add: UpdateParams_def GetAuthority_def cong: if_cong)

end
