(* ===== verification/Cosmos_Reference.thy ===== *)
theory Cosmos_Reference
  imports Distro_Keeper
begin

text \<open>
  An executable in-memory instance of the SDK functions, which shows that the documented
  behaviour assumed of them is consistent and lets concrete transactions be evaluated: one
  parameter cell, and supplies and balances as functions.
\<close>

record mem_chain =
  mc_params :: "params option"
  mc_supply :: "string \<Rightarrow> int"
  mc_balance :: "bytes \<Rightarrow> string \<Rightarrow> int"
  mc_denoms :: "string list"

definition ref_lib :: cosmos_lib where
  "ref_lib =
     \<lparr>math_NewUint = unat,
      math_UintAdd = (\<lambda>a b. if a + b < 2 ^ 256 then Ok (a + b) else Panic ''Uint overflow''),
      math_UintGT = (\<lambda>a b. b < a),
      math_UintUint64 = (\<lambda>n. if n < 2 ^ 64 then Ok (word_of_nat n) else Panic ''Uint64() out of bounds''),
      math_IntUint64 = (\<lambda>i. if 0 \<le> i \<and> i < 2 ^ 64 then Ok (word_of_int i) else Panic ''Uint64() out of bounds''),
      math_NewIntFromUint64 = uint,
      sdk_NewCoin = (\<lambda>d a. if a < 0 \<or> length d < 3 then Panic ''invalid coin''
                          else Ok \<lparr>coin_Denom = d, coin_Amount = a\<rparr>),
      sdk_NewCoins = (\<lambda>cs. Ok (filter (\<lambda>c. coin_Amount c \<noteq> 0) cs)),
      sdk_ValidateDenom = (\<lambda>d. if length d < 3 then Err (ErrForeign ''invalid denom'') else Ok ()),
      sdk_AccAddressFromBech32 = (\<lambda>v. if v = '''' then Err (ErrForeign ''empty address string'') else Ok (string_bytes v))\<rparr>"

definition ref_codec :: address_codec where
  "ref_codec =
     \<lparr>addr_StringToBytes = (\<lambda>v. if v = '''' then Err (ErrForeign ''empty address string'') else Ok (string_bytes v)),
      addr_BytesToString = (\<lambda>b. Ok (bytes_string b))\<rparr>"

definition ref_module_address :: "string \<Rightarrow> bytes" where
  "ref_module_address m = string_bytes (''module/'' @ m)"

definition credit :: "bytes \<Rightarrow> coins \<Rightarrow> mem_chain \<Rightarrow> mem_chain" where
  "credit a cs s = s\<lparr>mc_balance := (\<lambda>b d. mc_balance s b d + (if b = a then coins_amount d cs else 0))\<rparr>"

definition debit :: "bytes \<Rightarrow> coins \<Rightarrow> (mem_chain, unit) action" where
  "debit a cs s =
     (if \<forall>c\<in>set cs. coins_amount (coin_Denom c) cs \<le> mc_balance s a (coin_Denom c)
      then (s\<lparr>mc_balance := (\<lambda>b d. mc_balance s b d - (if b = a then coins_amount d cs else 0))\<rparr>, Ok ())
      else (s, Err (ErrForeign ''insufficient funds'')))"

definition ref_bank :: "mem_chain bank_keeper" where
  "ref_bank =
     \<lparr>bank_GetSupply = (\<lambda>s d. \<lparr>coin_Denom = d, coin_Amount = mc_supply s d\<rparr>),
      bank_GetBalance = (\<lambda>s a d. \<lparr>coin_Denom = d, coin_Amount = mc_balance s a d\<rparr>),
      bank_GetAllBalances = (\<lambda>s a.
        filter (\<lambda>c. coin_Amount c \<noteq> 0)
          (map (\<lambda>d. \<lparr>coin_Denom = d, coin_Amount = mc_balance s a d\<rparr>) (mc_denoms s))),
      bank_MintCoins = (\<lambda>m cs s.
        (credit (ref_module_address m) cs
           (s\<lparr>mc_supply := (\<lambda>d. mc_supply s d + coins_amount d cs)\<rparr>), Ok ())),
      bank_BurnCoins = (\<lambda>m cs.
        bindA (debit (ref_module_address m) cs) (\<lambda>_ s.
          (s\<lparr>mc_supply := (\<lambda>d. mc_supply s d - coins_amount d cs)\<rparr>, Ok ()))),
      bank_SendCoinsFromModuleToAccount = (\<lambda>m a cs.
        bindA (debit (ref_module_address m) cs) (\<lambda>_ s. (credit a cs s, Ok ()))),
      bank_SendCoinsFromAccountToModule = (\<lambda>a m cs.
        bindA (debit a cs) (\<lambda>_ s. (credit (ref_module_address m) cs s, Ok ())))\<rparr>"

definition ref_params :: "(mem_chain, params) store_item" where
  "ref_params =
     \<lparr>item_Get = (\<lambda>s. case mc_params s of Some p \<Rightarrow> Ok p | None \<Rightarrow> Err collections_ErrNotFound),
      item_Set = (\<lambda>p s. (s\<lparr>mc_params := Some p\<rparr>, Ok ()))\<rparr>"

definition ref_keeper :: "mem_chain keeper" where
  "ref_keeper =
     \<lparr>k_addressCodec = ref_codec, k_authority = string_bytes ''gov'',
      k_Params = ref_params, k_bankKeeper = ref_bank\<rparr>"

lemmas ref_defs = ref_lib_def ref_codec_def ref_bank_def ref_params_def ref_keeper_def

lemma ref_keeper_sel [simp]:
  "k_addressCodec ref_keeper = ref_codec" "k_authority ref_keeper = string_bytes ''gov''"
  "k_Params ref_keeper = ref_params" "k_bankKeeper ref_keeper = ref_bank"
  by (simp_all add: ref_keeper_def)

lemma ref_math_laws: "math_laws ref_lib"
proof -
  have "unat x < 18446744073709551616" "uint x < 18446744073709551616" for x :: u64
    using unsigned_less [of x, where ?'a = nat] unsigned_less [of x, where ?'a = int] by simp_all
  then show ?thesis by (simp add: math_laws_def ref_lib_def)
qed

lemma ref_coin_laws: "coin_laws ref_lib"
  by (auto simp: coin_laws_def ref_lib_def)

lemma debit_Ok:
  "debit a cs s = (s', Ok ()) \<Longrightarrow>
     s' = s\<lparr>mc_balance := (\<lambda>b d. mc_balance s b d - (if b = a then coins_amount d cs else 0))\<rparr>"
  by (simp add: debit_def split: if_splits)

lemma ref_mint_laws: "bank_mint_laws ref_bank ref_module_address"
  by (auto simp: bank_mint_laws_def ref_bank_def credit_def)

lemma ref_send_laws: "bank_send_laws ref_bank ref_module_address"
  by (auto simp: bank_send_laws_def ref_bank_def credit_def outcome_inv dest!: debit_Ok)

lemma ref_item_laws: "item_laws ref_params"
  by (auto simp: item_laws_def ref_params_def)

lemma debit_params: "debit a cs s = (s', r) \<Longrightarrow> mc_params s' = mc_params s"
  by (auto simp: debit_def split: if_splits)

lemma ref_bank_frame: "bank_frame ref_bank ref_params"
proof -
  have "mc_params s' = mc_params s"
    if "bindA (debit m cs) (\<lambda>_ s. (credit a cs s, Ok ())) s = (s', r)" for m a cs s s' and r :: "unit outcome"
    using that debit_params [of m cs s]
    by (auto simp: bindA_def credit_def split: prod.splits outcome.splits)
  then show ?thesis
    by (auto simp: bank_frame_def ref_bank_def ref_params_def credit_def)
qed

lemmas ref_laws = ref_math_laws ref_coin_laws ref_mint_laws ref_send_laws ref_item_laws ref_bank_frame

text \<open>A chain with parameters set and nothing minted, and a block one year after the start date.\<close>

definition sample_params :: params where
  "sample_params = NewParams ''minter'' ''treasury'' ''uGNOD'' 35000000000000000 ''2025-07-22'' 12"

definition sample_chain :: mem_chain where
  "sample_chain = \<lparr>mc_params = Some sample_params, mc_supply = (\<lambda>_. 0), mc_balance = (\<lambda>_ _. 0), mc_denoms = [''uGNOD'']\<rparr>"

definition sample_time :: gotime where
  "sample_time = \<lparr>t_year = 2026, t_month = 7, t_day = 22, t_hour = 13, t_minute = 5, t_second = 0, t_nano = 0\<rparr>"

definition sample_ctx :: sdk_context where
  "sample_ctx = \<lparr>ctx_BlockTime = sample_time, ctx_BlockHeight = 700000\<rparr>"

definition sample_mint :: msg_mint where
  "sample_mint = NewMsgMint 17500000000000000 ''minter''"

definition sample_minted :: mem_chain where
  "sample_minted = fst (Mint ref_keeper ref_lib sample_ctx sample_mint sample_chain)"

lemma sample_dates:
  "parseDate (p_DistributionStartDate sample_params) = Ok (mk_date 2025 7 22)"
  "parseDate (time_Format sample_time) = Ok (mk_date 2026 7 22)"
  "monthsBetween (mk_date 2025 7 22) (mk_date 2026 7 22) = 12"
  by code_simp+

lemma sample_total:
  "totalDistributable sample_params (mk_date 2025 7 22) (mk_date 2026 7 22) 12 = Ok 17500000000000000"
  by code_simp

lemma sample_limits:
  "validateMintingLimits ref_lib sample_ctx 0 17500000000000000 sample_params = Ok ()"
  by (simp add: validateMintingLimits_def sample_dates sample_ctx_def sample_total ref_lib_def)

lemma sample_Mint:
  "Mint ref_keeper ref_lib sample_ctx sample_mint sample_chain = (sample_minted, Ok ())"
proof -
  have p: "p_Denom sample_params = ''uGNOD''" "p_MaxSupply sample_params = 35000000000000000"
    "p_MintingAddress sample_params = ''minter''" "p_ReceivingAddress sample_params = ''treasury''"
    by (simp_all add: sample_params_def NewParams_def)
  have c: "mc_params sample_chain = Some sample_params" "mc_supply sample_chain = (\<lambda>_. 0)" "mc_balance sample_chain = (\<lambda>_ _. 0)"
    by (simp_all add: sample_chain_def)
  have lib: "math_NewUint ref_lib = unat" "math_IntUint64 ref_lib 0 = Ok 0" "math_UintUint64 ref_lib 17500000000000000 = Ok 17500000000000000"
    "math_UintAdd ref_lib 0 17500000000000000 = Ok 17500000000000000" "math_UintGT ref_lib a b = (b < a)"
    "math_NewIntFromUint64 ref_lib x = uint x"
    "sdk_NewCoin ref_lib ''uGNOD'' 17500000000000000 = Ok \<lparr>coin_Denom = ''uGNOD'', coin_Amount = 17500000000000000\<rparr>"
    "sdk_NewCoins ref_lib [\<lparr>coin_Denom = ''uGNOD'', coin_Amount = 17500000000000000\<rparr>] =
      Ok [\<lparr>coin_Denom = ''uGNOD'', coin_Amount = 17500000000000000\<rparr>]" for a b x
    by (simp_all add: ref_lib_def)
  have "snd (Mint ref_keeper ref_lib sample_ctx sample_mint sample_chain) = Ok ()"
    by (simp add: Mint_def depositCoins_def IsAuthorized_def bindA_def outcome_simps lib p c
        sample_mint_def NewMsgMint_def ref_codec_def ref_params_def ref_bank_def sample_limits
        debit_def credit_def)
  then show ?thesis by (simp add: sample_minted_def prod_eq_iff)
qed

end
