(* ===== verification/Distro_Properties.thy ===== *)
theory Distro_Properties
  imports Distro_Chain Distro_Expected Cosmos_Reference
begin

text \<open>
  The properties of the distro module: what the transactions do, the safety of the emission
  schedule, the calendar arithmetic under it, and the validation of the parameters. Each
  property with a hypothesis is applied at a concrete chain after it.
\<close>

section \<open>Minting\<close>

text \<open>
  C2: A successful \<open>Mint\<close> was signed by an address that decodes to the same bytes as the
  configured minting address; it credits exactly the requested amount to the receiving address
  and to the total supply of the configured denomination, and changes no other balance and no
  other supply. The bank's documented behaviour for minting and sending is assumed.
\<close>

theorem mint_effect:
  assumes "math_laws L" "coin_laws L" "bank_mint_laws (k_bankKeeper k) modAddr" "bank_send_laws (k_bankKeeper k) modAddr"
    and "Mint k L ctx msg s = (s', Ok ())"
  shows "\<exists>p acct. item_Get (k_Params k) s = Ok p \<and>
    (\<exists>signer. addr_StringToBytes (k_addressCodec k) (mm_Signer msg) = Ok signer \<and>
       addr_StringToBytes (k_addressCodec k) (p_MintingAddress p) = Ok signer) \<and>
    addr_StringToBytes (k_addressCodec k) (p_ReceivingAddress p) = Ok acct \<and>
    (\<forall>d. coin_Amount (bank_GetSupply (k_bankKeeper k) s' d) =
       coin_Amount (bank_GetSupply (k_bankKeeper k) s d) + (if d = p_Denom p then uint (mm_Amount msg) else 0)) \<and>
    (\<forall>a d. coin_Amount (bank_GetBalance (k_bankKeeper k) s' a d) =
       coin_Amount (bank_GetBalance (k_bankKeeper k) s a d)
       + (if a = acct \<and> d = p_Denom p then uint (mm_Amount msg) else 0))"
proof -
  from assms(5) obtain p signer where auth: "item_Get (k_Params k) s = Ok p"
    "addr_StringToBytes (k_addressCodec k) (mm_Signer msg) = Ok signer"
    "addr_StringToBytes (k_addressCodec k) (p_MintingAddress p) = Ok signer"
    by (rule Mint_Ok)
  from assms obtain p' acct where e: "item_Get (k_Params k) s = Ok p'"
    "addr_StringToBytes (k_addressCodec k) (p_ReceivingAddress p') = Ok acct"
    "\<forall>d. coin_Amount (bank_GetSupply (k_bankKeeper k) s' d) =
        coin_Amount (bank_GetSupply (k_bankKeeper k) s d) + (if d = p_Denom p' then uint (mm_Amount msg) else 0)"
    "\<forall>a d. coin_Amount (bank_GetBalance (k_bankKeeper k) s' a d) =
        coin_Amount (bank_GetBalance (k_bankKeeper k) s a d)
        + (if a = acct \<and> d = p_Denom p' then uint (mm_Amount msg) else 0)"
    by (rule Mint_effect)
  moreover have "p' = p" using e(1) auth(1) by simp
  ultimately show ?thesis using auth by blast
qed

theorem mint_effect_witness:
  "mc_supply sample_minted ''uGNOD'' = 17500000000000000 \<and>
   mc_balance sample_minted (string_bytes ''treasury'') ''uGNOD'' = 17500000000000000"
proof -
  have p: "item_Get ref_params sample_chain = Ok sample_params" "p_Denom sample_params = ''uGNOD''"
    "addr_StringToBytes ref_codec (p_ReceivingAddress sample_params) = Ok (string_bytes ''treasury'')"
    by (simp_all add: ref_params_def sample_chain_def sample_params_def NewParams_def ref_codec_def)
  have obs: "coin_Amount (bank_GetSupply ref_bank s d) = mc_supply s d"
    "coin_Amount (bank_GetBalance ref_bank s a d) = mc_balance s a d" for s a d
    by (simp_all add: ref_bank_def)
  have "mm_Amount sample_mint = 17500000000000000" "mc_supply sample_chain = (\<lambda>_. 0)" "mc_balance sample_chain = (\<lambda>_ _. 0)"
    by (simp_all add: sample_mint_def NewMsgMint_def sample_chain_def)
  then show ?thesis
    using mint_effect [of ref_lib ref_keeper ref_module_address, OF _ _ _ _ sample_Mint] ref_laws
    by (auto simp: p obs)
qed

text \<open>
  C9: No matter how a run of \<open>Mint\<close> ends (success, error or panic), the store is only
  written after the signer has been matched with the minting address and
  \<open>validateMintingLimits\<close> has accepted the amount on top of the current supply.
\<close>

theorem mint_writes_guarded:
  assumes "Mint k L ctx msg s = (s', r)" "s' \<noteq> s"
  shows "\<exists>p signer sup. addr_StringToBytes (k_addressCodec k) (mm_Signer msg) = Ok signer \<and>
    item_Get (k_Params k) s = Ok p \<and>
    addr_StringToBytes (k_addressCodec k) (p_MintingAddress p) = Ok signer \<and>
    math_IntUint64 L (coin_Amount (bank_GetSupply (k_bankKeeper k) s (p_Denom p))) = Ok sup \<and>
    validateMintingLimits L ctx (math_NewUint L sup) (math_NewUint L (mm_Amount msg)) p = Ok ()"
  using Mint_changed [OF assms] .

lemma sample_minted_supply: "mc_supply sample_minted ''uGNOD'' = 17500000000000000"
proof -
  have "math_laws ref_lib" "coin_laws ref_lib" "bank_mint_laws (k_bankKeeper ref_keeper) ref_module_address"
    "bank_send_laws (k_bankKeeper ref_keeper) ref_module_address" using ref_laws by simp_all
  then obtain p where e: "item_Get (k_Params ref_keeper) sample_chain = Ok p"
    "coin_Amount (bank_GetSupply (k_bankKeeper ref_keeper) sample_minted (p_Denom p)) =
     coin_Amount (bank_GetSupply (k_bankKeeper ref_keeper) sample_chain (p_Denom p)) + uint (mm_Amount sample_mint)"
    using sample_Mint by (rule Mint_effect) simp
  have "p = sample_params" using e(1) by (simp add: ref_params_def sample_chain_def)
  then have "p_Denom p = ''uGNOD''" by (simp add: sample_params_def NewParams_def)
  with e(2) show ?thesis by (simp add: ref_bank_def sample_chain_def sample_mint_def NewMsgMint_def)
qed

lemma sample_minted_changed: "sample_minted \<noteq> sample_chain"
proof
  assume "sample_minted = sample_chain"
  with sample_minted_supply show False by (simp add: sample_chain_def)
qed

theorem mint_writes_guarded_witness:
  "\<exists>p signer. item_Get ref_params sample_chain = Ok p \<and> addr_StringToBytes ref_codec (p_MintingAddress p) = Ok signer"
  using mint_writes_guarded [OF sample_Mint sample_minted_changed] by auto

text \<open>
  C10: A request that meets every condition of the code is carried out: the signer is the
  minter, the amount fits both limits and the bank accepts the two calls with the single coin
  of that amount (no coin at all for amount zero). The only store changes are those two calls.
\<close>

theorem mint_succeeds:
  fixes cur :: u64
  assumes "math_laws L" "coin_laws L"
    and "addr_StringToBytes (k_addressCodec k) (mm_Signer msg) = Ok signer"
    and "item_Get (k_Params k) s = Ok p"
    and "addr_StringToBytes (k_addressCodec k) (p_MintingAddress p) = Ok signer"
    and "is_ok (sdk_ValidateDenom L (p_Denom p))"
    and "coin_Amount (bank_GetSupply (k_bankKeeper k) s (p_Denom p)) = uint cur"
    and "unat cur + unat (mm_Amount msg) \<le> unat (p_MaxSupply p)"
    and "validateMintingLimits L ctx (unat cur) (unat (mm_Amount msg)) p = Ok ()"
    and "cs = (if mm_Amount msg = 0 then [] else [\<lparr>coin_Denom = p_Denom p, coin_Amount = uint (mm_Amount msg)\<rparr>])"
    and "bank_MintCoins (k_bankKeeper k) ModuleName cs s = (s1, Ok ())"
    and "addr_StringToBytes (k_addressCodec k) (p_ReceivingAddress p) = Ok acct"
    and "bank_SendCoinsFromModuleToAccount (k_bankKeeper k) ModuleName acct cs s1 = (s', Ok ())"
  shows "Mint k L ctx msg s = (s', Ok ())"
  using assms by (intro Mint_succeeds) auto

definition sample_coins :: coins where
  "sample_coins = [\<lparr>coin_Denom = ''uGNOD'', coin_Amount = 17500000000000000\<rparr>]"

theorem mint_succeeds_witness:
  "\<exists>s'. Mint ref_keeper ref_lib sample_ctx sample_mint sample_chain = (s', Ok ())"
proof -
  note d = sample_params_def NewParams_def sample_chain_def sample_mint_def NewMsgMint_def
  obtain s1 where m: "bank_MintCoins ref_bank ModuleName sample_coins sample_chain = (s1, Ok ())"
    by (simp add: ref_bank_def)
  then obtain s2 where s: "bank_SendCoinsFromModuleToAccount ref_bank ModuleName (string_bytes ''treasury'') sample_coins s1 = (s2, Ok ())"
    by (auto simp: ref_bank_def debit_def credit_def bindA_def sample_coins_def sample_chain_def)
  have "Mint ref_keeper ref_lib sample_ctx sample_mint sample_chain = (s2, Ok ())"
  proof (rule mint_succeeds [OF ref_math_laws ref_coin_laws, where cur = 0 and p = sample_params
        and cs = sample_coins and ?s1.0 = s1 and signer = "string_bytes ''minter''" and acct = "string_bytes ''treasury''"])
    show "validateMintingLimits ref_lib sample_ctx (unat (0 :: u64)) (unat (mm_Amount sample_mint)) sample_params = Ok ()"
      using sample_limits by (simp add: sample_mint_def NewMsgMint_def)
  qed (use m s in \<open>simp_all add: d ref_codec_def ref_params_def ref_lib_def ref_bank_def sample_coins_def\<close>)
  then show ?thesis ..
qed

section \<open>The emission schedule\<close>

text \<open>
  C1: For a schedule whose per-period products fit 64 bits, a successful \<open>Mint\<close> leaves the
  supply of the denomination at or below what the abstract halving schedule has emitted at the
  date of the block, and so at or below the maximum supply.
\<close>

theorem mint_within_schedule:
  assumes "math_laws L" "coin_laws L" "bank_mint_laws (k_bankKeeper k) modAddr" "bank_send_laws (k_bankKeeper k) modAddr"
    and "item_Get (k_Params k) s = Ok p" "schedule_fits p" "chain_time (ctx_BlockTime ctx)"
    and "Mint k L ctx msg s = (s', Ok ())"
  shows "coin_Amount (bank_GetSupply (k_bankKeeper k) s' (p_Denom p)) \<le> int (emission_limit p (ctx_BlockTime ctx)) \<and>
    emission_limit p (ctx_BlockTime ctx) \<le> unat (p_MaxSupply p)"
proof -
  obtain st e T where m: "parseDate (p_DistributionStartDate p) = Ok st"
    "parseDate (time_Format (ctx_BlockTime ctx)) = Ok e"
    "day_number st \<le> day_number e" "totalDistributable p st e (monthsBetween st e) = Ok T"
    "coin_Amount (bank_GetSupply (k_bankKeeper k) s' (p_Denom p)) \<le> uint T"
    using Mint_within_total [OF assms(1-4,8)] assms(5) by (metis outcome.inject(1))
  have "e = block_date (ctx_BlockTime ctx)" using m(2) block_date_parse [OF assms(7)] by simp
  then have "unat T = emission_limit p (ctx_BlockTime ctx)"
    using totalDistributable_limit [OF assms(6,7)] m by simp
  then have "uint T = int (emission_limit p (ctx_BlockTime ctx))" by (metis of_nat_unat)
  with m(5) emission_limit_le_max [OF assms(6,7)] show ?thesis by simp
qed

lemma sample_schedule_fits: "schedule_fits sample_params" "chain_time (ctx_BlockTime sample_ctx)"
  by (simp add: schedule_fits_def sample_params_def NewParams_def max_period_months_def,
      simp add: chain_time_def valid_time_def sample_ctx_def sample_time_def days_in_month_def leap_year_def)

lemma sample_get: "item_Get ref_params sample_chain = Ok sample_params"
  by (simp add: ref_params_def sample_chain_def)

theorem mint_within_schedule_witness:
  "17500000000000000 \<le> emission_limit sample_params sample_time"
proof -
  have "p_Denom sample_params = ''uGNOD''" by (simp add: sample_params_def NewParams_def)
  then have "int 17500000000000000 \<le> int (emission_limit sample_params sample_time)"
    using mint_within_schedule [of ref_lib ref_keeper ref_module_address, OF _ _ _ _ _ sample_schedule_fits sample_Mint]
      ref_laws sample_get sample_minted_supply by (simp add: ref_bank_def sample_ctx_def)
  then show ?thesis by (simp only: of_nat_le_iff)
qed

text \<open>
  C3: In every state reachable by mints and passing blocks from a state whose supply is within
  the schedule (in particular from an empty supply), the supply is within the schedule at the
  current block's date: time only moves forward and the schedule never decreases.
\<close>

theorem supply_never_exceeds_schedule:
  assumes "math_laws L" "coin_laws L" "bank_mint_laws (k_bankKeeper k) modAddr"
    and "bank_send_laws (k_bankKeeper k) modAddr" "bank_frame (k_bankKeeper k) (k_Params k)"
    and "schedule_fits p" "(mint_step k L)\<^sup>*\<^sup>* (s, ctx) (s', ctx')"
    and "item_Get (k_Params k) s = Ok p" "chain_time (ctx_BlockTime ctx)"
    and "coin_Amount (bank_GetSupply (k_bankKeeper k) s (p_Denom p)) \<le> int (emission_limit p (ctx_BlockTime ctx))"
  shows "coin_Amount (bank_GetSupply (k_bankKeeper k) s' (p_Denom p)) \<le> int (emission_limit p (ctx_BlockTime ctx')) \<and>
    coin_Amount (bank_GetSupply (k_bankKeeper k) s' (p_Denom p)) \<le> uint (p_MaxSupply p)"
proof -
  have "supply_within k p (s', ctx')"
    using mint_reachable_supply_within [OF assms(1-7)] assms(8-10) by (simp add: supply_within_def)
  then have "coin_Amount (bank_GetSupply (k_bankKeeper k) s' (p_Denom p)) \<le> int (emission_limit p (ctx_BlockTime ctx'))"
    "emission_limit p (ctx_BlockTime ctx') \<le> unat (p_MaxSupply p)"
    using emission_limit_le_max [OF assms(6)] by (simp_all add: supply_within_def)
  moreover from this(2) have "int (emission_limit p (ctx_BlockTime ctx')) \<le> uint (p_MaxSupply p)"
    by (metis of_nat_le_iff of_nat_unat)
  ultimately show ?thesis by simp
qed

theorem supply_never_exceeds_schedule_witness:
  "mc_supply sample_minted ''uGNOD'' \<le> int (emission_limit sample_params sample_time) \<and>
   mc_supply sample_minted ''uGNOD'' \<le> 35000000000000000"
proof -
  have p: "p_Denom sample_params = ''uGNOD''" "p_MaxSupply sample_params = 35000000000000000"
    by (simp_all add: sample_params_def NewParams_def)
  have "(mint_step ref_keeper ref_lib)\<^sup>*\<^sup>* (sample_chain, sample_ctx) (sample_minted, sample_ctx)"
    using mint_tx [OF sample_Mint] by (rule r_into_rtranclp)
  moreover have "mc_supply sample_chain ''uGNOD'' = 0" by (simp add: sample_chain_def)
  ultimately show ?thesis
    using supply_never_exceeds_schedule [of ref_lib ref_keeper ref_module_address sample_params sample_chain sample_ctx sample_minted sample_ctx]
      ref_laws sample_schedule_fits sample_get p by (simp add: ref_bank_def sample_ctx_def)
qed




text \<open>
  C6: The distributable total never exceeds the maximum supply, for any parameters, dates and
  month count, also when the product of the pro-rata share wraps around.
\<close>

theorem total_never_exceeds_max:
  assumes "totalDistributable p s e m = Ok T"
  shows "T \<le> p_MaxSupply p"
  using totalDistributable_le_max [OF assms] by (simp add: word_le_nat_alt)

theorem total_never_exceeds_max_witness: "(17500000000000000 :: u64) \<le> p_MaxSupply sample_params"
  using total_never_exceeds_max [OF sample_total] .




text \<open>
  The limit of halving period \<open>p\<close> is the maximum supply divided by \<open>2 ^ p\<close>, for every
  period from 1 on: the guard for periods above 64 agrees with the quotient, which is zero there.
\<close>

theorem halving_limit_exact:
  assumes "period \<noteq> 0"
  shows "unat (halvingPeriodLimit maxSupply period) = unat maxSupply div 2 ^ unat period"
  using halvingPeriodLimit_unat [OF assms] .

theorem halving_limit_exact_witness: "unat (halvingPeriodLimit 35000000000000000 3) = 4375000000000000"
  using halving_limit_exact [of 3 35000000000000000] by simp

text \<open>
  The limits of all halving periods together never exceed the maximum supply, however many
  periods are summed.
\<close>

theorem halving_limits_sum:
  assumes "n < 2 ^ 64"
  shows "(\<Sum>p = 1..n. unat (halvingPeriodLimit maxSupply (word_of_nat p))) \<le> unat maxSupply"
  using hpl.sum_limits_le [OF assms] .

theorem halving_limits_sum_witness:
  "(\<Sum>p = 1..100. unat (halvingPeriodLimit 35000000000000000 (word_of_nat p))) \<le> 35000000000000000"
  using halving_limits_sum [of 100 35000000000000000] by simp


section \<open>The calendar\<close>

text \<open>
  C16: \<open>monthsBetween\<close> is the floor inverse of \<open>addMonths\<close>: for dates in order, it is the only
  month count \<open>n\<close> such that adding \<open>n\<close> months to the start does not pass the end date and
  adding one more does. The clamping to month ends of the two functions agrees.
\<close>

theorem months_between_floor:
  assumes "chain_date s" "chain_date e" "day_number s \<le> day_number e" "0 \<le> n" "n < month_limit"
  shows "monthsBetween s e = n \<longleftrightarrow>
    day_number (addMonths s n) \<le> day_number e \<and> day_number e < day_number (addMonths s (n + 1))"
proof -
  have lim: "monthsBetween s e < month_limit"
    using monthsBetween_le [OF assms(1,2)] by (simp add: month_limit_def)
  show ?thesis
    using assms lim cal.between_lower [of s e] cal.between_upper [of s e] cal.between_unique [of s e n]
    by (auto simp: chain_date_def)
qed

theorem months_between_floor_witness:
  "monthsBetween (mk_date 2024 1 31) (mk_date 2024 2 29) = 1"
proof -
  have d: "chain_date (mk_date 2024 1 31)" "chain_date (mk_date 2024 2 29)"
    "day_number (mk_date 2024 1 31) \<le> day_number (mk_date 2024 2 29)"
    by (simp_all add: chain_date_def valid_mk_date days_in_month_def leap_year_def day_number_le_iff t_index_def month_index_def)
  have "day_number (addMonths (mk_date 2024 1 31) 1) \<le> day_number (mk_date 2024 2 29)"
    "day_number (mk_date 2024 2 29) < day_number (addMonths (mk_date 2024 1 31) (1 + 1))"
    by code_simp+
  then show ?thesis using months_between_floor [OF d, of 1] by (simp add: month_limit_def)
qed

text \<open>
  C17: \<open>addMonths\<close> advances the month by exactly the given number of months, keeps the time of
  day, and keeps the day of the month or, where the target month is shorter, takes its last
  day; the result is always a valid time.
\<close>

theorem add_months_clamps:
  assumes "valid_time t" "\<bar>n\<bar> \<le> month_limit"
  shows "valid_time (addMonths t n) \<and> t_index (addMonths t n) = t_index t + n \<and>
    t_day (addMonths t n) = min (t_day t) (days_in_month (t_year (addMonths t n)) (t_month (addMonths t n))) \<and>
    ns_of_day (addMonths t n) = ns_of_day t"
  using addMonths_valid(1) [OF assms] addMonths_index [OF assms]
  by (auto simp: addMonths_eq [OF assms] Let_def dim_def ns_of_day_def)

theorem add_months_clamps_witness: "t_day (addMonths (mk_date 2025 1 31) 1) = 28"
proof -
  have "valid_time (mk_date 2025 1 31)" by (simp add: valid_mk_date days_in_month_def leap_year_def)
  moreover have "t_year (addMonths (mk_date 2025 1 31) 1) = 2025" "t_month (addMonths (mk_date 2025 1 31) 1) = 2"
    by code_simp+
  ultimately show ?thesis
    using add_months_clamps [of "mk_date 2025 1 31" 1] by (simp add: month_limit_def days_in_month_def leap_year_def)
qed

text \<open>
  C18: The start date and the block time agree on the text form of dates: what \<open>parseDate\<close>
  accepts is a valid date of a year from 0 to 9999 that formats to the same text, and the
  formatted time of a block of such a year parses to its date at midnight.
\<close>

theorem parse_date_roundtrip:
  "(parseDate str = Ok t \<longrightarrow> chain_date t \<and> time_Format t = str) \<and>
   (chain_time u \<longrightarrow> parseDate (time_Format u) = Ok (block_date u) \<and> day_number (block_date u) = day_number u)"
  using time_Parse_Ok(4) [of str t] parseDate_chain_date [of str t] block_date_parse [of u] block_date_day [of u]
  by (simp add: parseDate_def)

theorem parse_date_roundtrip_witness: "parseDate (time_Format sample_time) = Ok (block_date sample_time)"
  using parse_date_roundtrip [of _ _ sample_time] sample_schedule_fits(2) by (simp add: sample_ctx_def)

section \<open>Parameters\<close>

text \<open>
  C14: \<open>UpdateParams\<close> succeeds exactly when the authority decodes to the module's authority, the
  strict validation accepts the parameters and the store accepts the write; in every other
  case, whatever the outcome, nothing but that write can have changed the store.
\<close>

theorem update_params_iff:
  "(UpdateParams k L req s = (s', Ok ()) \<longleftrightarrow>
      addr_StringToBytes (k_addressCodec k) (mu_Authority req) = Ok (k_authority k) \<and>
      Params_Validate L (mu_Params req) = Ok () \<and>
      item_Set (k_Params k) (mu_Params req) s = (s', Ok ())) \<and>
   (UpdateParams k L req s = (s', r) \<and> s' \<noteq> s \<longrightarrow>
      addr_StringToBytes (k_addressCodec k) (mu_Authority req) = Ok (k_authority k) \<and>
      Params_Validate L (mu_Params req) = Ok ())"
  using UpdateParams_eq_Ok [of k L req s s'] UpdateParams_changed [of k L req s s' r] by blast

definition sample_update :: msg_update_params where
  "sample_update = \<lparr>mu_Authority = ''gov'', mu_Params = sample_params\<rparr>"

lemma sample_params_valid: "Params_Validate ref_lib sample_params = Ok ()"
  using sample_dates(1) by (simp add: Params_Validate_ok parseDate_def) (simp add: ref_lib_def sample_params_def NewParams_def)

theorem update_params_iff_witness:
  "UpdateParams ref_keeper ref_lib sample_update sample_chain = (sample_chain\<lparr>mc_params := Some sample_params\<rparr>, Ok ())"
  using update_params_iff [of ref_keeper ref_lib sample_update sample_chain "sample_chain\<lparr>mc_params := Some sample_params\<rparr>"]
    sample_params_valid by (simp add: sample_update_def ref_codec_def ref_params_def)

text \<open>
  Once the stored parameters pass the strict validation, they pass it in every state
  reachable by the module's transactions: minting does not touch them and an update stores only
  validated ones. In particular the halving period is never zero when \<open>Mint\<close> divides by it.
\<close>

theorem params_stay_valid:
  assumes "item_laws (k_Params k)" "bank_frame (k_bankKeeper k) (k_Params k)"
    and "(distro_step k L)\<^sup>*\<^sup>* (s, ctx) (s', ctx')"
    and "item_Get (k_Params k) s = Ok p" "Params_Validate L p = Ok ()"
  shows "\<exists>p'. item_Get (k_Params k) s' = Ok p' \<and> Params_Validate L p' = Ok () \<and> p_MonthsInHalvingPeriod p' \<noteq> 0"
  using distro_reachable_params_valid [OF assms(1-3)] assms(4,5)
  by (auto simp: params_valid_def Params_Validate_ok split: outcome.splits)

theorem params_stay_valid_witness:
  "\<exists>p'. item_Get ref_params sample_minted = Ok p' \<and> Params_Validate ref_lib p' = Ok ()"
proof -
  have "(distro_step ref_keeper ref_lib)\<^sup>*\<^sup>* (sample_chain, sample_ctx) (sample_minted, sample_ctx)"
    using step_mint [OF sample_Mint] by (rule r_into_rtranclp)
  then show ?thesis
    using params_stay_valid [of ref_keeper ref_lib sample_chain sample_ctx sample_minted sample_ctx sample_params]
      ref_laws sample_get sample_params_valid by auto
qed

text \<open>
  Exporting the genesis state right after importing it returns the imported state, and the
  parameter query returns the imported parameters.
\<close>

theorem genesis_roundtrip:
  assumes "item_laws (k_Params k)" "InitGenesis k gs s = (s', Ok ())"
  shows "ExportGenesis k s' = (s', Ok gs) \<and> Query_Params k (Some ()) s' = (s', Ok (gs_Params gs))"
  using assms
  by (simp add: item_laws_def InitGenesis_def ExportGenesis_def Query_Params_def bindA_def outcome_simps DefaultGenesis_def)

theorem genesis_roundtrip_witness:
  "\<exists>s'. ExportGenesis ref_keeper s' = (s', Ok DefaultGenesis)"
proof -
  obtain s' where "InitGenesis ref_keeper DefaultGenesis sample_chain = (s', Ok ())"
    by (simp add: InitGenesis_def ref_params_def)
  then show ?thesis using genesis_roundtrip [of ref_keeper] ref_laws by auto
qed

text \<open>
  The parameter query never changes the store; a missing request is an invalid argument,
  missing parameters are reported as not found and any other store error as internal.
\<close>

theorem query_params_outcomes:
  "fst (Query_Params k req s) = s \<and>
   snd (Query_Params k None s) = Err (ErrStatus InvalidArgument ''invalid request'') \<and>
   (item_Get (k_Params k) s = Err (ErrWrap m collections_ErrNotFound) \<longrightarrow>
      snd (Query_Params k (Some ()) s) = Err (ErrStatus NotFound ''module params not initialized'')) \<and>
   (item_Get (k_Params k) s = Err e \<and> \<not> errors_Is e collections_ErrNotFound \<longrightarrow>
      snd (Query_Params k (Some ()) s) = Err (ErrStatus Internal ''internal error''))"
  by (auto simp: Query_Params_def collections_ErrNotFound_def outcome_simps split: option.split)

theorem query_params_outcomes_witness:
  "snd (Query_Params (ref_keeper\<lparr>k_Params := ref_params\<lparr>item_Get := (\<lambda>_. Err (ErrForeign ''corrupt''))\<rparr>\<rparr>) (Some ()) sample_chain)
   = Err (ErrStatus Internal ''internal error'')"
  using query_params_outcomes [of "ref_keeper\<lparr>k_Params := ref_params\<lparr>item_Get := (\<lambda>_. Err (ErrForeign ''corrupt''))\<rparr>\<rparr>"
      "Some ()" sample_chain "''''" "ErrForeign ''corrupt''"]
  by (simp add: collections_ErrNotFound_def)

text \<open>
  C23: Parameters that pass the strict validation also pass as part of a genesis state; the
  lenient validation accepts in addition empty addresses (so the default genesis, whose
  parameters the strict validation rejects) and a zero maximum supply.
\<close>

theorem validation_order:
  "(Params_Validate L p = Ok () \<longrightarrow> GenesisState_Validate L \<lparr>gs_Params = p\<rparr> = Ok ()) \<and>
   Params_Validate L DefaultParams = Err (ErrText ''minting address cannot be empty'') \<and>
   (is_ok (sdk_ValidateDenom L DefaultDenom) \<longrightarrow>
      GenesisState_Validate L DefaultGenesis = Ok () \<and>
      GenesisState_Validate L \<lparr>gs_Params = DefaultParams\<lparr>p_MaxSupply := 0\<rparr>\<rparr> = Ok ())"
proof -
  have "is_ok (time_Parse (p_DistributionStartDate DefaultParams))"
    using default_start_date by (simp add: DefaultParams_def NewParams_def)
  then show ?thesis
    by (auto simp: Params_Validate_ok GenesisState_Validate_ok DefaultGenesis_def)
       (simp_all add: default_params_defs Params_Validate_def validateMintingAddress_def)
qed

theorem validation_order_witness:
  "GenesisState_Validate ref_lib \<lparr>gs_Params = sample_params\<rparr> = Ok () \<and>
   GenesisState_Validate ref_lib DefaultGenesis = Ok ()"
proof -
  have "is_ok (sdk_ValidateDenom ref_lib DefaultDenom)" by (simp add: ref_lib_def DefaultDenom_def)
  then show ?thesis using validation_order [of ref_lib sample_params] sample_params_valid by simp
qed

end
