(* ===== verification/Proto_Wire.thy ===== *)
theory Proto_Wire
  imports Gnodi_Prelude
begin

text \<open>
  The protobuf wire format as the generated files \<^verbatim>\<open>x/distro/types/*.pb.go\<close> implement it.
  Encoding writes backwards into a buffer of the exact size; decoding walks an index over the
  input. Both are modelled on the buffer, with the out-of-range panics of Go, and related to a
  forward specification of the encoding. Every generated file has its own copy of the helpers
  with its own error variables, which are the record \<open>wire_errors\<close>.
\<close>

unbundle bit_operations_syntax

section \<open>Buffers\<close>

definition set_byte :: "bytes \<Rightarrow> int \<Rightarrow> byte \<Rightarrow> bytes outcome" where
  "set_byte buf i b =
     (if 0 \<le> i \<and> i < int (length buf) then Ok (buf[nat i := b])
      else Panic ''index out of range'')"

text \<open>\<^verbatim>\<open>copy(dAtA[i:], src)\<close>.\<close>

definition copy_at :: "bytes \<Rightarrow> int \<Rightarrow> bytes \<Rightarrow> bytes outcome" where
  "copy_at buf i src =
     (if 0 \<le> i \<and> i \<le> int (length buf)
      then let n = min (length src) (length buf - nat i)
           in Ok (take (nat i) buf @ take n src @ drop (nat i + n) buf)
      else Panic ''slice bounds out of range'')"

section \<open>Varint encoding\<close>

text \<open>\<^verbatim>\<open>math/bits.Len64\<close>: the number of bits needed for a value.\<close>

fun bit_length :: "nat \<Rightarrow> nat" where
  "bit_length n = (if n = 0 then 0 else Suc (bit_length (n div 2)))"

declare bit_length.simps [simp del]

definition Len64 :: "u64 \<Rightarrow> nat" where
  "Len64 x = bit_length (unat x)"

definition sov :: "u64 \<Rightarrow> nat" where
  "sov x = (Len64 (x OR 1) + 6) div 7"

text \<open>The size of the zig-zag encoding, \<^verbatim>\<open>soz\<close>; an arithmetic shift replicates the sign.\<close>

definition soz :: "u64 \<Rightarrow> nat" where
  "soz x = sov (push_bit 1 x XOR signed_drop_bit 63 x)"

lemma drop_bit_7_less: "(v :: u64) \<ge> 128 \<Longrightarrow> unat (drop_bit 7 v) < unat v"
  by (simp add: word_le_nat_alt drop_bit_eq_div unat_div_u64)

function writeVarint :: "bytes \<Rightarrow> int \<Rightarrow> u64 \<Rightarrow> bytes outcome" where
  "writeVarint dAtA offset v =
     (if v \<ge> 128
      then bindO (set_byte dAtA offset (ucast (v AND 0x7f OR 0x80))) (\<lambda>dAtA'.
             writeVarint dAtA' (offset + 1) (drop_bit 7 v))
      else set_byte dAtA offset (ucast v))"
  by pat_completeness auto
termination
  by (relation "measure (\<lambda>(d, off, v). unat v)") (auto simp: drop_bit_7_less)

declare writeVarint.simps [simp del]

definition encodeVarint :: "bytes \<Rightarrow> int \<Rightarrow> u64 \<Rightarrow> (bytes \<times> int) outcome" where
  "encodeVarint dAtA offset v =
     (let base = offset - int (sov v)
      in bindO (writeVarint dAtA base v) (\<lambda>dAtA'. Ok (dAtA', base)))"

section \<open>Varint decoding\<close>

record wire_errors =
  ErrInvalidLength :: go_error
  ErrIntOverflow :: go_error
  ErrUnexpectedEndOfGroup :: go_error

definition io_ErrUnexpectedEOF :: go_error where
  "io_ErrUnexpectedEOF = ErrForeign ''unexpected EOF''"

text \<open>The loop \<^verbatim>\<open>for shift := uint(0); ; shift += 7\<close> that every number is read with.\<close>

function decodeVarint :: "wire_errors \<Rightarrow> bytes \<Rightarrow> nat \<Rightarrow> nat \<Rightarrow> u64 \<Rightarrow> (u64 \<times> nat) outcome" where
  "decodeVarint E dAtA iNdEx shift acc =
     (if shift \<ge> 64 then Err (ErrIntOverflow E)
      else if iNdEx \<ge> length dAtA then Err io_ErrUnexpectedEOF
      else
        let b = dAtA ! iNdEx;
            acc' = acc OR push_bit shift (ucast (b AND 0x7F))
        in if b < 0x80 then Ok (acc', Suc iNdEx)
           else decodeVarint E dAtA (Suc iNdEx) (shift + 7) acc')"
  by pat_completeness auto
termination
  by (relation "measure (\<lambda>(E, d, i, shift, acc). 64 - shift)") auto

declare decodeVarint.simps [simp del]

section \<open>The specification of a varint\<close>

fun varint :: "nat \<Rightarrow> bytes" where
  "varint n = (if n < 128 then [word_of_nat n] else word_of_nat (n mod 128 + 128) # varint (n div 128))"

declare varint.simps [simp del]

lemma varint_nonempty [simp]: "varint n \<noteq> []"
  by (simp add: varint.simps [of n])

lemma bit_length_div_128: "128 \<le> n \<Longrightarrow> bit_length n = bit_length (n div 128) + 7"
  by (simp add: bit_length.simps [of n] bit_length.simps [of "n div 2"] bit_length.simps [of "n div 4"]
      bit_length.simps [of "n div 8"] bit_length.simps [of "n div 16"] bit_length.simps [of "n div 32"]
      bit_length.simps [of "n div 64"] div_mult2_eq [symmetric] div_greater_zero_iff)

lemma bit_length_or_1: "bit_length (n OR 1) = (if n = 0 then 1 else bit_length n)"
proof (cases "even n")
  case True
  then have "n OR 1 = n + 1" using or_one_eq [of n] by simp
  then show ?thesis using True
    by (cases "n = 0") (simp_all add: bit_length.simps [of "Suc 0"] bit_length.simps [of "Suc n"] bit_length.simps [of n] bit_length.simps [of 0])
next
  case False
  then have "n OR 1 = n" using or_one_eq [of n] by simp
  then show ?thesis using False by (metis even_zero)
qed

lemma bit_length_le: "n < 2 ^ k \<Longrightarrow> bit_length n \<le> k"
proof (induction k arbitrary: n)
  case (Suc k)
  then show ?case by (subst bit_length.simps) auto
qed (simp add: bit_length.simps)

lemma length_varint: "length (varint n) = (bit_length (n OR 1) + 6) div 7"
proof (induction n rule: varint.induct)
  case (1 n)
  show ?case
  proof (cases "n < 128")
    case True
    then have "bit_length n \<le> 7" using bit_length_le [of n 7] by simp
    moreover have "0 < bit_length n" if "n \<noteq> 0" using that by (subst bit_length.simps) simp
    ultimately have "1 \<le> bit_length (n OR 1) \<and> bit_length (n OR 1) \<le> 7" unfolding bit_length_or_1 by auto
    then have "(bit_length (n OR 1) + 6) div 7 = 1" by presburger
    with True show ?thesis by (simp add: varint.simps [of n])
  next
    case False
    then have "n div 128 \<noteq> 0" "n \<noteq> 0" by simp_all
    then have "bit_length (n OR 1) = bit_length (n div 128 OR 1) + 7"
      using False by (simp add: bit_length_or_1 bit_length_div_128 del: One_nat_def)
    with 1 False show ?thesis by (simp add: varint.simps [of n])
  qed
qed

lemma sov_varint: "sov v = length (varint (unat v))"
  by (simp add: sov_def Len64_def length_varint unsigned_or_eq)

lemma sov_pos [simp]: "0 < sov v"
  by (simp add: sov_varint)

lemma length_varint_le: "n < 2 ^ (7 * k) \<Longrightarrow> 0 < k \<Longrightarrow> length (varint n) \<le> k"
proof (induction n arbitrary: k rule: varint.induct)
  case (1 n)
  show ?case
  proof (cases "n < 128")
    case False
    obtain j where k: "k = Suc j" "0 < j"
      using False 1(2,3) by (cases k; cases "k = 1") auto
    then have "n div 128 < 2 ^ (7 * j)" using 1(2) by (simp add: power_add less_mult_imp_div_less mult.commute)
    with 1(1) [OF False this k(2)] False k show ?thesis by (simp add: varint.simps [of n])
  qed (use 1(3) in \<open>simp add: varint.simps [of n]\<close>)
qed

lemma sov_le_10: "sov v \<le> 10"
  unfolding sov_varint by (rule length_varint_le, rule less_trans [OF unat_u64_less]) simp_all

section \<open>Writing a varint\<close>

text \<open>The part of a buffer from index \<open>i\<close> on, which encoding fills from the right.\<close>

definition filled :: "bytes \<Rightarrow> int \<Rightarrow> bytes \<Rightarrow> bool" where
  "filled buf i suf \<longleftrightarrow> 0 \<le> i \<and> i \<le> int (length buf) \<and> drop (nat i) buf = suf"

lemma filled_end: "filled buf (int (length buf)) []"
  by (simp add: filled_def)

lemma filled_complete: "filled buf 0 suf \<Longrightarrow> buf = suf"
  by (simp add: filled_def)

lemma low_byte:
  "(ucast ((v :: u64) AND 0x7f OR 0x80) :: byte) = word_of_nat (unat v mod 128 + 128)"
proof -
  have m: "v AND 0x7f = take_bit 7 v" by (simp add: take_bit_eq_mask mask_eq_exp_minus_1)
  have e: "(0x80 :: u64) = push_bit 7 1" by (simp add: push_bit_eq_mult)
  have b: "bit (0x80 :: u64) n \<longleftrightarrow> n = 7" for n
    unfolding e bit_push_bit_iff by (auto simp: bit_1_iff)
  have "take_bit 7 v AND 0x80 = 0"
    by (rule bit_word_eqI) (metis b bit_and_iff bit_take_bit_iff bit_0_eq bot_fun_def bot_bool_def less_irrefl)
  then have "v AND 0x7f OR 0x80 = take_bit 7 v + 0x80" using m by (simp add: disjunctive_add_eq_or)
  also have "\<dots> = word_of_nat (unat v mod 128 + 128)"
    by (simp add: take_bit_eq_mod word_arith_nat_defs(7) unat_mod)
  finally have "v AND 0x7f OR 0x80 = word_of_nat (unat v mod 128 + 128)" .
  moreover have "(ucast (word_of_nat m :: u64) :: byte) = word_of_nat m" if "m < 2 ^ 64" for m
    using that by (simp only: unsigned_of_nat) (simp add: take_bit_nat_eq_self)
  moreover have "unat v mod 128 + 128 < 2 ^ 64" by (rule less_trans [of _ 256]) simp_all
  ultimately show ?thesis by metis
qed

lemma writeVarint_ok:
  assumes "0 \<le> off" "off + int (length (varint (unat v))) \<le> int (length buf)"
  shows "writeVarint buf off v =
    Ok (take (nat off) buf @ varint (unat v) @ drop (nat off + length (varint (unat v))) buf)"
  using assms
proof (induction buf off v rule: writeVarint.induct)
  case (1 buf off v)
  define n where "n = nat off"
  have off: "off = int n" using 1(2) by (simp add: n_def)
  have len: "n < length buf" using 1(3) off by (cases "varint (unat v)") auto
  have split: "buf[n := b] = take n buf @ b # drop (Suc n) buf" for b
    using len by (simp add: upd_conv_take_nth_drop)
  show ?case
  proof (cases "v \<ge> 128")
    case True
    let ?b = "word_of_nat (unat v mod 128 + 128) :: byte"
    have v: "varint (unat v) = ?b # varint (unat v div 128)" "unat (drop_bit 7 v) = unat v div 128"
      using True by (subst varint.simps, simp add: word_le_nat_alt, simp add: drop_bit_eq_div unat_div_u64)
    have set: "set_byte buf off (ucast (v AND 0x7f OR 0x80)) = Ok (take n buf @ ?b # drop (Suc n) buf)"
      unfolding low_byte using len off by (simp add: set_byte_def split)
    have "writeVarint (take n buf @ ?b # drop (Suc n) buf) (off + 1) (drop_bit 7 v) =
        Ok (take (nat (off + 1)) (take n buf @ ?b # drop (Suc n) buf) @ varint (unat (drop_bit 7 v)) @
          drop (nat (off + 1) + length (varint (unat (drop_bit 7 v)))) (take n buf @ ?b # drop (Suc n) buf))"
      by (rule 1(1) [OF True]) (use 1(2,3) off v len in auto)
    then show ?thesis
      using True v len off set by (subst writeVarint.simps) (simp add: nat_add_distrib add.commute)
  next
    case False
    then have "unat v < 128" by (simp add: word_less_nat_alt not_le)
    then have "varint (unat v) = [ucast v]" by (subst varint.simps) (simp add: of_nat_unat)
    with False off len show ?thesis by (subst writeVarint.simps) (simp add: set_byte_def split)
  qed
qed

lemma encodeVarint_ok:
  assumes "filled buf i suf" "int (sov v) \<le> i"
  shows "\<exists>buf'. encodeVarint buf i v = Ok (buf', i - int (sov v)) \<and> length buf' = length buf \<and>
    filled buf' (i - int (sov v)) (varint (unat v) @ suf)"
proof -
  define n where "n = nat (i - int (sov v))"
  have i: "i = int n + int (sov v)" using assms(2) by (simp add: n_def)
  have "int n + int (length (varint (unat v))) \<le> int (length buf)"
    using assms(1) i by (simp add: filled_def sov_varint)
  then have "writeVarint buf (int n) v =
      Ok (take n buf @ varint (unat v) @ drop (n + length (varint (unat v))) buf)"
    using writeVarint_ok [of "int n" v buf] by simp
  moreover have "drop (n + length (varint (unat v))) buf = suf"
    using assms(1) i by (simp add: filled_def sov_varint nat_add_distrib)
  moreover have "n + sov v \<le> length buf" using assms(1) i by (simp add: filled_def)
  moreover have "length suf = length buf - (n + sov v)"
    using assms(1) i by (auto simp: filled_def nat_add_distrib)
  ultimately show ?thesis
    using i by (simp add: encodeVarint_def Let_def filled_def sov_varint)
qed

section \<open>Reading a varint\<close>

lemma or_shifted: "a < 2 ^ s \<Longrightarrow> (a :: nat) OR push_bit s x = a + push_bit s x"
proof -
  assume "a < 2 ^ s"
  then have "take_bit s a = a" by (simp add: take_bit_nat_eq_self)
  then have "\<not> bit a n \<or> \<not> bit (push_bit s x) n" for n
    by (metis bit_push_bit_iff bit_take_bit_iff not_le)
  then show ?thesis by (simp add: disjunctive_add)
qed

lemma seven_bits: "unat (ucast ((b :: byte) AND 0x7F) :: u64) = unat b mod 128"
proof -
  have "b AND 0x7F = take_bit 7 b" by (simp add: take_bit_eq_mask mask_eq_exp_minus_1)
  then have "unat (b AND 0x7F) = unat b mod 128" by (simp add: take_bit_eq_mod unat_mod)
  then show ?thesis
    by (simp add: unsigned_ucast_eq take_bit_nat_eq_self_iff)
qed

lemma accumulate:
  assumes "unat acc < 2 ^ shift" "unat acc + n * 2 ^ shift < 2 ^ 64" "unat (x :: u64) \<le> n"
  shows "unat (acc OR push_bit shift x :: u64) = unat acc + unat x * 2 ^ shift"
proof -
  have le: "unat x * 2 ^ shift \<le> n * 2 ^ shift" using assms(3) by simp
  have "unat (push_bit shift x) = take_bit 64 (push_bit shift (unat x))"
    using unsigned_push_bit_eq [of shift x, where ?'a = nat] by simp
  moreover have "push_bit shift (unat x) < 2 ^ 64"
    unfolding push_bit_eq_mult using le assms(2) by linarith
  ultimately have "unat (push_bit shift x) = push_bit shift (unat x)"
    by (simp add: take_bit_nat_eq_self)
  then show ?thesis
    using assms(1) or_shifted [of "unat acc" shift "unat x"]
    by (simp only: unsigned_or_eq) (simp add: push_bit_eq_mult)
qed

lemma decodeVarint_varint:
  assumes "drop i d = varint n @ rest" "unat acc < 2 ^ shift" "unat acc + n * 2 ^ shift < 2 ^ 64"
    and "n = 0 \<longrightarrow> shift < 64"
  shows "decodeVarint E d i shift acc = Ok (word_of_nat (unat acc + n * 2 ^ shift), i + length (varint n))"
  using assms
proof (induction n arbitrary: i shift acc rule: varint.induct)
  case (1 n)
  have s64: "shift < 64"
  proof (cases "n = 0")
    case False
    then have "2 ^ shift \<le> n * 2 ^ shift" by simp
    with 1(4) have "(2 :: nat) ^ shift < 2 ^ 64" by linarith
    then show ?thesis by (rule power_less_imp_less_exp [rotated]) simp
  qed (use 1(5) in simp)
  have il: "i < length d" using 1(2) by (metis append_is_Nil_conv drop_eq_Nil not_le varint_nonempty)
  define b where "b = d ! i"
  have hd: "drop i d = b # drop (Suc i) d" unfolding b_def using il by (simp add: Cons_nth_drop_Suc)
  show ?case
  proof (cases "n < 128")
    case True
    then have v: "varint n = [word_of_nat n]" by (simp add: varint.simps)
    with hd 1(2) have b: "b = word_of_nat n" by simp
    have ub: "unat b = n" unfolding b using True by (simp add: unat_of_nat)
    have u7: "unat (ucast (b AND 0x7F) :: u64) = n" using True ub by (simp add: seven_bits)
    have "unat (acc OR push_bit shift (ucast (b AND 0x7F))) = unat acc + n * 2 ^ shift"
      using accumulate [OF 1(3,4), of "ucast (b AND 0x7F)"] u7 by simp
    then have "acc OR push_bit shift (ucast (b AND 0x7F)) = word_of_nat (unat acc + n * 2 ^ shift)"
      by (simp only: flip: \<open>unat (acc OR _) = _\<close>) simp
    moreover have "b < 0x80" using ub True by (simp add: word_less_nat_alt)
    ultimately show ?thesis
      using s64 il v by (subst decodeVarint.simps) (simp add: Let_def flip: b_def)
  next
    case False
    then have v: "varint n = word_of_nat (n mod 128 + 128) # varint (n div 128)" by (simp add: varint.simps [of n])
    with hd 1(2) have b: "b = word_of_nat (n mod 128 + 128)" and rest: "drop (Suc i) d = varint (n div 128) @ rest"
      by simp_all
    have "unat (word_of_nat m :: byte) = m" if "m < 256" for m
      using that by (simp add: unat_of_nat)
    from this [of "n mod 128 + 128"] have ub: "unat b = n mod 128 + 128" unfolding b by simp
    let ?acc = "acc OR push_bit shift (ucast (b AND 0x7F))"
    have u7: "unat (ucast (b AND 0x7F) :: u64) = n mod 128" using ub by (simp add: seven_bits)
    have acc: "unat ?acc = unat acc + n mod 128 * 2 ^ shift"
      using accumulate [OF 1(3,4), of "ucast (b AND 0x7F)"] u7 by simp
    have lt: "unat ?acc < 2 ^ (shift + 7)"
    proof -
      have "n mod 128 * 2 ^ shift \<le> 127 * 2 ^ shift" by simp
      then have "unat acc + n mod 128 * 2 ^ shift < 128 * 2 ^ shift" using 1(3) by linarith
      then show ?thesis unfolding acc by (simp add: power_add mult.commute)
    qed
    have sum: "unat ?acc + n div 128 * 2 ^ (shift + 7) = unat acc + n * 2 ^ shift"
    proof -
      have "n * 2 ^ shift = (n div 128 * 128 + n mod 128) * 2 ^ shift" by simp
      then show ?thesis unfolding acc by (simp only: power_add distrib_right) simp
    qed
    have "decodeVarint E d (Suc i) (shift + 7) ?acc =
        Ok (word_of_nat (unat ?acc + n div 128 * 2 ^ (shift + 7)), Suc i + length (varint (n div 128)))"
      by (rule 1(1) [OF False rest lt]) (use sum 1(4) False in auto)
    moreover have "\<not> b < 0x80" using ub by (simp add: word_less_nat_alt)
    ultimately show ?thesis
      using s64 il v sum by (subst decodeVarint.simps) (simp add: Let_def flip: b_def)
  qed
qed

lemma decodeVarint_encoded:
  assumes "drop i d = varint (unat v) @ rest"
  shows "decodeVarint E d i 0 0 = Ok (v, i + sov v)"
  using decodeVarint_varint [OF assms, of 0 0 E] by (simp add: sov_varint unat_u64_less_num)

lemma decodeVarint_Ok:
  assumes "decodeVarint E d i shift acc = Ok (v, j)"
  shows "i < j" "j \<le> length d" "j \<le> i + 10"
proof -
  have "i < j \<and> j \<le> length d \<and> 7 * (j - i) + shift < 64 + 7"
    using assms
  proof (induction E d i shift acc rule: decodeVarint.induct)
    case (1 E d i shift acc)
    then show ?case
      by (subst (asm) (2) decodeVarint.simps) (fastforce simp: Let_def split: if_splits)
  qed
  then show "i < j" "j \<le> length d" "j \<le> i + 10" by auto
qed

end
