(* ===== verification/Proto_Message.thy ===== *)
theory Proto_Message
  imports Proto_Wire
begin

text \<open>
  The parts the generated \<^verbatim>\<open>Marshal\<close>, \<^verbatim>\<open>Size\<close> and \<^verbatim>\<open>Unmarshal\<close> methods are made
  of: fields written backwards into the buffer, tags, the three kinds of fields that the
  distro messages have, the skipping of unknown fields and the loop over the input. The
  interface \<open>wire_message\<close> is what each message type promises; its consequences (round trip,
  exact size, injectivity) are proved once.
\<close>

section \<open>Writing fields\<close>

type_synonym buffer = "bytes \<times> int"

text \<open>\<^verbatim>\<open>i--; dAtA[i] = tag\<close>.\<close>

definition putTag :: "byte \<Rightarrow> buffer \<Rightarrow> buffer outcome" where
  "putTag tag = (\<lambda>(dAtA, i). bindO (set_byte dAtA (i - 1) tag) (\<lambda>dAtA'. Ok (dAtA', i - 1)))"

definition putUint64 :: "byte \<Rightarrow> u64 \<Rightarrow> buffer \<Rightarrow> buffer outcome" where
  "putUint64 tag v = (\<lambda>(dAtA, i).
     if v \<noteq> 0 then bindO (encodeVarint dAtA i v) (putTag tag) else Ok (dAtA, i))"

definition putString :: "byte \<Rightarrow> string \<Rightarrow> buffer \<Rightarrow> buffer outcome" where
  "putString tag s = (\<lambda>(dAtA, i).
     if length s > 0 then
       let i1 = i - int (length s) in
       bindO (copy_at dAtA i1 (string_bytes s)) (\<lambda>dAtA'.
       bindO (encodeVarint dAtA' i1 (word_of_nat (length s))) (putTag tag))
     else Ok (dAtA, i))"

text \<open>
  An embedded message is marshalled into the part of the buffer that is still free,
  \<^verbatim>\<open>dAtA[:i]\<close>, which shares its bytes with the whole buffer.
\<close>

definition putMessage :: "byte \<Rightarrow> (bytes \<Rightarrow> (bytes \<times> int) outcome) \<Rightarrow> buffer \<Rightarrow> buffer outcome" where
  "putMessage tag marshalToSizedBuffer = (\<lambda>(dAtA, i).
     if i < 0 \<or> i > int (length dAtA) then Panic ''slice bounds out of range''
     else
       bindO (marshalToSizedBuffer (take (nat i) dAtA)) (\<lambda>(part, size).
       bindO (encodeVarint (part @ drop (nat i) dAtA) (i - size) (word_of_int size)) (putTag tag)))"

definition marshalInto :: "(buffer \<Rightarrow> buffer outcome) \<Rightarrow> bytes \<Rightarrow> (bytes \<times> int) outcome" where
  "marshalInto puts dAtA =
     bindO (puts (dAtA, int (length dAtA))) (\<lambda>(dAtA', i). Ok (dAtA', int (length dAtA') - i))"

text \<open>\<^verbatim>\<open>Marshal\<close>: a fresh buffer of the computed size, and \<^verbatim>\<open>dAtA[:n]\<close> of the result.\<close>

definition marshal :: "nat \<Rightarrow> (bytes \<Rightarrow> (bytes \<times> int) outcome) \<Rightarrow> bytes outcome" where
  "marshal sz marshalToSizedBuffer =
     bindO (marshalToSizedBuffer (replicate sz 0)) (\<lambda>(dAtA, n). Ok (take (nat n) dAtA))"

text \<open>\<^verbatim>\<open>MarshalTo\<close>: the first \<open>sz\<close> bytes of the caller's buffer.\<close>

definition marshalTo :: "nat \<Rightarrow> (bytes \<Rightarrow> (bytes \<times> int) outcome) \<Rightarrow> bytes \<Rightarrow> (bytes \<times> int) outcome" where
  "marshalTo sz marshalToSizedBuffer dAtA =
     (if sz > length dAtA then Panic ''slice bounds out of range''
      else bindO (marshalToSizedBuffer (take sz dAtA)) (\<lambda>(part, n). Ok (part @ drop sz dAtA, n)))"

section \<open>The forward encoding of a field\<close>

definition enc_uint64 :: "byte \<Rightarrow> u64 \<Rightarrow> bytes" where
  "enc_uint64 tag v = (if v = 0 then [] else tag # varint (unat v))"

definition enc_message :: "byte \<Rightarrow> bytes \<Rightarrow> bytes" where
  "enc_message tag body = tag # varint (length body) @ body"

definition enc_string :: "byte \<Rightarrow> string \<Rightarrow> bytes" where
  "enc_string tag s = (if s = [] then [] else enc_message tag (string_bytes s))"

text \<open>A writer that puts \<open>enc\<close> in front of what the buffer already holds.\<close>

definition writes :: "(buffer \<Rightarrow> buffer outcome) \<Rightarrow> bytes \<Rightarrow> bool" where
  "writes f enc \<longleftrightarrow>
     (\<forall>buf i suf. filled buf i suf \<and> int (length enc) \<le> i \<longrightarrow>
        (\<exists>buf'. f (buf, i) = Ok (buf', i - int (length enc)) \<and> length buf' = length buf \<and>
           filled buf' (i - int (length enc)) (enc @ suf)))"

lemma writesD:
  assumes "writes f enc" "filled buf i suf" "int (length enc) \<le> i"
  obtains buf' where "f (buf, i) = Ok (buf', i - int (length enc))" "length buf' = length buf"
    "filled buf' (i - int (length enc)) (enc @ suf)"
  using assms unfolding writes_def by blast

lemma writes_skip: "writes Ok []"
  by (simp add: writes_def)

lemma writes_seq:
  assumes "writes f e1" "writes g e2"
  shows "writes (\<lambda>st. bindO (f st) g) (e2 @ e1)"
  unfolding writes_def
proof (intro allI impI, elim conjE)
  fix buf i suf assume a: "filled buf i suf" "int (length (e2 @ e1)) \<le> i"
  then have "int (length e1) \<le> i" by simp
  from assms(1) a(1) this obtain b1 where b1: "f (buf, i) = Ok (b1, i - int (length e1))" "length b1 = length buf"
    "filled b1 (i - int (length e1)) (e1 @ suf)" by (rule writesD)
  have "int (length e2) \<le> i - int (length e1)" using a(2) by simp
  from assms(2) b1(3) this obtain b2 where "g (b1, i - int (length e1)) = Ok (b2, i - int (length e1) - int (length e2))"
    "length b2 = length b1" "filled b2 (i - int (length e1) - int (length e2)) (e2 @ e1 @ suf)" by (rule writesD)
  then show "\<exists>buf'. bindO (f (buf, i)) g = Ok (buf', i - int (length (e2 @ e1))) \<and> length buf' = length buf \<and>
      filled buf' (i - int (length (e2 @ e1))) ((e2 @ e1) @ suf)"
    using b1 by (simp add: algebra_simps)
qed

lemma writes_putTag: "writes (putTag tag) [tag]"
  unfolding writes_def
proof (intro allI impI, elim conjE)
  fix buf i suf assume a: "filled buf i suf" "int (length [tag]) \<le> i"
  define n where "n = nat (i - 1)"
  have i: "i = int (Suc n)" using a(2) by (simp add: n_def)
  have n: "n < length buf" "drop (Suc n) buf = suf"
    using a(1) i by (simp_all add: filled_def nat_add_distrib)
  have "drop n (buf[n := tag]) = tag # suf"
    using n by (metis Cons_nth_drop_Suc drop_update_cancel length_list_update lessI nth_list_update_eq)
  then show "\<exists>buf'. putTag tag (buf, i) = Ok (buf', i - int (length [tag])) \<and> length buf' = length buf \<and>
      filled buf' (i - int (length [tag])) ([tag] @ suf)"
    using n i by (simp add: putTag_def set_byte_def filled_def)
qed

lemma writes_encodeVarint: "writes (\<lambda>(buf, i). encodeVarint buf i v) (varint (unat v))"
  unfolding writes_def using encodeVarint_ok by (simp add: sov_varint)

lemma writes_cong: "writes f e \<Longrightarrow> (\<And>st. f st = g st) \<Longrightarrow> writes g e"
  by (simp add: writes_def)

lemma writes_putUint64: "writes (putUint64 tag v) (enc_uint64 tag v)"
proof (cases "v = 0")
  case True
  then show ?thesis using writes_skip
    by (auto simp: enc_uint64_def putUint64_def intro: writes_cong)
next
  case False
  have "writes (\<lambda>st. bindO (case st of (buf, i) \<Rightarrow> encodeVarint buf i v) (putTag tag)) ([tag] @ varint (unat v))"
    by (rule writes_seq [OF writes_encodeVarint writes_putTag])
  with False show ?thesis
    by (auto simp: enc_uint64_def putUint64_def elim!: writes_cong)
qed

lemma writes_copy: "writes (\<lambda>(buf, i). bindO (copy_at buf (i - int (length src)) src) (\<lambda>b. Ok (b, i - int (length src)))) src"
  unfolding writes_def
proof (intro allI impI, elim conjE)
  fix buf i suf assume a: "filled buf i suf" "int (length src) \<le> i"
  define n where "n = nat (i - int (length src))"
  have i: "i = int n + int (length src)" using a(2) by (simp add: n_def)
  have le: "n + length src \<le> length buf" and suf: "drop (n + length src) buf = suf"
    using a(1) i by (simp_all add: filled_def nat_add_distrib)
  moreover from le have "length src \<le> length buf - n" by simp
  ultimately have "copy_at buf (int n) src = Ok (take n buf @ src @ suf)"
    by (simp add: copy_at_def Let_def min_def)
  with i le suf show "\<exists>buf'. (case (buf, i) of (buf, i) \<Rightarrow>
        bindO (copy_at buf (i - int (length src)) src) (\<lambda>b. Ok (b, i - int (length src)))) = Ok (buf', i - int (length src)) \<and>
      length buf' = length buf \<and> filled buf' (i - int (length src)) (src @ suf)"
    by (auto simp: filled_def)
qed

lemma bindO_assoc: "bindO (bindO m f) g = bindO m (\<lambda>x. bindO (f x) g)"
  by (cases m) simp_all

lemma writes_putString:
  assumes "length s < 2 ^ 64"
  shows "writes (putString tag s) (enc_string tag s)"
proof (cases "s = []")
  case True
  then show ?thesis using writes_skip by (auto simp: enc_string_def putString_def intro: writes_cong)
next
  case False
  let ?copy = "\<lambda>(buf, i). bindO (copy_at buf (i - int (length (string_bytes s))) (string_bytes s))
      (\<lambda>b. Ok (b, i - int (length (string_bytes s))))"
  have "writes (\<lambda>st. bindO (bindO (?copy st) (\<lambda>(buf, i). encodeVarint buf i (word_of_nat (length s)))) (putTag tag))
      ([tag] @ varint (unat (word_of_nat (length s) :: u64)) @ string_bytes s)"
    by (intro writes_seq writes_copy writes_encodeVarint writes_putTag)
  then show ?thesis
    using False assms
    by (auto simp: enc_string_def enc_message_def putString_def Let_def bindO_assoc unat_of_nat_u64 elim!: writes_cong)
qed

lemma marshalInto_ok:
  assumes "writes puts enc" "length dAtA = length enc + k"
  shows "\<exists>pre. length pre = k \<and> marshalInto puts dAtA = Ok (pre @ enc, int (length enc))"
proof -
  from assms(1) filled_end have "int (length enc) \<le> int (length dAtA) \<Longrightarrow>
    \<exists>buf'. puts (dAtA, int (length dAtA)) = Ok (buf', int (length dAtA) - int (length enc)) \<and> length buf' = length dAtA \<and>
      filled buf' (int (length dAtA) - int (length enc)) (enc @ [])"
    unfolding writes_def by blast
  then obtain buf' where b: "puts (dAtA, int (length dAtA)) = Ok (buf', int k)" "length buf' = length dAtA"
    "drop k buf' = enc"
    using assms(2) by (auto simp: filled_def)
  have "take k buf' @ enc = buf'" unfolding b(3) [symmetric] by (rule append_take_drop_id)
  then show ?thesis
    using b(1,2) assms(2) by (intro exI [of _ "take k buf'"]) (simp add: marshalInto_def)
qed

lemma marshal_ok:
  assumes "writes puts enc"
  shows "marshal (length enc) (marshalInto puts) = Ok enc"
  using marshalInto_ok [OF assms, of "replicate (length enc) 0" 0] by (auto simp: marshal_def)

lemma marshalTo_ok:
  assumes "writes puts enc" "length enc \<le> length dAtA"
  shows "marshalTo (length enc) (marshalInto puts) dAtA = Ok (enc @ drop (length enc) dAtA, int (length enc))"
  using marshalInto_ok [OF assms(1), of "take (length enc) dAtA" 0] assms(2) by (auto simp: marshalTo_def)

lemma writes_putMessage:
  assumes "writes puts enc" "length enc < 2 ^ 63"
  shows "writes (putMessage tag (marshalInto puts)) (enc_message tag enc)"
  unfolding writes_def
proof (intro allI impI, elim conjE)
  fix buf i suf assume a: "filled buf i suf" "int (length (enc_message tag enc)) \<le> i"
  define n where "n = nat i"
  have i: "i = int n" "n \<le> length buf" "drop n buf = suf" using a(1) by (auto simp: n_def filled_def)
  have le: "length enc \<le> n" using a(2) i by (simp add: enc_message_def)
  obtain pre where pre: "length pre = n - length enc" "marshalInto puts (take n buf) = Ok (pre @ enc, int (length enc))"
    using marshalInto_ok [OF assms(1), of "take n buf" "n - length enc"] i le by auto
  have f: "filled (pre @ enc @ suf) (int n - int (length enc)) (enc @ suf)"
    using pre le by (simp add: filled_def nat_diff_distrib)
  have v: "unat (word_of_int (int (length enc)) :: u64) = length enc"
    using assms(2) by (simp add: unat_of_nat_u64)
  have "writes (\<lambda>st. bindO (case st of (b, j) \<Rightarrow> encodeVarint b j (word_of_int (int (length enc)))) (putTag tag))
      ([tag] @ varint (length enc))"
    using writes_seq [OF writes_encodeVarint [of "word_of_int (int (length enc))"] writes_putTag [of tag]] v by simp
  then obtain buf' where "bindO (case (pre @ enc @ suf, int n - int (length enc)) of (b, j) \<Rightarrow>
        encodeVarint b j (word_of_int (int (length enc)))) (putTag tag) =
      Ok (buf', int n - int (length enc) - int (length ([tag] @ varint (length enc))))"
    "length buf' = length (pre @ enc @ suf)"
    "filled buf' (int n - int (length enc) - int (length ([tag] @ varint (length enc)))) (([tag] @ varint (length enc)) @ enc @ suf)"
    using f
  proof (rule writesD)
    show "int (length ([tag] @ varint (length enc))) \<le> int n - int (length enc)"
      using a(2) i(1) by (simp add: enc_message_def)
  qed
  moreover have "length (pre @ enc @ suf) = length buf" using pre(1) le i by auto
  ultimately show "\<exists>buf'. putMessage tag (marshalInto puts) (buf, i) = Ok (buf', i - int (length (enc_message tag enc))) \<and>
      length buf' = length buf \<and> filled buf' (i - int (length (enc_message tag enc))) (enc_message tag enc @ suf)"
    using i pre by (simp add: putMessage_def enc_message_def algebra_simps)
qed

section \<open>Reading fields\<close>

text \<open>
  Adding to an index. Both operands of the Go addition are non-negative ints, so the sum wraps
  to a negative number exactly when it reaches 2^63; that is \<open>None\<close> here.
\<close>

definition index_add :: "nat \<Rightarrow> nat \<Rightarrow> nat option" where
  "index_add i n = (if i + n < 2 ^ 63 then Some (i + n) else None)"

text \<open>The tag of a field: its number, an int32, and its wire type.\<close>

definition decodeTag :: "wire_errors \<Rightarrow> string \<Rightarrow> bytes \<Rightarrow> nat \<Rightarrow> (int \<times> u64 \<times> nat) outcome" where
  "decodeTag E name dAtA iNdEx =
     bindO (decodeVarint E dAtA iNdEx 0 0) (\<lambda>(wire, iNdEx').
       let fieldNum = signed_take_bit 31 (uint (drop_bit 3 wire));
           wireType = wire AND 0x7
       in if wireType = 4
          then Err (ErrText (''proto: '' @ name @ '': wiretype end group for non-group''))
          else if fieldNum \<le> 0 then Err (ErrText (''proto: '' @ name @ '': illegal tag''))
          else Ok (fieldNum, wireType, iNdEx'))"

text \<open>
  The length of a string or an embedded message, checked as the code does: as an int it must
  not be negative, its end must not wrap around and must lie within the input.
\<close>

definition decodeLength :: "wire_errors \<Rightarrow> bytes \<Rightarrow> nat \<Rightarrow> (nat \<times> nat) outcome" where
  "decodeLength E dAtA iNdEx =
     bindO (decodeVarint E dAtA iNdEx 0 0) (\<lambda>(len, iNdEx').
       let intLen = sint len
       in if intLen < 0 then Err (ErrInvalidLength E)
          else case index_add iNdEx' (nat intLen) of
                 None \<Rightarrow> Err (ErrInvalidLength E)
               | Some postIndex \<Rightarrow>
                   if postIndex > length dAtA then Err io_ErrUnexpectedEOF
                   else Ok (iNdEx', postIndex))"

definition slice :: "bytes \<Rightarrow> nat \<Rightarrow> nat \<Rightarrow> bytes" where
  "slice d i j = take (j - i) (drop i d)"

definition wrongWireType :: "string \<Rightarrow> go_error" where
  "wrongWireType field = ErrText (''proto: wrong wireType for field '' @ field)"

text \<open>
  The \<^verbatim>\<open>case\<close> of a field in the \<^verbatim>\<open>switch\<close> of \<^verbatim>\<open>Unmarshal\<close>: from the wire type, the
  input, the index and the message so far to the new index and message.
\<close>

type_synonym 'm field_case = "u64 \<Rightarrow> bytes \<Rightarrow> nat \<Rightarrow> 'm \<Rightarrow> (nat \<times> 'm) outcome"

definition stringCase :: "wire_errors \<Rightarrow> string \<Rightarrow> (string \<Rightarrow> 'm \<Rightarrow> 'm) \<Rightarrow> 'm field_case" where
  "stringCase E field upd wireType dAtA iNdEx m =
     (if wireType \<noteq> 2 then Err (wrongWireType field)
      else bindO (decodeLength E dAtA iNdEx) (\<lambda>(iNdEx', postIndex).
             Ok (postIndex, upd (bytes_string (slice dAtA iNdEx' postIndex)) m)))"

definition uint64Case :: "wire_errors \<Rightarrow> string \<Rightarrow> (u64 \<Rightarrow> 'm \<Rightarrow> 'm) \<Rightarrow> 'm field_case" where
  "uint64Case E field upd wireType dAtA iNdEx m =
     (if wireType \<noteq> 0 then Err (wrongWireType field)
      else bindO (decodeVarint E dAtA iNdEx 0 0) (\<lambda>(v, iNdEx'). Ok (iNdEx', upd v m)))"

definition messageCase ::
  "wire_errors \<Rightarrow> string \<Rightarrow> ('m \<Rightarrow> 'e) \<Rightarrow> ('e \<Rightarrow> 'm \<Rightarrow> 'm) \<Rightarrow> ('e \<Rightarrow> bytes \<Rightarrow> 'e outcome) \<Rightarrow> 'm field_case" where
  "messageCase E field sel upd unmarshal wireType dAtA iNdEx m =
     (if wireType \<noteq> 2 then Err (wrongWireType field)
      else bindO (decodeLength E dAtA iNdEx) (\<lambda>(iNdEx', postIndex).
           bindO (unmarshal (sel m) (slice dAtA iNdEx' postIndex)) (\<lambda>e.
             Ok (postIndex, upd e m))))"

section \<open>Skipping an unknown field\<close>

text \<open>One round of the loop of \<^verbatim>\<open>skip\<close>: the index and the group depth after one tag.\<close>

definition skipStep :: "wire_errors \<Rightarrow> bytes \<Rightarrow> nat \<Rightarrow> nat \<Rightarrow> (nat option \<times> nat) outcome" where
  "skipStep E dAtA iNdEx depth =
     bindO (decodeVarint E dAtA iNdEx 0 0) (\<lambda>(wire, iNdEx').
       let wireType = wire AND 0x7
       in if wireType = 0 then
            bindO (decodeVarint E dAtA iNdEx' 0 0) (\<lambda>(_, iNdEx''). Ok (Some iNdEx'', depth))
          else if wireType = 1 then Ok (index_add iNdEx' 8, depth)
          else if wireType = 2 then
            bindO (decodeVarint E dAtA iNdEx' 0 0) (\<lambda>(len, iNdEx'').
              if sint len < 0 then Err (ErrInvalidLength E)
              else Ok (index_add iNdEx'' (nat (sint len)), depth))
          else if wireType = 3 then Ok (Some iNdEx', Suc depth)
          else if wireType = 4 then
            (if depth = 0 then Err (ErrUnexpectedEndOfGroup E) else Ok (Some iNdEx', depth - 1))
          else if wireType = 5 then Ok (index_add iNdEx' 4, depth)
          else Err (ErrText ''proto: illegal wireType''))"

lemma skipStep_progress: "skipStep E d i depth = Ok (Some j, depth') \<Longrightarrow> i < j"
  by (auto simp: skipStep_def bindO_eq_Ok Let_def index_add_def dest!: decodeVarint_Ok(1) split: if_splits)

lemma bindO_cong [fundef_cong]:
  "m = m' \<Longrightarrow> (\<And>x. m' = Ok x \<Longrightarrow> f x = g x) \<Longrightarrow> bindO m f = bindO m' g"
  by (cases m') auto

function skipLoop :: "wire_errors \<Rightarrow> bytes \<Rightarrow> nat \<Rightarrow> nat \<Rightarrow> nat outcome" where
  "skipLoop E dAtA iNdEx depth =
     (if iNdEx < length dAtA then
        bindO (skipStep E dAtA iNdEx depth) (\<lambda>(idx, depth').
          case idx of
            None \<Rightarrow> Err (ErrInvalidLength E)
          | Some iNdEx' \<Rightarrow> if depth' = 0 then Ok iNdEx' else skipLoop E dAtA iNdEx' depth')
      else Err io_ErrUnexpectedEOF)"
  by pat_completeness auto
termination
  by (relation "measure (\<lambda>(E, d, i, depth). length d - i)") (auto dest: skipStep_progress)

declare skipLoop.simps [simp del]

definition skipField :: "wire_errors \<Rightarrow> bytes \<Rightarrow> nat outcome" where
  "skipField E dAtA = skipLoop E dAtA 0 0"

section \<open>The loop over the input\<close>

definition unmarshalStep ::
  "wire_errors \<Rightarrow> string \<Rightarrow> (int \<Rightarrow> 'm field_case option) \<Rightarrow> bytes \<Rightarrow> nat \<Rightarrow> 'm \<Rightarrow> (nat \<times> 'm) outcome" where
  "unmarshalStep E name cases dAtA preIndex m =
     bindO (decodeTag E name dAtA preIndex) (\<lambda>(fieldNum, wireType, iNdEx).
       case cases fieldNum of
         Some c \<Rightarrow> c wireType dAtA iNdEx m
       | None \<Rightarrow>
           bindO (skipField E (drop preIndex dAtA)) (\<lambda>skippy.
             case index_add preIndex skippy of
               None \<Rightarrow> Err (ErrInvalidLength E)
             | Some post \<Rightarrow> if post > length dAtA then Err io_ErrUnexpectedEOF else Ok (post, m)))"

text \<open>
  \<^verbatim>\<open>for iNdEx < l\<close>. Every round moves the index forward, which the guard below records for
  the termination argument; that the guard never fails is \<open>unmarshalLoop_no_panic\<close>.
\<close>

function unmarshalLoop ::
  "wire_errors \<Rightarrow> string \<Rightarrow> (int \<Rightarrow> 'm field_case option) \<Rightarrow> bytes \<Rightarrow> nat \<Rightarrow> 'm \<Rightarrow> 'm outcome" where
  "unmarshalLoop E name cases dAtA iNdEx m =
     (if iNdEx < length dAtA then
        bindO (unmarshalStep E name cases dAtA iNdEx m) (\<lambda>(iNdEx', m').
          if iNdEx < iNdEx' then unmarshalLoop E name cases dAtA iNdEx' m'
          else Panic ''no progress'')
      else if iNdEx > length dAtA then Err io_ErrUnexpectedEOF
      else Ok m)"
  by pat_completeness auto
termination
  by (relation "measure (\<lambda>(E, n, c, d, i, m). length d - i)") auto

declare unmarshalLoop.simps [simp del]

section \<open>Reading back what was written\<close>

lemma slice_prefix: "drop i d = body @ rest \<Longrightarrow> slice d i (i + length body) = body"
  by (simp add: slice_def)

lemma drop_add_append: "drop i d = a @ rest \<Longrightarrow> drop (i + length a) d = rest"
  by (metis add.commute append_eq_conv_conj drop_drop)

lemma drop_append_length: "drop i d = a @ rest \<Longrightarrow> i \<le> length d \<Longrightarrow> i + length a \<le> length d"
  by (metis add_le_cancel_left diff_add le_add_diff_inverse length_append length_drop nat_le_iff_add)

lemma sint_of_length: "n < 2 ^ 63 \<Longrightarrow> sint (word_of_nat n :: u64) = int n"
  by (simp add: sint_uint unsigned_of_nat take_bit_nat_eq_self signed_take_bit_int_eq_self)

lemma decodeLength_ok:
  assumes "drop i d = varint (length body) @ body @ rest" "length d < 2 ^ 63" "i \<le> length d"
  shows "decodeLength E d i = Ok (i + length (varint (length body)), i + length (varint (length body)) + length body)"
proof -
  have "i + length (varint (length body) @ body) \<le> length d"
    using drop_append_length [of i d "varint (length body) @ body" rest] assms by simp
  then have le: "i + length (varint (length body)) + length body \<le> length d" by simp
  have lt: "length body < 2 ^ 63" using le assms(2) by linarith
  have v: "unat (word_of_nat (length body) :: u64) = length body" using lt by (simp add: unat_of_nat_u64)
  have "decodeVarint E d i 0 0 = Ok (word_of_nat (length body), i + length (varint (length body)))"
    using decodeVarint_encoded [of i d "word_of_nat (length body)" "body @ rest" E] assms(1) v by (simp add: sov_varint)
  then show ?thesis
    using sint_of_length [OF lt] le assms(2) by (simp add: decodeLength_def index_add_def)
qed

lemma wire_type_of_tag:
  assumes "unat (tag :: byte) < 128"
  shows "(word_of_nat (unat tag) :: u64) AND 7 = word_of_nat (unat tag mod 8)"
proof -
  have u: "unat (word_of_nat (unat tag) :: u64) = unat tag"
    by (rule unat_of_nat_u64, rule less_trans [OF assms]) simp
  have "(word_of_nat (unat tag) :: u64) AND 7 = take_bit 3 (word_of_nat (unat tag))"
    by (simp add: take_bit_eq_mask mask_eq_exp_minus_1)
  also have "\<dots> = word_of_nat (unat tag mod 8)"
    using u by (simp add: take_bit_eq_mod word_arith_nat_defs(7))
  finally show ?thesis .
qed

lemma decodeTag_byte:
  assumes "drop i d = tag # rest" "unat tag < 128" "unat tag div 8 \<noteq> 0" "unat tag mod 8 \<noteq> 4"
  shows "decodeTag E name d i = Ok (int (unat tag div 8), word_of_nat (unat tag mod 8), Suc i)"
proof -
  have v: "varint (unat tag) = [tag]" using assms(2) by (simp add: varint.simps)
  have u: "unat (word_of_nat (unat tag) :: u64) = unat tag"
    by (rule unat_of_nat_u64, rule less_trans [OF assms(2)]) simp
  have "decodeVarint E d i 0 0 = Ok (word_of_nat (unat tag), Suc i)"
    using decodeVarint_encoded [of i d "word_of_nat (unat tag)" rest E] assms(1) u v by (simp add: sov_varint)
  moreover have "unat (drop_bit 3 (word_of_nat (unat tag) :: u64)) = unat tag div 8"
    by (subst unat_drop_bit_eq) (simp only: u drop_bit_eq_div, simp)
  then have "uint (drop_bit 3 (word_of_nat (unat tag) :: u64)) = int (unat tag div 8)"
    by (metis of_nat_unat)
  moreover have "signed_take_bit 31 (int (unat tag div 8)) = int (unat tag div 8)"
    using assms(2) by (intro signed_take_bit_int_eq_self) auto
  moreover note wire_type_of_tag [OF assms(2)]
  moreover have "(word_of_nat (unat tag mod 8) :: u64) \<noteq> 4"
  proof
    assume "(word_of_nat (unat tag mod 8) :: u64) = 4"
    then have "unat (word_of_nat (unat tag mod 8) :: u64) = 4" by simp
    moreover have "unat tag mod 8 < 2 ^ 64" by (rule less_trans [of _ 8]) simp_all
    ultimately show False using assms(4) by (simp add: unat_of_nat_u64)
  qed
  ultimately show ?thesis using assms(3) by (simp add: decodeTag_def Let_def)
qed

text \<open>
  A field case reads an encoding: at a position where the encoding follows, the loop continues
  behind it with the message updated.
\<close>

definition reads ::
  "wire_errors \<Rightarrow> string \<Rightarrow> (int \<Rightarrow> 'm field_case option) \<Rightarrow> bytes \<Rightarrow> 'm \<Rightarrow> 'm \<Rightarrow> bool" where
  "reads E name cases enc m m' \<longleftrightarrow>
     (\<forall>d i rest. drop i d = enc @ rest \<and> i \<le> length d \<and> length d < 2 ^ 63 \<longrightarrow>
        unmarshalLoop E name cases d i m = unmarshalLoop E name cases d (i + length enc) m')"

lemma reads_skip: "reads E name cases [] m m"
  by (simp add: reads_def)

lemma reads_case:
  assumes "enc = tag # body" "unat tag < 128" "unat tag div 8 \<noteq> 0" "unat tag mod 8 \<noteq> 4"
    and "cases (int (unat tag div 8)) = Some c"
    and "\<And>d i rest. drop i d = body @ rest \<Longrightarrow> i \<le> length d \<Longrightarrow> length d < 2 ^ 63 \<Longrightarrow>
       c (word_of_nat (unat tag mod 8)) d i m = Ok (i + length body, m')"
  shows "reads E name cases enc m m'"
  unfolding reads_def
proof (intro allI impI, elim conjE)
  fix d i rest assume d: "drop i d = enc @ rest" "i \<le> length d" "length d < 2 ^ 63"
  have il: "i < length d" using d(1) assms(1) by (metis append_Cons drop_eq_Nil list.distinct(1) not_le)
  have "drop i d = tag # drop (Suc i) d" using d(1) assms(1) by (metis append_Cons drop_Suc list.sel(3) drop_tl)
  then have tl: "drop (Suc i) d = body @ rest" using d(1) assms(1) by simp
  have "decodeTag E name d i = Ok (int (unat tag div 8), word_of_nat (unat tag mod 8), Suc i)"
    using d(1) assms(1-4) by (intro decodeTag_byte) auto
  moreover have "c (word_of_nat (unat tag mod 8)) d (Suc i) m = Ok (Suc i + length body, m')"
    using assms(6) [OF tl] il d(3) by simp
  ultimately have "unmarshalStep E name cases d i m = Ok (Suc i + length body, m')"
    using assms(5) by (simp add: unmarshalStep_def)
  then show "unmarshalLoop E name cases d i m = unmarshalLoop E name cases d (i + length enc) m'"
    using il assms(1) by (subst unmarshalLoop.simps) simp
qed

lemma reads_uint64:
  assumes "unat tag < 128" "unat tag div 8 \<noteq> 0" "unat tag mod 8 = 0"
    and "cases (int (unat tag div 8)) = Some (uint64Case E field upd)" "v = 0 \<Longrightarrow> upd v m = m"
  shows "reads E name cases (enc_uint64 tag v) m (upd v m)"
proof (cases "v = 0")
  case True
  with assms(5) show ?thesis by (simp add: enc_uint64_def reads_skip)
next
  case False
  have "uint64Case E field upd (word_of_nat (unat tag mod 8)) d i m = Ok (i + length (varint (unat v)), upd v m)"
    if "drop i d = varint (unat v) @ rest" for d i rest
    using decodeVarint_encoded [OF that, of E] assms(3) by (simp add: uint64Case_def sov_varint)
  then show ?thesis
    by (intro reads_case [where tag = tag and body = "varint (unat v)" and c = "uint64Case E field upd"])
       (use False assms(1-4) in \<open>simp_all add: enc_uint64_def\<close>)
qed

lemma message_body_case:
  assumes "drop i d = (varint (length body) @ body) @ rest" "i \<le> length d" "length d < 2 ^ 63" "unat tag mod 8 = 2"
  shows "stringCase E field supd (word_of_nat (unat tag mod 8)) d i m =
      Ok (i + length (varint (length body) @ body), supd (bytes_string body) m)"
    and "unmarshal (sel m) body = Ok e \<Longrightarrow>
      messageCase E field sel upd unmarshal (word_of_nat (unat tag mod 8)) d i m =
      Ok (i + length (varint (length body) @ body), upd e m)"
proof -
  have l: "decodeLength E d i = Ok (i + length (varint (length body)), i + length (varint (length body)) + length body)"
    using assms by (intro decodeLength_ok) auto
  have "drop (i + length (varint (length body))) d = body @ rest"
    using assms(1) drop_add_append [of i d "varint (length body)"] by simp
  then have s: "slice d (i + length (varint (length body))) (i + length (varint (length body)) + length body) = body"
    by (rule slice_prefix)
  show "stringCase E field supd (word_of_nat (unat tag mod 8)) d i m =
      Ok (i + length (varint (length body) @ body), supd (bytes_string body) m)"
    using l s assms(4) by (simp add: stringCase_def)
  show "unmarshal (sel m) body = Ok e \<Longrightarrow>
      messageCase E field sel upd unmarshal (word_of_nat (unat tag mod 8)) d i m =
      Ok (i + length (varint (length body) @ body), upd e m)"
    using l s assms(4) by (simp add: messageCase_def)
qed

lemma reads_string:
  assumes "unat tag < 128" "unat tag div 8 \<noteq> 0" "unat tag mod 8 = 2"
    and "cases (int (unat tag div 8)) = Some (stringCase E field upd)" "v = [] \<Longrightarrow> upd v m = m"
  shows "reads E name cases (enc_string tag v) m (upd v m)"
proof (cases "v = []")
  case True
  with assms(5) show ?thesis by (simp add: enc_string_def reads_skip)
next
  case False
  show ?thesis
  proof (rule reads_case [where tag = tag and body = "varint (length (string_bytes v)) @ string_bytes v"
        and c = "stringCase E field upd"])
    show "stringCase E field upd (word_of_nat (unat tag mod 8)) d i m =
        Ok (i + length (varint (length (string_bytes v)) @ string_bytes v), upd v m)"
      if "drop i d = (varint (length (string_bytes v)) @ string_bytes v) @ rest" "i \<le> length d" "length d < 2 ^ 63" for d i rest
      using message_body_case(1) [OF that assms(3)] by simp
  qed (use False assms in \<open>simp_all add: enc_string_def enc_message_def\<close>)
qed

lemma reads_message:
  assumes "unat tag < 128" "unat tag div 8 \<noteq> 0" "unat tag mod 8 = 2"
    and "cases (int (unat tag div 8)) = Some (messageCase E field sel upd unmarshal)"
    and "unmarshal (sel m) body = Ok e"
  shows "reads E name cases (enc_message tag body) m (upd e m)"
proof (rule reads_case [where tag = tag and body = "varint (length body) @ body"
      and c = "messageCase E field sel upd unmarshal"])
  show "messageCase E field sel upd unmarshal (word_of_nat (unat tag mod 8)) d i m =
      Ok (i + length (varint (length body) @ body), upd e m)"
    if "drop i d = (varint (length body) @ body) @ rest" "i \<le> length d" "length d < 2 ^ 63" for d i rest
    using that assms(3,5) by (rule message_body_case(2))
qed (use assms in \<open>simp_all add: enc_message_def\<close>)

lemma reads_seq:
  assumes "reads E name cases e1 m m1" "reads E name cases e2 m1 m2"
  shows "reads E name cases (e1 @ e2) m m2"
  unfolding reads_def
proof (intro allI impI, elim conjE)
  fix d i rest assume d: "drop i d = (e1 @ e2) @ rest" "i \<le> length d" "length d < 2 ^ 63"
  have "unmarshalLoop E name cases d i m = unmarshalLoop E name cases d (i + length e1) m1"
    using assms(1) d unfolding reads_def by (metis append.assoc)
  moreover have "drop (i + length e1) d = e2 @ rest" "i + length e1 \<le> length d"
    using d drop_add_append [of i d e1] drop_append_length [of i d e1] by simp_all
  then have "unmarshalLoop E name cases d (i + length e1) m1 =
      unmarshalLoop E name cases d (i + length e1 + length e2) m2"
    using assms(2) d(3) unfolding reads_def by blast
  ultimately show "unmarshalLoop E name cases d i m =
      unmarshalLoop E name cases d (i + length (e1 @ e2)) m2" by (simp add: add.assoc)
qed

text \<open>Encodings that a Go slice can hold.\<close>

definition wire_fits :: "bytes \<Rightarrow> bool" where
  "wire_fits enc \<longleftrightarrow> length enc < 2 ^ 63"

lemma wire_fits_appendD: "wire_fits (a @ b) \<Longrightarrow> wire_fits a" "wire_fits (a @ b) \<Longrightarrow> wire_fits b"
  unfolding wire_fits_def length_append by linarith+

lemma wire_fits_messageD: "wire_fits (enc_message tag body) \<Longrightarrow> wire_fits body"
  unfolding wire_fits_def enc_message_def by simp

lemma wire_fits_stringD: "wire_fits (enc_string tag s) \<Longrightarrow> length s < 2 ^ 64"
  unfolding wire_fits_def enc_string_def enc_message_def by (simp split: if_splits)

lemmas wire_fits_parts = wire_fits_appendD wire_fits_messageD wire_fits_stringD

lemma reads_all:
  assumes "reads E name cases enc m m'" "wire_fits enc"
  shows "unmarshalLoop E name cases enc 0 m = Ok m'"
proof -
  have "unmarshalLoop E name cases enc 0 m = unmarshalLoop E name cases enc (length enc) m'"
    using assms unfolding reads_def wire_fits_def by (metis add_0 append_Nil2 drop0 le0)
  then show ?thesis by (simp add: unmarshalLoop.simps [of E name cases enc "length enc"])
qed

text \<open>An unknown field of wire type 0 or 2 is skipped and leaves the message as it is.\<close>

lemma skipField_known_length:
  fixes v :: u64
  assumes "unat tag < 128" "d = tag # body @ rest" "length d < 2 ^ 63"
    and "unat tag mod 8 = 0 \<and> body = varint (unat v) \<or>
      unat tag mod 8 = 2 \<and> body = varint (length payload) @ payload"
  shows "skipField E d = Ok (Suc (length body))"
proof -
  have v: "varint (unat tag) = [tag]" using assms(1) by (simp add: varint.simps)
  have u: "unat (word_of_nat (unat tag) :: u64) = unat tag"
    by (rule unat_of_nat_u64, rule less_trans [OF assms(1)]) simp
  have t: "decodeVarint E d 0 0 0 = Ok (word_of_nat (unat tag), Suc 0)"
    using decodeVarint_encoded [of 0 d "word_of_nat (unat tag)" "body @ rest" E] assms(2) u v by (simp add: sov_varint)
  have "skipStep E d 0 0 = Ok (Some (Suc (length body)), 0)"
    using assms(4)
  proof (elim disjE conjE)
    assume a: "unat tag mod 8 = 0" "body = varint (unat v)"
    have "decodeVarint E d (Suc 0) 0 0 = Ok (v, Suc 0 + sov v)"
      using assms(2) a(2) by (intro decodeVarint_encoded) simp
    with a t wire_type_of_tag [OF assms(1)] show ?thesis by (simp add: skipStep_def Let_def sov_varint)
  next
    assume a: "unat tag mod 8 = 2" "body = varint (length payload) @ payload"
    have le: "Suc (length (varint (length payload)) + length payload) \<le> length d" using assms(2) a(2) by simp
    then have lt: "length payload < 2 ^ 63" "Suc (length (varint (length payload)) + length payload) < 2 ^ 63"
      using assms(3) by linarith+
    have uv: "unat (word_of_nat (length payload) :: u64) = length payload" using lt(1) by (simp add: unat_of_nat_u64)
    have "decodeVarint E d (Suc 0) 0 0 = Ok (word_of_nat (length payload), Suc 0 + length (varint (length payload)))"
      using decodeVarint_encoded [of "Suc 0" d "word_of_nat (length payload)" "payload @ rest" E] assms(2) a(2) uv
      by (simp add: sov_varint)
    with a t lt wire_type_of_tag [OF assms(1)] sint_of_length [OF lt(1)]
    show ?thesis by (simp add: skipStep_def Let_def index_add_def)
  qed
  then show ?thesis using assms(2) by (simp add: skipField_def skipLoop.simps)
qed

lemma reads_unknown:
  fixes v :: u64
  assumes "unat tag < 128" "unat tag div 8 \<noteq> 0" "cases (int (unat tag div 8)) = None"
    and "unat tag mod 8 = 0 \<and> body = varint (unat v) \<or>
      unat tag mod 8 = 2 \<and> body = varint (length payload) @ payload"
  shows "reads E name cases (tag # body) m m"
  unfolding reads_def
proof (intro allI impI, elim conjE)
  fix d i rest assume d: "drop i d = (tag # body) @ rest" "i \<le> length d" "length d < 2 ^ 63"
  have il: "i < length d" using d(1) by (metis append_Cons drop_eq_Nil list.distinct(1) not_le)
  have le: "i + Suc (length body) \<le> length d" using drop_append_length [OF d(1,2)] by simp
  have "decodeTag E name d i = Ok (int (unat tag div 8), word_of_nat (unat tag mod 8), Suc i)"
    using d(1) assms(1,2,4) by (intro decodeTag_byte) auto
  moreover have "skipField E (drop i d) = Ok (Suc (length body))"
  proof (rule skipField_known_length [OF assms(1) _ _ assms(4)])
    show "drop i d = tag # body @ rest" using d(1) by simp
    show "length (drop i d) < 2 ^ 63" using d(3) by simp
  qed
  moreover have "i + Suc (length body) < 2 ^ 63" using le d(3) by linarith
  ultimately have "unmarshalStep E name cases d i m = Ok (i + Suc (length body), m)"
    using assms(3) le by (simp add: unmarshalStep_def index_add_def)
  then show "unmarshalLoop E name cases d i m = unmarshalLoop E name cases d (i + length (tag # body)) m"
    using il by (subst unmarshalLoop.simps) simp
qed

section \<open>Decoding is total\<close>

definition no_panic :: "'a outcome \<Rightarrow> bool" where
  "no_panic r \<longleftrightarrow> (case r of Panic _ \<Rightarrow> False | _ \<Rightarrow> True)"

lemma no_panic_simps [simp]: "no_panic (Ok x)" "no_panic (Err e)" "\<not> no_panic (Panic p)"
  by (simp_all add: no_panic_def)

lemma no_panic_bindO [intro]:
  "no_panic m \<Longrightarrow> (\<And>x. m = Ok x \<Longrightarrow> no_panic (f x)) \<Longrightarrow> no_panic (bindO m f)"
  by (cases m) auto

lemma decodeVarint_no_panic: "no_panic (decodeVarint E d i shift acc)"
proof (induction E d i shift acc rule: decodeVarint.induct)
  case (1 E d i shift acc)
  then show ?case by (subst decodeVarint.simps) (auto simp: Let_def)
qed

lemma decodeTag_no_panic: "no_panic (decodeTag E name d i)"
  unfolding decodeTag_def by (intro no_panic_bindO decodeVarint_no_panic) (auto simp: Let_def)

lemma decodeTag_progress: "decodeTag E name d i = Ok (f, w, j) \<Longrightarrow> i < j"
  by (auto simp: decodeTag_def bindO_eq_Ok Let_def dest!: decodeVarint_Ok(1) split: if_splits)

lemma decodeLength_no_panic: "no_panic (decodeLength E d i)"
  unfolding decodeLength_def
  by (intro no_panic_bindO decodeVarint_no_panic) (auto simp: Let_def split: option.split)

lemma decodeLength_bounds: "decodeLength E d i = Ok (j, post) \<Longrightarrow> i < j \<and> j \<le> post \<and> post \<le> length d"
  by (auto simp: decodeLength_def bindO_eq_Ok Let_def index_add_def dest!: decodeVarint_Ok(1) split: if_splits option.splits)

lemma skipStep_no_panic: "no_panic (skipStep E d i depth)"
  unfolding skipStep_def
  by (intro no_panic_bindO decodeVarint_no_panic) (auto simp: Let_def intro!: no_panic_bindO decodeVarint_no_panic)

lemma skipLoop_no_panic: "no_panic (skipLoop E d i depth)"
proof (induction E d i depth rule: skipLoop.induct)
  case (1 E d i depth)
  show ?case
    by (subst skipLoop.simps) (auto intro!: no_panic_bindO skipStep_no_panic 1 split: option.split)
qed

lemma skipLoop_progress: "skipLoop E d i depth = Ok n \<Longrightarrow> i < n"
proof (induction E d i depth rule: skipLoop.induct)
  case (1 E d i depth)
  from 1(2) [unfolded skipLoop.simps [of E d i depth]]
  obtain idx depth' where il: "i < length d" and st: "skipStep E d i depth = Ok (idx, depth')"
    and res: "(case idx of None \<Rightarrow> Err (ErrInvalidLength E)
      | Some j \<Rightarrow> if depth' = 0 then Ok j else skipLoop E d j depth') = Ok n"
    by (auto simp: bindO_eq_Ok split: if_splits)
  from res obtain j where j: "idx = Some j" by (cases idx) auto
  have "i < j" using st j skipStep_progress by blast
  show ?case
  proof (cases "depth' = 0")
    case True
    with res j \<open>i < j\<close> show ?thesis by simp
  next
    case False
    with 1(1) [OF il st refl j False] res j \<open>i < j\<close> show ?thesis by simp
  qed
qed

definition total_case :: "'m field_case \<Rightarrow> bool" where
  "total_case c \<longleftrightarrow>
     (\<forall>w d i m. no_panic (c w d i m) \<and> (\<forall>j m'. c w d i m = Ok (j, m') \<longrightarrow> i \<le> j \<and> j \<le> length d))"

lemma total_stringCase: "total_case (stringCase E field upd)"
  by (auto simp: total_case_def stringCase_def bindO_eq_Ok intro!: no_panic_bindO decodeLength_no_panic
      dest!: decodeLength_bounds)

lemma total_uint64Case: "total_case (uint64Case E field upd)"
  by (auto simp: total_case_def uint64Case_def bindO_eq_Ok intro!: no_panic_bindO decodeVarint_no_panic
      dest: decodeVarint_Ok(1,2) less_imp_le)

lemma total_messageCase: "(\<And>e d. no_panic (unmarshal e d)) \<Longrightarrow> total_case (messageCase E field sel upd unmarshal)"
  by (auto simp: total_case_def messageCase_def bindO_eq_Ok intro!: no_panic_bindO decodeLength_no_panic
      dest!: decodeLength_bounds)

definition total_cases :: "(int \<Rightarrow> 'm field_case option) \<Rightarrow> bool" where
  "total_cases cases \<longleftrightarrow> (\<forall>f c. cases f = Some c \<longrightarrow> total_case c)"

lemma unmarshalStep_total:
  assumes "total_cases cases"
  shows "no_panic (unmarshalStep E name cases d i m)"
    and "unmarshalStep E name cases d i m = Ok (j, m') \<Longrightarrow> i < j \<and> (j \<le> length d)"
proof -
  show "no_panic (unmarshalStep E name cases d i m)"
    using assms unfolding unmarshalStep_def
    by (auto intro!: no_panic_bindO decodeTag_no_panic skipLoop_no_panic
        simp: skipField_def total_cases_def total_case_def split: option.split)
  assume "unmarshalStep E name cases d i m = Ok (j, m')"
  then obtain f w k where t: "decodeTag E name d i = Ok (f, w, k)"
    and r: "case cases f of Some c \<Rightarrow> c w d k m = Ok (j, m')
      | None \<Rightarrow> \<exists>n. skipField E (drop i d) = Ok n \<and> index_add i n = Some j \<and> j \<le> length d"
    unfolding unmarshalStep_def by (auto simp: bindO_eq_Ok split: option.splits if_splits)
  show "i < j \<and> j \<le> length d"
  proof (cases "cases f")
    case None
    with r obtain n where n: "skipField E (drop i d) = Ok n" "index_add i n = Some j" "j \<le> length d" by auto
    then have "0 < n" by (auto simp: skipField_def dest: skipLoop_progress)
    with n show ?thesis by (auto simp: index_add_def split: if_splits)
  next
    case (Some c)
    then have "total_case c" "c w d k m = Ok (j, m')" using assms r by (auto simp: total_cases_def)
    then have "k \<le> j \<and> j \<le> length d" unfolding total_case_def by blast
    with decodeTag_progress [OF t] show ?thesis by simp
  qed
qed

lemma unmarshalLoop_no_panic:
  assumes "total_cases cases"
  shows "no_panic (unmarshalLoop E name cases d i m)"
  using assms
proof (induction E name cases d i m rule: unmarshalLoop.induct)
  case (1 E name cases d i m)
  note tot = unmarshalStep_total [OF 1(2)]
  show ?case
  proof (cases "unmarshalStep E name cases d i m")
    case (Ok r)
    obtain j m' where r: "r = (j, m')" by fastforce
    have "i < j" using tot(2) Ok r by blast
    then have "i < length d \<Longrightarrow> no_panic (unmarshalLoop E name cases d j m')"
      using 1(1) [OF _ Ok r [symmetric]] 1(2) by blast
    then show ?thesis using Ok r \<open>i < j\<close> by (subst unmarshalLoop.simps) simp
  next
    case (Err e)
    then show ?thesis by (subst unmarshalLoop.simps) simp
  next
    case (Panic p)
    with tot(1) [of E name d i m] show ?thesis by simp
  qed
qed

section \<open>The interface of a message type\<close>

locale wire_message =
  fixes enc :: "'m \<Rightarrow> bytes"
    and size_of :: "'m \<Rightarrow> nat"
    and marshal_buf :: "'m \<Rightarrow> bytes \<Rightarrow> (bytes \<times> int) outcome"
    and unmarshal :: "'m \<Rightarrow> bytes \<Rightarrow> 'm outcome"
    and zero :: 'm
  assumes size_enc: "wire_fits (enc m) \<Longrightarrow> size_of m = length (enc m)"
    and writes_enc: "wire_fits (enc m) \<Longrightarrow> \<exists>puts. marshal_buf m = marshalInto puts \<and> writes puts (enc m)"
    and reads_enc: "wire_fits (enc m) \<Longrightarrow> unmarshal zero (enc m) = Ok m"
    and total: "no_panic (unmarshal m d)"
begin

lemma marshal_enc:
  assumes "wire_fits (enc m)"
  shows "marshal (size_of m) (marshal_buf m) = Ok (enc m)"
  using writes_enc [OF assms] marshal_ok size_enc [OF assms] by auto

lemma marshalTo_enc:
  assumes "wire_fits (enc m)" "size_of m \<le> length d"
  shows "marshalTo (size_of m) (marshal_buf m) d = Ok (enc m @ drop (size_of m) d, int (size_of m))"
  using writes_enc [OF assms(1)] marshalTo_ok size_enc [OF assms(1)] assms(2) by auto

lemma roundtrip:
  assumes "wire_fits (enc m)"
  shows "bindO (marshal (size_of m) (marshal_buf m)) (unmarshal zero) = Ok m"
  using marshal_enc [OF assms] reads_enc [OF assms] by simp

lemma enc_inj:
  assumes "wire_fits (enc m)" "wire_fits (enc m')"
    and "marshal (size_of m) (marshal_buf m) = marshal (size_of m') (marshal_buf m')"
  shows "m = m'"
  using roundtrip [OF assms(1)] roundtrip [OF assms(2)] unfolding assms(3) by (metis outcome.inject(1))

end

end
