(* ===== verification/Proto_Distro.thy ===== *)
theory Proto_Distro
  imports Proto_Message Distro_Types
begin

text \<open>
  The message types of the distro module on the wire: the generated methods \<^verbatim>\<open>Size\<close>,
  \<^verbatim>\<open>MarshalToSizedBuffer\<close>, \<^verbatim>\<open>Marshal\<close>, \<^verbatim>\<open>MarshalTo\<close> and \<^verbatim>\<open>Unmarshal\<close> of
  \<^verbatim>\<open>params.pb.go\<close>, \<^verbatim>\<open>tx.pb.go\<close>, \<^verbatim>\<open>genesis.pb.go\<close>, \<^verbatim>\<open>query.pb.go\<close> and
  \<^verbatim>\<open>module.pb.go\<close>, each type an instance of the interface \<open>wire_message\<close>.
\<close>

section \<open>The helpers of each generated file\<close>

text \<open>
  Each file declares its own three error variables with the same texts; the file name in front
  keeps the variables of the five files apart.
\<close>

definition pb_errors :: "string \<Rightarrow> wire_errors" where
  "pb_errors file =
     \<lparr>ErrInvalidLength = ErrWrap file (ErrText ''proto: negative length found during unmarshaling''),
      ErrIntOverflow = ErrWrap file (ErrText ''proto: integer overflow''),
      ErrUnexpectedEndOfGroup = ErrWrap file (ErrText ''proto: unexpected end of group'')\<rparr>"

definition errorsParams :: wire_errors where "errorsParams = pb_errors ''params.pb.go''"
definition errorsTx :: wire_errors where "errorsTx = pb_errors ''tx.pb.go''"
definition errorsGenesis :: wire_errors where "errorsGenesis = pb_errors ''genesis.pb.go''"
definition errorsQuery :: wire_errors where "errorsQuery = pb_errors ''query.pb.go''"
definition errorsModule :: wire_errors where "errorsModule = pb_errors ''module.pb.go''"

definition skipParams :: "bytes \<Rightarrow> nat outcome" where "skipParams = skipField errorsParams"
definition skipTx :: "bytes \<Rightarrow> nat outcome" where "skipTx = skipField errorsTx"
definition skipGenesis :: "bytes \<Rightarrow> nat outcome" where "skipGenesis = skipField errorsGenesis"
definition skipQuery :: "bytes \<Rightarrow> nat outcome" where "skipQuery = skipField errorsQuery"
definition skipModule :: "bytes \<Rightarrow> nat outcome" where "skipModule = skipField errorsModule"

section \<open>Sizes of fields\<close>

definition sizeString :: "string \<Rightarrow> nat" where
  "sizeString s = (let l = length s in if l > 0 then 1 + l + sov (word_of_nat l) else 0)"

definition sizeUint64 :: "u64 \<Rightarrow> nat" where
  "sizeUint64 v = (if v \<noteq> 0 then 1 + sov v else 0)"

definition sizeMessage :: "nat \<Rightarrow> nat" where
  "sizeMessage l = 1 + l + sov (word_of_nat l)"

lemma sizeString_enc: "length s < 2 ^ 64 \<Longrightarrow> length (enc_string tag s) = sizeString s"
  by (auto simp: enc_string_def enc_message_def sizeString_def Let_def sov_varint unat_of_nat_u64)

lemma sizeUint64_enc: "length (enc_uint64 tag v) = sizeUint64 v"
  by (simp add: enc_uint64_def sizeUint64_def sov_varint)

lemma sizeMessage_enc: "length body < 2 ^ 64 \<Longrightarrow> length (enc_message tag body) = sizeMessage (length body)"
  by (simp add: enc_message_def sizeMessage_def sov_varint unat_of_nat_u64)

text \<open>A tag and a varint take at most 11 bytes.\<close>

lemma enc_uint64_le: "length (enc_uint64 tag v) \<le> 11"
  using sov_le_10 [of v] by (simp add: enc_uint64_def sov_varint)

lemma enc_message_le: "length body < 2 ^ 64 \<Longrightarrow> length (enc_message tag body) \<le> length body + 11"
  using sov_le_10 [of "word_of_nat (length body)"] by (simp add: sizeMessage_enc sizeMessage_def)

lemma enc_string_le: "length s < 2 ^ 64 \<Longrightarrow> length (enc_string tag s) \<le> length s + 11"
  using enc_message_le [of "string_bytes s"] by (simp add: enc_string_def)

section \<open>Params\<close>

definition Params_Size :: "params \<Rightarrow> nat" where
  "Params_Size m =
     sizeString (p_MintingAddress m) + sizeString (p_ReceivingAddress m) + sizeString (p_Denom m) +
     sizeUint64 (p_MaxSupply m) + sizeString (p_DistributionStartDate m) +
     sizeUint64 (p_MonthsInHalvingPeriod m)"

definition Params_puts :: "params \<Rightarrow> buffer \<Rightarrow> buffer outcome" where
  "Params_puts m st =
     bindO (putUint64 0x30 (p_MonthsInHalvingPeriod m) st) (\<lambda>st.
     bindO (putString 0x2a (p_DistributionStartDate m) st) (\<lambda>st.
     bindO (putUint64 0x20 (p_MaxSupply m) st) (\<lambda>st.
     bindO (putString 0x1a (p_Denom m) st) (\<lambda>st.
     bindO (putString 0x12 (p_ReceivingAddress m) st) (\<lambda>st.
     putString 0x0a (p_MintingAddress m) st)))))"

definition Params_MarshalToSizedBuffer :: "params \<Rightarrow> bytes \<Rightarrow> (bytes \<times> int) outcome" where
  "Params_MarshalToSizedBuffer m = marshalInto (Params_puts m)"

definition Params_Marshal :: "params \<Rightarrow> bytes outcome" where
  "Params_Marshal m = marshal (Params_Size m) (Params_MarshalToSizedBuffer m)"

definition Params_MarshalTo :: "params \<Rightarrow> bytes \<Rightarrow> (bytes \<times> int) outcome" where
  "Params_MarshalTo m = marshalTo (Params_Size m) (Params_MarshalToSizedBuffer m)"

definition Params_cases :: "int \<Rightarrow> params field_case option" where
  "Params_cases fieldNum =
     (if fieldNum = 1 then Some (stringCase errorsParams ''MintingAddress'' (\<lambda>v m. m\<lparr>p_MintingAddress := v\<rparr>))
      else if fieldNum = 2 then Some (stringCase errorsParams ''ReceivingAddress'' (\<lambda>v m. m\<lparr>p_ReceivingAddress := v\<rparr>))
      else if fieldNum = 3 then Some (stringCase errorsParams ''Denom'' (\<lambda>v m. m\<lparr>p_Denom := v\<rparr>))
      else if fieldNum = 4 then Some (uint64Case errorsParams ''MaxSupply'' (\<lambda>v m. m\<lparr>p_MaxSupply := v\<rparr>))
      else if fieldNum = 5 then Some (stringCase errorsParams ''DistributionStartDate'' (\<lambda>v m. m\<lparr>p_DistributionStartDate := v\<rparr>))
      else if fieldNum = 6 then Some (uint64Case errorsParams ''MonthsInHalvingPeriod'' (\<lambda>v m. m\<lparr>p_MonthsInHalvingPeriod := v\<rparr>))
      else None)"

text \<open>\<^verbatim>\<open>Unmarshal\<close> merges the fields of the input into its receiver.\<close>

definition Params_Unmarshal :: "params \<Rightarrow> bytes \<Rightarrow> params outcome" where
  "Params_Unmarshal m dAtA = unmarshalLoop errorsParams ''Params'' Params_cases dAtA 0 m"

definition zero_params :: params where
  "zero_params = NewParams [] [] [] 0 [] 0"

definition Params_enc :: "params \<Rightarrow> bytes" where
  "Params_enc m =
     enc_string 0x0a (p_MintingAddress m) @ enc_string 0x12 (p_ReceivingAddress m) @
     enc_string 0x1a (p_Denom m) @ enc_uint64 0x20 (p_MaxSupply m) @
     enc_string 0x2a (p_DistributionStartDate m) @ enc_uint64 0x30 (p_MonthsInHalvingPeriod m)"

lemma Params_enc_bounds:
  assumes "wire_fits (Params_enc m)"
  shows "length (p_MintingAddress m) < 2 ^ 64" "length (p_ReceivingAddress m) < 2 ^ 64"
    "length (p_Denom m) < 2 ^ 64" "length (p_DistributionStartDate m) < 2 ^ 64"
  using assms unfolding Params_enc_def by (blast dest: wire_fits_parts)+

lemma Params_size_enc:
  assumes "wire_fits (Params_enc m)"
  shows "Params_Size m = length (Params_enc m)"
  unfolding Params_Size_def Params_enc_def length_append sizeUint64_enc
    Params_enc_bounds [OF assms, THEN sizeString_enc] by simp

lemma Params_writes:
  assumes "wire_fits (Params_enc m)"
  shows "writes (Params_puts m) (Params_enc m)"
proof -
  note w = Params_enc_bounds [OF assms, THEN writes_putString]
  have "writes (Params_puts m)
     (((((enc_string 0x0a (p_MintingAddress m) @ enc_string 0x12 (p_ReceivingAddress m)) @
     enc_string 0x1a (p_Denom m)) @ enc_uint64 0x20 (p_MaxSupply m)) @
     enc_string 0x2a (p_DistributionStartDate m)) @ enc_uint64 0x30 (p_MonthsInHalvingPeriod m))"
    unfolding Params_puts_def by (intro writes_seq writes_putUint64 w)
  then show ?thesis by (simp add: Params_enc_def)
qed

lemma Params_reads:
  "reads errorsParams ''Params'' Params_cases (Params_enc m) zero_params m"
proof -
  let ?r = "reads errorsParams ''Params'' Params_cases"
  define m1 where "m1 = zero_params\<lparr>p_MintingAddress := p_MintingAddress m\<rparr>"
  define m2 where "m2 = m1\<lparr>p_ReceivingAddress := p_ReceivingAddress m\<rparr>"
  define m3 where "m3 = m2\<lparr>p_Denom := p_Denom m\<rparr>"
  define m4 where "m4 = m3\<lparr>p_MaxSupply := p_MaxSupply m\<rparr>"
  define m5 where "m5 = m4\<lparr>p_DistributionStartDate := p_DistributionStartDate m\<rparr>"
  define m6 where "m6 = m5\<lparr>p_MonthsInHalvingPeriod := p_MonthsInHalvingPeriod m\<rparr>"
  note ms = m1_def m2_def m3_def m4_def m5_def m6_def zero_params_def NewParams_def
  have "?r (enc_string 0x0a (p_MintingAddress m)) zero_params m1"
    unfolding m1_def by (rule reads_string) (simp_all add: Params_cases_def ms)
  moreover have "?r (enc_string 0x12 (p_ReceivingAddress m)) m1 m2"
    unfolding m2_def by (rule reads_string) (simp_all add: Params_cases_def ms)
  moreover have "?r (enc_string 0x1a (p_Denom m)) m2 m3"
    unfolding m3_def by (rule reads_string) (simp_all add: Params_cases_def ms)
  moreover have "?r (enc_uint64 0x20 (p_MaxSupply m)) m3 m4"
    unfolding m4_def by (rule reads_uint64) (simp_all add: Params_cases_def ms)
  moreover have "?r (enc_string 0x2a (p_DistributionStartDate m)) m4 m5"
    unfolding m5_def by (rule reads_string) (simp_all add: Params_cases_def ms)
  moreover have "?r (enc_uint64 0x30 (p_MonthsInHalvingPeriod m)) m5 m6"
    unfolding m6_def by (rule reads_uint64) (simp_all add: Params_cases_def ms)
  moreover have "m6 = m" by (simp add: ms)
  ultimately show ?thesis unfolding Params_enc_def by (blast intro: reads_seq)
qed

lemma Params_total: "total_cases Params_cases"
  by (auto simp: total_cases_def Params_cases_def total_stringCase total_uint64Case split: if_splits)

interpretation params_wire: wire_message Params_enc Params_Size Params_MarshalToSizedBuffer Params_Unmarshal zero_params
proof (unfold_locales, goal_cases)
  case (1 m)
  then show ?case by (rule Params_size_enc)
next
  case (2 m)
  then show ?case using Params_writes by (auto simp: Params_MarshalToSizedBuffer_def)
next
  case (3 m)
  then show ?case unfolding Params_Unmarshal_def using reads_all [OF Params_reads] by simp
next
  case (4 m d)
  show ?case unfolding Params_Unmarshal_def by (rule unmarshalLoop_no_panic [OF Params_total])
qed

end
