(* ===== verification/Proto_Tx.thy ===== *)
theory Proto_Tx
  imports Proto_Distro
begin

text \<open>
  The transaction messages of \<^verbatim>\<open>tx.pb.go\<close> and the messages of \<^verbatim>\<open>genesis.pb.go\<close>,
  \<^verbatim>\<open>query.pb.go\<close> and \<^verbatim>\<open>module.pb.go\<close> on the wire.
\<close>

section \<open>Messages without fields\<close>

text \<open>
  \<^verbatim>\<open>MsgMintResponse\<close>, \<^verbatim>\<open>MsgUpdateParamsResponse\<close> and \<^verbatim>\<open>QueryParamsRequest\<close> are empty
  structs: nothing is written, and any well-formed fields of the input are skipped.
\<close>

definition Empty_Size :: "unit \<Rightarrow> nat" where
  "Empty_Size m = 0"

definition Empty_MarshalToSizedBuffer :: "unit \<Rightarrow> bytes \<Rightarrow> (bytes \<times> int) outcome" where
  "Empty_MarshalToSizedBuffer m = marshalInto Ok"

definition MsgMintResponse_Unmarshal :: "unit \<Rightarrow> bytes \<Rightarrow> unit outcome" where
  "MsgMintResponse_Unmarshal m dAtA = unmarshalLoop errorsTx ''MsgMintResponse'' (\<lambda>_. None) dAtA 0 m"

definition MsgUpdateParamsResponse_Unmarshal :: "unit \<Rightarrow> bytes \<Rightarrow> unit outcome" where
  "MsgUpdateParamsResponse_Unmarshal m dAtA =
     unmarshalLoop errorsTx ''MsgUpdateParamsResponse'' (\<lambda>_. None) dAtA 0 m"

definition QueryParamsRequest_Unmarshal :: "unit \<Rightarrow> bytes \<Rightarrow> unit outcome" where
  "QueryParamsRequest_Unmarshal m dAtA =
     unmarshalLoop errorsQuery ''QueryParamsRequest'' (\<lambda>_. None) dAtA 0 m"

lemma empty_wire:
  "wire_message (\<lambda>_. []) Empty_Size Empty_MarshalToSizedBuffer (\<lambda>m d. unmarshalLoop E name (\<lambda>_. None) d 0 m) ()"
proof (unfold_locales, goal_cases)
  case (2 m)
  then show ?case using writes_skip by (auto simp: Empty_MarshalToSizedBuffer_def)
next
  case (4 m d)
  show ?case by (rule unmarshalLoop_no_panic) (simp add: total_cases_def)
qed (simp_all add: Empty_Size_def unmarshalLoop.simps)

interpretation mint_response_wire: wire_message "\<lambda>_. []" Empty_Size Empty_MarshalToSizedBuffer MsgMintResponse_Unmarshal "()"
  unfolding MsgMintResponse_Unmarshal_def [abs_def] by (rule empty_wire)

interpretation update_response_wire: wire_message "\<lambda>_. []" Empty_Size Empty_MarshalToSizedBuffer MsgUpdateParamsResponse_Unmarshal "()"
  unfolding MsgUpdateParamsResponse_Unmarshal_def [abs_def] by (rule empty_wire)

interpretation query_request_wire: wire_message "\<lambda>_. []" Empty_Size Empty_MarshalToSizedBuffer QueryParamsRequest_Unmarshal "()"
  unfolding QueryParamsRequest_Unmarshal_def [abs_def] by (rule empty_wire)

section \<open>MsgMint\<close>

definition MsgMint_Size :: "msg_mint \<Rightarrow> nat" where
  "MsgMint_Size m = sizeUint64 (mm_Amount m) + sizeString (mm_Signer m)"

definition MsgMint_MarshalToSizedBuffer :: "msg_mint \<Rightarrow> bytes \<Rightarrow> (bytes \<times> int) outcome" where
  "MsgMint_MarshalToSizedBuffer m =
     marshalInto (\<lambda>st.
       bindO (putString 0x12 (mm_Signer m) st) (\<lambda>st.
       putUint64 0x08 (mm_Amount m) st))"

definition MsgMint_Marshal :: "msg_mint \<Rightarrow> bytes outcome" where
  "MsgMint_Marshal m = marshal (MsgMint_Size m) (MsgMint_MarshalToSizedBuffer m)"

definition MsgMint_MarshalTo :: "msg_mint \<Rightarrow> bytes \<Rightarrow> (bytes \<times> int) outcome" where
  "MsgMint_MarshalTo m = marshalTo (MsgMint_Size m) (MsgMint_MarshalToSizedBuffer m)"

definition MsgMint_cases :: "int \<Rightarrow> msg_mint field_case option" where
  "MsgMint_cases fieldNum =
     (if fieldNum = 1 then Some (uint64Case errorsTx ''Amount'' (\<lambda>v m. m\<lparr>mm_Amount := v\<rparr>))
      else if fieldNum = 2 then Some (stringCase errorsTx ''Signer'' (\<lambda>v m. m\<lparr>mm_Signer := v\<rparr>))
      else None)"

definition MsgMint_Unmarshal :: "msg_mint \<Rightarrow> bytes \<Rightarrow> msg_mint outcome" where
  "MsgMint_Unmarshal m dAtA = unmarshalLoop errorsTx ''MsgMint'' MsgMint_cases dAtA 0 m"

definition MsgMint_enc :: "msg_mint \<Rightarrow> bytes" where
  "MsgMint_enc m = enc_uint64 0x08 (mm_Amount m) @ enc_string 0x12 (mm_Signer m)"

lemma MsgMint_reads: "reads errorsTx ''MsgMint'' MsgMint_cases (MsgMint_enc m) (NewMsgMint 0 []) m"
proof -
  let ?r = "reads errorsTx ''MsgMint'' MsgMint_cases"
  define m1 where "m1 = (NewMsgMint 0 [])\<lparr>mm_Amount := mm_Amount m\<rparr>"
  define m2 where "m2 = m1\<lparr>mm_Signer := mm_Signer m\<rparr>"
  have "?r (enc_uint64 0x08 (mm_Amount m)) (NewMsgMint 0 []) m1"
    unfolding m1_def by (rule reads_uint64) (simp_all add: MsgMint_cases_def NewMsgMint_def)
  moreover have "?r (enc_string 0x12 (mm_Signer m)) m1 m2"
    unfolding m2_def by (rule reads_string) (simp_all add: MsgMint_cases_def NewMsgMint_def m1_def)
  moreover have "m2 = m" by (simp add: m1_def m2_def NewMsgMint_def)
  ultimately show ?thesis unfolding MsgMint_enc_def by (blast intro: reads_seq)
qed

interpretation mint_wire: wire_message MsgMint_enc MsgMint_Size MsgMint_MarshalToSizedBuffer MsgMint_Unmarshal "NewMsgMint 0 []"
proof (unfold_locales, goal_cases)
  case (1 m)
  then have "length (mm_Signer m) < 2 ^ 64" unfolding MsgMint_enc_def by (blast dest: wire_fits_parts)
  then show ?case
    unfolding MsgMint_Size_def MsgMint_enc_def length_append sizeUint64_enc by (simp only: sizeString_enc)
next
  case (2 m)
  then have "length (mm_Signer m) < 2 ^ 64" unfolding MsgMint_enc_def by (blast dest: wire_fits_parts)
  then show ?case
    unfolding MsgMint_MarshalToSizedBuffer_def MsgMint_enc_def
    by (blast intro: writes_seq writes_putString writes_putUint64)
next
  case (3 m)
  then show ?case unfolding MsgMint_Unmarshal_def by (rule reads_all [OF MsgMint_reads])
next
  case (4 m d)
  have "total_cases MsgMint_cases"
    by (auto simp: total_cases_def MsgMint_cases_def total_stringCase total_uint64Case split: if_splits)
  then show ?case unfolding MsgMint_Unmarshal_def by (rule unmarshalLoop_no_panic)
qed

section \<open>MsgUpdateParams\<close>

definition MsgUpdateParams_Size :: "msg_update_params \<Rightarrow> nat" where
  "MsgUpdateParams_Size m = sizeString (mu_Authority m) + sizeMessage (Params_Size (mu_Params m))"

definition MsgUpdateParams_MarshalToSizedBuffer :: "msg_update_params \<Rightarrow> bytes \<Rightarrow> (bytes \<times> int) outcome" where
  "MsgUpdateParams_MarshalToSizedBuffer m =
     marshalInto (\<lambda>st.
       bindO (putMessage 0x12 (Params_MarshalToSizedBuffer (mu_Params m)) st) (\<lambda>st.
       putString 0x0a (mu_Authority m) st))"

definition MsgUpdateParams_Marshal :: "msg_update_params \<Rightarrow> bytes outcome" where
  "MsgUpdateParams_Marshal m = marshal (MsgUpdateParams_Size m) (MsgUpdateParams_MarshalToSizedBuffer m)"

definition MsgUpdateParams_MarshalTo :: "msg_update_params \<Rightarrow> bytes \<Rightarrow> (bytes \<times> int) outcome" where
  "MsgUpdateParams_MarshalTo m = marshalTo (MsgUpdateParams_Size m) (MsgUpdateParams_MarshalToSizedBuffer m)"

definition MsgUpdateParams_cases :: "int \<Rightarrow> msg_update_params field_case option" where
  "MsgUpdateParams_cases fieldNum =
     (if fieldNum = 1 then Some (stringCase errorsTx ''Authority'' (\<lambda>v m. m\<lparr>mu_Authority := v\<rparr>))
      else if fieldNum = 2 then
        Some (messageCase errorsTx ''Params'' mu_Params (\<lambda>v m. m\<lparr>mu_Params := v\<rparr>) Params_Unmarshal)
      else None)"

definition MsgUpdateParams_Unmarshal :: "msg_update_params \<Rightarrow> bytes \<Rightarrow> msg_update_params outcome" where
  "MsgUpdateParams_Unmarshal m dAtA =
     unmarshalLoop errorsTx ''MsgUpdateParams'' MsgUpdateParams_cases dAtA 0 m"

definition zero_update_params :: msg_update_params where
  "zero_update_params = \<lparr>mu_Authority = [], mu_Params = zero_params\<rparr>"

definition MsgUpdateParams_enc :: "msg_update_params \<Rightarrow> bytes" where
  "MsgUpdateParams_enc m = enc_string 0x0a (mu_Authority m) @ enc_message 0x12 (Params_enc (mu_Params m))"

text \<open>What embedding the parameters in a message needs of them.\<close>

lemma Params_embedded:
  assumes "wire_fits (enc_message tag (Params_enc p))"
  shows "sizeMessage (Params_Size p) = length (enc_message tag (Params_enc p))"
    and "writes (putMessage tag (Params_MarshalToSizedBuffer p)) (enc_message tag (Params_enc p))"
    and "Params_Unmarshal zero_params (Params_enc p) = Ok p"
proof -
  have fits: "wire_fits (Params_enc p)" using assms by (rule wire_fits_messageD)
  then have "length (Params_enc p) < 2 ^ 64" unfolding wire_fits_def by simp
  then show "sizeMessage (Params_Size p) = length (enc_message tag (Params_enc p))"
    using sizeMessage_enc params_wire.size_enc [OF fits] by simp
  show "writes (putMessage tag (Params_MarshalToSizedBuffer p)) (enc_message tag (Params_enc p))"
    using params_wire.writes_enc [OF fits] fits writes_putMessage unfolding wire_fits_def by metis
  show "Params_Unmarshal zero_params (Params_enc p) = Ok p" using params_wire.reads_enc [OF fits] .
qed

lemma MsgUpdateParams_fits:
  assumes "wire_fits (MsgUpdateParams_enc m)"
  shows "length (mu_Authority m) < 2 ^ 64" "wire_fits (enc_message 0x12 (Params_enc (mu_Params m)))"
  using assms unfolding MsgUpdateParams_enc_def by (blast dest: wire_fits_parts)+

lemma MsgUpdateParams_reads:
  assumes "wire_fits (MsgUpdateParams_enc m)"
  shows "reads errorsTx ''MsgUpdateParams'' MsgUpdateParams_cases (MsgUpdateParams_enc m) zero_update_params m"
proof -
  let ?r = "reads errorsTx ''MsgUpdateParams'' MsgUpdateParams_cases"
  define m1 where "m1 = zero_update_params\<lparr>mu_Authority := mu_Authority m\<rparr>"
  define m2 where "m2 = m1\<lparr>mu_Params := mu_Params m\<rparr>"
  have "?r (enc_string 0x0a (mu_Authority m)) zero_update_params m1"
    unfolding m1_def by (rule reads_string) (simp_all add: MsgUpdateParams_cases_def zero_update_params_def)
  moreover have "?r (enc_message 0x12 (Params_enc (mu_Params m))) m1 m2"
    unfolding m2_def using Params_embedded(3) [OF MsgUpdateParams_fits(2) [OF assms]]
    by (intro reads_message [where upd = "\<lambda>v m. m\<lparr>mu_Params := v\<rparr>" and e = "mu_Params m"
        and sel = mu_Params and unmarshal = Params_Unmarshal and field = "''Params''"])
       (simp_all add: MsgUpdateParams_cases_def m1_def zero_update_params_def)
  moreover have "m2 = m" by (simp add: m1_def m2_def zero_update_params_def)
  ultimately show ?thesis unfolding MsgUpdateParams_enc_def by (blast intro: reads_seq)
qed

interpretation update_wire: wire_message MsgUpdateParams_enc MsgUpdateParams_Size MsgUpdateParams_MarshalToSizedBuffer
  MsgUpdateParams_Unmarshal zero_update_params
proof (unfold_locales, goal_cases)
  case (1 m)
  note f = MsgUpdateParams_fits [OF 1]
  show ?case
    unfolding MsgUpdateParams_Size_def MsgUpdateParams_enc_def length_append
      Params_embedded(1) [OF f(2)] sizeString_enc [OF f(1)] ..
next
  case (2 m)
  note f = MsgUpdateParams_fits [OF 2]
  show ?case
    unfolding MsgUpdateParams_MarshalToSizedBuffer_def MsgUpdateParams_enc_def
    using writes_seq [OF Params_embedded(2) [OF f(2)] writes_putString [OF f(1), of "0x0a"]] by blast
next
  case (3 m)
  then show ?case unfolding MsgUpdateParams_Unmarshal_def using reads_all [OF MsgUpdateParams_reads] by blast
next
  case (4 m d)
  have "total_cases MsgUpdateParams_cases"
    by (auto simp: total_cases_def MsgUpdateParams_cases_def total_stringCase params_wire.total
        intro!: total_messageCase split: if_splits)
  then show ?case unfolding MsgUpdateParams_Unmarshal_def by (rule unmarshalLoop_no_panic)
qed

end
