(* ===== verification/Proto_State.thy ===== *)
theory Proto_State
  imports Proto_Tx
begin

text \<open>
  The remaining messages on the wire: the genesis state, the response of the parameter query
  and the configuration of the module. The first two are the parameters embedded as field 1.
\<close>

section \<open>A message with the parameters as its only field\<close>

lemma params_wrapper_wire:
  fixes sel :: "'m \<Rightarrow> params" and upd :: "params \<Rightarrow> 'm \<Rightarrow> 'm" and zero :: 'm
  assumes cases: "cases = (\<lambda>f. if f = 1 then Some (messageCase E ''Params'' sel upd Params_Unmarshal) else None)"
    and z: "sel zero = zero_params" and u: "\<And>m. upd (sel m) zero = m"
  shows "wire_message (\<lambda>m. enc_message 0x0a (Params_enc (sel m))) (\<lambda>m. sizeMessage (Params_Size (sel m)))
    (\<lambda>m. marshalInto (putMessage 0x0a (Params_MarshalToSizedBuffer (sel m))))
    (\<lambda>m d. unmarshalLoop E name cases d 0 m) zero"
proof (unfold_locales, goal_cases)
  case (1 m)
  then show ?case by (rule Params_embedded(1))
next
  case (2 m)
  then show ?case using Params_embedded(2) by blast
next
  case (3 m)
  have "reads E name cases (enc_message 0x0a (Params_enc (sel m))) zero (upd (sel m) zero)"
    using Params_embedded(3) [OF 3]
    by (intro reads_message [where sel = sel and unmarshal = Params_Unmarshal and field = "''Params''"])
       (simp_all add: cases z)
  then show ?case using reads_all [OF _ 3] by (simp add: u)
next
  case (4 m d)
  have "total_cases cases"
    by (auto simp: cases total_cases_def params_wire.total intro!: total_messageCase split: if_splits)
  then show ?case by (rule unmarshalLoop_no_panic)
qed

section \<open>GenesisState\<close>

definition GenesisState_Size :: "genesis_state \<Rightarrow> nat" where
  "GenesisState_Size m = sizeMessage (Params_Size (gs_Params m))"

definition GenesisState_MarshalToSizedBuffer :: "genesis_state \<Rightarrow> bytes \<Rightarrow> (bytes \<times> int) outcome" where
  "GenesisState_MarshalToSizedBuffer m =
     marshalInto (putMessage 0x0a (Params_MarshalToSizedBuffer (gs_Params m)))"

definition GenesisState_Marshal :: "genesis_state \<Rightarrow> bytes outcome" where
  "GenesisState_Marshal m = marshal (GenesisState_Size m) (GenesisState_MarshalToSizedBuffer m)"

definition GenesisState_MarshalTo :: "genesis_state \<Rightarrow> bytes \<Rightarrow> (bytes \<times> int) outcome" where
  "GenesisState_MarshalTo m = marshalTo (GenesisState_Size m) (GenesisState_MarshalToSizedBuffer m)"

definition GenesisState_cases :: "int \<Rightarrow> genesis_state field_case option" where
  "GenesisState_cases fieldNum =
     (if fieldNum = 1
      then Some (messageCase errorsGenesis ''Params'' gs_Params (\<lambda>v m. m\<lparr>gs_Params := v\<rparr>) Params_Unmarshal)
      else None)"

definition GenesisState_Unmarshal :: "genesis_state \<Rightarrow> bytes \<Rightarrow> genesis_state outcome" where
  "GenesisState_Unmarshal m dAtA = unmarshalLoop errorsGenesis ''GenesisState'' GenesisState_cases dAtA 0 m"

definition GenesisState_enc :: "genesis_state \<Rightarrow> bytes" where
  "GenesisState_enc m = enc_message 0x0a (Params_enc (gs_Params m))"

interpretation genesis_wire: wire_message GenesisState_enc GenesisState_Size GenesisState_MarshalToSizedBuffer
  GenesisState_Unmarshal "\<lparr>gs_Params = zero_params\<rparr>"
  unfolding GenesisState_enc_def [abs_def] GenesisState_Size_def [abs_def]
    GenesisState_MarshalToSizedBuffer_def [abs_def] GenesisState_Unmarshal_def [abs_def]
  by (rule params_wrapper_wire [where upd = "\<lambda>v m. m\<lparr>gs_Params := v\<rparr>" and E = errorsGenesis])
     (simp_all add: GenesisState_cases_def fun_eq_iff)

section \<open>QueryParamsResponse\<close>

record query_params_response =
  qr_Params :: params

definition QueryParamsResponse_Size :: "query_params_response \<Rightarrow> nat" where
  "QueryParamsResponse_Size m = sizeMessage (Params_Size (qr_Params m))"

definition QueryParamsResponse_MarshalToSizedBuffer :: "query_params_response \<Rightarrow> bytes \<Rightarrow> (bytes \<times> int) outcome" where
  "QueryParamsResponse_MarshalToSizedBuffer m =
     marshalInto (putMessage 0x0a (Params_MarshalToSizedBuffer (qr_Params m)))"

definition QueryParamsResponse_Marshal :: "query_params_response \<Rightarrow> bytes outcome" where
  "QueryParamsResponse_Marshal m =
     marshal (QueryParamsResponse_Size m) (QueryParamsResponse_MarshalToSizedBuffer m)"

definition QueryParamsResponse_cases :: "int \<Rightarrow> query_params_response field_case option" where
  "QueryParamsResponse_cases fieldNum =
     (if fieldNum = 1
      then Some (messageCase errorsQuery ''Params'' qr_Params (\<lambda>v m. m\<lparr>qr_Params := v\<rparr>) Params_Unmarshal)
      else None)"

definition QueryParamsResponse_Unmarshal :: "query_params_response \<Rightarrow> bytes \<Rightarrow> query_params_response outcome" where
  "QueryParamsResponse_Unmarshal m dAtA =
     unmarshalLoop errorsQuery ''QueryParamsResponse'' QueryParamsResponse_cases dAtA 0 m"

definition QueryParamsResponse_enc :: "query_params_response \<Rightarrow> bytes" where
  "QueryParamsResponse_enc m = enc_message 0x0a (Params_enc (qr_Params m))"

interpretation query_response_wire: wire_message QueryParamsResponse_enc QueryParamsResponse_Size
  QueryParamsResponse_MarshalToSizedBuffer QueryParamsResponse_Unmarshal "\<lparr>qr_Params = zero_params\<rparr>"
  unfolding QueryParamsResponse_enc_def [abs_def] QueryParamsResponse_Size_def [abs_def]
    QueryParamsResponse_MarshalToSizedBuffer_def [abs_def] QueryParamsResponse_Unmarshal_def [abs_def]
  by (rule params_wrapper_wire [where upd = "\<lambda>v m. m\<lparr>qr_Params := v\<rparr>" and E = errorsQuery])
     (simp_all add: QueryParamsResponse_cases_def fun_eq_iff)

section \<open>Module configuration\<close>

record module_config =
  mod_Authority :: string

definition Module_Size :: "module_config \<Rightarrow> nat" where
  "Module_Size m = sizeString (mod_Authority m)"

definition Module_MarshalToSizedBuffer :: "module_config \<Rightarrow> bytes \<Rightarrow> (bytes \<times> int) outcome" where
  "Module_MarshalToSizedBuffer m = marshalInto (putString 0x0a (mod_Authority m))"

definition Module_Marshal :: "module_config \<Rightarrow> bytes outcome" where
  "Module_Marshal m = marshal (Module_Size m) (Module_MarshalToSizedBuffer m)"

definition Module_cases :: "int \<Rightarrow> module_config field_case option" where
  "Module_cases fieldNum =
     (if fieldNum = 1 then Some (stringCase errorsModule ''Authority'' (\<lambda>v m. m\<lparr>mod_Authority := v\<rparr>)) else None)"

definition Module_Unmarshal :: "module_config \<Rightarrow> bytes \<Rightarrow> module_config outcome" where
  "Module_Unmarshal m dAtA = unmarshalLoop errorsModule ''Module'' Module_cases dAtA 0 m"

definition Module_enc :: "module_config \<Rightarrow> bytes" where
  "Module_enc m = enc_string 0x0a (mod_Authority m)"

interpretation module_wire: wire_message Module_enc Module_Size Module_MarshalToSizedBuffer Module_Unmarshal "\<lparr>mod_Authority = []\<rparr>"
proof (unfold_locales, goal_cases)
  case (1 m)
  then show ?case unfolding Module_enc_def Module_Size_def by (metis sizeString_enc wire_fits_stringD)
next
  case (2 m)
  then show ?case
    unfolding Module_enc_def Module_MarshalToSizedBuffer_def by (blast intro: writes_putString wire_fits_stringD)
next
  case (3 m)
  have "reads errorsModule ''Module'' Module_cases (enc_string 0x0a (mod_Authority m)) \<lparr>mod_Authority = []\<rparr>
      (\<lparr>mod_Authority = []\<rparr>\<lparr>mod_Authority := mod_Authority m\<rparr>)"
    by (rule reads_string) (simp_all add: Module_cases_def)
  moreover have "\<lparr>mod_Authority = []\<rparr>\<lparr>mod_Authority := mod_Authority m\<rparr> = m" by simp
  ultimately have "reads errorsModule ''Module'' Module_cases (Module_enc m) \<lparr>mod_Authority = []\<rparr> m"
    unfolding Module_enc_def by (simp only:)
  then show ?case unfolding Module_Unmarshal_def using 3 by (rule reads_all)
next
  case (4 m d)
  have "total_cases Module_cases"
    by (auto simp: total_cases_def Module_cases_def total_stringCase split: if_splits)
  then show ?case unfolding Module_Unmarshal_def by (rule unmarshalLoop_no_panic)
qed

section \<open>Equality of parameters\<close>

text \<open>
  The argument of \<^verbatim>\<open>Equal\<close> is an interface value: nil, a pointer to parameters (which may
  itself be nil), parameters by value, or a value of another type. The receiver is a pointer.
\<close>

datatype equal_arg = ArgNil | ArgPointer "params option" | ArgValue params | ArgOther

definition Params_Equal :: "params option \<Rightarrow> equal_arg \<Rightarrow> bool" where
  "Params_Equal this that =
     (case that of
        ArgNil \<Rightarrow> this = None
      | ArgOther \<Rightarrow> False
      | _ \<Rightarrow>
        (let that1 = (case that of ArgPointer q \<Rightarrow> q | ArgValue q \<Rightarrow> Some q | _ \<Rightarrow> None)
         in case that1 of
              None \<Rightarrow> this = None
            | Some t \<Rightarrow>
                (case this of
                   None \<Rightarrow> False
                 | Some p \<Rightarrow>
                     if p_MintingAddress p \<noteq> p_MintingAddress t then False
                     else if p_ReceivingAddress p \<noteq> p_ReceivingAddress t then False
                     else if p_Denom p \<noteq> p_Denom t then False
                     else if p_MaxSupply p \<noteq> p_MaxSupply t then False
                     else if p_DistributionStartDate p \<noteq> p_DistributionStartDate t then False
                     else if p_MonthsInHalvingPeriod p \<noteq> p_MonthsInHalvingPeriod t then False
                     else True)))"

section \<open>Getters\<close>

text \<open>The generated getters return the zero value for a nil receiver.\<close>

definition getter :: "('m \<Rightarrow> 'a) \<Rightarrow> 'a \<Rightarrow> 'm option \<Rightarrow> 'a" where
  "getter field dflt m = (case m of Some x \<Rightarrow> field x | None \<Rightarrow> dflt)"

definition GetMintingAddress :: "params option \<Rightarrow> string" where "GetMintingAddress = getter p_MintingAddress []"
definition GetReceivingAddress :: "params option \<Rightarrow> string" where "GetReceivingAddress = getter p_ReceivingAddress []"
definition GetDenom :: "params option \<Rightarrow> string" where "GetDenom = getter p_Denom []"
definition GetMaxSupply :: "params option \<Rightarrow> u64" where "GetMaxSupply = getter p_MaxSupply 0"
definition GetDistributionStartDate :: "params option \<Rightarrow> string" where
  "GetDistributionStartDate = getter p_DistributionStartDate []"
definition GetMonthsInHalvingPeriod :: "params option \<Rightarrow> u64" where
  "GetMonthsInHalvingPeriod = getter p_MonthsInHalvingPeriod 0"

end
