(* ===== verification/Proto_Xxx.thy ===== *)
theory Proto_Xxx
  imports Proto_State
begin

text \<open>
  The \<^verbatim>\<open>XXX_Marshal\<close> methods of the generated files, through which the protobuf runtime
  marshals into a buffer of its own. The slice it passes is extended to its capacity; the message
  is written at the end of it, and the front of it is returned.
\<close>

section \<open>The methods\<close>

text \<open>
  \<open>info\<close> is the marshaller of the message info, used for the deterministic form, and \<open>b\<close> the bytes
  of the argument up to its capacity. \<^verbatim>\<open>b[:n]\<close> panics beyond the capacity.
\<close>

definition xxx_marshal ::
  "(bytes \<Rightarrow> bytes outcome) \<Rightarrow> (bytes \<Rightarrow> (bytes \<times> int) outcome) \<Rightarrow> bytes \<Rightarrow> bool \<Rightarrow> bytes outcome" where
  "xxx_marshal info marshalToSizedBuffer b deterministic =
     (if deterministic then info b
      else bindO (marshalToSizedBuffer b) (\<lambda>(b', n).
        if n < 0 \<or> n > int (length b') then Panic ''slice bounds out of range''
        else Ok (take (nat n) b')))"

definition Params_XXX_Marshal :: "(bytes \<Rightarrow> bytes outcome) \<Rightarrow> params \<Rightarrow> bytes \<Rightarrow> bool \<Rightarrow> bytes outcome" where
  "Params_XXX_Marshal info m = xxx_marshal info (Params_MarshalToSizedBuffer m)"

definition GenesisState_XXX_Marshal :: "(bytes \<Rightarrow> bytes outcome) \<Rightarrow> genesis_state \<Rightarrow> bytes \<Rightarrow> bool \<Rightarrow> bytes outcome" where
  "GenesisState_XXX_Marshal info m = xxx_marshal info (GenesisState_MarshalToSizedBuffer m)"

definition Module_XXX_Marshal :: "(bytes \<Rightarrow> bytes outcome) \<Rightarrow> module_config \<Rightarrow> bytes \<Rightarrow> bool \<Rightarrow> bytes outcome" where
  "Module_XXX_Marshal info m = xxx_marshal info (Module_MarshalToSizedBuffer m)"

definition QueryParamsRequest_XXX_Marshal :: "(bytes \<Rightarrow> bytes outcome) \<Rightarrow> unit \<Rightarrow> bytes \<Rightarrow> bool \<Rightarrow> bytes outcome" where
  "QueryParamsRequest_XXX_Marshal info m = xxx_marshal info (Empty_MarshalToSizedBuffer m)"

definition QueryParamsResponse_XXX_Marshal ::
  "(bytes \<Rightarrow> bytes outcome) \<Rightarrow> query_params_response \<Rightarrow> bytes \<Rightarrow> bool \<Rightarrow> bytes outcome" where
  "QueryParamsResponse_XXX_Marshal info m = xxx_marshal info (QueryParamsResponse_MarshalToSizedBuffer m)"

definition MsgUpdateParams_XXX_Marshal ::
  "(bytes \<Rightarrow> bytes outcome) \<Rightarrow> msg_update_params \<Rightarrow> bytes \<Rightarrow> bool \<Rightarrow> bytes outcome" where
  "MsgUpdateParams_XXX_Marshal info m = xxx_marshal info (MsgUpdateParams_MarshalToSizedBuffer m)"

definition MsgUpdateParamsResponse_XXX_Marshal :: "(bytes \<Rightarrow> bytes outcome) \<Rightarrow> unit \<Rightarrow> bytes \<Rightarrow> bool \<Rightarrow> bytes outcome" where
  "MsgUpdateParamsResponse_XXX_Marshal info m = xxx_marshal info (Empty_MarshalToSizedBuffer m)"

definition MsgMint_XXX_Marshal :: "(bytes \<Rightarrow> bytes outcome) \<Rightarrow> msg_mint \<Rightarrow> bytes \<Rightarrow> bool \<Rightarrow> bytes outcome" where
  "MsgMint_XXX_Marshal info m = xxx_marshal info (MsgMint_MarshalToSizedBuffer m)"

definition MsgMintResponse_XXX_Marshal :: "(bytes \<Rightarrow> bytes outcome) \<Rightarrow> unit \<Rightarrow> bytes \<Rightarrow> bool \<Rightarrow> bytes outcome" where
  "MsgMintResponse_XXX_Marshal info m = xxx_marshal info (Empty_MarshalToSizedBuffer m)"

lemmas XXX_Marshal_defs = Params_XXX_Marshal_def GenesisState_XXX_Marshal_def Module_XXX_Marshal_def
  QueryParamsRequest_XXX_Marshal_def QueryParamsResponse_XXX_Marshal_def MsgUpdateParams_XXX_Marshal_def
  MsgUpdateParamsResponse_XXX_Marshal_def MsgMint_XXX_Marshal_def MsgMintResponse_XXX_Marshal_def

section \<open>A buffer of the exact size\<close>

context wire_message
begin

text \<open>With a capacity of exactly the size the result is that of \<^verbatim>\<open>Marshal\<close>, whatever the buffer held.\<close>

lemma xxx_marshal_exact:
  assumes "wire_fits (enc m)" and "length b = size_of m"
  shows "xxx_marshal info (marshal_buf m) b False = marshal (size_of m) (marshal_buf m)"
proof -
  have sz: "size_of m = length (enc m)" by (rule size_enc [OF assms(1)])
  have "marshalTo (size_of m) (marshal_buf m) b = Ok (enc m, int (size_of m))"
    using marshalTo_enc [OF assms(1), of b] assms(2) by simp
  then have "marshal_buf m b = Ok (enc m, int (size_of m))"
    by (auto simp: marshalTo_def assms(2) bindO_eq_Ok)
  then show ?thesis by (simp add: xxx_marshal_def marshal_enc [OF assms(1), unfolded sz] sz)
qed

end

lemma MsgMint_XXX_Marshal_exact:
  assumes "wire_fits (MsgMint_enc m)" and "length b = MsgMint_Size m"
  shows "MsgMint_XXX_Marshal info m b False = MsgMint_Marshal m"
  unfolding XXX_Marshal_defs MsgMint_Marshal_def by (rule mint_wire.xxx_marshal_exact [OF assms])

lemma MsgUpdateParams_XXX_Marshal_exact:
  assumes "wire_fits (MsgUpdateParams_enc m)" and "length b = MsgUpdateParams_Size m"
  shows "MsgUpdateParams_XXX_Marshal info m b False = MsgUpdateParams_Marshal m"
  unfolding XXX_Marshal_defs MsgUpdateParams_Marshal_def by (rule update_wire.xxx_marshal_exact [OF assms])

lemma Params_XXX_Marshal_exact:
  assumes "wire_fits (Params_enc m)" and "length b = Params_Size m"
  shows "Params_XXX_Marshal info m b False = Params_Marshal m"
  unfolding XXX_Marshal_defs Params_Marshal_def by (rule params_wire.xxx_marshal_exact [OF assms])

lemma GenesisState_XXX_Marshal_exact:
  assumes "wire_fits (GenesisState_enc m)" and "length b = GenesisState_Size m"
  shows "GenesisState_XXX_Marshal info m b False = GenesisState_Marshal m"
  unfolding XXX_Marshal_defs GenesisState_Marshal_def by (rule genesis_wire.xxx_marshal_exact [OF assms])

text \<open>
  A larger capacity gives the front of the buffer and not the message, which is at its end: the
  two bytes of a mint of one unit in a buffer of three.
\<close>

lemma MsgMint_XXX_Marshal_large:
  "MsgMint_Marshal (NewMsgMint 1 []) = Ok [0x08, 1]"
  "MsgMint_XXX_Marshal info (NewMsgMint 1 []) [7, 7, 7] False = Ok [7, 0x08]"
  "MsgMint_XXX_Marshal info (NewMsgMint 1 []) [7, 7] False = Ok [0x08, 1]"
  by code_simp+

end
