(* ===== verification/Proto_Accessors.thy ===== *)
theory Proto_Accessors
  imports Proto_Xxx
begin

text \<open>
  The remaining methods of the generated message types: \<^verbatim>\<open>Reset\<close>, the methods through which the
  protobuf runtime sizes, marshals and unmarshals, the getters, and the marshalling of the messages
  without fields. A locale states what the runtime needs of a message type.
\<close>

section \<open>Messages without fields\<close>

definition QueryParamsRequest_Size :: "unit \<Rightarrow> nat" where
  "QueryParamsRequest_Size = Empty_Size"

definition QueryParamsRequest_MarshalToSizedBuffer :: "unit \<Rightarrow> bytes \<Rightarrow> (bytes \<times> int) outcome" where
  "QueryParamsRequest_MarshalToSizedBuffer = Empty_MarshalToSizedBuffer"

definition QueryParamsRequest_Marshal :: "unit \<Rightarrow> bytes outcome" where
  "QueryParamsRequest_Marshal m = marshal (QueryParamsRequest_Size m) (QueryParamsRequest_MarshalToSizedBuffer m)"

definition QueryParamsRequest_MarshalTo :: "unit \<Rightarrow> bytes \<Rightarrow> (bytes \<times> int) outcome" where
  "QueryParamsRequest_MarshalTo m = marshalTo (QueryParamsRequest_Size m) (QueryParamsRequest_MarshalToSizedBuffer m)"

definition MsgUpdateParamsResponse_Size :: "unit \<Rightarrow> nat" where
  "MsgUpdateParamsResponse_Size = Empty_Size"

definition MsgUpdateParamsResponse_MarshalToSizedBuffer :: "unit \<Rightarrow> bytes \<Rightarrow> (bytes \<times> int) outcome" where
  "MsgUpdateParamsResponse_MarshalToSizedBuffer = Empty_MarshalToSizedBuffer"

definition MsgUpdateParamsResponse_Marshal :: "unit \<Rightarrow> bytes outcome" where
  "MsgUpdateParamsResponse_Marshal m = marshal (MsgUpdateParamsResponse_Size m) (MsgUpdateParamsResponse_MarshalToSizedBuffer m)"

definition MsgUpdateParamsResponse_MarshalTo :: "unit \<Rightarrow> bytes \<Rightarrow> (bytes \<times> int) outcome" where
  "MsgUpdateParamsResponse_MarshalTo m = marshalTo (MsgUpdateParamsResponse_Size m) (MsgUpdateParamsResponse_MarshalToSizedBuffer m)"

definition MsgMintResponse_Size :: "unit \<Rightarrow> nat" where
  "MsgMintResponse_Size = Empty_Size"

definition MsgMintResponse_MarshalToSizedBuffer :: "unit \<Rightarrow> bytes \<Rightarrow> (bytes \<times> int) outcome" where
  "MsgMintResponse_MarshalToSizedBuffer = Empty_MarshalToSizedBuffer"

definition MsgMintResponse_Marshal :: "unit \<Rightarrow> bytes outcome" where
  "MsgMintResponse_Marshal m = marshal (MsgMintResponse_Size m) (MsgMintResponse_MarshalToSizedBuffer m)"

definition MsgMintResponse_MarshalTo :: "unit \<Rightarrow> bytes \<Rightarrow> (bytes \<times> int) outcome" where
  "MsgMintResponse_MarshalTo m = marshalTo (MsgMintResponse_Size m) (MsgMintResponse_MarshalToSizedBuffer m)"

lemmas Empty_Size_defs = QueryParamsRequest_Size_def MsgUpdateParamsResponse_Size_def MsgMintResponse_Size_def

section \<open>The missing \<^verbatim>\<open>MarshalTo\<close> methods\<close>

definition Module_MarshalTo :: "module_config \<Rightarrow> bytes \<Rightarrow> (bytes \<times> int) outcome" where
  "Module_MarshalTo m = marshalTo (Module_Size m) (Module_MarshalToSizedBuffer m)"

definition QueryParamsResponse_MarshalTo :: "query_params_response \<Rightarrow> bytes \<Rightarrow> (bytes \<times> int) outcome" where
  "QueryParamsResponse_MarshalTo m = marshalTo (QueryParamsResponse_Size m) (QueryParamsResponse_MarshalToSizedBuffer m)"

section \<open>Reset and the methods of the runtime\<close>

definition Params_Reset :: "params \<Rightarrow> params" where
  "Params_Reset m = zero_params"

definition Params_XXX_Unmarshal :: "params \<Rightarrow> bytes \<Rightarrow> params outcome" where
  "Params_XXX_Unmarshal m b = Params_Unmarshal m b"

definition Params_XXX_Size :: "params \<Rightarrow> nat" where
  "Params_XXX_Size m = Params_Size m"

definition GenesisState_Reset :: "genesis_state \<Rightarrow> genesis_state" where
  "GenesisState_Reset m = \<lparr>gs_Params = zero_params\<rparr>"

definition GenesisState_XXX_Unmarshal :: "genesis_state \<Rightarrow> bytes \<Rightarrow> genesis_state outcome" where
  "GenesisState_XXX_Unmarshal m b = GenesisState_Unmarshal m b"

definition GenesisState_XXX_Size :: "genesis_state \<Rightarrow> nat" where
  "GenesisState_XXX_Size m = GenesisState_Size m"

definition Module_Reset :: "module_config \<Rightarrow> module_config" where
  "Module_Reset m = \<lparr>mod_Authority = []\<rparr>"

definition Module_XXX_Unmarshal :: "module_config \<Rightarrow> bytes \<Rightarrow> module_config outcome" where
  "Module_XXX_Unmarshal m b = Module_Unmarshal m b"

definition Module_XXX_Size :: "module_config \<Rightarrow> nat" where
  "Module_XXX_Size m = Module_Size m"

definition QueryParamsRequest_Reset :: "unit \<Rightarrow> unit" where
  "QueryParamsRequest_Reset m = ()"

definition QueryParamsRequest_XXX_Unmarshal :: "unit \<Rightarrow> bytes \<Rightarrow> unit outcome" where
  "QueryParamsRequest_XXX_Unmarshal m b = QueryParamsRequest_Unmarshal m b"

definition QueryParamsRequest_XXX_Size :: "unit \<Rightarrow> nat" where
  "QueryParamsRequest_XXX_Size m = QueryParamsRequest_Size m"

definition QueryParamsResponse_Reset :: "query_params_response \<Rightarrow> query_params_response" where
  "QueryParamsResponse_Reset m = \<lparr>qr_Params = zero_params\<rparr>"

definition QueryParamsResponse_XXX_Unmarshal :: "query_params_response \<Rightarrow> bytes \<Rightarrow> query_params_response outcome" where
  "QueryParamsResponse_XXX_Unmarshal m b = QueryParamsResponse_Unmarshal m b"

definition QueryParamsResponse_XXX_Size :: "query_params_response \<Rightarrow> nat" where
  "QueryParamsResponse_XXX_Size m = QueryParamsResponse_Size m"

definition MsgUpdateParams_Reset :: "msg_update_params \<Rightarrow> msg_update_params" where
  "MsgUpdateParams_Reset m = zero_update_params"

definition MsgUpdateParams_XXX_Unmarshal :: "msg_update_params \<Rightarrow> bytes \<Rightarrow> msg_update_params outcome" where
  "MsgUpdateParams_XXX_Unmarshal m b = MsgUpdateParams_Unmarshal m b"

definition MsgUpdateParams_XXX_Size :: "msg_update_params \<Rightarrow> nat" where
  "MsgUpdateParams_XXX_Size m = MsgUpdateParams_Size m"

definition MsgUpdateParamsResponse_Reset :: "unit \<Rightarrow> unit" where
  "MsgUpdateParamsResponse_Reset m = ()"

definition MsgUpdateParamsResponse_XXX_Unmarshal :: "unit \<Rightarrow> bytes \<Rightarrow> unit outcome" where
  "MsgUpdateParamsResponse_XXX_Unmarshal m b = MsgUpdateParamsResponse_Unmarshal m b"

definition MsgUpdateParamsResponse_XXX_Size :: "unit \<Rightarrow> nat" where
  "MsgUpdateParamsResponse_XXX_Size m = MsgUpdateParamsResponse_Size m"

definition MsgMint_Reset :: "msg_mint \<Rightarrow> msg_mint" where
  "MsgMint_Reset m = NewMsgMint 0 []"

definition MsgMint_XXX_Unmarshal :: "msg_mint \<Rightarrow> bytes \<Rightarrow> msg_mint outcome" where
  "MsgMint_XXX_Unmarshal m b = MsgMint_Unmarshal m b"

definition MsgMint_XXX_Size :: "msg_mint \<Rightarrow> nat" where
  "MsgMint_XXX_Size m = MsgMint_Size m"

definition MsgMintResponse_Reset :: "unit \<Rightarrow> unit" where
  "MsgMintResponse_Reset m = ()"

definition MsgMintResponse_XXX_Unmarshal :: "unit \<Rightarrow> bytes \<Rightarrow> unit outcome" where
  "MsgMintResponse_XXX_Unmarshal m b = MsgMintResponse_Unmarshal m b"

definition MsgMintResponse_XXX_Size :: "unit \<Rightarrow> nat" where
  "MsgMintResponse_XXX_Size m = MsgMintResponse_Size m"

lemmas runtime_method_defs =
  Params_Reset_def Params_XXX_Unmarshal_def Params_XXX_Size_def
  GenesisState_Reset_def GenesisState_XXX_Unmarshal_def GenesisState_XXX_Size_def
  Module_Reset_def Module_XXX_Unmarshal_def Module_XXX_Size_def
  QueryParamsRequest_Reset_def QueryParamsRequest_XXX_Unmarshal_def QueryParamsRequest_XXX_Size_def
  QueryParamsResponse_Reset_def QueryParamsResponse_XXX_Unmarshal_def QueryParamsResponse_XXX_Size_def
  MsgUpdateParams_Reset_def MsgUpdateParams_XXX_Unmarshal_def MsgUpdateParams_XXX_Size_def
  MsgUpdateParamsResponse_Reset_def MsgUpdateParamsResponse_XXX_Unmarshal_def MsgUpdateParamsResponse_XXX_Size_def
  MsgMint_Reset_def MsgMint_XXX_Unmarshal_def MsgMint_XXX_Size_def
  MsgMintResponse_Reset_def MsgMintResponse_XXX_Unmarshal_def MsgMintResponse_XXX_Size_def

section \<open>Getters\<close>

definition GenesisState_GetParams :: "genesis_state option \<Rightarrow> params" where
  "GenesisState_GetParams = getter gs_Params zero_params"

definition QueryParamsResponse_GetParams :: "query_params_response option \<Rightarrow> params" where
  "QueryParamsResponse_GetParams = getter qr_Params zero_params"

definition Module_GetAuthority :: "module_config option \<Rightarrow> string" where
  "Module_GetAuthority = getter mod_Authority []"

definition MsgUpdateParams_GetAuthority :: "msg_update_params option \<Rightarrow> string" where
  "MsgUpdateParams_GetAuthority = getter mu_Authority []"

definition MsgUpdateParams_GetParams :: "msg_update_params option \<Rightarrow> params" where
  "MsgUpdateParams_GetParams = getter mu_Params zero_params"

definition MsgMint_GetAmount :: "msg_mint option \<Rightarrow> u64" where
  "MsgMint_GetAmount = getter mm_Amount 0"

definition MsgMint_GetSigner :: "msg_mint option \<Rightarrow> string" where
  "MsgMint_GetSigner = getter mm_Signer []"

section \<open>What the runtime relies on\<close>

text \<open>
  The runtime makes a buffer of \<^verbatim>\<open>XXX_Size\<close> bytes for \<^verbatim>\<open>XXX_Marshal\<close>; before it unmarshals into an
  existing message it resets it.
\<close>

locale runtime_message = wire_message +
  fixes reset :: "'a \<Rightarrow> 'a"
    and xxx_size :: "'a \<Rightarrow> nat"
    and xxx_unmarshal :: "'a \<Rightarrow> bytes \<Rightarrow> 'a outcome"
    and xxx_marshal_m :: "(bytes \<Rightarrow> bytes outcome) \<Rightarrow> 'a \<Rightarrow> bytes \<Rightarrow> bool \<Rightarrow> bytes outcome"
  assumes reset: "reset m = zero"
    and xxx_size: "xxx_size m = size_of m"
    and xxx_unmarshal: "xxx_unmarshal m b = unmarshal m b"
    and xxx_marshal_m: "xxx_marshal_m info m b det = xxx_marshal info (marshal_buf m) b det"
begin

lemma runtime_trip:
  assumes "wire_fits (enc m)" and "length b = xxx_size m"
  shows "xxx_marshal_m info m b False = Ok (enc m) \<and> length (enc m) = xxx_size m \<and> xxx_unmarshal (reset old) (enc m) = Ok m"
  using xxx_marshal_exact [OF assms(1)] marshal_enc [OF assms(1)] reads_enc [OF assms(1)] size_enc [OF assms(1)] assms(2)
  by (simp add: reset xxx_size xxx_unmarshal xxx_marshal_m)

text \<open>Bytes that are not an encoding give an error and never a panic.\<close>

lemma runtime_total: "no_panic (xxx_unmarshal m b)"
  by (simp add: xxx_unmarshal total)

end

interpretation params_runtime: runtime_message Params_enc Params_Size Params_MarshalToSizedBuffer Params_Unmarshal zero_params
  Params_Reset Params_XXX_Size Params_XXX_Unmarshal Params_XXX_Marshal
  by unfold_locales (simp_all add: runtime_method_defs XXX_Marshal_defs)

interpretation genesis_runtime: runtime_message GenesisState_enc GenesisState_Size GenesisState_MarshalToSizedBuffer GenesisState_Unmarshal "\<lparr>gs_Params = zero_params\<rparr>"
  GenesisState_Reset GenesisState_XXX_Size GenesisState_XXX_Unmarshal GenesisState_XXX_Marshal
  by unfold_locales (simp_all add: runtime_method_defs XXX_Marshal_defs)

interpretation module_runtime: runtime_message Module_enc Module_Size Module_MarshalToSizedBuffer Module_Unmarshal "\<lparr>mod_Authority = []\<rparr>"
  Module_Reset Module_XXX_Size Module_XXX_Unmarshal Module_XXX_Marshal
  by unfold_locales (simp_all add: runtime_method_defs XXX_Marshal_defs)

interpretation query_request_runtime: runtime_message "\<lambda>_. []" Empty_Size Empty_MarshalToSizedBuffer QueryParamsRequest_Unmarshal "()"
  QueryParamsRequest_Reset QueryParamsRequest_XXX_Size QueryParamsRequest_XXX_Unmarshal QueryParamsRequest_XXX_Marshal
  by unfold_locales (simp_all add: runtime_method_defs XXX_Marshal_defs Empty_Size_defs)

interpretation query_response_runtime: runtime_message QueryParamsResponse_enc QueryParamsResponse_Size QueryParamsResponse_MarshalToSizedBuffer QueryParamsResponse_Unmarshal "\<lparr>qr_Params = zero_params\<rparr>"
  QueryParamsResponse_Reset QueryParamsResponse_XXX_Size QueryParamsResponse_XXX_Unmarshal QueryParamsResponse_XXX_Marshal
  by unfold_locales (simp_all add: runtime_method_defs XXX_Marshal_defs)

interpretation update_runtime: runtime_message MsgUpdateParams_enc MsgUpdateParams_Size MsgUpdateParams_MarshalToSizedBuffer MsgUpdateParams_Unmarshal zero_update_params
  MsgUpdateParams_Reset MsgUpdateParams_XXX_Size MsgUpdateParams_XXX_Unmarshal MsgUpdateParams_XXX_Marshal
  by unfold_locales (simp_all add: runtime_method_defs XXX_Marshal_defs)

interpretation update_response_runtime: runtime_message "\<lambda>_. []" Empty_Size Empty_MarshalToSizedBuffer MsgUpdateParamsResponse_Unmarshal "()"
  MsgUpdateParamsResponse_Reset MsgUpdateParamsResponse_XXX_Size MsgUpdateParamsResponse_XXX_Unmarshal MsgUpdateParamsResponse_XXX_Marshal
  by unfold_locales (simp_all add: runtime_method_defs XXX_Marshal_defs Empty_Size_defs)

interpretation mint_runtime: runtime_message MsgMint_enc MsgMint_Size MsgMint_MarshalToSizedBuffer MsgMint_Unmarshal "NewMsgMint 0 []"
  MsgMint_Reset MsgMint_XXX_Size MsgMint_XXX_Unmarshal MsgMint_XXX_Marshal
  by unfold_locales (simp_all add: runtime_method_defs XXX_Marshal_defs)

interpretation mint_response_runtime: runtime_message "\<lambda>_. []" Empty_Size Empty_MarshalToSizedBuffer MsgMintResponse_Unmarshal "()"
  MsgMintResponse_Reset MsgMintResponse_XXX_Size MsgMintResponse_XXX_Unmarshal MsgMintResponse_XXX_Marshal
  by unfold_locales (simp_all add: runtime_method_defs XXX_Marshal_defs Empty_Size_defs)

end
