(* ===== verification/Proto_Properties.thy ===== *)
theory Proto_Properties
  imports Proto_Accessors
begin

text \<open>
  The properties of the wire format: what is marshalled is read back, sizes are exact, decoding
  arbitrary bytes never panics, and unknown fields do not disturb a message. Each rests on the
  interpretation of \<open>wire_message\<close> for the message type.
\<close>

text \<open>
  The varint that \<open>encodeVarint\<close> writes backwards into a buffer ends where the caller's
  offset was, has exactly the length \<open>sov\<close> announces, at most 10 bytes, leaves the bytes behind
  the offset alone, and decodes to the value written.
\<close>

theorem varint_roundtrip:
  assumes "0 \<le> i" "i \<le> int (length buf)" "int (sov v) \<le> i"
  shows "\<exists>buf'. encodeVarint buf i v = Ok (buf', i - int (sov v)) \<and> length buf' = length buf \<and>
    drop (nat i) buf' = drop (nat i) buf \<and>
    decodeVarint E buf' (nat (i - int (sov v))) 0 0 = Ok (v, nat i) \<and> sov v \<le> 10"
proof -
  have "filled buf i (drop (nat i) buf)" using assms by (simp add: filled_def)
  then obtain buf' where b: "encodeVarint buf i v = Ok (buf', i - int (sov v))" "length buf' = length buf"
    "filled buf' (i - int (sov v)) (varint (unat v) @ drop (nat i) buf)"
    using encodeVarint_ok [OF _ assms(3)] by blast
  have ni: "nat (i - int (sov v)) + sov v = nat i" using assms(3) by simp
  have d: "drop (nat (i - int (sov v))) buf' = varint (unat v) @ drop (nat i) buf"
    using b(3) by (simp add: filled_def)
  then have "drop (nat (i - int (sov v)) + length (varint (unat v))) buf' = drop (nat i) buf"
    by (rule drop_add_append)
  moreover have "decodeVarint E buf' (nat (i - int (sov v))) 0 0 = Ok (v, nat i)"
    using decodeVarint_encoded [OF d, of E] ni by simp
  ultimately show ?thesis using b sov_le_10 [of v] ni by (simp flip: sov_varint)
qed

theorem varint_roundtrip_witness:
  "\<exists>buf'. encodeVarint [0, 0, 0, 7] 3 300 = Ok (buf', 1) \<and> drop 3 buf' = [7]"
proof -
  have "sov 300 = 2" by code_simp
  then show ?thesis using varint_roundtrip [of 3 "[0, 0, 0, 7]" 300] by auto
qed

text \<open>
  C19: Marshalling parameters and unmarshalling the bytes into a zero message gives the
  parameters back; the output has exactly the length that \<open>Size\<close> computes, and equal outputs
  come from equal parameters. The encoding must fit a Go slice.
\<close>

theorem params_roundtrip:
  assumes "wire_fits (Params_enc p)" "wire_fits (Params_enc q)"
  shows "\<exists>b. Params_Marshal p = Ok b \<and> length b = Params_Size p \<and> Params_Unmarshal zero_params b = Ok p \<and>
    (Params_Marshal q = Ok b \<longrightarrow> q = p)"
  unfolding Params_Marshal_def
  using params_wire.marshal_enc [OF assms(1)] params_wire.size_enc [OF assms(1)]
    params_wire.reads_enc [OF assms(1)] params_wire.enc_inj [OF assms] by auto

lemma default_params_length: "length (Params_enc DefaultParams) \<le> 81"
  using enc_string_le [of "''uGNOD''" "0x1a"] enc_string_le [of "''2025-07-22''" "0x2a"]
    enc_uint64_le [of "0x20" 35000000000000000] enc_uint64_le [of "0x30" 12]
  by (simp add: Params_enc_def default_params_defs enc_string_def [of _ "[]"])

lemma wire_fitsI: "length enc \<le> 1000 \<Longrightarrow> wire_fits enc"
  by (simp add: wire_fits_def)

lemma default_params_fit: "wire_fits (Params_enc DefaultParams)"
  using default_params_length by (intro wire_fitsI) simp

lemma default_embedded_length: "length (enc_message tag (Params_enc DefaultParams)) \<le> 92"
  using default_params_length enc_message_le [of "Params_enc DefaultParams" tag] by simp

theorem params_roundtrip_witness:
  "\<exists>b. Params_Marshal DefaultParams = Ok b \<and> Params_Unmarshal zero_params b = Ok DefaultParams"
  using params_roundtrip [OF default_params_fit default_params_fit] by blast

text \<open>
  The transaction messages \<open>MsgMint\<close> and \<open>MsgUpdateParams\<close>, the second with the parameters
  embedded through the shared buffer, survive the trip over the wire, with exact sizes.
\<close>

theorem tx_roundtrip:
  assumes "wire_fits (MsgMint_enc m)" "wire_fits (MsgUpdateParams_enc u)"
  shows "(\<exists>b. MsgMint_Marshal m = Ok b \<and> length b = MsgMint_Size m \<and> MsgMint_Unmarshal (NewMsgMint 0 []) b = Ok m) \<and>
    (\<exists>b. MsgUpdateParams_Marshal u = Ok b \<and> length b = MsgUpdateParams_Size u \<and>
       MsgUpdateParams_Unmarshal zero_update_params b = Ok u)"
  unfolding MsgMint_Marshal_def MsgUpdateParams_Marshal_def
  using mint_wire.marshal_enc [OF assms(1)] mint_wire.size_enc [OF assms(1)] mint_wire.reads_enc [OF assms(1)]
    update_wire.marshal_enc [OF assms(2)] update_wire.size_enc [OF assms(2)] update_wire.reads_enc [OF assms(2)]
  by auto

definition sample_update_msg :: msg_update_params where
  "sample_update_msg = \<lparr>mu_Authority = ''gov'', mu_Params = DefaultParams\<rparr>"

lemma sample_msgs_fit: "wire_fits (MsgMint_enc (NewMsgMint 17500000000000000 ''minter''))" "wire_fits (MsgUpdateParams_enc sample_update_msg)"
  using enc_uint64_le [of "0x08" 17500000000000000] enc_string_le [of "''minter''" "0x12"]
    enc_string_le [of "''gov''" "0x0a"] default_embedded_length [of "0x12"]
  by (intro wire_fitsI, simp add: MsgMint_enc_def NewMsgMint_def,
      intro wire_fitsI, simp add: MsgUpdateParams_enc_def sample_update_msg_def)

theorem tx_roundtrip_witness:
  "(\<exists>b. MsgMint_Marshal (NewMsgMint 17500000000000000 ''minter'') = Ok b) \<and>
   (\<exists>b. MsgUpdateParams_Marshal sample_update_msg = Ok b)"
  using tx_roundtrip [OF sample_msgs_fit] by blast

text \<open>
  The genesis state, the response of the parameter query and the module configuration
  survive the trip over the wire.
\<close>

theorem state_roundtrip:
  assumes "wire_fits (GenesisState_enc g)" "wire_fits (QueryParamsResponse_enc r)" "wire_fits (Module_enc c)"
  shows "bindO (GenesisState_Marshal g) (GenesisState_Unmarshal \<lparr>gs_Params = zero_params\<rparr>) = Ok g \<and>
    bindO (QueryParamsResponse_Marshal r) (QueryParamsResponse_Unmarshal \<lparr>qr_Params = zero_params\<rparr>) = Ok r \<and>
    bindO (Module_Marshal c) (Module_Unmarshal \<lparr>mod_Authority = []\<rparr>) = Ok c"
  unfolding GenesisState_Marshal_def QueryParamsResponse_Marshal_def Module_Marshal_def
  using genesis_wire.roundtrip [OF assms(1)] query_response_wire.roundtrip [OF assms(2)]
    module_wire.roundtrip [OF assms(3)] by blast

lemma sample_states_fit: "wire_fits (GenesisState_enc DefaultGenesis)"
    "wire_fits (QueryParamsResponse_enc \<lparr>qr_Params = DefaultParams\<rparr>)" "wire_fits (Module_enc \<lparr>mod_Authority = ''gov''\<rparr>)"
  using default_embedded_length [of "0x0a"] enc_string_le [of "''gov''" "0x0a"]
  by (intro wire_fitsI, simp add: GenesisState_enc_def DefaultGenesis_def,
      intro wire_fitsI, simp add: QueryParamsResponse_enc_def, intro wire_fitsI, simp add: Module_enc_def)

theorem state_roundtrip_witness:
  "bindO (GenesisState_Marshal DefaultGenesis) (GenesisState_Unmarshal \<lparr>gs_Params = zero_params\<rparr>) = Ok DefaultGenesis"
  using state_roundtrip [OF sample_states_fit] by blast

text \<open>
  C20: The way of the protobuf runtime: a message marshalled through \<^verbatim>\<open>XXX_Marshal\<close> into any buffer
  of \<^verbatim>\<open>XXX_Size\<close> bytes, and unmarshalled into any other message after its \<^verbatim>\<open>Reset\<close>, is the message
  again, with the size announced, for the two transaction messages, the response of the query and the
  genesis state. The reset is needed: the empty bytes, which encode the zero message, leave every
  field of an old message as it was.
\<close>

theorem runtime_roundtrip:
  assumes "wire_fits (MsgMint_enc m)" "wire_fits (MsgUpdateParams_enc u)" "wire_fits (QueryParamsResponse_enc r)" "wire_fits (GenesisState_enc g)"
    and "length bm = MsgMint_XXX_Size m" "length bu = MsgUpdateParams_XXX_Size u" "length br = QueryParamsResponse_XXX_Size r"
      "length bg = GenesisState_XXX_Size g"
  shows "(\<exists>bz. MsgMint_XXX_Marshal info m bm False = Ok bz \<and> length bz = MsgMint_XXX_Size m \<and>
      (\<forall>old. MsgMint_XXX_Unmarshal (MsgMint_Reset old) bz = Ok m)) \<and>
    (\<exists>bz. MsgUpdateParams_XXX_Marshal info u bu False = Ok bz \<and> length bz = MsgUpdateParams_XXX_Size u \<and>
      (\<forall>old. MsgUpdateParams_XXX_Unmarshal (MsgUpdateParams_Reset old) bz = Ok u)) \<and>
    (\<exists>bz. QueryParamsResponse_XXX_Marshal info r br False = Ok bz \<and> length bz = QueryParamsResponse_XXX_Size r \<and>
      (\<forall>old. QueryParamsResponse_XXX_Unmarshal (QueryParamsResponse_Reset old) bz = Ok r)) \<and>
    (\<exists>bz. GenesisState_XXX_Marshal info g bg False = Ok bz \<and> length bz = GenesisState_XXX_Size g \<and>
      (\<forall>old. GenesisState_XXX_Unmarshal (GenesisState_Reset old) bz = Ok g)) \<and>
    (\<forall>old. MsgMint_Marshal (MsgMint_Reset old) = Ok [] \<and> MsgMint_XXX_Unmarshal old [] = Ok old)"
proof (intro conjI allI)
  fix old
  have "MsgMint_enc (MsgMint_Reset old) = []"
    by (simp add: MsgMint_enc_def MsgMint_Reset_def NewMsgMint_def enc_uint64_def enc_string_def)
  then show "MsgMint_Marshal (MsgMint_Reset old) = Ok []"
    unfolding MsgMint_Marshal_def by (subst mint_wire.marshal_enc) (simp_all add: wire_fits_def)
  show "MsgMint_XXX_Unmarshal old [] = Ok old"
    by (simp add: MsgMint_XXX_Unmarshal_def MsgMint_Unmarshal_def unmarshalLoop.simps)
qed (use mint_runtime.runtime_trip [OF assms(1,5)] update_runtime.runtime_trip [OF assms(2,6)]
    query_response_runtime.runtime_trip [OF assms(3,7)] genesis_runtime.runtime_trip [OF assms(4,8)] in blast)+

theorem runtime_roundtrip_witness:
  "\<exists>bz. MsgMint_XXX_Marshal Ok (NewMsgMint 17500000000000000 ''minter'') (replicate (MsgMint_XXX_Size (NewMsgMint 17500000000000000 ''minter'')) 7) False = Ok bz \<and>
     MsgMint_XXX_Unmarshal (MsgMint_Reset (NewMsgMint 3 ''stale'')) bz = Ok (NewMsgMint 17500000000000000 ''minter'')"
  using runtime_roundtrip [OF sample_msgs_fit sample_states_fit(2,1) length_replicate length_replicate length_replicate length_replicate] by blast


text \<open>
  Parameters extended by a field of a later version (a number or a length-delimited value
  under an unused field number from 7 to 15) still decode to the same parameters.
\<close>

theorem unknown_field_ignored:
  fixes v :: u64
  assumes "unat tag < 128" "7 \<le> unat tag div 8"
    and "unat tag mod 8 = 0 \<and> body = varint (unat v) \<or> unat tag mod 8 = 2 \<and> body = varint (length payload) @ payload"
    and "wire_fits (Params_enc p @ tag # body)"
  shows "Params_Unmarshal zero_params (Params_enc p @ tag # body) = Ok p"
proof -
  have none: "Params_cases (int (unat tag div 8)) = None" using assms(2) by (simp add: Params_cases_def)
  have nz: "unat tag div 8 \<noteq> 0" using assms(2) by simp
  have "reads errorsParams ''Params'' Params_cases (tag # body) p p"
    using assms(1) nz none assms(3) by (rule reads_unknown)
  then have "reads errorsParams ''Params'' Params_cases (Params_enc p @ tag # body) zero_params p"
    by (rule reads_seq [OF Params_reads])
  then show ?thesis unfolding Params_Unmarshal_def using assms(4) by (rule reads_all)
qed

theorem unknown_field_ignored_witness:
  "Params_Unmarshal zero_params (Params_enc DefaultParams @ 0x38 # varint 5) = Ok DefaultParams"
proof -
  have "wire_fits (Params_enc DefaultParams @ 0x38 # varint 5)"
    using default_params_length by (intro wire_fitsI) (simp add: varint.simps)
  then show ?thesis using unknown_field_ignored [of "0x38" "varint 5" 5 "[]" DefaultParams] by simp
qed

text \<open>
  The skipping of an unknown field, in all five generated files, never panics, and when it
  returns a count the count is positive, so that the decoding loop makes progress.
\<close>

theorem skip_progress:
  assumes "f \<in> {skipParams, skipTx, skipGenesis, skipQuery, skipModule}"
  shows "no_panic (f d) \<and> (\<forall>n. f d = Ok n \<longrightarrow> 0 < n)"
  using assms skipLoop_no_panic skipLoop_progress
  by (auto simp: skipParams_def skipTx_def skipGenesis_def skipQuery_def skipModule_def skipField_def)

theorem skip_progress_witness: "no_panic (skipTx [0x38, 5])"
  using skip_progress [of skipTx "[0x38, 5]"] by simp

text \<open>
  \<open>Equal\<close> of parameters is equality of all six fields, for arguments given by pointer or by
  value; nil equals only nil and a value of another type equals nothing.
\<close>

theorem params_equal_iff:
  "Params_Equal (Some p) (ArgPointer (Some q)) = (p = q) \<and> Params_Equal (Some p) (ArgValue q) = (p = q) \<and>
   Params_Equal this (ArgPointer None) = (this = None) \<and> Params_Equal this ArgNil = (this = None) \<and>
   \<not> Params_Equal this ArgOther \<and> \<not> Params_Equal None (ArgValue q)"
  by (cases p; cases q) (auto simp: Params_Equal_def)

end
