(* ===== verification/Distro_Module.thy ===== *)
theory Distro_Module
  imports Distro_Keeper Proto_State
begin

text \<open>
  The module wrapper around the distro keeper (\<^verbatim>\<open>x/distro/module\<close>): the genesis handling in
  JSON form, the hooks without logic, the construction by dependency injection and the
  simulation stubs. The JSON codec is an argument.
\<close>

section \<open>The module\<close>

record 'j genesis_codec =
  cdc_MarshalJSON :: "genesis_state \<Rightarrow> 'j outcome"
  cdc_UnmarshalJSON :: "'j \<Rightarrow> genesis_state outcome"

record ('s, 'j) app_module =
  am_cdc :: "'j genesis_codec"
  am_keeper :: "'s keeper"
  am_bankKeeper :: "'s bank_keeper"

definition NewAppModule :: "'j genesis_codec \<Rightarrow> 's keeper \<Rightarrow> 's bank_keeper \<Rightarrow> ('s, 'j) app_module" where
  "NewAppModule cdc k bankKeeper = \<lparr>am_cdc = cdc, am_keeper = k, am_bankKeeper = bankKeeper\<rparr>"

definition Module_Name :: "('s, 'j) app_module \<Rightarrow> string" where
  "Module_Name am = ModuleName"

text \<open>\<^verbatim>\<open>MustMarshalJSON\<close> panics where \<^verbatim>\<open>MarshalJSON\<close> returns an error.\<close>

definition Module_DefaultGenesis :: "('s, 'j) app_module \<Rightarrow> 'j outcome" where
  "Module_DefaultGenesis am = mustO ''marshal'' (cdc_MarshalJSON (am_cdc am) DefaultGenesis)"

definition Module_ValidateGenesis :: "cosmos_lib \<Rightarrow> ('s, 'j) app_module \<Rightarrow> 'j \<Rightarrow> unit outcome" where
  "Module_ValidateGenesis L am bz =
     bindO (wrapErr ''failed to unmarshal distro genesis state'' (cdc_UnmarshalJSON (am_cdc am) bz)) (\<lambda>genState.
     GenesisState_Validate L genState)"

definition Module_InitGenesis :: "('s, 'j) app_module \<Rightarrow> 'j \<Rightarrow> ('s, unit) action" where
  "Module_InitGenesis am gs =
     bindA (liftO (mustO ''failed to unmarshal distro genesis state'' (cdc_UnmarshalJSON (am_cdc am) gs))) (\<lambda>genState.
     panicOnErr ''failed to initialize distro genesis state'' (InitGenesis (am_keeper am) genState))"

definition Module_ExportGenesis :: "('s, 'j) app_module \<Rightarrow> ('s, 'j) action" where
  "Module_ExportGenesis am =
     bindA (panicOnErr ''failed to export distro genesis state'' (ExportGenesis (am_keeper am))) (\<lambda>genState.
     liftO (mustO ''failed to marshal distro genesis state'' (cdc_MarshalJSON (am_cdc am) genState)))"

definition ConsensusVersion :: u64 where
  "ConsensusVersion = 1"

definition Module_BeginBlock :: "('s, 'j) app_module \<Rightarrow> ('s, unit) action" where
  "Module_BeginBlock am = returnA ()"

definition Module_EndBlock :: "('s, 'j) app_module \<Rightarrow> ('s, unit) action" where
  "Module_EndBlock am = returnA ()"

section \<open>Dependency injection\<close>

text \<open>
  \<open>newModuleAddress\<close> and \<open>moduleAddressOrBech32\<close> are the functions of \<^verbatim>\<open>x/auth/types\<close>; the
  second one takes a module name or an address.
\<close>

record ('s, 'j) module_inputs =
  in_Config :: module_config
  in_ParamsItem :: "('s, params) store_item"
  in_Schema :: "unit outcome"
  in_Cdc :: "'j genesis_codec"
  in_AddressCodec :: address_codec
  in_BankKeeper :: "'s bank_keeper"

definition ProvideModule ::
  "(string \<Rightarrow> bytes) \<Rightarrow> (string \<Rightarrow> bytes) \<Rightarrow> ('s, 'j) module_inputs \<Rightarrow> ('s keeper \<times> ('s, 'j) app_module) outcome" where
  "ProvideModule newModuleAddress moduleAddressOrBech32 i =
     (let authority =
            (if mod_Authority (in_Config i) \<noteq> [] then moduleAddressOrBech32 (mod_Authority (in_Config i))
             else newModuleAddress GovModuleName)
      in bindO (NewKeeper (in_ParamsItem i) (in_Schema i) (in_AddressCodec i) authority (in_BankKeeper i)) (\<lambda>k.
         Ok (k, NewAppModule (in_Cdc i) k (in_BankKeeper i))))"

section \<open>Simulation stubs\<close>

text \<open>The generated genesis ignores the simulated accounts; the mint operation is a no-op message.\<close>

definition GenerateGenesisState :: "'j genesis_codec \<Rightarrow> (string \<rightharpoonup> 'j) \<Rightarrow> (string \<rightharpoonup> 'j) outcome" where
  "GenerateGenesisState cdc genState =
     bindO (mustO ''marshal'' (cdc_MarshalJSON cdc \<lparr>gs_Params = DefaultParams\<rparr>)) (\<lambda>bz.
     Ok (genState(ModuleName \<mapsto> bz)))"

definition SimulateMsgMint :: "(string \<Rightarrow> string \<Rightarrow> string \<Rightarrow> 'op) \<Rightarrow> string \<Rightarrow> 'op" where
  "SimulateMsgMint noOpMsg mintURL = noOpMsg ModuleName mintURL ''Mint simulation not implemented''"

section \<open>Lemmas\<close>

text \<open>A codec that reads back what it wrote.\<close>

definition codec_laws :: "'j genesis_codec \<Rightarrow> bool" where
  "codec_laws cdc \<longleftrightarrow> (\<forall>g bz. cdc_MarshalJSON cdc g = Ok bz \<longrightarrow> cdc_UnmarshalJSON cdc bz = Ok g)"

lemma ProvideModule_Ok:
  assumes "ProvideModule f g i = Ok (k, am)"
  shows "GetAuthority k = (if mod_Authority (in_Config i) = [] then f GovModuleName else g (mod_Authority (in_Config i)))"
    and "is_ok (addr_BytesToString (k_addressCodec k) (GetAuthority k))" "am_keeper am = k"
  using assms
  by (auto simp: ProvideModule_def Let_def bindO_eq_Ok NewKeeper_def NewAppModule_def GetAuthority_def is_ok_iff
      split: outcome.splits if_splits)

end
