(* ===== verification/Distro_Service.thy ===== *)
theory Distro_Service
  imports Distro_Chain Distro_Module Proto_Tx
begin

text \<open>
  The gRPC services of the distro module: the generated descriptors, handlers and clients of
  \<^verbatim>\<open>x/distro/types/tx.pb.go\<close> and \<^verbatim>\<open>query.pb.go\<close>, the server wrappers of \<^verbatim>\<open>x/distro/keeper\<close>, and the
  registration in \<^verbatim>\<open>x/distro/module/module.go\<close>. The registrar and the connection belong to gRPC
  and the SDK and are arguments.
\<close>

section \<open>Servers\<close>

text \<open>The values that travel as \<^verbatim>\<open>interface{}\<close>, and the two server interfaces.\<close>

datatype rpc_msg =
    ReqMint msg_mint | ReqUpdateParams msg_update_params | ReqParams
  | RespMint | RespUpdateParams | RespParams query_params_response

record 's msg_server =
  srv_UpdateParams :: "sdk_context \<Rightarrow> msg_update_params \<Rightarrow> ('s, unit) action"
  srv_Mint :: "sdk_context \<Rightarrow> msg_mint \<Rightarrow> ('s, unit) action"

record 's query_server =
  srv_Params :: "sdk_context \<Rightarrow> unit option \<Rightarrow> ('s, query_params_response) action"

datatype 's rpc_server = MsgServer "'s msg_server" | QueryServer "'s query_server"

text \<open>The implementations are the keeper behind an interface.\<close>

definition NewMsgServerImpl :: "cosmos_lib \<Rightarrow> 's keeper \<Rightarrow> 's msg_server" where
  "NewMsgServerImpl L k =
     \<lparr>srv_UpdateParams = (\<lambda>ctx req. UpdateParams k L req),
      srv_Mint = (\<lambda>ctx msg. Mint k L ctx msg)\<rparr>"

definition NewQueryServerImpl :: "'s keeper \<Rightarrow> 's query_server" where
  "NewQueryServerImpl k =
     \<lparr>srv_Params = (\<lambda>ctx req. bindA (Query_Params k req) (\<lambda>p. returnA \<lparr>qr_Params = p\<rparr>))\<rparr>"

text \<open>The embeddable defaults.\<close>

definition UnimplementedMsgServer :: "'s msg_server" where
  "UnimplementedMsgServer =
     \<lparr>srv_UpdateParams = (\<lambda>_ _. liftO (Err (ErrStatus Unimplemented ''method UpdateParams not implemented''))),
      srv_Mint = (\<lambda>_ _. liftO (Err (ErrStatus Unimplemented ''method Mint not implemented'')))\<rparr>"

definition UnimplementedQueryServer :: "'s query_server" where
  "UnimplementedQueryServer =
     \<lparr>srv_Params = (\<lambda>_ _. liftO (Err (ErrStatus Unimplemented ''method Params not implemented'')))\<rparr>"

section \<open>Handlers\<close>

text \<open>
  A handler gets the server as an interface value, a decoder that fills the request it has
  allocated, and perhaps an interceptor, which is given the full name of the method and the rest
  of the handler. A type assertion that does not hold panics.
\<close>

type_synonym decoder = "rpc_msg \<Rightarrow> rpc_msg outcome"
type_synonym 's rpc_call = "sdk_context \<Rightarrow> rpc_msg \<Rightarrow> ('s, rpc_msg) action"
type_synonym 's interceptor = "sdk_context \<Rightarrow> rpc_msg \<Rightarrow> string \<Rightarrow> 's rpc_call \<Rightarrow> ('s, rpc_msg) action"
type_synonym 's rpc_handler = "'s rpc_server \<Rightarrow> sdk_context \<Rightarrow> decoder \<Rightarrow> 's interceptor option \<Rightarrow> ('s, rpc_msg) action"

text \<open>What the three generated handlers share.\<close>

definition rpc_handler :: "rpc_msg \<Rightarrow> string \<Rightarrow> ('s rpc_server \<Rightarrow> 's rpc_call) \<Rightarrow> 's rpc_handler" where
  "rpc_handler newIn fullMethod call srv ctx decode intercept =
     bindA (liftO (decode newIn)) (\<lambda>i.
     case intercept of
       None \<Rightarrow> call srv ctx i
     | Some f \<Rightarrow> f ctx i fullMethod (call srv))"

definition call_UpdateParams :: "'s rpc_server \<Rightarrow> 's rpc_call" where
  "call_UpdateParams srv ctx req =
     (case srv of
        MsgServer ms \<Rightarrow> (case req of
            ReqUpdateParams m \<Rightarrow> bindA (srv_UpdateParams ms ctx m) (\<lambda>_. returnA RespUpdateParams)
          | _ \<Rightarrow> liftO (Panic ''interface conversion''))
      | _ \<Rightarrow> liftO (Panic ''interface conversion''))"

definition call_Mint :: "'s rpc_server \<Rightarrow> 's rpc_call" where
  "call_Mint srv ctx req =
     (case srv of
        MsgServer ms \<Rightarrow> (case req of
            ReqMint m \<Rightarrow> bindA (srv_Mint ms ctx m) (\<lambda>_. returnA RespMint)
          | _ \<Rightarrow> liftO (Panic ''interface conversion''))
      | _ \<Rightarrow> liftO (Panic ''interface conversion''))"

definition call_Params :: "'s rpc_server \<Rightarrow> 's rpc_call" where
  "call_Params srv ctx req =
     (case srv of
        QueryServer qs \<Rightarrow> (case req of
            ReqParams \<Rightarrow> bindA (srv_Params qs ctx (Some ())) (\<lambda>r. returnA (RespParams r))
          | _ \<Rightarrow> liftO (Panic ''interface conversion''))
      | _ \<Rightarrow> liftO (Panic ''interface conversion''))"

definition Msg_UpdateParams_Handler :: "'s rpc_handler" where
  "Msg_UpdateParams_Handler =
     rpc_handler (ReqUpdateParams zero_update_params) ''/gnodi.distro.v1.Msg/UpdateParams'' call_UpdateParams"

definition Msg_Mint_Handler :: "'s rpc_handler" where
  "Msg_Mint_Handler = rpc_handler (ReqMint (NewMsgMint 0 [])) ''/gnodi.distro.v1.Msg/Mint'' call_Mint"

definition Query_Params_Handler :: "'s rpc_handler" where
  "Query_Params_Handler = rpc_handler ReqParams ''/gnodi.distro.v1.Query/Params'' call_Params"

section \<open>Descriptors and registration\<close>

record 's service_desc =
  sd_ServiceName :: string
  sd_Methods :: "(string \<times> 's rpc_handler) list"
  sd_Metadata :: string

definition Msg_serviceDesc :: "'s service_desc" where
  "Msg_serviceDesc =
     \<lparr>sd_ServiceName = ''gnodi.distro.v1.Msg'',
      sd_Methods = [(''UpdateParams'', Msg_UpdateParams_Handler), (''Mint'', Msg_Mint_Handler)],
      sd_Metadata = ''gnodi/distro/v1/tx.proto''\<rparr>"

definition Query_serviceDesc :: "'s service_desc" where
  "Query_serviceDesc =
     \<lparr>sd_ServiceName = ''gnodi.distro.v1.Query'',
      sd_Methods = [(''Params'', Query_Params_Handler)],
      sd_Metadata = ''gnodi/distro/v1/query.proto''\<rparr>"

type_synonym ('s, 'r) registrar = "'s service_desc \<Rightarrow> 's rpc_server \<Rightarrow> 'r \<Rightarrow> 'r"

definition RegisterMsgServer :: "('s, 'r) registrar \<Rightarrow> 'r \<Rightarrow> 's msg_server \<Rightarrow> 'r" where
  "RegisterMsgServer register r srv = register Msg_serviceDesc (MsgServer srv) r"

definition RegisterQueryServer :: "('s, 'r) registrar \<Rightarrow> 'r \<Rightarrow> 's query_server \<Rightarrow> 'r" where
  "RegisterQueryServer register r srv = register Query_serviceDesc (QueryServer srv) r"

definition Module_RegisterServices ::
  "cosmos_lib \<Rightarrow> ('s, 'r) registrar \<Rightarrow> ('s, 'j) app_module \<Rightarrow> 'r \<Rightarrow> 'r outcome" where
  "Module_RegisterServices L register am r =
     (let r1 = RegisterMsgServer register r (NewMsgServerImpl L (am_keeper am));
          r2 = RegisterQueryServer register r1 (NewQueryServerImpl (am_keeper am))
      in Ok r2)"

section \<open>Clients\<close>

text \<open>\<^verbatim>\<open>Invoke\<close> of a connection: the method, the request and the response to fill.\<close>

type_synonym 's client_conn = "sdk_context \<Rightarrow> string \<Rightarrow> rpc_msg \<Rightarrow> rpc_msg \<Rightarrow> ('s, rpc_msg) action"

definition msgClient_UpdateParams :: "'s client_conn \<Rightarrow> sdk_context \<Rightarrow> msg_update_params \<Rightarrow> ('s, rpc_msg) action" where
  "msgClient_UpdateParams cc ctx i = cc ctx ''/gnodi.distro.v1.Msg/UpdateParams'' (ReqUpdateParams i) RespUpdateParams"

definition msgClient_Mint :: "'s client_conn \<Rightarrow> sdk_context \<Rightarrow> msg_mint \<Rightarrow> ('s, rpc_msg) action" where
  "msgClient_Mint cc ctx i = cc ctx ''/gnodi.distro.v1.Msg/Mint'' (ReqMint i) RespMint"

definition queryClient_Params :: "'s client_conn \<Rightarrow> sdk_context \<Rightarrow> ('s, rpc_msg) action" where
  "queryClient_Params cc ctx =
     cc ctx ''/gnodi.distro.v1.Query/Params'' ReqParams (RespParams \<lparr>qr_Params = zero_params\<rparr>)"
section \<open>Documented behaviour of the registrar and the connection\<close>

text \<open>
  A registered method is found under the path made of its service and its name, with the server it
  was registered with; registration leaves other paths alone.
\<close>

definition method_path :: "string \<Rightarrow> string \<Rightarrow> string" where
  "method_path service m = ''/'' @ service @ ''/'' @ m"

definition desc_lookup :: "'s service_desc \<Rightarrow> string \<Rightarrow> 's rpc_handler option" where
  "desc_lookup d path = map_of (map (\<lambda>(m, h). (method_path (sd_ServiceName d) m, h)) (sd_Methods d)) path"

definition registrar_laws ::
  "('s, 'r) registrar \<Rightarrow> ('r \<Rightarrow> string \<Rightarrow> ('s rpc_server \<times> 's rpc_handler) option) \<Rightarrow> bool" where
  "registrar_laws register route \<longleftrightarrow>
     (\<forall>d srv r path. route (register d srv r) path =
        (case desc_lookup d path of Some h \<Rightarrow> Some (srv, h) | None \<Rightarrow> route r path))"

text \<open>The codec's decoder fills the allocated request from the bytes by its \<^verbatim>\<open>Unmarshal\<close> method.\<close>

definition wire_decoder :: "bytes \<Rightarrow> decoder" where
  "wire_decoder bz i =
     (case i of
        ReqMint m \<Rightarrow> bindO (MsgMint_Unmarshal m bz) (\<lambda>m'. Ok (ReqMint m'))
      | ReqUpdateParams m \<Rightarrow> bindO (MsgUpdateParams_Unmarshal m bz) (\<lambda>m'. Ok (ReqUpdateParams m'))
      | ReqParams \<Rightarrow> bindO (QueryParamsRequest_Unmarshal () bz) (\<lambda>_. Ok ReqParams)
      | _ \<Rightarrow> Err (ErrForeign ''not a request''))"

text \<open>An interceptor that only calls the handler it is given, perhaps after observing the request.\<close>

definition transparent :: "'s interceptor option \<Rightarrow> bool" where
  "transparent intercept \<longleftrightarrow> (case intercept of None \<Rightarrow> True | Some f \<Rightarrow> (\<forall>ctx i m h. f ctx i m h = h ctx i))"

text \<open>Delivering the bytes of a request to a registry.\<close>

definition deliver ::
  "('r \<Rightarrow> string \<Rightarrow> ('s rpc_server \<times> 's rpc_handler) option) \<Rightarrow> 'r \<Rightarrow> 's interceptor option \<Rightarrow> string \<Rightarrow> bytes \<Rightarrow>
   sdk_context \<Rightarrow> ('s, rpc_msg) action" where
  "deliver route r intercept path bz ctx =
     (case route r path of
        None \<Rightarrow> liftO (Err (ErrForeign ''unknown method''))
      | Some (srv, h) \<Rightarrow> h srv ctx (wire_decoder bz) intercept)"

text \<open>A connection whose calls reach the handlers of a registry in the same process.\<close>

definition conn_laws ::
  "'s client_conn \<Rightarrow> ('r \<Rightarrow> string \<Rightarrow> ('s rpc_server \<times> 's rpc_handler) option) \<Rightarrow> 'r \<Rightarrow> bool" where
  "conn_laws cc route r \<longleftrightarrow>
     (\<forall>ctx path i out srv h. route r path = Some (srv, h) \<longrightarrow> cc ctx path i out = h srv ctx (\<lambda>_. Ok i) None)"

section \<open>What is registered\<close>

lemma desc_lookup_msg: "desc_lookup Msg_serviceDesc path =
    (if path = ''/gnodi.distro.v1.Msg/UpdateParams'' then Some Msg_UpdateParams_Handler
     else if path = ''/gnodi.distro.v1.Msg/Mint'' then Some Msg_Mint_Handler else None)"
  by (simp add: desc_lookup_def Msg_serviceDesc_def method_path_def)

lemma desc_lookup_query: "desc_lookup Query_serviceDesc path =
    (if path = ''/gnodi.distro.v1.Query/Params'' then Some Query_Params_Handler else None)"
  by (simp add: desc_lookup_def Query_serviceDesc_def method_path_def)

lemma registered_paths:
  assumes "registrar_laws register route" and "Module_RegisterServices L register am r0 = Ok r"
  shows "route r path =
    (if path = ''/gnodi.distro.v1.Msg/UpdateParams'' then Some (MsgServer (NewMsgServerImpl L (am_keeper am)), Msg_UpdateParams_Handler)
     else if path = ''/gnodi.distro.v1.Msg/Mint'' then Some (MsgServer (NewMsgServerImpl L (am_keeper am)), Msg_Mint_Handler)
     else if path = ''/gnodi.distro.v1.Query/Params'' then Some (QueryServer (NewQueryServerImpl (am_keeper am)), Query_Params_Handler)
     else route r0 path)"
proof -
  have law: "route (register d srv q) path = (case desc_lookup d path of Some h \<Rightarrow> Some (srv, h) | None \<Rightarrow> route q path)" for d srv q
    using assms(1) unfolding registrar_laws_def by blast
  have "r = register Query_serviceDesc (QueryServer (NewQueryServerImpl (am_keeper am)))
      (register Msg_serviceDesc (MsgServer (NewMsgServerImpl L (am_keeper am))) r0)"
    using assms(2) by (simp add: Module_RegisterServices_def RegisterMsgServer_def RegisterQueryServer_def Let_def)
  then show ?thesis by (simp only: law desc_lookup_msg desc_lookup_query) simp
qed

section \<open>What a handler does\<close>

lemma rpc_handler_transparent:
  "transparent intercept \<Longrightarrow>
     rpc_handler newIn m call srv ctx decode intercept = bindA (liftO (decode newIn)) (call srv ctx)"
  by (cases intercept) (simp_all add: rpc_handler_def transparent_def)

lemma deliver_mint:
  assumes "route r path = Some (MsgServer (NewMsgServerImpl L k), Msg_Mint_Handler)" and "transparent intercept"
  shows "deliver route r intercept path bz ctx =
    bindA (liftO (MsgMint_Unmarshal (NewMsgMint 0 []) bz)) (\<lambda>m. bindA (Mint k L ctx m) (\<lambda>_. returnA RespMint))"
  using assms
  by (simp add: deliver_def Msg_Mint_Handler_def rpc_handler_transparent wire_decoder_def bindA_liftO_bindO
      call_Mint_def NewMsgServerImpl_def)

lemma deliver_update:
  assumes "route r path = Some (MsgServer (NewMsgServerImpl L k), Msg_UpdateParams_Handler)" and "transparent intercept"
  shows "deliver route r intercept path bz ctx =
    bindA (liftO (MsgUpdateParams_Unmarshal zero_update_params bz)) (\<lambda>m. bindA (UpdateParams k L m) (\<lambda>_. returnA RespUpdateParams))"
  using assms
  by (simp add: deliver_def Msg_UpdateParams_Handler_def rpc_handler_transparent wire_decoder_def bindA_liftO_bindO
      call_UpdateParams_def NewMsgServerImpl_def)

lemma deliver_params:
  assumes "route r path = Some (QueryServer (NewQueryServerImpl k), Query_Params_Handler)" and "transparent intercept"
  shows "deliver route r intercept path bz ctx =
    bindA (liftO (QueryParamsRequest_Unmarshal () bz)) (\<lambda>_.
    bindA (Query_Params k (Some ())) (\<lambda>p. returnA (RespParams \<lparr>qr_Params = p\<rparr>)))"
  using assms
  by (simp add: deliver_def Query_Params_Handler_def rpc_handler_transparent wire_decoder_def bindA_liftO_bindO
      call_Params_def NewQueryServerImpl_def)
     (simp add: bindA_def liftO_def fun_eq_iff returnA_def split: prod.splits outcome.splits)
section \<open>The services as a state machine\<close>

text \<open>
  From outside, the module is a registry to which anyone can deliver any bytes under any path. A
  delivery that fails is rolled back and is no step; one that succeeds is a step, as is a new block.
\<close>

inductive service_step ::
  "('r \<Rightarrow> string \<Rightarrow> ('s rpc_server \<times> 's rpc_handler) option) \<Rightarrow> 'r \<Rightarrow> 's interceptor option \<Rightarrow>
   's \<times> sdk_context \<Rightarrow> 's \<times> sdk_context \<Rightarrow> bool"
  for route :: "'r \<Rightarrow> string \<Rightarrow> ('s rpc_server \<times> 's rpc_handler) option" and r :: 'r and intercept :: "'s interceptor option" where
  service_deliver: "deliver route r intercept path bz ctx s = (s', Ok resp) \<Longrightarrow> service_step route r intercept (s, ctx) (s', ctx)"
| service_block: "chain_time (ctx_BlockTime ctx') \<Longrightarrow> instant (ctx_BlockTime ctx) \<le> instant (ctx_BlockTime ctx') \<Longrightarrow>
    service_step route r intercept (s, ctx) (s, ctx')"

inductive_cases service_stepE [consumes 1, case_names deliver block]: "service_step route r intercept (s, ctx) (s', ctx')"

text \<open>A registry that holds the services of the module and nothing else.\<close>

definition only_distro ::
  "cosmos_lib \<Rightarrow> ('r \<Rightarrow> string \<Rightarrow> ('s rpc_server \<times> 's rpc_handler) option) \<Rightarrow> ('s, 'r) registrar \<Rightarrow> ('s, 'j) app_module \<Rightarrow> 'r \<Rightarrow> bool" where
  "only_distro L route register am r \<longleftrightarrow>
     registrar_laws register route \<and> (\<exists>r0. (\<forall>path. route r0 path = None) \<and> Module_RegisterServices L register am r0 = Ok r)"

lemma only_distro_paths:
  assumes "only_distro L route register am r"
  shows "route r path =
    (if path = ''/gnodi.distro.v1.Msg/UpdateParams'' then Some (MsgServer (NewMsgServerImpl L (am_keeper am)), Msg_UpdateParams_Handler)
     else if path = ''/gnodi.distro.v1.Msg/Mint'' then Some (MsgServer (NewMsgServerImpl L (am_keeper am)), Msg_Mint_Handler)
     else if path = ''/gnodi.distro.v1.Query/Params'' then Some (QueryServer (NewQueryServerImpl (am_keeper am)), Query_Params_Handler)
     else None)"
proof -
  from assms obtain r0 where "registrar_laws register route" "route r0 path = None"
    "Module_RegisterServices L register am r0 = Ok r"
    unfolding only_distro_def by blast
  then show ?thesis using registered_paths [of register route L am r0 r path] by simp
qed

text \<open>What a successful delivery has done: one of the two transactions, or nothing to the state.\<close>

lemma deliver_cases:
  assumes "only_distro L route register am r" "transparent intercept"
    and "deliver route r intercept path bz ctx s = (s', Ok resp)"
  obtains (mint) m where "MsgMint_Unmarshal (NewMsgMint 0 []) bz = Ok m" "Mint (am_keeper am) L ctx m s = (s', Ok ())"
  | (update) m where "path = ''/gnodi.distro.v1.Msg/UpdateParams''"
      "MsgUpdateParams_Unmarshal zero_update_params bz = Ok m" "UpdateParams (am_keeper am) L m s = (s', Ok ())"
  | (query) "s' = s"
proof -
  note paths = only_distro_paths [OF assms(1), of path]
  consider "path = ''/gnodi.distro.v1.Msg/UpdateParams''" | "path = ''/gnodi.distro.v1.Msg/Mint''"
    | "path = ''/gnodi.distro.v1.Query/Params''" | "route r path = None"
    using paths by (auto split: if_splits)
  then show thesis
  proof cases
    case 1
    with paths have "route r path = Some (MsgServer (NewMsgServerImpl L (am_keeper am)), Msg_UpdateParams_Handler)" by simp
    from assms(3) [unfolded deliver_update [where route = route and r = r, OF this assms(2)]] show thesis
      by (auto simp: outcome_inv intro: update [OF 1])
  next
    case 2
    with paths have "route r path = Some (MsgServer (NewMsgServerImpl L (am_keeper am)), Msg_Mint_Handler)" by simp
    from assms(3) [unfolded deliver_mint [where route = route and r = r, OF this assms(2)]] show thesis
      by (auto simp: outcome_inv intro: mint)
  next
    case 3
    with paths have "route r path = Some (QueryServer (NewQueryServerImpl (am_keeper am)), Query_Params_Handler)" by simp
    from assms(3) [unfolded deliver_params [where route = route and r = r, OF this assms(2)]] show thesis
      by (auto simp: outcome_inv Query_Params_def intro: query)
  next
    case 4
    with assms(3) show thesis by (simp add: deliver_def liftO_def)
  qed
qed

text \<open>The simulation: every step of the services is a step of the module, or none.\<close>

lemma service_step_simulates:
  assumes "only_distro L route register am r" "transparent intercept"
    and "service_step route r intercept (s, ctx) (s', ctx')"
  shows "(distro_step (am_keeper am) L)\<^sup>=\<^sup>= (s, ctx) (s', ctx')"
  using assms(3)
proof (cases rule: service_stepE)
  case (deliver path bz resp)
  from assms(1,2) deliver(2) show ?thesis
    by (cases rule: deliver_cases) (use deliver(1) in \<open>auto intro: step_mint step_update\<close>)
qed (auto intro: step_block)

lemma service_reachable:
  assumes "only_distro L route register am r" "transparent intercept"
    and "(service_step route r intercept)\<^sup>*\<^sup>* c c'"
  shows "(distro_step (am_keeper am) L)\<^sup>*\<^sup>* c c'"
  using assms(3)
proof (induction rule: rtranclp_induct)
  case (step c1 c2)
  then have "(distro_step (am_keeper am) L)\<^sup>=\<^sup>= c1 c2"
    using service_step_simulates [OF assms(1,2)] by (metis prod.collapse)
  with step.IH show ?case by (auto intro: rtranclp.rtrancl_into_rtrancl)
qed simp

text \<open>And back: a mint or update whose message fits on the wire can be delivered.\<close>

lemma mint_delivered:
  assumes "only_distro L route register am r" "transparent intercept" "wire_fits (MsgMint_enc m)"
  shows "\<exists>bz. MsgMint_Marshal m = Ok bz \<and>
    deliver route r intercept ''/gnodi.distro.v1.Msg/Mint'' bz ctx =
      bindA (Mint (am_keeper am) L ctx m) (\<lambda>_. returnA RespMint)"
proof (intro exI conjI)
  show "MsgMint_Marshal m = Ok (MsgMint_enc m)"
    unfolding MsgMint_Marshal_def by (rule mint_wire.marshal_enc [OF assms(3)])
  have "route r ''/gnodi.distro.v1.Msg/Mint'' = Some (MsgServer (NewMsgServerImpl L (am_keeper am)), Msg_Mint_Handler)"
    by (simp add: only_distro_paths [OF assms(1)])
  from deliver_mint [where route = route and r = r, OF this assms(2), of "MsgMint_enc m" ctx]
  show "deliver route r intercept ''/gnodi.distro.v1.Msg/Mint'' (MsgMint_enc m) ctx =
      bindA (Mint (am_keeper am) L ctx m) (\<lambda>_. returnA RespMint)"
    by (simp add: mint_wire.reads_enc [OF assms(3)] bindA_liftO_Ok)
qed

lemma update_delivered:
  assumes "only_distro L route register am r" "transparent intercept" "wire_fits (MsgUpdateParams_enc m)"
  shows "\<exists>bz. MsgUpdateParams_Marshal m = Ok bz \<and>
    deliver route r intercept ''/gnodi.distro.v1.Msg/UpdateParams'' bz ctx =
      bindA (UpdateParams (am_keeper am) L m) (\<lambda>_. returnA RespUpdateParams)"
proof (intro exI conjI)
  show "MsgUpdateParams_Marshal m = Ok (MsgUpdateParams_enc m)"
    unfolding MsgUpdateParams_Marshal_def by (rule update_wire.marshal_enc [OF assms(3)])
  have "route r ''/gnodi.distro.v1.Msg/UpdateParams'' = Some (MsgServer (NewMsgServerImpl L (am_keeper am)), Msg_UpdateParams_Handler)"
    by (simp add: only_distro_paths [OF assms(1)])
  from deliver_update [where route = route and r = r, OF this assms(2), of "MsgUpdateParams_enc m" ctx]
  show "deliver route r intercept ''/gnodi.distro.v1.Msg/UpdateParams'' (MsgUpdateParams_enc m) ctx =
      bindA (UpdateParams (am_keeper am) L m) (\<lambda>_. returnA RespUpdateParams)"
    by (simp add: update_wire.reads_enc [OF assms(3)] bindA_liftO_Ok)
qed

end
