(* ===== verification/Distro_Gateway.thy ===== *)
theory Distro_Gateway
  imports Distro_Service
begin

text \<open>
  The HTTP gateway of the parameter query (\<^verbatim>\<open>x/distro/types/query.pb.gw.go\<close>) and its registration
  in \<^verbatim>\<open>x/distro/module/module.go\<close>: a handler under GET that turns a request into a call of the query
  service and the result into a reply. The runtime of the gateway is an argument.
\<close>

section \<open>Requests, replies and the multiplexer\<close>

record server_metadata =
  md_HeaderMD :: "(string \<times> string) list"
  md_TrailerMD :: "(string \<times> string) list"

text \<open>An error reply carries the metadata if the call was made.\<close>

datatype http_reply = HTTPError "server_metadata option" go_error | ForwardResponse server_metadata rpc_msg

record http_pattern =
  pat_Version :: int
  pat_Ops :: "nat list"
  pat_Pool :: "string list"
  pat_Verb :: string

definition pattern_Query_Params_0 :: http_pattern where
  "pattern_Query_Params_0 =
     \<lparr>pat_Version = 1, pat_Ops = [2, 0, 2, 1, 2, 2, 2, 3, 2, 4],
      pat_Pool = [''gnodi-network'', ''gnodi'', ''distro'', ''v1'', ''params''], pat_Verb = []\<rparr>"

text \<open>
  The segments of a pattern that only has the operation 2, a literal from the pool by its index;
  other operations are not used here.
\<close>

fun literal_segments :: "nat list \<Rightarrow> string list \<Rightarrow> string list option" where
  "literal_segments [] pool = Some []"
| "literal_segments (opcode # i # ops) pool =
     (if opcode = 2 \<and> i < length pool
      then (case literal_segments ops pool of Some segs \<Rightarrow> Some (pool ! i # segs) | None \<Rightarrow> None)
      else None)"
| "literal_segments [opcode] pool = None"

text \<open>
  The contexts made from a request, the metadata a server has set on the stream of a call in the
  same process, and the metadata that a call over a connection brings back.
\<close>

record 'q gateway_env =
  gw_AnnotateIncomingContext :: "'q \<Rightarrow> sdk_context outcome"
  gw_AnnotateContext :: "'q \<Rightarrow> sdk_context outcome"
  gw_stream :: server_metadata
  gw_callMetadata :: "sdk_context \<Rightarrow> server_metadata"

type_synonym ('s, 'q) http_handler = "'q \<Rightarrow> ('s, http_reply) action"
type_synonym ('s, 'q) serve_mux = "(string \<times> http_pattern \<times> ('s, 'q) http_handler) list"

text \<open>\<^verbatim>\<open>metadata.Join\<close>.\<close>

definition md_join :: "server_metadata \<Rightarrow> server_metadata \<Rightarrow> server_metadata" where
  "md_join a b = \<lparr>md_HeaderMD = md_HeaderMD a @ md_HeaderMD b, md_TrailerMD = md_TrailerMD a @ md_TrailerMD b\<rparr>"

section \<open>The calls\<close>

text \<open>Both return the message, the metadata and the error, which here are the outcome and the metadata.\<close>

definition request_Query_Params_0 ::
  "'q gateway_env \<Rightarrow> (sdk_context \<Rightarrow> ('s, rpc_msg) action) \<Rightarrow> sdk_context \<Rightarrow> 's \<Rightarrow> 's \<times> rpc_msg outcome \<times> server_metadata" where
  "request_Query_Params_0 gw client ctx s =
     (case client ctx s of (s', msg) \<Rightarrow> (s', msg, gw_callMetadata gw ctx))"

definition local_request_Query_Params_0 ::
  "'s query_server \<Rightarrow> sdk_context \<Rightarrow> 's \<Rightarrow> 's \<times> rpc_msg outcome \<times> server_metadata" where
  "local_request_Query_Params_0 server ctx s =
     (case bindA (srv_Params server ctx (Some ())) (\<lambda>r. returnA (RespParams r)) s of
        (s', msg) \<Rightarrow> (s', msg, \<lparr>md_HeaderMD = [], md_TrailerMD = []\<rparr>))"

text \<open>The end of both handlers.\<close>

definition reply_of :: "rpc_msg outcome \<Rightarrow> server_metadata \<Rightarrow> http_reply outcome" where
  "reply_of msg md =
     (case msg of
        Ok resp \<Rightarrow> Ok (ForwardResponse md resp)
      | Err e \<Rightarrow> Ok (HTTPError (Some md) e)
      | Panic p \<Rightarrow> Panic p)"

section \<open>Registration\<close>

definition RegisterQueryHandlerServer ::
  "'q gateway_env \<Rightarrow> ('s, 'q) serve_mux \<Rightarrow> 's query_server \<Rightarrow> ('s, 'q) serve_mux outcome" where
  "RegisterQueryHandlerServer gw mux server =
     Ok (mux @ [(''GET'', pattern_Query_Params_0, \<lambda>req s.
        case gw_AnnotateIncomingContext gw req of
          Err e \<Rightarrow> (s, Ok (HTTPError None e))
        | Panic p \<Rightarrow> (s, Panic p)
        | Ok rctx \<Rightarrow>
            (case local_request_Query_Params_0 server rctx s of
               (s', msg, md) \<Rightarrow> (s', reply_of msg (md_join md (gw_stream gw)))))])"

definition RegisterQueryHandlerClient ::
  "'q gateway_env \<Rightarrow> ('s, 'q) serve_mux \<Rightarrow> (sdk_context \<Rightarrow> ('s, rpc_msg) action) \<Rightarrow> ('s, 'q) serve_mux outcome" where
  "RegisterQueryHandlerClient gw mux client =
     Ok (mux @ [(''GET'', pattern_Query_Params_0, \<lambda>req s.
        case gw_AnnotateContext gw req of
          Err e \<Rightarrow> (s, Ok (HTTPError None e))
        | Panic p \<Rightarrow> (s, Panic p)
        | Ok rctx \<Rightarrow>
            (case request_Query_Params_0 gw client rctx s of
               (s', msg, md) \<Rightarrow> (s', reply_of msg md)))])"

definition RegisterQueryHandler ::
  "'q gateway_env \<Rightarrow> ('s, 'q) serve_mux \<Rightarrow> 's client_conn \<Rightarrow> ('s, 'q) serve_mux outcome" where
  "RegisterQueryHandler gw mux conn = RegisterQueryHandlerClient gw mux (queryClient_Params conn)"

text \<open>
  Dialling is an effect on a world of connections, and \<open>conn_of\<close> the calls a connection makes. The
  deferred function closes the connection if the registration returned an error; otherwise the
  connection that is returned here is closed when the context is done. At a panic the error
  variable is still nil.
\<close>

definition RegisterQueryHandlerFromEndpoint ::
  "'q gateway_env \<Rightarrow> (string \<Rightarrow> ('w, 'c) action) \<Rightarrow> ('c \<Rightarrow> ('w, unit) action) \<Rightarrow> ('c \<Rightarrow> 's client_conn) \<Rightarrow>
   ('s, 'q) serve_mux \<Rightarrow> string \<Rightarrow> ('w, ('s, 'q) serve_mux \<times> 'c) action" where
  "RegisterQueryHandlerFromEndpoint gw dial close conn_of mux endpoint =
     bindA (dial endpoint) (\<lambda>conn w.
     case RegisterQueryHandler gw mux (conn_of conn) of
       Ok mux' \<Rightarrow> (w, Ok (mux', conn))
     | Err e \<Rightarrow> (fst (close conn w), Err e)
     | Panic p \<Rightarrow> (w, Panic p))"

definition RegisterGRPCGatewayRoutes ::
  "'q gateway_env \<Rightarrow> 's client_conn \<Rightarrow> ('s, 'q) serve_mux \<Rightarrow> ('s, 'q) serve_mux outcome" where
  "RegisterGRPCGatewayRoutes gw clientCtx mux =
     mustO ''gateway routes'' (RegisterQueryHandlerClient gw mux (queryClient_Params clientCtx))"

section \<open>Lemmas\<close>

lemma pattern_segments:
  "literal_segments (pat_Ops pattern_Query_Params_0) (pat_Pool pattern_Query_Params_0) =
     Some [''gnodi-network'', ''gnodi'', ''distro'', ''v1'', ''params'']"
  by (simp add: pattern_Query_Params_0_def)

text \<open>A query over a connection to the registered service is the keeper's query.\<close>

lemma queryClient_keeper:
  assumes "conn_laws cc route r"
    and "route r ''/gnodi.distro.v1.Query/Params'' = Some (QueryServer (NewQueryServerImpl k), Query_Params_Handler)"
  shows "queryClient_Params cc ctx = bindA (Query_Params k (Some ())) (\<lambda>p. returnA (RespParams \<lparr>qr_Params = p\<rparr>))"
proof -
  have "queryClient_Params cc ctx =
      Query_Params_Handler (QueryServer (NewQueryServerImpl k)) ctx (\<lambda>_. Ok ReqParams) None"
    using assms unfolding conn_laws_def queryClient_Params_def by blast
  then show ?thesis
    by (simp add: Query_Params_Handler_def rpc_handler_def call_Params_def NewQueryServerImpl_def bindA_liftO_Ok)
       (simp add: bindA_def fun_eq_iff returnA_def split: prod.splits outcome.splits)
qed

text \<open>The keeper's query as a value of the state.\<close>

definition stored_params_reply :: "'s keeper \<Rightarrow> server_metadata \<Rightarrow> 's \<Rightarrow> http_reply outcome" where
  "stored_params_reply k md s =
     (case item_Get (k_Params k) s of
        Ok p \<Rightarrow> Ok (ForwardResponse md (RespParams \<lparr>qr_Params = p\<rparr>))
      | Err e \<Rightarrow> Ok (HTTPError (Some md)
          (if errors_Is e collections_ErrNotFound then ErrStatus NotFound ''module params not initialized''
           else ErrStatus Internal ''internal error''))
      | Panic p \<Rightarrow> Panic p)"

lemma query_reply:
  "bindA (Query_Params k (Some ())) (\<lambda>p. returnA (RespParams \<lparr>qr_Params = p\<rparr>)) s = (s', msg) \<Longrightarrow>
     s' = s \<and> reply_of msg md = stored_params_reply k md s"
  by (auto simp: Query_Params_def readA_def bindA_def returnA_def reply_of_def stored_params_reply_def split: outcome.splits if_splits)

end
