(* ===== verification/Distro_Registration.thy ===== *)
theory Distro_Registration
  imports Distro_Service
begin

text \<open>
  What the distro module registers besides its services: the types of its messages
  (\<^verbatim>\<open>init\<close> of \<^verbatim>\<open>tx.pb.go\<close> and \<^verbatim>\<open>query.pb.go\<close>, \<^verbatim>\<open>types/codec.go\<close>), the options of its generated commands
  (\<^verbatim>\<open>module/autocli.go\<close>) and the operations of its simulation (\<^verbatim>\<open>module/simulation.go\<close>). The type
  registries and the simulation belong to the SDK and are arguments.
\<close>

section \<open>Names of the message types\<close>

text \<open>A type is given by its zero value.\<close>

definition txTypes :: "(rpc_msg \<times> string) list" where
  "txTypes =
     [(ReqUpdateParams zero_update_params, ''gnodi.distro.v1.MsgUpdateParams''),
      (RespUpdateParams, ''gnodi.distro.v1.MsgUpdateParamsResponse''),
      (ReqMint (NewMsgMint 0 []), ''gnodi.distro.v1.MsgMint''),
      (RespMint, ''gnodi.distro.v1.MsgMintResponse'')]"

definition queryTypes :: "(rpc_msg \<times> string) list" where
  "queryTypes =
     [(ReqParams, ''gnodi.distro.v1.QueryParamsRequest''),
      (RespParams \<lparr>qr_Params = zero_params\<rparr>, ''gnodi.distro.v1.QueryParamsResponse'')]"

text \<open>The zero value of the type of a message, which its name belongs to.\<close>

fun zero_of :: "rpc_msg \<Rightarrow> rpc_msg" where
  "zero_of (ReqMint m) = ReqMint (NewMsgMint 0 [])"
| "zero_of (ReqUpdateParams m) = ReqUpdateParams zero_update_params"
| "zero_of ReqParams = ReqParams"
| "zero_of RespMint = RespMint"
| "zero_of RespUpdateParams = RespUpdateParams"
| "zero_of (RespParams r) = RespParams \<lparr>qr_Params = zero_params\<rparr>"

text \<open>\<^verbatim>\<open>sdk.MsgTypeURL\<close>: a slash and the registered name.\<close>

definition type_url :: "rpc_msg \<Rightarrow> string" where
  "type_url m = (case map_of (txTypes @ queryTypes) (zero_of m) of Some n \<Rightarrow> ''/'' @ n | None \<Rightarrow> ''/'')"

section \<open>Interfaces\<close>

record ('s, 'r) interface_registry =
  ir_RegisterImplementations :: "string \<Rightarrow> rpc_msg list \<Rightarrow> 'r \<Rightarrow> 'r"
  ir_RegisterMsgServiceDesc :: "'s service_desc \<Rightarrow> 'r \<Rightarrow> 'r"

definition RegisterInterfaces :: "('s, 'r) interface_registry \<Rightarrow> 'r \<Rightarrow> 'r" where
  "RegisterInterfaces registrar r =
     (let r1 = ir_RegisterImplementations registrar ''sdk.Msg'' [ReqMint (NewMsgMint 0 [])] r;
          r2 = ir_RegisterImplementations registrar ''sdk.Msg'' [ReqUpdateParams zero_update_params] r1
      in ir_RegisterMsgServiceDesc registrar Msg_serviceDesc r2)"

definition Module_RegisterInterfaces :: "('s, 'r) interface_registry \<Rightarrow> ('s, 'j) app_module \<Rightarrow> 'r \<Rightarrow> 'r" where
  "Module_RegisterInterfaces registrar am r = RegisterInterfaces registrar r"

text \<open>
  Documented behaviour: a registered type is found under its URL for its interface, as a new value;
  the registration of a service, which knows the same types from the descriptor, keeps what is found.
\<close>

definition registry_laws ::
  "('s, 'r) interface_registry \<Rightarrow> ('r \<Rightarrow> string \<Rightarrow> string \<Rightarrow> rpc_msg option) \<Rightarrow> bool" where
  "registry_laws registrar resolve \<longleftrightarrow>
     (\<forall>iface msgs r i url. resolve (ir_RegisterImplementations registrar iface msgs r) i url =
        (case map_of (map (\<lambda>m. (type_url m, zero_of m)) msgs) url of
           Some z \<Rightarrow> if i = iface then Some z else resolve r i url
         | None \<Rightarrow> resolve r i url)) \<and>
     (\<forall>d r i url z. resolve r i url = Some z \<longrightarrow> resolve (ir_RegisterMsgServiceDesc registrar d r) i url = Some z)"

text \<open>Unpacking: the value of the type of the URL is filled from the bytes.\<close>

definition unpackAny :: "('r \<Rightarrow> string \<Rightarrow> string \<Rightarrow> rpc_msg option) \<Rightarrow> 'r \<Rightarrow> string \<times> bytes \<Rightarrow> rpc_msg outcome" where
  "unpackAny resolve r = (\<lambda>(url, bz).
     case resolve r ''sdk.Msg'' url of
       Some z \<Rightarrow> wire_decoder bz z
     | None \<Rightarrow> Err (ErrForeign ''no concrete type registered''))"

section \<open>Generated commands\<close>

record rpc_command_options =
  rc_RpcMethod :: string
  rc_Use :: string
  rc_Short :: string
  rc_Skip :: bool
  rc_PositionalArgs :: "string list"

record service_command =
  sc_Service :: string
  sc_EnhanceCustomCommand :: bool
  sc_RpcCommandOptions :: "rpc_command_options list"

record module_options =
  mo_Query :: service_command
  mo_Tx :: service_command

definition AutoCLIOptions :: "('s, 'j) app_module \<Rightarrow> module_options" where
  "AutoCLIOptions am =
     \<lparr>mo_Query =
        \<lparr>sc_Service = sd_ServiceName (Query_serviceDesc :: 's service_desc), sc_EnhanceCustomCommand = False,
         sc_RpcCommandOptions =
           [\<lparr>rc_RpcMethod = ''Params'', rc_Use = ''params'', rc_Short = ''Shows the parameters of the module'',
             rc_Skip = False, rc_PositionalArgs = []\<rparr>]\<rparr>,
      mo_Tx =
        \<lparr>sc_Service = sd_ServiceName (Msg_serviceDesc :: 's service_desc), sc_EnhanceCustomCommand = True,
         sc_RpcCommandOptions =
           [\<lparr>rc_RpcMethod = ''UpdateParams'', rc_Use = [], rc_Short = [], rc_Skip = True, rc_PositionalArgs = []\<rparr>,
            \<lparr>rc_RpcMethod = ''Mint'', rc_Use = ''mint [amount] [signer]'', rc_Short = ''Send a mint tx'',
             rc_Skip = False, rc_PositionalArgs = [''amount'', ''signer'']\<rparr>]\<rparr>\<rparr>"

text \<open>The names of the fields of \<^verbatim>\<open>MsgMint\<close> in its file descriptor, in their order.\<close>

definition MsgMint_proto_fields :: "string list" where
  "MsgMint_proto_fields = [''amount'', ''signer'']"

section \<open>Simulation\<close>

text \<open>
  \<open>getOrGenerate\<close> looks a weight up in the parameters of the simulation and calls the generator, which
  here assigns the default, if there is none; the result is the value of the variable after the call.
\<close>

definition WeightedOperations ::
  "(string \<Rightarrow> int \<Rightarrow> (int \<Rightarrow> int) \<Rightarrow> int) \<Rightarrow> 'op \<Rightarrow> (int \<times> 'op) list" where
  "WeightedOperations getOrGenerate simulateMsgMint =
     (let operations = [];
          opWeightMsgMint = ''op_weight_msg_distro'';
          defaultWeightMsgMint = 100;
          weightMsgMint = getOrGenerate opWeightMsgMint 0 (\<lambda>_. defaultWeightMsgMint)
      in operations @ [(weightMsgMint, simulateMsgMint)])"

definition ProposalMsgs :: "('s, 'j) app_module \<Rightarrow> 'op list" where
  "ProposalMsgs am = []"

section \<open>Lemmas\<close>

lemma type_url_simps [simp]:
  "type_url (ReqMint m) = ''/gnodi.distro.v1.MsgMint''"
  "type_url (ReqUpdateParams u) = ''/gnodi.distro.v1.MsgUpdateParams''"
  "type_url RespMint = ''/gnodi.distro.v1.MsgMintResponse''"
  "type_url RespUpdateParams = ''/gnodi.distro.v1.MsgUpdateParamsResponse''"
  "type_url ReqParams = ''/gnodi.distro.v1.QueryParamsRequest''"
  "type_url (RespParams r) = ''/gnodi.distro.v1.QueryParamsResponse''"
  by (simp_all add: type_url_def txTypes_def queryTypes_def)

text \<open>Different types have different names.\<close>

lemma type_url_inj: "type_url a = type_url b \<longleftrightarrow> zero_of a = zero_of b"
  by (cases a; cases b) simp_all

lemma registered_resolve:
  assumes "registry_laws registrar resolve"
  shows "resolve (RegisterInterfaces registrar r) ''sdk.Msg'' (type_url (ReqMint m)) = Some (ReqMint (NewMsgMint 0 []))"
    and "resolve (RegisterInterfaces registrar r) ''sdk.Msg'' (type_url (ReqUpdateParams u)) = Some (ReqUpdateParams zero_update_params)"
proof -
  have impl: "resolve (ir_RegisterImplementations registrar iface msgs r) i url =
      (case map_of (map (\<lambda>m. (type_url m, zero_of m)) msgs) url of
         Some z \<Rightarrow> if i = iface then Some z else resolve r i url | None \<Rightarrow> resolve r i url)" for iface msgs r i url
    using assms unfolding registry_laws_def by blast
  have keep: "resolve r i url = Some z \<Longrightarrow> resolve (ir_RegisterMsgServiceDesc registrar d r) i url = Some z" for d r i url z
    using assms unfolding registry_laws_def by blast
  show "resolve (RegisterInterfaces registrar r) ''sdk.Msg'' (type_url (ReqMint m)) = Some (ReqMint (NewMsgMint 0 []))"
    and "resolve (RegisterInterfaces registrar r) ''sdk.Msg'' (type_url (ReqUpdateParams u)) = Some (ReqUpdateParams zero_update_params)"
    unfolding RegisterInterfaces_def Let_def by (rule keep; simp add: impl)+
qed

text \<open>The command line offers every method of both services, and skips the one for the authority.\<close>

lemma autocli_methods:
  "map rc_RpcMethod (sc_RpcCommandOptions (mo_Tx (AutoCLIOptions am))) = map fst (sd_Methods (Msg_serviceDesc :: 's service_desc))"
  "map rc_RpcMethod (sc_RpcCommandOptions (mo_Query (AutoCLIOptions am))) = map fst (sd_Methods (Query_serviceDesc :: 's service_desc))"
  "map rc_RpcMethod (filter (\<lambda>c. \<not> rc_Skip c) (sc_RpcCommandOptions (mo_Tx (AutoCLIOptions am)))) = [''Mint'']"
  by (simp_all add: AutoCLIOptions_def Msg_serviceDesc_def Query_serviceDesc_def)

text \<open>The usage line of the command names its positional arguments, which are the fields of the message.\<close>

lemma autocli_mint_usage:
  assumes "c \<in> set (sc_RpcCommandOptions (mo_Tx (AutoCLIOptions am)))" and "rc_RpcMethod c = ''Mint''"
  shows "rc_PositionalArgs c = MsgMint_proto_fields"
    and "rc_Use c = ''mint'' @ concat (map (\<lambda>a. '' ['' @ a @ '']'') (rc_PositionalArgs c))"
  using assms by (auto simp: AutoCLIOptions_def MsgMint_proto_fields_def)

end
