(* ===== verification/Service_Properties.thy ===== *)
theory Service_Properties
  imports Distro_Gateway Distro_Registration Distro_Properties Proto_Properties Proto_Xxx
begin

text \<open>
  The properties of the distro module seen through its services: bytes delivered to the registered
  handlers, and HTTP requests to the gateway.
\<close>

section \<open>Delivered requests\<close>

text \<open>
  C36: Whatever bytes are delivered under whatever paths to the services that the module registers,
  every state that is reached is reached by mints, parameter updates and blocks of the module: the
  generated handlers and decoders add no behaviour of their own.
\<close>

theorem service_refines_chain:
  assumes "only_distro L route register am r" and "transparent intercept"
    and "(service_step route r intercept)\<^sup>*\<^sup>* (s, ctx) (s', ctx')"
  shows "(distro_step (am_keeper am) L)\<^sup>*\<^sup>* (s, ctx) (s', ctx')"
  using assms by (rule service_reachable)

text \<open>A registry that is a list of paths, and the module over the in-memory chain.\<close>

type_synonym 's path_table = "(string \<times> 's rpc_server \<times> 's rpc_handler) list"

definition table_register :: "('s, 's path_table) registrar" where
  "table_register d srv r = map (\<lambda>(m, h). (method_path (sd_ServiceName d) m, srv, h)) (sd_Methods d) @ r"

lemma table_registrar_laws: "registrar_laws table_register map_of"
proof -
  have "map_of (map (\<lambda>(m, h). (f m, srv, h)) ms @ r) path =
      (case map_of (map (\<lambda>(m, h). (f m, h)) ms) path of Some h \<Rightarrow> Some (srv, h) | None \<Rightarrow> map_of r path)"
    for f :: "string \<Rightarrow> string" and ms :: "(string \<times> 'a rpc_handler) list" and srv :: "'a rpc_server" and r path
    by (induction ms) auto
  then show ?thesis by (simp add: registrar_laws_def table_register_def desc_lookup_def)
qed

definition ref_module :: "(mem_chain, unit) app_module" where
  "ref_module = NewAppModule \<lparr>cdc_MarshalJSON = (\<lambda>_. Ok ()), cdc_UnmarshalJSON = (\<lambda>_. Ok DefaultGenesis)\<rparr> ref_keeper ref_bank"

definition ref_table :: "mem_chain path_table" where
  "ref_table = table_register Query_serviceDesc (QueryServer (NewQueryServerImpl ref_keeper))
     (table_register Msg_serviceDesc (MsgServer (NewMsgServerImpl ref_lib ref_keeper)) [])"

lemma ref_only_distro: "only_distro ref_lib map_of table_register ref_module ref_table"
  unfolding only_distro_def
  by (auto simp: table_registrar_laws Module_RegisterServices_def RegisterMsgServer_def RegisterQueryServer_def Let_def
      ref_table_def ref_module_def NewAppModule_def intro!: exI [of _ "[]"])

lemma ref_transparent: "transparent None"
  by (simp add: transparent_def)
lemma sample_delivered:
  "\<exists>bz. deliver map_of ref_table None ''/gnodi.distro.v1.Msg/Mint'' bz sample_ctx sample_chain = (sample_minted, Ok RespMint)"
proof -
  have "wire_fits (MsgMint_enc sample_mint)" using sample_msgs_fit(1) by (simp add: sample_mint_def)
  from mint_delivered [OF ref_only_distro ref_transparent this, of sample_ctx] obtain bz
    where "deliver map_of ref_table None ''/gnodi.distro.v1.Msg/Mint'' bz sample_ctx =
      bindA (Mint ref_keeper ref_lib sample_ctx sample_mint) (\<lambda>_. returnA RespMint)"
    by (auto simp: ref_module_def NewAppModule_def)
  then show ?thesis using sample_Mint by (intro exI [of _ bz]) (simp add: bindA_returnA_const)
qed

theorem service_refines_chain_witness:
  "(distro_step ref_keeper ref_lib)\<^sup>*\<^sup>* (sample_chain, sample_ctx) (sample_minted, sample_ctx)"
proof -
  from sample_delivered have "service_step map_of ref_table None (sample_chain, sample_ctx) (sample_minted, sample_ctx)"
    by (auto intro: service_deliver)
  then have "(service_step map_of ref_table None)\<^sup>*\<^sup>* (sample_chain, sample_ctx) (sample_minted, sample_ctx)"
    by (rule r_into_rtranclp)
  from service_refines_chain [OF ref_only_distro ref_transparent this] show ?thesis
    by (simp add: ref_module_def NewAppModule_def)
qed



section \<open>The HTTP gateway\<close>

text \<open>
  C39: The module registers one gateway route, GET on the path that the service definition names. A
  request to it is answered with the stored parameters, with not found while there are none, and
  with an internal error when the store fails; a request whose headers are refused is answered by
  that error. No request changes the state.
\<close>

theorem gateway_params:
  assumes "only_distro L route register am r" and "conn_laws cc route r"
  shows "\<exists>h. RegisterGRPCGatewayRoutes gw cc mux = Ok (mux @ [(''GET'', pattern_Query_Params_0, h)]) \<and>
    literal_segments (pat_Ops pattern_Query_Params_0) (pat_Pool pattern_Query_Params_0) =
      Some [''gnodi-network'', ''gnodi'', ''distro'', ''v1'', ''params''] \<and>
    (\<forall>req s. fst (h req s) = s \<and>
      (\<forall>ctx. gw_AnnotateContext gw req = Ok ctx \<longrightarrow>
         snd (h req s) = stored_params_reply (am_keeper am) (gw_callMetadata gw ctx) s) \<and>
      (\<forall>e. gw_AnnotateContext gw req = Err e \<longrightarrow> snd (h req s) = Ok (HTTPError None e)))"
proof -
  have p: "route r ''/gnodi.distro.v1.Query/Params'' = Some (QueryServer (NewQueryServerImpl (am_keeper am)), Query_Params_Handler)"
    by (simp add: only_distro_paths [OF assms(1)])
  define h where "h = (\<lambda>req s. case gw_AnnotateContext gw req of
          Err e \<Rightarrow> (s, Ok (HTTPError None e))
        | Panic p \<Rightarrow> (s, Panic p)
        | Ok rctx \<Rightarrow>
            (case request_Query_Params_0 gw (queryClient_Params cc) rctx s of
               (s', msg, md) \<Rightarrow> (s', reply_of msg md)))"
  have reg: "RegisterGRPCGatewayRoutes gw cc mux = Ok (mux @ [(''GET'', pattern_Query_Params_0, h)])"
    by (simp add: RegisterGRPCGatewayRoutes_def RegisterQueryHandlerClient_def h_def)
  have call: "request_Query_Params_0 gw (queryClient_Params cc) ctx s = (s', msg, md) \<Longrightarrow>
      s' = s \<and> reply_of msg md = stored_params_reply (am_keeper am) (gw_callMetadata gw ctx) s" for ctx s s' msg md
    unfolding request_Query_Params_0_def queryClient_keeper [where route = route and r = r, OF assms(2) p]
    by (auto split: prod.splits dest: query_reply)
  have "fst (h req s) = s \<and>
      (\<forall>ctx. gw_AnnotateContext gw req = Ok ctx \<longrightarrow>
         snd (h req s) = stored_params_reply (am_keeper am) (gw_callMetadata gw ctx) s) \<and>
      (\<forall>e. gw_AnnotateContext gw req = Err e \<longrightarrow> snd (h req s) = Ok (HTTPError None e))" for req s
    unfolding h_def by (auto split: outcome.splits prod.splits dest: call)
  with reg pattern_segments show ?thesis by blast
qed

text \<open>The connection within the process, and a gateway that accepts every request.\<close>

definition ref_conn :: "mem_chain client_conn" where
  "ref_conn ctx path i out =
     (case map_of ref_table path of
        Some (srv, h) \<Rightarrow> h srv ctx (\<lambda>_. Ok i) None
      | None \<Rightarrow> liftO (Err (ErrForeign ''unimplemented'')))"

definition ref_gateway :: "unit gateway_env" where
  "ref_gateway =
     \<lparr>gw_AnnotateIncomingContext = (\<lambda>_. Ok sample_ctx), gw_AnnotateContext = (\<lambda>_. Ok sample_ctx),
      gw_stream = \<lparr>md_HeaderMD = [], md_TrailerMD = []\<rparr>, gw_callMetadata = (\<lambda>_. \<lparr>md_HeaderMD = [], md_TrailerMD = []\<rparr>)\<rparr>"

theorem gateway_params_witness:
  "\<exists>h. RegisterGRPCGatewayRoutes ref_gateway ref_conn [] = Ok [(''GET'', pattern_Query_Params_0, h)] \<and>
     h () sample_chain = (sample_chain, Ok (ForwardResponse \<lparr>md_HeaderMD = [], md_TrailerMD = []\<rparr>
       (RespParams \<lparr>qr_Params = sample_params\<rparr>)))"
proof -
  have "am_keeper ref_module = ref_keeper" by (simp add: ref_module_def NewAppModule_def)
  moreover have "conn_laws ref_conn map_of ref_table" by (simp add: conn_laws_def ref_conn_def)
  ultimately show ?thesis
    using gateway_params [OF ref_only_distro, of ref_conn ref_gateway "[]"] sample_get
    by (fastforce simp: ref_gateway_def stored_params_reply_def prod_eq_iff)
qed
section \<open>Registered messages\<close>

text \<open>
  C38: A mint or parameter update packed into an \<^verbatim>\<open>Any\<close> with its type URL is unpacked to the same
  message by the registry that the module filled; whatever the bytes, the URL decides the type, and
  no two message types share one. The command line covers exactly the methods of both services, its
  tx commands without the skipped one are commands for messages that the registry knows, and their
  positional arguments are the fields of the message.
\<close>

theorem tx_messages_decodable:
  fixes registrar :: "('s, 'r) interface_registry" and am :: "('s, 'j) app_module"
  assumes "registry_laws registrar resolve" and "wire_fits (MsgMint_enc m)" and "wire_fits (MsgUpdateParams_enc u)"
  shows "(\<exists>bz. MsgMint_Marshal m = Ok bz \<and>
      unpackAny resolve (Module_RegisterInterfaces registrar am r) (type_url (ReqMint m), bz) = Ok (ReqMint m)) \<and>
    (\<exists>bz. MsgUpdateParams_Marshal u = Ok bz \<and>
      unpackAny resolve (Module_RegisterInterfaces registrar am r) (type_url (ReqUpdateParams u), bz) = Ok (ReqUpdateParams u)) \<and>
    (\<forall>bz a. unpackAny resolve (Module_RegisterInterfaces registrar am r) (type_url (ReqMint m), bz) = Ok a \<longrightarrow>
      type_url a = type_url (ReqMint m)) \<and>
    (\<forall>a b. type_url a = type_url b \<longleftrightarrow> zero_of a = zero_of b) \<and>
    map rc_RpcMethod (sc_RpcCommandOptions (mo_Tx (AutoCLIOptions am))) = map fst (sd_Methods (Msg_serviceDesc :: 's service_desc)) \<and>
    map rc_RpcMethod (sc_RpcCommandOptions (mo_Query (AutoCLIOptions am))) = map fst (sd_Methods (Query_serviceDesc :: 's service_desc)) \<and>
    (\<forall>c \<in> set (sc_RpcCommandOptions (mo_Tx (AutoCLIOptions am))). \<not> rc_Skip c \<longrightarrow>
      resolve (Module_RegisterInterfaces registrar am r) ''sdk.Msg'' (''/gnodi.distro.v1.Msg'' @ rc_RpcMethod c) = Some (zero_of (ReqMint m)) \<and>
      rc_PositionalArgs c = MsgMint_proto_fields)"
proof (intro conjI)
  note found = registered_resolve [OF assms(1), of r] and unpack = unpackAny_def Module_RegisterInterfaces_def wire_decoder_def
  have "MsgMint_Marshal m = Ok (MsgMint_enc m)"
    unfolding MsgMint_Marshal_def by (rule mint_wire.marshal_enc [OF assms(2)])
  then show "\<exists>bz. MsgMint_Marshal m = Ok bz \<and>
      unpackAny resolve (Module_RegisterInterfaces registrar am r) (type_url (ReqMint m), bz) = Ok (ReqMint m)"
    by (simp add: unpack found(1) [of m, simplified] mint_wire.reads_enc [OF assms(2)])
  have "MsgUpdateParams_Marshal u = Ok (MsgUpdateParams_enc u)"
    unfolding MsgUpdateParams_Marshal_def by (rule update_wire.marshal_enc [OF assms(3)])
  then show "\<exists>bz. MsgUpdateParams_Marshal u = Ok bz \<and>
      unpackAny resolve (Module_RegisterInterfaces registrar am r) (type_url (ReqUpdateParams u), bz) = Ok (ReqUpdateParams u)"
    by (simp add: unpack found(2) [of u, simplified] update_wire.reads_enc [OF assms(3)])
  show "\<forall>bz a. unpackAny resolve (Module_RegisterInterfaces registrar am r) (type_url (ReqMint m), bz) = Ok a \<longrightarrow>
      type_url a = type_url (ReqMint m)"
    by (auto simp: unpack found(1) [of m, simplified] bindO_eq_Ok)
  show "\<forall>a b. type_url a = type_url b \<longleftrightarrow> zero_of a = zero_of b"
    by (simp add: type_url_inj)
  show "\<forall>c \<in> set (sc_RpcCommandOptions (mo_Tx (AutoCLIOptions am))). \<not> rc_Skip c \<longrightarrow>
      resolve (Module_RegisterInterfaces registrar am r) ''sdk.Msg'' (''/gnodi.distro.v1.Msg'' @ rc_RpcMethod c) = Some (zero_of (ReqMint m)) \<and>
      rc_PositionalArgs c = MsgMint_proto_fields"
    using found(1) [of m, simplified]
    by (auto simp: AutoCLIOptions_def MsgMint_proto_fields_def Module_RegisterInterfaces_def)
qed (rule autocli_methods)+

text \<open>A registry that is a function of the interface and the URL.\<close>

type_synonym type_table = "string \<Rightarrow> string \<Rightarrow> rpc_msg option"

definition table_registry :: "(mem_chain, type_table) interface_registry" where
  "table_registry =
     \<lparr>ir_RegisterImplementations = (\<lambda>iface msgs r i url.
        case map_of (map (\<lambda>m. (type_url m, zero_of m)) msgs) url of
          Some z \<Rightarrow> if i = iface then Some z else r i url
        | None \<Rightarrow> r i url),
      ir_RegisterMsgServiceDesc = (\<lambda>d r. r)\<rparr>"

theorem tx_messages_decodable_witness:
  "\<exists>bz. MsgMint_Marshal sample_mint = Ok bz \<and>
     unpackAny (\<lambda>r. r) (Module_RegisterInterfaces table_registry ref_module (\<lambda>_ _. None)) (''/gnodi.distro.v1.MsgMint'', bz) =
       Ok (ReqMint sample_mint)"
proof -
  have "registry_laws table_registry (\<lambda>r. r)"
    by (simp add: registry_laws_def table_registry_def)
  moreover have "wire_fits (MsgMint_enc sample_mint)" using sample_msgs_fit(1) by (simp add: sample_mint_def)
  ultimately show ?thesis
    using tx_messages_decodable [of table_registry "\<lambda>r. r" sample_mint _ ref_module "\<lambda>_ _. None", OF _ _ sample_msgs_fit(2)]
    by simp
qed

end
