(* ===== verification/App_Ante.thy ===== *)
theory App_Ante
  imports Gnodi_Prelude
begin

text \<open>
  The ante handler of the application (\<^verbatim>\<open>app/ante.go\<close>): the decorator that keeps disabled
  message types out of group proposals and authz messages, its place in front of the EVM ante
  handler, and the forwarding of pending transactions to listeners.
\<close>

section \<open>Messages\<close>

text \<open>
  A transaction message as the decorator sees it: the three container types of the SDK with the
  result of unpacking their payload (a grant's payload is the type URL of its authorization),
  and any other message with its type URL.
\<close>

datatype sdk_msg =
    AuthzMsgExec "sdk_msg list outcome"
  | AuthzMsgGrant "string outcome"
  | GroupMsgSubmitProposal "sdk_msg list outcome"
  | OtherMsg string

record sdk_tx =
  tx_GetMsgs :: "sdk_msg list"

definition maxGroupNestedMsgs :: nat where
  "maxGroupNestedMsgs = 7"

record groupLimiterDecorator =
  disabledMsgTypes :: "string list"

definition newGroupLimiterDecorator :: "string list \<Rightarrow> groupLimiterDecorator" where
  "newGroupLimiterDecorator types = \<lparr>disabledMsgTypes = types\<rparr>"

section \<open>The check\<close>

primrec isDisabledIn :: "string list \<Rightarrow> string \<Rightarrow> bool" where
  "isDisabledIn [] typeURL \<longleftrightarrow> False"
| "isDisabledIn (disabled # ds) typeURL \<longleftrightarrow> (if typeURL = disabled then True else isDisabledIn ds typeURL)"

definition isDisabled :: "groupLimiterDecorator \<Rightarrow> string \<Rightarrow> bool" where
  "isDisabled g typeURL = isDisabledIn (disabledMsgTypes g) typeURL"

text \<open>\<open>checkMsgs\<close> is the loop over the unpacked payload of a container.\<close>

function checkMsg :: "groupLimiterDecorator \<Rightarrow> sdk_msg \<Rightarrow> bool \<Rightarrow> nat \<Rightarrow> unit outcome"
  and checkMsgs :: "groupLimiterDecorator \<Rightarrow> sdk_msg list \<Rightarrow> nat \<Rightarrow> unit outcome" where
  "checkMsg g msg isInsideContainer depth =
     (if depth \<ge> maxGroupNestedMsgs
      then Err (ErrText ''exceeded max nested message depth in group proposal'')
      else case msg of
        AuthzMsgExec payload \<Rightarrow>
          (case payload of Ok innerMsgs \<Rightarrow> checkMsgs g innerMsgs (depth + 1) | Err e \<Rightarrow> Err e | Panic p \<Rightarrow> Panic p)
      | AuthzMsgGrant authorization \<Rightarrow>
          (case authorization of
             Ok url \<Rightarrow> (if isDisabled g url
                        then Err (ErrText (''found disabled msg type in authz grant: '' @ url)) else Ok ())
           | Err e \<Rightarrow> Err e | Panic p \<Rightarrow> Panic p)
      | GroupMsgSubmitProposal payload \<Rightarrow>
          (case payload of Ok innerMsgs \<Rightarrow> checkMsgs g innerMsgs (depth + 1) | Err e \<Rightarrow> Err e | Panic p \<Rightarrow> Panic p)
      | OtherMsg url \<Rightarrow>
          (if isInsideContainer \<and> isDisabled g url
           then Err (ErrText (''found disabled msg type: '' @ url)) else Ok ()))"
| "checkMsgs g [] depth = Ok ()"
| "checkMsgs g (inner # inners) depth =
     (case checkMsg g inner True depth of Ok _ \<Rightarrow> checkMsgs g inners depth | Err e \<Rightarrow> Err e | Panic p \<Rightarrow> Panic p)"
  by pat_completeness auto
termination
  by (relation "measures [\<lambda>x. case x of Inl (g, m, b, d) \<Rightarrow> maxGroupNestedMsgs - d | Inr (g, ms, d) \<Rightarrow> maxGroupNestedMsgs - d,
       \<lambda>x. case x of Inl _ \<Rightarrow> 0 | Inr (g, ms, d) \<Rightarrow> Suc (length ms)]") auto

declare checkMsg.simps [simp del]

text \<open>\<^verbatim>\<open>err.Error()\<close>: the text of an error; a wrapped error prints after its message.\<close>

fun err_Error :: "go_error \<Rightarrow> string" where
  "err_Error (ErrText t) = t"
| "err_Error (ErrForeign t) = t"
| "err_Error (ErrWrap t e) = t @ '': '' @ err_Error e"
| "err_Error (ErrNotFound t) = t @ '': not found''"
| "err_Error (ErrUnauthorized t) = t @ '': unauthorized''"
| "err_Error (ErrInvalidRequest t) = t @ '': invalid request''"
| "err_Error (ErrInvalidAddress t) = t @ '': invalid address''"
| "err_Error (ErrInvalidSigner t) = t @ '': invalid signer''"
| "err_Error (ErrStatus c t) = ''rpc error: '' @ t"

text \<open>The ante handler that follows is an argument; it gets the context unchanged.\<close>

primrec checkTopLevel :: "groupLimiterDecorator \<Rightarrow> sdk_msg list \<Rightarrow> unit outcome" where
  "checkTopLevel g [] = Ok ()"
| "checkTopLevel g (msg # msgs) = bindO (checkMsg g msg False 1) (\<lambda>_. checkTopLevel g msgs)"

definition AnteHandle ::
  "groupLimiterDecorator \<Rightarrow> 'ctx \<Rightarrow> sdk_tx \<Rightarrow> bool \<Rightarrow> ('ctx \<Rightarrow> sdk_tx \<Rightarrow> bool \<Rightarrow> 'ctx \<times> unit outcome) \<Rightarrow> 'ctx \<times> unit outcome" where
  "AnteHandle g ctx tx simulate next =
     (case checkTopLevel g (tx_GetMsgs tx) of
        Ok _ \<Rightarrow> next ctx tx simulate
      | Err err \<Rightarrow> (ctx, Err (ErrUnauthorized (err_Error err)))
      | Panic p \<Rightarrow> (ctx, Panic p))"

text \<open>
  \<open>validateOptions\<close> is the result of validating the EVM handler options, \<open>evmAnteHandler\<close> the
  handler built from them and \<open>ethereumTxURL\<close> the type URL of \<^verbatim>\<open>MsgEthereumTx\<close>.
\<close>

definition setAnteHandler ::
  "unit outcome \<Rightarrow> ('ctx \<Rightarrow> sdk_tx \<Rightarrow> bool \<Rightarrow> 'ctx \<times> unit outcome) \<Rightarrow> string \<Rightarrow>
   ('ctx \<Rightarrow> sdk_tx \<Rightarrow> bool \<Rightarrow> 'ctx \<times> unit outcome) outcome" where
  "setAnteHandler validateOptions evmAnteHandler ethereumTxURL =
     (case validateOptions of
        Err _ \<Rightarrow> Panic ''invalid ante handler options''
      | Panic p \<Rightarrow> Panic p
      | Ok _ \<Rightarrow>
          let groupLimiter = newGroupLimiterDecorator [ethereumTxURL]
          in Ok (\<lambda>ctx tx simulate. AnteHandle groupLimiter ctx tx simulate evmAnteHandler))"

section \<open>Pending transactions\<close>

text \<open>A listener is a call with an effect outside the chain state; \<open>'w\<close> is that world.\<close>

type_synonym ('h, 'w) listener = "'h \<Rightarrow> 'w \<Rightarrow> 'w"

definition RegisterPendingTxListener :: "('h, 'w) listener list \<Rightarrow> ('h, 'w) listener \<Rightarrow> ('h, 'w) listener list" where
  "RegisterPendingTxListener listeners l = listeners @ [l]"

definition onPendingTx :: "('h, 'w) listener list \<Rightarrow> 'h \<Rightarrow> 'w \<Rightarrow> 'w" where
  "onPendingTx listeners h w = fold (\<lambda>l. l h) listeners w"

section \<open>What the check accepts\<close>

lemma isDisabled_iff: "isDisabled g url \<longleftrightarrow> url \<in> set (disabledMsgTypes g)"
proof -
  have "isDisabledIn ds url \<longleftrightarrow> url \<in> set ds" for ds by (induction ds) auto
  then show ?thesis by (simp add: isDisabled_def)
qed

text \<open>The payload relation: \<open>x\<close> is unpacked from the container \<open>m\<close>.\<close>

inductive contains :: "sdk_msg \<Rightarrow> sdk_msg \<Rightarrow> bool" where
  exec_contains: "x \<in> set ms \<Longrightarrow> contains (AuthzMsgExec (Ok ms)) x"
| proposal_contains: "x \<in> set ms \<Longrightarrow> contains (GroupMsgSubmitProposal (Ok ms)) x"

inductive_simps contains_exec [simp]: "contains (AuthzMsgExec p) x"
inductive_simps contains_proposal [simp]: "contains (GroupMsgSubmitProposal p) x"
inductive_simps contains_grant [simp]: "contains (AuthzMsgGrant p) x"
inductive_simps contains_other [simp]: "contains (OtherMsg u) x"

text \<open>What a message must satisfy by itself, its payload aside.\<close>

fun locally_allowed :: "groupLimiterDecorator \<Rightarrow> bool \<Rightarrow> sdk_msg \<Rightarrow> bool" where
  "locally_allowed g inside (AuthzMsgExec p) \<longleftrightarrow> is_ok p"
| "locally_allowed g inside (GroupMsgSubmitProposal p) \<longleftrightarrow> is_ok p"
| "locally_allowed g inside (AuthzMsgGrant a) \<longleftrightarrow> (case a of Ok url \<Rightarrow> url \<notin> set (disabledMsgTypes g) | _ \<Rightarrow> False)"
| "locally_allowed g inside (OtherMsg url) \<longleftrightarrow> (inside \<longrightarrow> url \<notin> set (disabledMsgTypes g))"

lemma checkMsgs_ok_iff: "checkMsgs g ms d = Ok () \<longleftrightarrow> (\<forall>m \<in> set ms. checkMsg g m True d = Ok ())"
  by (induction ms) (auto split: outcome.split)

lemma checkMsg_ok_iff:
  "checkMsg g m inside d = Ok () \<longleftrightarrow>
     d < maxGroupNestedMsgs \<and> locally_allowed g inside m \<and> (\<forall>x. contains m x \<longrightarrow> checkMsg g x True (Suc d) = Ok ())"
  by (subst checkMsg.simps, cases m) (auto simp: checkMsgs_ok_iff isDisabled_iff split: outcome.split)

text \<open>
  The check accepts a message exactly when everything that can be unpacked from it, to any
  depth, is allowed and no payload is nested too deeply.
\<close>

lemma checkMsg_ok_all:
  "checkMsg g m inside d = Ok () \<longleftrightarrow>
     (\<forall>n x. (contains ^^ n) m x \<longrightarrow> d + n < maxGroupNestedMsgs \<and> locally_allowed g (inside \<or> 0 < n) x)"
proof (induction "maxGroupNestedMsgs - d" arbitrary: m inside d rule: less_induct)
  case less
  show ?case
  proof (cases "d < maxGroupNestedMsgs")
    case True
    have IH: "checkMsg g x True (Suc d) = Ok () \<longleftrightarrow>
        (\<forall>n y. (contains ^^ n) x y \<longrightarrow> Suc d + n < maxGroupNestedMsgs \<and> locally_allowed g True y)" for x
      using less [of "Suc d" x True] True by simp
    have split: "(\<forall>n y. (contains ^^ n) m y \<longrightarrow> P n y) \<longleftrightarrow>
        P 0 m \<and> (\<forall>x. contains m x \<longrightarrow> (\<forall>n y. (contains ^^ n) x y \<longrightarrow> P (Suc n) y))" for P
    proof
      assume "\<forall>n y. (contains ^^ n) m y \<longrightarrow> P n y"
      then show "P 0 m \<and> (\<forall>x. contains m x \<longrightarrow> (\<forall>n y. (contains ^^ n) x y \<longrightarrow> P (Suc n) y))"
        by (metis relpowp_0_I relpowp_Suc_I2)
    next
      assume a: "P 0 m \<and> (\<forall>x. contains m x \<longrightarrow> (\<forall>n y. (contains ^^ n) x y \<longrightarrow> P (Suc n) y))"
      show "\<forall>n y. (contains ^^ n) m y \<longrightarrow> P n y"
      proof (intro allI impI)
        fix n y assume "(contains ^^ n) m y"
        then show "P n y" using a by (cases n) (simp, metis relpowp_Suc_D2)
      qed
    qed
    show ?thesis
      unfolding checkMsg_ok_iff [of g m inside d] split using True IH by auto
  next
    case False
    have "(contains ^^ 0) m m" by simp
    with False show ?thesis unfolding checkMsg_ok_iff [of g m inside d] by (metis add_0_right)
  qed
qed

lemma checkTopLevel_ok_iff: "checkTopLevel g ms = Ok () \<longleftrightarrow> (\<forall>m \<in> set ms. checkMsg g m False 1 = Ok ())"
  by (induction ms) (auto simp: bindO_eq_Ok)

end
