(* ===== verification/App_Blocks.thy ===== *)
theory App_Blocks
  imports Cosmos_Env
begin

text \<open>
  The block hooks of the application (\<^verbatim>\<open>app/app.go\<close>): the begin-block logic with its two
  one-time state changes, the reset of the minimum gas price and the burn of the funds minted by
  an exploit, and the chain initialisation.
\<close>

section \<open>What the hooks call\<close>

text \<open>
  The parameters of the fee market module that the repository sets (decimals as scaled
  integers); the module's other parameters are in the extension \<open>'z\<close>.
\<close>

record feemarket_params =
  fm_NoBaseFee :: bool
  fm_BaseFee :: int
  fm_MinGasPrice :: int

record 's feemarket_keeper =
  fmk_GetParams :: "'s \<Rightarrow> feemarket_params"
  fmk_SetParams :: "feemarket_params \<Rightarrow> ('s, unit) action"

text \<open>
  \<open>evm_ModuleName\<close> is the name of the EVM module, whose account may burn coins, and
  \<open>coins_IsZero\<close> the method of \<^verbatim>\<open>sdk.Coins\<close>. The module manager's hooks are actions.
\<close>

record 's app_env =
  app_lib :: cosmos_lib
  app_BankKeeper :: "'s bank_keeper"
  app_FeeMarketKeeper :: "'s feemarket_keeper"
  evm_ModuleName :: string
  coins_IsZero :: "coins \<Rightarrow> bool"
  mm_PreBlock :: "('s, unit) action"
  mm_BeginBlock :: "('s, unit) action"
  mm_EndBlock :: "('s, unit) action"

section \<open>The security burn\<close>

definition MinGasPriceHotfixHeight :: int where
  "MinGasPriceHotfixHeight = 340100"

definition SecurityBurnHeight :: int where
  "SecurityBurnHeight = 670553"

definition securityBurnAccounts :: "string list" where
  "securityBurnAccounts =
     [''gnodi18kmwswajr0khc2xuxy7s7mnljnsscd6x25s98x'',
      ''gnodi1drflazqqvadznpgaz5q4ypx8rm9gevhv7u645k'',
      ''gnodi1l9w2uje6z6gf23el4589sy55fkrp0ljxsq8vyl'']"

text \<open>One round of the loop over the accounts; log lines are left out.\<close>

definition burnAccount :: "'s app_env \<Rightarrow> string \<Rightarrow> ('s, unit) action" where
  "burnAccount env bech32 =
     bindA (liftO (wrapErr (''security burn: bad address '' @ bech32)
                     (sdk_AccAddressFromBech32 (app_lib env) bech32))) (\<lambda>addr.
     bindA (readA (\<lambda>s. Ok (bank_GetAllBalances (app_BankKeeper env) s addr))) (\<lambda>balances.
     if coins_IsZero env balances then returnA ()
     else
       bindA (wrapErrA (''security burn: collect from '' @ bech32)
                (bank_SendCoinsFromAccountToModule (app_BankKeeper env) addr (evm_ModuleName env) balances)) (\<lambda>_.
       wrapErrA (''security burn: burn from '' @ bech32)
         (bank_BurnCoins (app_BankKeeper env) (evm_ModuleName env) balances))))"

definition applySecurityBurn :: "'s app_env \<Rightarrow> ('s, unit) action" where
  "applySecurityBurn env = forA securityBurnAccounts (burnAccount env)"

section \<open>The hooks\<close>

definition applyMinGasPriceHotfix :: "'s app_env \<Rightarrow> ('s, unit) action" where
  "applyMinGasPriceHotfix env =
     bindA (readA (\<lambda>s. Ok (fmk_GetParams (app_FeeMarketKeeper env) s))) (\<lambda>feeMarketParams.
     fmk_SetParams (app_FeeMarketKeeper env) (feeMarketParams\<lparr>fm_MinGasPrice := 0\<rparr>))"

definition BeginBlocker :: "'s app_env \<Rightarrow> sdk_context \<Rightarrow> ('s, unit) action" where
  "BeginBlocker env ctx =
     bindA (if ctx_BlockHeight ctx = MinGasPriceHotfixHeight
            then panicOnErr ''failed to apply MinGasPrice hotfix'' (applyMinGasPriceHotfix env)
            else returnA ()) (\<lambda>_.
     bindA (if ctx_BlockHeight ctx = SecurityBurnHeight
            then panicOnErr ''failed to apply security burn'' (applySecurityBurn env)
            else returnA ()) (\<lambda>_.
     mm_BeginBlock env))"

definition EndBlocker :: "'s app_env \<Rightarrow> sdk_context \<Rightarrow> ('s, unit) action" where
  "EndBlocker env ctx = mm_EndBlock env"

definition PreBlocker :: "'s app_env \<Rightarrow> sdk_context \<Rightarrow> ('s, unit) action" where
  "PreBlocker env ctx = mm_PreBlock env"

text \<open>
  \<open>InitChainer\<close>: the JSON decoding of the genesis file, the writing of the version map and the
  module manager's \<^verbatim>\<open>InitGenesis\<close> are arguments. The first two panic on an error.
\<close>

definition InitChainer ::
  "(string \<Rightarrow> 'g outcome) \<Rightarrow> ('s, unit) action \<Rightarrow> ('g \<Rightarrow> ('s, 'r) action) \<Rightarrow> string \<Rightarrow> ('s, 'r) action" where
  "InitChainer unmarshalJSON setModuleVersionMap initGenesis appStateBytes =
     bindA (panicOnErr ''genesis'' (liftO (unmarshalJSON appStateBytes))) (\<lambda>genesisState.
     bindA (panicOnErr ''module version map'' setModuleVersionMap) (\<lambda>_.
     initGenesis genesisState))"

section \<open>Documented behaviour of the bank\<close>

text \<open>
  Sending to a module account moves coins, burning removes them from the module account and
  from the supply, \<^verbatim>\<open>GetAllBalances\<close> lists the balance of every denomination, and coins are
  zero when they hold nothing.
\<close>

definition bank_burn_laws :: "'s app_env \<Rightarrow> (string \<Rightarrow> bytes) \<Rightarrow> bool" where
  "bank_burn_laws env modAddr \<longleftrightarrow>
     (let B = app_BankKeeper env in
      (\<forall>s a d. coins_amount d (bank_GetAllBalances B s a) = coin_Amount (bank_GetBalance B s a d)) \<and>
      (\<forall>cs. coins_IsZero env cs \<longrightarrow> (\<forall>d. coins_amount d cs = 0)) \<and>
      (\<forall>m a cs s s'. bank_SendCoinsFromAccountToModule B a m cs s = (s', Ok ()) \<longrightarrow>
         (\<forall>d. coin_Amount (bank_GetSupply B s' d) = coin_Amount (bank_GetSupply B s d)) \<and>
         (\<forall>b d. coin_Amount (bank_GetBalance B s' b d) =
            coin_Amount (bank_GetBalance B s b d)
            - (if b = a then coins_amount d cs else 0) + (if b = modAddr m then coins_amount d cs else 0))) \<and>
      (\<forall>m cs s s'. bank_BurnCoins B m cs s = (s', Ok ()) \<longrightarrow>
         (\<forall>d. coin_Amount (bank_GetSupply B s' d) = coin_Amount (bank_GetSupply B s d) - coins_amount d cs) \<and>
         (\<forall>b d. coin_Amount (bank_GetBalance B s' b d) =
            coin_Amount (bank_GetBalance B s b d) - (if b = modAddr m then coins_amount d cs else 0))))"

abbreviation balance :: "'s app_env \<Rightarrow> 's \<Rightarrow> bytes \<Rightarrow> string \<Rightarrow> int" where
  "balance env s a d \<equiv> coin_Amount (bank_GetBalance (app_BankKeeper env) s a d)"

abbreviation total_supply :: "'s app_env \<Rightarrow> 's \<Rightarrow> string \<Rightarrow> int" where
  "total_supply env s d \<equiv> coin_Amount (bank_GetSupply (app_BankKeeper env) s d)"

section \<open>What the burn does\<close>

lemma bank_burn_lawsD:
  assumes "bank_burn_laws env modAddr"
  shows "bank_SendCoinsFromAccountToModule (app_BankKeeper env) a m cs s = (s1, Ok ()) \<Longrightarrow>
      total_supply env s1 d = total_supply env s d \<and>
      balance env s1 b d = balance env s b d - (if b = a then coins_amount d cs else 0)
        + (if b = modAddr m then coins_amount d cs else 0)"
    and "bank_BurnCoins (app_BankKeeper env) m cs s = (s1, Ok ()) \<Longrightarrow>
      total_supply env s1 d = total_supply env s d - coins_amount d cs \<and>
      balance env s1 b d = balance env s b d - (if b = modAddr m then coins_amount d cs else 0)"
  using assms unfolding bank_burn_laws_def Let_def by metis+

lemma burnAccount_Ok:
  assumes laws: "bank_burn_laws env modAddr" and ok: "burnAccount env x s = (s', Ok ())"
  obtains addr where "sdk_AccAddressFromBech32 (app_lib env) x = Ok addr"
    "\<forall>d. total_supply env s' d = total_supply env s d - balance env s addr d"
    "\<forall>b d. balance env s' b d = balance env s b d - (if b = addr then balance env s addr d else 0)"
proof -
  define B where "B = app_BankKeeper env"
  from ok obtain addr where a: "sdk_AccAddressFromBech32 (app_lib env) x = Ok addr"
    and r: "(if coins_IsZero env (bank_GetAllBalances B s addr) then s' = s
       else \<exists>s1. bank_SendCoinsFromAccountToModule B addr (evm_ModuleName env) (bank_GetAllBalances B s addr) s = (s1, Ok ()) \<and>
          bank_BurnCoins B (evm_ModuleName env) (bank_GetAllBalances B s addr) s1 = (s', Ok ()))"
    unfolding burnAccount_def B_def by (auto simp: outcome_inv split: if_splits)
  have all: "coins_amount d (bank_GetAllBalances B s addr) = balance env s addr d" for d
    using laws by (simp add: bank_burn_laws_def Let_def B_def)
  show thesis
  proof (cases "coins_IsZero env (bank_GetAllBalances B s addr)")
    case True
    then have "coins_amount d (bank_GetAllBalances B s addr) = 0" for d
      using laws by (simp add: bank_burn_laws_def Let_def)
    then have "balance env s addr d = 0" for d using all [of d] by simp
    with True r a that show thesis by simp
  next
    case False
    with r obtain s1 where send: "bank_SendCoinsFromAccountToModule B addr (evm_ModuleName env) (bank_GetAllBalances B s addr) s = (s1, Ok ())"
      and burn: "bank_BurnCoins B (evm_ModuleName env) (bank_GetAllBalances B s addr) s1 = (s', Ok ())"
      by auto
    note 1 = bank_burn_lawsD(1) [OF laws send [unfolded B_def], unfolded all [unfolded B_def]]
    note 2 = bank_burn_lawsD(2) [OF laws burn [unfolded B_def], unfolded all [unfolded B_def]]
    show thesis by (rule that [OF a]) (simp_all add: 1 2)
  qed
qed

lemma forA_burn_Ok:
  assumes laws: "bank_burn_laws env modAddr" and ok: "forA xs (burnAccount env) s = (s', Ok ())"
    and "distinct (map (sdk_AccAddressFromBech32 (app_lib env)) xs)"
  obtains addrs where "map (sdk_AccAddressFromBech32 (app_lib env)) xs = map Ok addrs"
    "\<forall>d. total_supply env s' d = total_supply env s d - (\<Sum>a \<leftarrow> addrs. balance env s a d)"
    "\<forall>b d. balance env s' b d = (if b \<in> set addrs then 0 else balance env s b d)"
  using ok assms(3)
proof (induction xs arbitrary: s thesis)
  case Nil
  then show ?case by (auto simp: outcome_inv intro: Nil(1) [of "[]"])
next
  case (Cons x xs)
  from Cons.prems(2) obtain s1 where h: "burnAccount env x s = (s1, Ok ())" and t: "forA xs (burnAccount env) s1 = (s', Ok ())"
    by (auto simp: outcome_inv)
  from laws h obtain addr where a: "sdk_AccAddressFromBech32 (app_lib env) x = Ok addr"
    "\<forall>d. total_supply env s1 d = total_supply env s d - balance env s addr d"
    "\<forall>b d. balance env s1 b d = balance env s b d - (if b = addr then balance env s addr d else 0)"
    by (rule burnAccount_Ok)
  have "distinct (map (sdk_AccAddressFromBech32 (app_lib env)) xs)" using Cons.prems(3) by simp
  with t obtain addrs where as: "map (sdk_AccAddressFromBech32 (app_lib env)) xs = map Ok addrs"
    "\<forall>d. total_supply env s' d = total_supply env s1 d - (\<Sum>a \<leftarrow> addrs. balance env s1 a d)"
    "\<forall>b d. balance env s' b d = (if b \<in> set addrs then 0 else balance env s1 b d)"
    using Cons.IH by blast
  have "Ok addr \<notin> set (map Ok addrs)"
    unfolding as(1) [symmetric] using Cons.prems(3) a(1) by simp
  then have fresh: "addr \<notin> set addrs" by auto
  then have "(\<Sum>a \<leftarrow> addrs. balance env s1 a d) = (\<Sum>a \<leftarrow> addrs. balance env s a d)" for d
    using a(3) by (intro arg_cong [of _ _ sum_list] map_cong) auto
  with a as fresh show ?case by (intro Cons.prems(1) [of "addr # addrs"]) auto
qed

end
