(* ===== verification/App_Genesis.thy ===== *)
theory App_Genesis
  imports App_Blocks
begin

text \<open>
  The genesis states the application sets itself (\<^verbatim>\<open>app/genesis.go\<close>, \<^verbatim>\<open>App.DefaultGenesis\<close>) and
  the validation of genesis accounts (\<^verbatim>\<open>app/genesis_account.go\<close>). The default states of the
  EVM modules, the coin info and the JSON codec belong to other packages and are arguments.
\<close>

section \<open>The EVM module's genesis\<close>

text \<open>The static precompiles that the EVM module names; the addresses are its constants.\<close>

datatype precompile =
    P256PrecompileAddress | Bech32PrecompileAddress | StakingPrecompileAddress
  | DistributionPrecompileAddress | ICS20PrecompileAddress | VestingPrecompileAddress
  | BankPrecompileAddress | GovPrecompileAddress | SlashingPrecompileAddress

record evm_params =
  ep_EvmDenom :: string
  ep_ExtendedDenomOptions :: "string option"
  ep_ActiveStaticPrecompiles :: "precompile list"

record 'p evm_genesis =
  eg_Params :: evm_params
  eg_Preinstalls :: "'p list"

record coin_info =
  ci_Denom :: string
  ci_ExtendedDenom :: string
  ci_DisplayDenom :: string
  ci_Decimals :: nat

definition activePrecompiles :: "precompile list" where
  "activePrecompiles =
     [P256PrecompileAddress, Bech32PrecompileAddress, StakingPrecompileAddress,
      DistributionPrecompileAddress, VestingPrecompileAddress, BankPrecompileAddress,
      GovPrecompileAddress, SlashingPrecompileAddress]"

definition NewEVMGenesisState :: "'p evm_genesis \<Rightarrow> 'p list \<Rightarrow> coin_info \<Rightarrow> 'p evm_genesis" where
  "NewEVMGenesisState defaultState defaultPreinstalls ci =
     defaultState
       \<lparr>eg_Params := (eg_Params defaultState)
          \<lparr>ep_EvmDenom := ci_Denom ci,
           ep_ExtendedDenomOptions := Some (ci_ExtendedDenom ci),
           ep_ActiveStaticPrecompiles := activePrecompiles\<rparr>,
        eg_Preinstalls := defaultPreinstalls\<rparr>"

definition NewErc20GenesisState :: "'e \<Rightarrow> 'e" where
  "NewErc20GenesisState defaultState = defaultState"

definition NewFeeMarketGenesisState :: "feemarket_params \<Rightarrow> feemarket_params" where
  "NewFeeMarketGenesisState defaultParams =
     defaultParams\<lparr>fm_NoBaseFee := True, fm_BaseFee := 0, fm_MinGasPrice := 0\<rparr>"

section \<open>The default genesis of the application\<close>

record denom_metadata =
  md_Description :: string
  md_Base :: string
  md_DenomUnits :: "(string \<times> nat) list"
  md_Name :: string
  md_Symbol :: string
  md_Display :: string

record 'b bank_genesis =
  bg_DenomMetadata :: "denom_metadata list"
  bg_rest :: 'b

text \<open>The names of the four modules whose state is overridden, and the JSON codec.\<close>

record ('p, 'e, 'b, 'j) genesis_env =
  ge_evm :: string
  ge_erc20 :: string
  ge_feemarket :: string
  ge_bank :: string
  ge_basic :: "string \<rightharpoonup> 'j"
  ge_marshalEvm :: "'p evm_genesis \<Rightarrow> 'j"
  ge_marshalErc20 :: "'e \<Rightarrow> 'j"
  ge_marshalFeeMarket :: "feemarket_params \<Rightarrow> 'j"
  ge_marshalBank :: "'b bank_genesis \<Rightarrow> 'j"
  ge_unmarshalBank :: "'j \<Rightarrow> 'b bank_genesis outcome"
  ge_defaultEvm :: "'p evm_genesis"
  ge_preinstalls :: "'p list"
  ge_defaultErc20 :: 'e
  ge_defaultFeeMarket :: feemarket_params
  ge_coinInfo :: coin_info

definition nativeMetadata :: "coin_info \<Rightarrow> denom_metadata" where
  "nativeMetadata ci =
     \<lparr>md_Description = ''Gnodi native token'',
      md_Base = ci_Denom ci,
      md_DenomUnits = [(ci_Denom ci, 0), (ci_DisplayDenom ci, ci_Decimals ci)],
      md_Name = ''Gnodi'',
      md_Symbol = ci_DisplayDenom ci,
      md_Display = ci_DisplayDenom ci\<rparr>"

definition App_DefaultGenesis :: "('p, 'e, 'b, 'j) genesis_env \<Rightarrow> (string \<rightharpoonup> 'j) outcome" where
  "App_DefaultGenesis ge =
     (let genesis1 = (ge_basic ge)
            (ge_evm ge \<mapsto> ge_marshalEvm ge (NewEVMGenesisState (ge_defaultEvm ge) (ge_preinstalls ge) (ge_coinInfo ge)));
          genesis2 = genesis1(ge_erc20 ge \<mapsto> ge_marshalErc20 ge (NewErc20GenesisState (ge_defaultErc20 ge)));
          genesis3 = genesis2(ge_feemarket ge \<mapsto> ge_marshalFeeMarket ge (NewFeeMarketGenesisState (ge_defaultFeeMarket ge)))
      in case genesis3 (ge_bank ge) of
           None \<Rightarrow> Panic ''unmarshal''
         | Some raw \<Rightarrow>
             (case ge_unmarshalBank ge raw of
                Ok bankGenState \<Rightarrow>
                  Ok (genesis3(ge_bank ge \<mapsto> ge_marshalBank ge
                    (bankGenState\<lparr>bg_DenomMetadata := bg_DenomMetadata bankGenState @ [nativeMetadata (ge_coinInfo ge)]\<rparr>)))
              | Err _ \<Rightarrow> Panic ''unmarshal''
              | Panic m \<Rightarrow> Panic m))"

section \<open>Genesis accounts\<close>

text \<open>\<open>isZero\<close>, \<open>validateModuleAccount\<close> and \<open>validateBase\<close> are methods of SDK types.\<close>

record 'a genesis_account =
  ga_BaseAccount :: 'a
  ga_OriginalVesting :: coins
  ga_DelegatedFree :: coins
  ga_DelegatedVesting :: coins
  ga_StartTime :: int
  ga_EndTime :: int
  ga_ModuleName :: string
  ga_ModulePermissions :: "string list"

definition GenesisAccount_Validate ::
  "(coins \<Rightarrow> bool) \<Rightarrow> ('a \<Rightarrow> string \<Rightarrow> string list \<Rightarrow> unit outcome) \<Rightarrow> ('a \<Rightarrow> unit outcome) \<Rightarrow> 'a genesis_account \<Rightarrow> unit outcome" where
  "GenesisAccount_Validate isZero validateModuleAccount validateBase sga =
     bindO (if \<not> isZero (ga_OriginalVesting sga) \<and> ga_StartTime sga \<ge> ga_EndTime sga
            then Err (ErrText ''vesting start-time cannot be before end-time'') else Ok ()) (\<lambda>_.
     bindO (if ga_ModuleName sga \<noteq> []
            then validateModuleAccount (ga_BaseAccount sga) (ga_ModuleName sga) (ga_ModulePermissions sga)
            else Ok ()) (\<lambda>_.
     validateBase (ga_BaseAccount sga)))"

lemma GenesisAccount_Validate_ok:
  "GenesisAccount_Validate isZero vm vb sga = Ok () \<longleftrightarrow>
     (isZero (ga_OriginalVesting sga) \<or> ga_StartTime sga < ga_EndTime sga) \<and>
     (ga_ModuleName sga = [] \<or> vm (ga_BaseAccount sga) (ga_ModuleName sga) (ga_ModulePermissions sga) = Ok ()) \<and>
     vb (ga_BaseAccount sga) = Ok ()"
  by (auto simp: GenesisAccount_Validate_def bindO_eq_Ok)

end
