(* ===== verification/App_Modules.thy ===== *)
theory App_Modules
  imports Distro_Types
begin

text \<open>
  The tables of \<^verbatim>\<open>app/app.go\<close>: the permissions of the module accounts, the addresses that may
  not receive funds, the store keys, the modules of the manager and the orders in which their
  hooks run. The module names of other packages are named symbolically; their strings are given
  by the argument \<open>nm\<close>, except the name of the distro module, which the repository defines.
\<close>

section \<open>Modules and accounts\<close>

datatype sdk_name =
    Auth | FeeCollector | Bank | Vesting | Staking | BondedPool | NotBondedPool | SdkMint
  | Distribution | Slashing | Gov | Consensus | Upgrade | Feegrant | Evidence | Authz
  | ParamsName | Nft | Group | Circuit | Epochs | Genutil
  | Ibc | IbcTm | Transfer | Ica | IcaHost | IcaController
  | Evm | FeeMarket | Erc20 | PreciseBank | Distro

type_synonym names = "sdk_name \<Rightarrow> string"

definition name_of :: "names \<Rightarrow> names" where
  "name_of nm m = (if m = Distro then ModuleName else nm m)"

datatype permission = Minter | Burner | StakingPerm

text \<open>\<^verbatim>\<open>maccPerms\<close> as the list of its entries, in the order of the literal; a Go map has no order.\<close>

definition maccPermsList :: "(sdk_name \<times> permission list) list" where
  "maccPermsList =
     [(FeeCollector, []),
      (Distribution, []),
      (SdkMint, [Minter]),
      (BondedPool, [Burner, StakingPerm]),
      (NotBondedPool, [Burner, StakingPerm]),
      (Gov, [Burner]),
      (Nft, []),
      (Transfer, [Minter, Burner]),
      (Ica, []),
      (Distro, [Minter, Burner, StakingPerm]),
      (Evm, [Minter, Burner]),
      (FeeMarket, []),
      (Erc20, [Minter, Burner]),
      (PreciseBank, [Minter, Burner])]"

definition maccPerms :: "names \<Rightarrow> (string \<rightharpoonup> permission list)" where
  "maccPerms nm = map_of (map (\<lambda>(m, ps). (name_of nm m, ps)) maccPermsList)"

text \<open>\<^verbatim>\<open>GetMaccPerms\<close> copies the map entry by entry.\<close>

definition GetMaccPerms :: "names \<Rightarrow> (string \<rightharpoonup> permission list)" where
  "GetMaccPerms nm = foldl (\<lambda>dup (k, v). dup(name_of nm k \<mapsto> v)) Map.empty maccPermsList"

text \<open>
  \<open>addr\<close> is \<^verbatim>\<open>authtypes.NewModuleAddress(name).String()\<close>. The loop over the keys of the map
  sets one entry each, then the governance account is removed; the result is the set of the
  addresses mapped to true.
\<close>

definition blockedAddrs :: "names \<Rightarrow> (string \<Rightarrow> string) \<Rightarrow> (string \<rightharpoonup> bool)" where
  "blockedAddrs nm addr =
     (let result = foldl (\<lambda>r (acc, _). r(addr (name_of nm acc) \<mapsto> True)) Map.empty maccPermsList
      in result(addr (name_of nm Gov) := None))"

definition BlockedAddresses :: "names \<Rightarrow> (string \<Rightarrow> string) \<Rightarrow> (string \<rightharpoonup> bool)" where
  "BlockedAddresses nm addr = blockedAddrs nm addr"

section \<open>Stores\<close>

definition kvStoreKeys :: "sdk_name list" where
  "kvStoreKeys =
     [Auth, Bank, Staking, SdkMint, Distribution, Slashing, Gov, Consensus,
      Upgrade, Feegrant, Evidence, Authz,
      ParamsName, Nft, Group, Circuit, Epochs,
      Ibc, Transfer, IcaHost, IcaController,
      Evm, FeeMarket, Erc20, PreciseBank,
      Distro]"

definition transientStoreKeys :: "sdk_name list" where
  "transientStoreKeys = [ParamsName, Evm, FeeMarket]"

text \<open>The two maps are traversed in an unspecified order; the model keeps the order of declaration.\<close>

definition GetStoreKeys :: "sdk_name list \<Rightarrow> sdk_name list \<Rightarrow> (sdk_name + sdk_name) list" where
  "GetStoreKeys keys tkeys =
     foldl (\<lambda>ks k. ks @ [Inr k]) (foldl (\<lambda>ks k. ks @ [Inl k]) [] keys) tkeys"

definition GetKey :: "sdk_name list \<Rightarrow> sdk_name \<Rightarrow> sdk_name option" where
  "GetKey keys storeKey = (if storeKey \<in> set keys then Some storeKey else None)"

section \<open>The module manager\<close>

definition managedModules :: "sdk_name list" where
  "managedModules =
     [Genutil, Auth, Vesting, Bank, Feegrant, Gov, SdkMint, Slashing, Distribution, Staking,
      Upgrade, Evidence, Authz, Consensus, Circuit, Nft, Group, ParamsName, Epochs,
      Ibc, IbcTm, Transfer, Ica,
      Evm, FeeMarket, Erc20, PreciseBank,
      Distro]"

definition orderPreBlockers :: "sdk_name list" where
  "orderPreBlockers = [Upgrade, Auth, Evm]"

definition orderBeginBlockers :: "sdk_name list" where
  "orderBeginBlockers =
     [SdkMint, Ibc, Transfer, Erc20, FeeMarket, Evm,
      Distribution, Slashing, Evidence, Staking,
      Auth, Bank, Gov, Genutil, Authz, Feegrant, Consensus,
      Epochs, PreciseBank, Vesting, Ica, Nft, Group, Circuit, ParamsName,
      Distro]"

definition orderEndBlockers :: "sdk_name list" where
  "orderEndBlockers =
     [Gov, Staking, Auth, Bank, Evm, Erc20, FeeMarket,
      Ibc, Transfer, Distribution, Slashing, SdkMint,
      Genutil, Evidence, Authz, Feegrant, Upgrade, Consensus,
      PreciseBank, Vesting, Epochs, Ica, Nft, Group, Circuit, ParamsName,
      Distro]"

definition genesisModuleOrder :: "sdk_name list" where
  "genesisModuleOrder =
     [Consensus, Auth, Bank, Distribution, Staking, Slashing, Gov, SdkMint,
      Evidence, Authz, Feegrant, Vesting, Nft, Group, Upgrade, Circuit, Epochs, ParamsName,
      Ibc, Evm, FeeMarket, Erc20, PreciseBank, Transfer, Ica, Genutil,
      Distro]"

section \<open>Lemmas\<close>

text \<open>\<open>runs_before x y xs\<close>: both occur and the first occurrence of \<open>x\<close> is before that of \<open>y\<close>.\<close>

fun runs_before :: "'a \<Rightarrow> 'a \<Rightarrow> 'a list \<Rightarrow> bool" where
  "runs_before x y [] \<longleftrightarrow> False"
| "runs_before x y (z # zs) \<longleftrightarrow> (if z = x then y \<in> set zs else z \<noteq> y \<and> runs_before x y zs)"

lemma foldl_snoc: "foldl (\<lambda>ks k. ks @ [f k]) acc xs = acc @ map f xs"
  by (induction xs arbitrary: acc) simp_all

lemma foldl_mark:
  "foldl (\<lambda>r (x, _). r(f x \<mapsto> True)) m xs a = (if a \<in> (f \<circ> fst) ` set xs then Some True else m a)"
  by (induction xs arbitrary: m) auto

lemma blockedAddrs_eq:
  "blockedAddrs nm addr a =
     (if a \<noteq> addr (name_of nm Gov) \<and> (\<exists>m \<in> fst ` set maccPermsList. a = addr (name_of nm m)) then Some True else None)"
  unfolding blockedAddrs_def Let_def
  by (simp add: foldl_mark [of "\<lambda>m. addr (name_of nm m)"] image_iff Bex_def)

lemma maccPerms_lookup:
  assumes "inj_on (name_of nm) (fst ` set maccPermsList)" and "(m, ps) \<in> set maccPermsList"
  shows "maccPerms nm (name_of nm m) = Some ps"
proof -
  have keys: "map fst (map (\<lambda>(m, ps). (name_of nm m, ps)) maccPermsList) = map (name_of nm) (map fst maccPermsList)"
    by (simp add: case_prod_beta comp_def)
  have "distinct (map (name_of nm) (map fst maccPermsList))"
    unfolding distinct_map [of "name_of nm"] using assms(1) by (simp add: maccPermsList_def)
  then show ?thesis
    unfolding maccPerms_def using assms(2) by (intro map_of_is_SomeI) (simp only: keys, force)
qed

lemma foldl_copy:
  "distinct (map f (map fst xs)) \<Longrightarrow>
     foldl (\<lambda>dup (k, v). dup(f k \<mapsto> v)) m xs = m ++ map_of (map (\<lambda>(k, v). (f k, v)) xs)"
proof (induction xs arbitrary: m)
  case (Cons x xs)
  have "f (fst x) \<notin> dom (map_of (map (\<lambda>(k, v). (f k, v)) xs))"
    using Cons.prems by (simp add: dom_map_of_conv_image_fst image_image case_prod_beta)
  with Cons show ?case by (cases x) (auto simp: map_add_def fun_eq_iff dom_def split: option.splits)
qed simp

section \<open>Orders of hooks\<close>

text \<open>
  What the module manager asks of an order: it lists every module once, except those without the
  hook. Then each hook runs exactly once in a pass over the order.
\<close>

locale hook_order =
  fixes order :: "'m list" and modules exempt :: "'m set"
  assumes once: "distinct order" and covers: "set order = modules - exempt"
begin

lemma listed: "set order \<subseteq> modules"
  using covers by blast

lemma runs_once: "count_list order m = (if m \<in> modules - exempt then 1 else 0)"
proof -
  have "distinct xs \<Longrightarrow> count_list xs m = (if m \<in> set xs then 1 else 0)" for xs
    by (induction xs) (auto simp: count_list_0_iff)
  with once show ?thesis by (simp add: covers)
qed

end

interpretation begin_order: hook_order orderBeginBlockers "set managedModules" "{IbcTm, Upgrade}"
  by unfold_locales code_simp+

interpretation end_order: hook_order orderEndBlockers "set managedModules" "{IbcTm}"
  by unfold_locales code_simp+

interpretation genesis_order: hook_order genesisModuleOrder "set managedModules" "{IbcTm}"
  by unfold_locales code_simp+

end
