(* ===== verification/App_Upgrade.thy ===== *)
theory App_Upgrade
  imports App_Genesis App_Modules
begin

text \<open>
  The EVM upgrade (\<^verbatim>\<open>app/upgrades.go\<close>): the upgrade handler as one action over the chain state,
  in the order of the code, and the decision to add stores at start-up.
\<close>

section \<open>Data\<close>

definition EVMUpgradeName :: string where
  "EVMUpgradeName = ''evm-upgrade''"

text \<open>The messages of \<^verbatim>\<open>x/group\<close> that the code lists; their type URLs come from the SDK.\<close>

datatype group_msg =
    MsgCreateGroup | MsgCreateGroupWithPolicy | MsgUpdateGroupMembers | MsgUpdateGroupAdmin
  | MsgUpdateGroupMetadata | MsgCreateGroupPolicy | MsgUpdateGroupPolicyAdmin
  | MsgUpdateGroupPolicyDecisionPolicy | MsgUpdateGroupPolicyMetadata | MsgSubmitProposal
  | MsgWithdrawProposal | MsgVote | MsgExec | MsgLeaveGroup

definition groupMsgs :: "group_msg list" where
  "groupMsgs =
     [MsgCreateGroup, MsgCreateGroupWithPolicy, MsgUpdateGroupMembers, MsgUpdateGroupAdmin,
      MsgUpdateGroupMetadata, MsgCreateGroupPolicy, MsgUpdateGroupPolicyAdmin,
      MsgUpdateGroupPolicyDecisionPolicy, MsgUpdateGroupPolicyMetadata, MsgSubmitProposal,
      MsgWithdrawProposal, MsgVote, MsgExec, MsgLeaveGroup]"

definition groupMsgTypeURLs :: "(group_msg \<Rightarrow> string) \<Rightarrow> string list" where
  "groupMsgTypeURLs typeURL = map typeURL groupMsgs"

definition upgradeMetadata :: denom_metadata where
  "upgradeMetadata =
     \<lparr>md_Description = ''Gnodi native token'',
      md_Base = ''uGNOD'',
      md_DenomUnits = [(''uGNOD'', 0), (''GNOD'', 6)],
      md_Name = ''Gnodi'',
      md_Symbol = ''GNOD'',
      md_Display = ''GNOD''\<rparr>"

type_synonym version_map = "string \<rightharpoonup> nat"

text \<open>
  The calls of the handler into other modules. \<open>DisableList\<close> is a key set of the circuit
  breaker. \<^verbatim>\<open>SetDenomMetaData\<close> and the two \<^verbatim>\<open>InitGenesis\<close> return no error: they complete or panic.
\<close>

record ('s, 'p) upgrade_env =
  ue_SetDenomMetaData :: "denom_metadata \<Rightarrow> ('s, unit) action"
  ue_evmInitGenesis :: "'p evm_genesis \<Rightarrow> ('s, unit) action"
  ue_feemarketInitGenesis :: "feemarket_params \<Rightarrow> ('s, unit) action"
  ue_FeeMarketKeeper :: "'s feemarket_keeper"
  ue_DisableListSet :: "string \<Rightarrow> ('s, unit) action"
  ue_DisableListHas :: "'s \<Rightarrow> string \<Rightarrow> bool"
  ue_RunMigrations :: "version_map \<Rightarrow> ('s, version_map) action"
  ue_evmName :: string
  ue_feemarketName :: string
  ue_typeURL :: "group_msg \<Rightarrow> string"
  ue_defaultEvm :: "'p evm_genesis"
  ue_preinstalls :: "'p list"
  ue_coinInfo :: coin_info
  ue_defaultFeeMarket :: feemarket_params

section \<open>The handler\<close>

definition upgradeHandler :: "('s, 'p) upgrade_env \<Rightarrow> version_map \<Rightarrow> ('s, version_map) action" where
  "upgradeHandler ue fromVM =
     bindA (ue_SetDenomMetaData ue upgradeMetadata) (\<lambda>_.
     bindA (ue_evmInitGenesis ue
              (NewEVMGenesisState (ue_defaultEvm ue) (ue_preinstalls ue) (ue_coinInfo ue))) (\<lambda>_.
     let fromVM1 = fromVM(ue_evmName ue \<mapsto> 1) in
     bindA (ue_feemarketInitGenesis ue (NewFeeMarketGenesisState (ue_defaultFeeMarket ue))) (\<lambda>_.
     let fromVM2 = fromVM1(ue_feemarketName ue \<mapsto> 1) in
     bindA (readA (\<lambda>s. Ok (fmk_GetParams (ue_FeeMarketKeeper ue) s))) (\<lambda>feeMarketParams.
     bindA (fmk_SetParams (ue_FeeMarketKeeper ue) (feeMarketParams\<lparr>fm_MinGasPrice := 0\<rparr>)) (\<lambda>_.
     bindA (forA (groupMsgTypeURLs (ue_typeURL ue)) (ue_DisableListSet ue)) (\<lambda>_.
     ue_RunMigrations ue fromVM2))))))"

section \<open>The store loader\<close>

text \<open>
  The stores added at the upgrade height: \<open>None\<close> when the store loader stays as it is. The
  plan read from disk has a name and a height; an error there is a panic. \<open>storeKey\<close> gives the
  strings of the store keys.
\<close>

record upgrade_plan =
  plan_Name :: string
  plan_Height :: int

definition addedStores :: "sdk_name list" where
  "addedStores = [Evm, FeeMarket, Erc20, PreciseBank]"

definition storeUpgrades ::
  "upgrade_plan outcome \<Rightarrow> (int \<Rightarrow> bool) \<Rightarrow> (sdk_name \<Rightarrow> string) \<Rightarrow> (int \<times> string list) option outcome" where
  "storeUpgrades readUpgradeInfo isSkipHeight storeKey =
     (case readUpgradeInfo of
        Err _ \<Rightarrow> Panic ''upgrade info''
      | Panic m \<Rightarrow> Panic m
      | Ok info \<Rightarrow>
          if plan_Name info = EVMUpgradeName \<and> \<not> isSkipHeight (plan_Height info)
          then Ok (Some (plan_Height info, map storeKey addedStores)) else Ok None)"

section \<open>Documented behaviour of the modules called\<close>

definition upgrade_laws :: "('s, 'p) upgrade_env \<Rightarrow> bool" where
  "upgrade_laws ue \<longleftrightarrow>
     (\<forall>p s s'. fmk_SetParams (ue_FeeMarketKeeper ue) p s = (s', Ok ()) \<longrightarrow>
        fmk_GetParams (ue_FeeMarketKeeper ue) s' = p) \<and>
     (\<forall>u s s'. ue_DisableListSet ue u s = (s', Ok ()) \<longrightarrow>
        ue_DisableListHas ue s' u \<and> (\<forall>v. ue_DisableListHas ue s v \<longrightarrow> ue_DisableListHas ue s' v) \<and>
        fmk_GetParams (ue_FeeMarketKeeper ue) s' = fmk_GetParams (ue_FeeMarketKeeper ue) s)"

lemma forA_disable:
  assumes laws: "upgrade_laws ue" and ok: "forA urls (ue_DisableListSet ue) s = (s', Ok ())"
  shows "(\<forall>u. u \<in> set urls \<or> ue_DisableListHas ue s u \<longrightarrow> ue_DisableListHas ue s' u) \<and>
    fmk_GetParams (ue_FeeMarketKeeper ue) s' = fmk_GetParams (ue_FeeMarketKeeper ue) s"
  using ok
proof (induction urls arbitrary: s)
  case Nil
  then show ?case by (simp add: outcome_inv)
next
  case (Cons u urls)
  then obtain s1 where 1: "ue_DisableListSet ue u s = (s1, Ok ())" and 2: "forA urls (ue_DisableListSet ue) s1 = (s', Ok ())"
    by (auto simp: outcome_inv)
  with laws have "ue_DisableListHas ue s1 u \<and> (\<forall>v. ue_DisableListHas ue s v \<longrightarrow> ue_DisableListHas ue s1 v) \<and>
      fmk_GetParams (ue_FeeMarketKeeper ue) s1 = fmk_GetParams (ue_FeeMarketKeeper ue) s"
    unfolding upgrade_laws_def by blast
  with Cons.IH [OF 2] show ?case by auto
qed

lemma groupMsgs_all: "set groupMsgs = UNIV" "distinct groupMsgs"
proof -
  have "m \<in> set groupMsgs" for m by (cases m) (simp_all add: groupMsgs_def)
  then show "set groupMsgs = UNIV" by blast
  show "distinct groupMsgs" by (simp add: groupMsgs_def)
qed

lemma upgradeHandler_Ok:
  assumes laws: "upgrade_laws ue" and ok: "upgradeHandler ue fromVM s = (s', Ok vm)"
  obtains s1 where "ue_RunMigrations ue (fromVM(ue_evmName ue \<mapsto> 1, ue_feemarketName ue \<mapsto> 1)) s1 = (s', Ok vm)"
    "\<forall>m. ue_DisableListHas ue s1 (ue_typeURL ue m)" "fm_MinGasPrice (fmk_GetParams (ue_FeeMarketKeeper ue) s1) = 0"
proof -
  from ok obtain s0 p s1 s2 where set: "fmk_SetParams (ue_FeeMarketKeeper ue) (p\<lparr>fm_MinGasPrice := 0\<rparr>) s0 = (s1, Ok ())"
    and dis: "forA (groupMsgTypeURLs (ue_typeURL ue)) (ue_DisableListSet ue) s1 = (s2, Ok ())"
    and run: "ue_RunMigrations ue (fromVM(ue_evmName ue \<mapsto> 1, ue_feemarketName ue \<mapsto> 1)) s2 = (s', Ok vm)"
    unfolding upgradeHandler_def Let_def by (auto simp: outcome_inv)
  have "fmk_GetParams (ue_FeeMarketKeeper ue) s1 = p\<lparr>fm_MinGasPrice := 0\<rparr>"
    using laws set unfolding upgrade_laws_def by blast
  with forA_disable [OF laws dis] run that groupMsgs_all(1) show thesis
    by (simp add: groupMsgTypeURLs_def)
qed

end
