(* ===== verification/App_Export.thy ===== *)
theory App_Export
  imports Cosmos_Env
begin

text \<open>
  Exporting the state of the application (\<^verbatim>\<open>app/export.go\<close>), with the preparation of a chain
  that restarts at height zero. The keepers, the address codecs and the iterators are arguments.
  The data of the staking and slashing modules is modelled by the fields the code reads or
  writes, with everything else of a value in one opaque field.
\<close>

section \<open>Data and calls\<close>

record 'x validator =
  v_OperatorAddress :: string
  v_UnbondingHeight :: int
  v_Jailed :: bool
  v_rest :: 'x

record delegation =
  del_ValidatorAddress :: string
  del_DelegatorAddress :: string

record 'x unbonding_entry =
  en_CreationHeight :: int
  en_rest :: 'x

record 'x redelegation =
  rd_Entries :: "'x unbonding_entry list"
  rd_rest :: 'x

record 'x unbonding_delegation =
  ubd_Entries :: "'x unbonding_entry list"
  ubd_rest :: 'x

record 'x signing_info =
  si_StartHeight :: int
  si_rest :: 'x

record 'c fee_pool =
  fp_CommunityPool :: 'c

text \<open>
  A callback of an iterator returns whether to stop. The calls that depend on the context get
  it as an argument, since the code changes its height on the way. \<open>ex_validatorKeys\<close> lists
  the addresses under the validators prefix in descending order.
\<close>

record ('s, 'x, 'c) export_env =
  ex_valCodec :: address_codec
  ex_accCodec :: address_codec
  ex_IterateValidators :: "sdk_context \<Rightarrow> ('x validator \<Rightarrow> ('s, bool) action) \<Rightarrow> ('s, unit) action"
  ex_GetAllDelegations :: "sdk_context \<Rightarrow> 's \<Rightarrow> delegation list outcome"
  ex_WithdrawValidatorCommission :: "sdk_context \<Rightarrow> bytes \<Rightarrow> ('s, 'c) action"
  ex_WithdrawDelegationRewards :: "sdk_context \<Rightarrow> bytes \<Rightarrow> bytes \<Rightarrow> ('s, 'c) action"
  ex_DeleteAllValidatorSlashEvents :: "sdk_context \<Rightarrow> 's \<Rightarrow> 's"
  ex_DeleteAllValidatorHistoricalRewards :: "sdk_context \<Rightarrow> 's \<Rightarrow> 's"
  ex_GetValidatorOutstandingRewardsCoins :: "sdk_context \<Rightarrow> 's \<Rightarrow> bytes \<Rightarrow> 'c outcome"
  ex_FeePool :: "('s, 'c fee_pool) store_item"
  ex_addCoins :: "'c \<Rightarrow> 'c \<Rightarrow> 'c"
  ex_AfterValidatorCreated :: "sdk_context \<Rightarrow> bytes \<Rightarrow> ('s, unit) action"
  ex_BeforeDelegationCreated :: "sdk_context \<Rightarrow> bytes \<Rightarrow> bytes \<Rightarrow> ('s, unit) action"
  ex_AfterDelegationModified :: "sdk_context \<Rightarrow> bytes \<Rightarrow> bytes \<Rightarrow> ('s, unit) action"
  ex_IterateRedelegations :: "sdk_context \<Rightarrow> ('x redelegation \<Rightarrow> ('s, bool) action) \<Rightarrow> ('s, unit) action"
  ex_SetRedelegation :: "sdk_context \<Rightarrow> 'x redelegation \<Rightarrow> ('s, unit) action"
  ex_IterateUnbondingDelegations :: "sdk_context \<Rightarrow> ('x unbonding_delegation \<Rightarrow> ('s, bool) action) \<Rightarrow> ('s, unit) action"
  ex_SetUnbondingDelegation :: "sdk_context \<Rightarrow> 'x unbonding_delegation \<Rightarrow> ('s, unit) action"
  ex_validatorKeys :: "'s \<Rightarrow> bytes list"
  ex_iterClose :: "unit outcome"
  ex_GetValidator :: "sdk_context \<Rightarrow> 's \<Rightarrow> bytes \<Rightarrow> 'x validator outcome"
  ex_SetValidator :: "sdk_context \<Rightarrow> 'x validator \<Rightarrow> ('s, unit) action"
  ex_ApplyAndReturnValidatorSetUpdates :: "sdk_context \<Rightarrow> ('s, unit) action"
  ex_IterateValidatorSigningInfos :: "sdk_context \<Rightarrow> (bytes \<Rightarrow> 'x signing_info \<Rightarrow> ('s, bool) action) \<Rightarrow> ('s, unit) action"
  ex_SetValidatorSigningInfo :: "sdk_context \<Rightarrow> bytes \<Rightarrow> 'x signing_info \<Rightarrow> ('s, unit) action"

text \<open>\<^verbatim>\<open>if err != nil { panic(err) }\<close> on a call, and \<^verbatim>\<open>_, _ = call()\<close>, which drops the result.\<close>

abbreviation must :: "('s, 'a) action \<Rightarrow> ('s, 'a) action" where
  "must m \<equiv> panicOnErr ''err'' m"

definition ignoreErr :: "('s, 'a) action \<Rightarrow> ('s, unit) action" where
  "ignoreErr m s = (case m s of (s', r) \<Rightarrow> (s', case r of Panic p \<Rightarrow> Panic p | _ \<Rightarrow> Ok ()))"

section \<open>Distribution state\<close>

definition checkAllowedAddrs :: "('s, 'x, 'c) export_env \<Rightarrow> string list \<Rightarrow> ('s, unit) action" where
  "checkAllowedAddrs ex jailAllowedAddrs =
     forA jailAllowedAddrs (\<lambda>addr.
       bindA (must (liftO (addr_StringToBytes (ex_valCodec ex) addr))) (\<lambda>_. returnA ()))"

definition withdrawCommissions :: "('s, 'x, 'c) export_env \<Rightarrow> sdk_context \<Rightarrow> ('s, unit) action" where
  "withdrawCommissions ex ctx =
     must (ex_IterateValidators ex ctx (\<lambda>val.
       bindA (must (liftO (addr_StringToBytes (ex_valCodec ex) (v_OperatorAddress val)))) (\<lambda>valBz.
       bindA (ignoreErr (ex_WithdrawValidatorCommission ex ctx valBz)) (\<lambda>_.
       returnA False))))"

definition withdrawRewards :: "('s, 'x, 'c) export_env \<Rightarrow> sdk_context \<Rightarrow> delegation list \<Rightarrow> ('s, unit) action" where
  "withdrawRewards ex ctx dels =
     forA dels (\<lambda>delegation.
       bindA (must (liftO (addr_StringToBytes (ex_valCodec ex) (del_ValidatorAddress delegation)))) (\<lambda>valAddr.
       bindA (must (liftO (addr_StringToBytes (ex_accCodec ex) (del_DelegatorAddress delegation)))) (\<lambda>delAddr.
       ignoreErr (ex_WithdrawDelegationRewards ex ctx delAddr valAddr))))"

definition clearDistribution :: "('s, 'x, 'c) export_env \<Rightarrow> sdk_context \<Rightarrow> ('s, unit) action" where
  "clearDistribution ex ctx s =
     (ex_DeleteAllValidatorHistoricalRewards ex ctx (ex_DeleteAllValidatorSlashEvents ex ctx s), Ok ())"

text \<open>The outstanding rewards of a validator are donated to the community pool.\<close>

definition reinitValidator :: "('s, 'x, 'c) export_env \<Rightarrow> sdk_context \<Rightarrow> 'x validator \<Rightarrow> ('s, bool) action" where
  "reinitValidator ex ctx val =
     bindA (must (liftO (addr_StringToBytes (ex_valCodec ex) (v_OperatorAddress val)))) (\<lambda>valBz.
     bindA (must (readA (\<lambda>s. ex_GetValidatorOutstandingRewardsCoins ex ctx s valBz))) (\<lambda>rewards.
     bindA (must (readA (item_Get (ex_FeePool ex)))) (\<lambda>feePool.
     bindA (must (item_Set (ex_FeePool ex)
              (feePool\<lparr>fp_CommunityPool := ex_addCoins ex (fp_CommunityPool feePool) rewards\<rparr>))) (\<lambda>_.
     bindA (must (ex_AfterValidatorCreated ex ctx valBz)) (\<lambda>_.
     returnA False)))))"

definition reinitDelegations :: "('s, 'x, 'c) export_env \<Rightarrow> sdk_context \<Rightarrow> delegation list \<Rightarrow> ('s, unit) action" where
  "reinitDelegations ex ctx dels =
     forA dels (\<lambda>del.
       bindA (must (liftO (addr_StringToBytes (ex_valCodec ex) (del_ValidatorAddress del)))) (\<lambda>valAddr.
       bindA (must (liftO (addr_StringToBytes (ex_accCodec ex) (del_DelegatorAddress del)))) (\<lambda>delAddr.
       bindA (panicOnErr ''error while incrementing period''
                (ex_BeforeDelegationCreated ex ctx delAddr valAddr)) (\<lambda>_.
       panicOnErr ''error while creating a new delegation period record''
         (ex_AfterDelegationModified ex ctx delAddr valAddr)))))"

section \<open>Staking and slashing state\<close>

definition resetEntries :: "'x unbonding_entry list \<Rightarrow> 'x unbonding_entry list" where
  "resetEntries es = map (\<lambda>e. e\<lparr>en_CreationHeight := 0\<rparr>) es"

definition resetRedelegations :: "('s, 'x, 'c) export_env \<Rightarrow> sdk_context \<Rightarrow> ('s, unit) action" where
  "resetRedelegations ex ctx =
     must (ex_IterateRedelegations ex ctx (\<lambda>red.
       bindA (must (ex_SetRedelegation ex ctx (red\<lparr>rd_Entries := resetEntries (rd_Entries red)\<rparr>))) (\<lambda>_.
       returnA False)))"

definition resetUnbondingDelegations :: "('s, 'x, 'c) export_env \<Rightarrow> sdk_context \<Rightarrow> ('s, unit) action" where
  "resetUnbondingDelegations ex ctx =
     must (ex_IterateUnbondingDelegations ex ctx (\<lambda>ubd.
       bindA (must (ex_SetUnbondingDelegation ex ctx (ubd\<lparr>ubd_Entries := resetEntries (ubd_Entries ubd)\<rparr>))) (\<lambda>_.
       returnA False)))"

definition resetValidator ::
  "('s, 'x, 'c) export_env \<Rightarrow> sdk_context \<Rightarrow> string list \<Rightarrow> bytes \<Rightarrow> ('s, unit) action" where
  "resetValidator ex ctx jailAllowedAddrs addr =
     (let applyAllowedAddrs = (0 < length jailAllowedAddrs) in
      bindA (panicOnErr ''expected validator, not found'' (readA (\<lambda>s. ex_GetValidator ex ctx s addr))) (\<lambda>validator.
      bindA (must (liftO (addr_BytesToString (ex_valCodec ex) addr))) (\<lambda>valAddr.
      let validator1 = validator\<lparr>v_UnbondingHeight := 0\<rparr>;
          validator2 = (if applyAllowedAddrs \<and> valAddr \<notin> set jailAllowedAddrs
                        then validator1\<lparr>v_Jailed := True\<rparr> else validator1)
      in must (ex_SetValidator ex ctx validator2))))"

definition resetValidators :: "('s, 'x, 'c) export_env \<Rightarrow> sdk_context \<Rightarrow> string list \<Rightarrow> ('s, unit) action" where
  "resetValidators ex ctx jailAllowedAddrs s =
     forA (ex_validatorKeys ex s) (resetValidator ex ctx jailAllowedAddrs) s"

definition resetSigningInfos :: "('s, 'x, 'c) export_env \<Rightarrow> sdk_context \<Rightarrow> ('s, unit) action" where
  "resetSigningInfos ex ctx =
     must (ex_IterateValidatorSigningInfos ex ctx (\<lambda>addr info.
       bindA (ignoreErr (ex_SetValidatorSigningInfo ex ctx addr (info\<lparr>si_StartHeight := 0\<rparr>))) (\<lambda>_.
       returnA False)))"

section \<open>The preparation and the export\<close>

text \<open>When the iterator cannot be closed the function logs and returns without the last steps.\<close>

definition finishZeroHeight :: "('s, 'x, 'c) export_env \<Rightarrow> sdk_context \<Rightarrow> ('s, unit) action" where
  "finishZeroHeight ex ctx =
     (case ex_iterClose ex of
        Ok _ \<Rightarrow>
          bindA (must (ex_ApplyAndReturnValidatorSetUpdates ex ctx)) (\<lambda>_.
          resetSigningInfos ex ctx)
      | Err _ \<Rightarrow> returnA ()
      | Panic p \<Rightarrow> liftO (Panic p))"

definition prepForZeroHeightGenesis ::
  "('s, 'x, 'c) export_env \<Rightarrow> sdk_context \<Rightarrow> string list \<Rightarrow> ('s, unit) action" where
  "prepForZeroHeightGenesis ex ctx jailAllowedAddrs =
     bindA (checkAllowedAddrs ex jailAllowedAddrs) (\<lambda>_.
     bindA (withdrawCommissions ex ctx) (\<lambda>_.
     bindA (must (readA (ex_GetAllDelegations ex ctx))) (\<lambda>dels.
     bindA (withdrawRewards ex ctx dels) (\<lambda>_.
     bindA (clearDistribution ex ctx) (\<lambda>_.
     let height = ctx_BlockHeight ctx;
         ctx0 = ctx\<lparr>ctx_BlockHeight := 0\<rparr>
     in
     bindA (must (ex_IterateValidators ex ctx0 (reinitValidator ex ctx0))) (\<lambda>_.
     bindA (reinitDelegations ex ctx0 dels) (\<lambda>_.
     let ctx1 = ctx0\<lparr>ctx_BlockHeight := height\<rparr> in
     bindA (resetRedelegations ex ctx1) (\<lambda>_.
     bindA (resetUnbondingDelegations ex ctx1) (\<lambda>_.
     bindA (resetValidators ex ctx1 jailAllowedAddrs) (\<lambda>_.
     finishZeroHeight ex ctx1))))))))))"

record ('j, 'v, 'cp) exported_app =
  ea_AppState :: 'j
  ea_Validators :: 'v
  ea_Height :: int
  ea_ConsensusParams :: 'cp

text \<open>
  \<open>newContext\<close> builds the context of a header with the given height; \<open>exportGenesis\<close> is the module manager's
  \<^verbatim>\<open>ExportGenesisForModules\<close>, \<open>marshal\<close> the JSON encoder, \<open>writeValidators\<close> the function
  of the staking module, whose error is returned beside the exported value.
\<close>

definition ExportAppStateAndValidators ::
  "('s, 'x, 'c) export_env \<Rightarrow> (int \<Rightarrow> sdk_context) \<Rightarrow> (string list \<Rightarrow> ('s, 'g) action) \<Rightarrow> ('g \<Rightarrow> 'j outcome) \<Rightarrow>
   ('s \<Rightarrow> 'v \<times> go_error option) \<Rightarrow> ('s \<Rightarrow> 'cp) \<Rightarrow> int \<Rightarrow> bool \<Rightarrow> string list \<Rightarrow> string list \<Rightarrow>
   ('s, ('j, 'v, 'cp) exported_app \<times> go_error option) action" where
  "ExportAppStateAndValidators ex newContext exportGenesis marshal writeValidators consensusParams
      lastBlockHeight forZeroHeight jailAllowedAddrs modulesToExport =
     (let ctx = newContext lastBlockHeight;
          height = go_int (lastBlockHeight + 1);
          height' = (if forZeroHeight then 0 else height)
      in
      bindA (if forZeroHeight then prepForZeroHeightGenesis ex ctx jailAllowedAddrs else returnA ()) (\<lambda>_.
      bindA (exportGenesis modulesToExport) (\<lambda>genState.
      bindA (liftO (marshal genState)) (\<lambda>appState.
      readA (\<lambda>s. case writeValidators s of (validators, err) \<Rightarrow>
        Ok (\<lparr>ea_AppState = appState, ea_Validators = validators, ea_Height = height',
             ea_ConsensusParams = consensusParams s\<rparr>, err))))))"
section \<open>No step returns an error\<close>

text \<open>The preparation has no error result: each of its steps completes or panics.\<close>

definition no_err :: "('s, 'a) action \<Rightarrow> bool" where
  "no_err m \<longleftrightarrow> (\<forall>s s' e. m s \<noteq> (s', Err e))"

named_theorems no_err_intros \<open>actions that complete or panic\<close>

lemma no_err_must [no_err_intros]: "no_err (panicOnErr msg m)"
  by (simp add: no_err_def panicOnErr_no_Err)

lemma no_err_ignoreErr [no_err_intros]: "no_err (ignoreErr m)"
  by (auto simp: no_err_def ignoreErr_def split: prod.splits outcome.splits)

lemma no_err_returnA [no_err_intros]: "no_err (returnA x)" "no_err (liftO (Panic p))" "no_err (clearDistribution ex ctx)"
  by (simp_all add: no_err_def returnA_def liftO_def clearDistribution_def)

lemma no_err_bindA [no_err_intros]: "no_err m \<Longrightarrow> (\<And>x. no_err (f x)) \<Longrightarrow> no_err (bindA m f)"
  by (auto simp: no_err_def bindA_def split: prod.splits outcome.splits)

lemma no_err_forA [no_err_intros]: "(\<And>x. no_err (body x)) \<Longrightarrow> no_err (forA xs body)"
  by (induction xs) (auto intro!: no_err_intros)

lemma no_err_resetValidators [no_err_intros]: "no_err (resetValidators ex ctx allowed)"
proof -
  have "no_err (forA ks (resetValidator ex ctx allowed))" for ks
    unfolding resetValidator_def Let_def by (intro no_err_intros)
  then show ?thesis unfolding no_err_def resetValidators_def by blast
qed

lemma no_err_prep: "no_err (prepForZeroHeightGenesis ex ctx allowed)"
proof -
  note steps = checkAllowedAddrs_def withdrawCommissions_def withdrawRewards_def reinitDelegations_def
    resetRedelegations_def resetUnbondingDelegations_def resetSigningInfos_def
  have last: "no_err (finishZeroHeight ex c)" for c
    unfolding finishZeroHeight_def by (cases "ex_iterClose ex") (simp_all add: resetSigningInfos_def no_err_intros)
  show ?thesis
    unfolding prepForZeroHeightGenesis_def Let_def by (intro no_err_intros last) (simp_all add: steps no_err_intros)
qed

lemma must_liftO: "bindA (must (liftO r)) f s = (case r of Ok x \<Rightarrow> f x s | Err _ \<Rightarrow> (s, Panic ''err'') | Panic p \<Rightarrow> (s, Panic p))"
  by (cases r) (simp_all add: bindA_def panicOnErr_def liftO_def)

lemma checkAllowedAddrs_Cons:
  "checkAllowedAddrs ex (a # as) s =
     (case addr_StringToBytes (ex_valCodec ex) a of
        Ok _ \<Rightarrow> checkAllowedAddrs ex as s | Err _ \<Rightarrow> (s, Panic ''err'') | Panic p \<Rightarrow> (s, Panic p))"
  by (cases "addr_StringToBytes (ex_valCodec ex) a")
    (simp_all add: checkAllowedAddrs_def must_liftO bindA_def [of "bindA _ _"] returnA_apply)

lemma checkAllowedAddrs_state: "fst (checkAllowedAddrs ex addrs s) = s"
  by (induction addrs) (simp_all add: checkAllowedAddrs_Cons split: outcome.split,
      simp add: checkAllowedAddrs_def returnA_apply)

lemma checkAllowedAddrs_iff:
  "snd (checkAllowedAddrs ex addrs s) = Ok () \<longleftrightarrow> (\<forall>a \<in> set addrs. is_ok (addr_StringToBytes (ex_valCodec ex) a))"
proof (induction addrs)
  case (Cons a as)
  then show ?case by (cases "addr_StringToBytes (ex_valCodec ex) a") (simp_all add: checkAllowedAddrs_Cons)
qed (simp add: checkAllowedAddrs_def returnA_apply)

section \<open>The validator reset\<close>

text \<open>
  The staking store: a validator is kept under the address that its operator field encodes, and
  setting it changes that entry only.
\<close>

definition validator_laws :: "('s, 'x, 'c) export_env \<Rightarrow> bool" where
  "validator_laws ex \<longleftrightarrow>
     (\<forall>ctx s a v. ex_GetValidator ex ctx s a = Ok v \<longrightarrow>
        addr_StringToBytes (ex_valCodec ex) (v_OperatorAddress v) = Ok a) \<and>
     (\<forall>ctx v a s s'. ex_SetValidator ex ctx v s = (s', Ok ()) \<and>
        addr_StringToBytes (ex_valCodec ex) (v_OperatorAddress v) = Ok a \<longrightarrow>
        ex_GetValidator ex ctx s' a = Ok v \<and>
        (\<forall>b. b \<noteq> a \<longrightarrow> ex_GetValidator ex ctx s' b = ex_GetValidator ex ctx s b))"

text \<open>What the reset makes of one validator.\<close>

definition zero_height_validator :: "string list \<Rightarrow> string \<Rightarrow> 'x validator \<Rightarrow> 'x validator" where
  "zero_height_validator allowed valAddr v =
     v\<lparr>v_UnbondingHeight := 0, v_Jailed := v_Jailed v \<or> allowed \<noteq> [] \<and> valAddr \<notin> set allowed\<rparr>"

lemma zero_height_validator_if:
  "(if 0 < length allowed \<and> str \<notin> set allowed then v\<lparr>v_UnbondingHeight := 0, v_Jailed := True\<rparr>
    else v\<lparr>v_UnbondingHeight := 0\<rparr>) = zero_height_validator allowed str v"
  by (cases v) (auto simp: zero_height_validator_def)

lemma resetValidator_Ok:
  assumes laws: "validator_laws ex" and ok: "resetValidator ex ctx allowed a s = (s', Ok ())"
  obtains v str where "ex_GetValidator ex ctx s a = Ok v" "addr_BytesToString (ex_valCodec ex) a = Ok str"
    "ex_GetValidator ex ctx s' a = Ok (zero_height_validator allowed str v)"
    "\<forall>b. b \<noteq> a \<longrightarrow> ex_GetValidator ex ctx s' b = ex_GetValidator ex ctx s b"
proof -
  from ok obtain v str where v: "ex_GetValidator ex ctx s a = Ok v" and str: "addr_BytesToString (ex_valCodec ex) a = Ok str"
    and set: "ex_SetValidator ex ctx (zero_height_validator allowed str v) s = (s', Ok ())"
    unfolding resetValidator_def Let_def zero_height_validator_if by (auto simp: outcome_inv)
  have "addr_StringToBytes (ex_valCodec ex) (v_OperatorAddress v) = Ok a"
    using laws v unfolding validator_laws_def by blast
  then have "addr_StringToBytes (ex_valCodec ex) (v_OperatorAddress (zero_height_validator allowed str v)) = Ok a"
    by (simp add: zero_height_validator_def)
  with laws set have "ex_GetValidator ex ctx s' a = Ok (zero_height_validator allowed str v)"
    "\<forall>b. b \<noteq> a \<longrightarrow> ex_GetValidator ex ctx s' b = ex_GetValidator ex ctx s b"
    unfolding validator_laws_def by blast+
  with v str show thesis by (rule that)
qed

lemma resetValidators_loop:
  assumes laws: "validator_laws ex" and ok: "forA ks (resetValidator ex ctx allowed) s = (s', Ok ())"
    and "distinct ks"
  shows "(\<forall>a \<in> set ks. \<exists>v str. ex_GetValidator ex ctx s a = Ok v \<and> addr_BytesToString (ex_valCodec ex) a = Ok str \<and>
        ex_GetValidator ex ctx s' a = Ok (zero_height_validator allowed str v)) \<and>
     (\<forall>a. a \<notin> set ks \<longrightarrow> ex_GetValidator ex ctx s' a = ex_GetValidator ex ctx s a)"
  using ok assms(3)
proof (induction ks arbitrary: s)
  case Nil
  then show ?case by (simp add: outcome_inv)
next
  case (Cons k ks)
  then obtain s1 where 1: "resetValidator ex ctx allowed k s = (s1, Ok ())"
    and 2: "forA ks (resetValidator ex ctx allowed) s1 = (s', Ok ())"
    by (auto simp: outcome_inv)
  from laws 1 obtain v str where "ex_GetValidator ex ctx s k = Ok v" "addr_BytesToString (ex_valCodec ex) k = Ok str"
    "ex_GetValidator ex ctx s1 k = Ok (zero_height_validator allowed str v)"
    "\<forall>b. b \<noteq> k \<longrightarrow> ex_GetValidator ex ctx s1 b = ex_GetValidator ex ctx s b"
    by (rule resetValidator_Ok)
  with Cons.IH [OF 2] Cons.prems(2) show ?case by simp metis
qed

end
