(* ===== verification/App_Mempool.thy ===== *)
theory App_Mempool
  imports Gnodi_Prelude
begin

text \<open>
  The installation of the EVM mempool (\<^verbatim>\<open>app/mempool.go\<close>) and the shutdown of the application
  (\<^verbatim>\<open>App.Close\<close>). Mempools, handlers and configurations are values of packages outside the
  repository; their constructors are arguments.
\<close>

section \<open>Installing the mempool\<close>

record ('an, 'lp) mempool_config =
  mc_AnteHandler :: 'an
  mc_LegacyPoolConfig :: 'lp
  mc_BlockGasLimit :: u64
  mc_MinTip :: "nat option"

text \<open>The fields of the application that the installation sets; \<open>None\<close> is a nil field.\<close>

record ('m, 'ct, 'pr, 'pc) mempool_slots =
  ms_EVMMempool :: "'m option"
  ms_Mempool :: "'m option"
  ms_CheckTxHandler :: "'ct option"
  ms_PrepareProposal :: "'pr option"
  ms_ProcessProposal :: "'pc option"

record ('opts, 'an, 'lp, 'm, 'ct, 'ph, 'pr, 'pc) mempool_env =
  me_chainConfigSet :: bool
  me_GetCosmosPoolMaxTx :: "'opts \<Rightarrow> int"
  me_GetAnteHandler :: 'an
  me_GetLegacyPoolConfig :: "'opts \<Rightarrow> 'lp"
  me_GetBlockGasLimit :: "'opts \<Rightarrow> u64"
  me_GetMinTip :: "'opts \<Rightarrow> nat option"
  me_NewMempool :: "('an, 'lp) mempool_config \<Rightarrow> int \<Rightarrow> 'm"
  me_NewCheckTxHandler :: "'m \<Rightarrow> 'ct"
  me_NewDefaultProposalHandler :: "'m \<Rightarrow> 'ph"
  me_SetEthSignerExtraction :: "'ph \<Rightarrow> 'ph"
  me_PrepareProposalHandler :: "'ph \<Rightarrow> 'pr"
  me_ProcessProposalHandler :: "'ph \<Rightarrow> 'pc"

definition createMempoolConfig ::
  "('opts, 'an, 'lp, 'm, 'ct, 'ph, 'pr, 'pc) mempool_env \<Rightarrow> 'opts \<Rightarrow> ('an, 'lp) mempool_config outcome" where
  "createMempoolConfig me appOpts =
     Ok \<lparr>mc_AnteHandler = me_GetAnteHandler me,
         mc_LegacyPoolConfig = me_GetLegacyPoolConfig me appOpts,
         mc_BlockGasLimit = me_GetBlockGasLimit me appOpts,
         mc_MinTip = me_GetMinTip me appOpts\<rparr>"

definition configureEVMMempool ::
  "('opts, 'an, 'lp, 'm, 'ct, 'ph, 'pr, 'pc) mempool_env \<Rightarrow> 'opts \<Rightarrow> (('m, 'ct, 'pr, 'pc) mempool_slots, unit) action" where
  "configureEVMMempool me appOpts app =
     (if \<not> me_chainConfigSet me then (app, Ok ())
      else
        let cosmosPoolMaxTx = me_GetCosmosPoolMaxTx me appOpts in
        if cosmosPoolMaxTx < 0 then (app, Ok ())
        else
          bindA (wrapErrA ''failed to get mempool config'' (liftO (createMempoolConfig me appOpts))) (\<lambda>mempoolConfig app.
          let evmMempool = me_NewMempool me mempoolConfig cosmosPoolMaxTx;
              app1 = app\<lparr>ms_EVMMempool := Some evmMempool, ms_Mempool := Some evmMempool\<rparr>;
              app2 = app1\<lparr>ms_CheckTxHandler := Some (me_NewCheckTxHandler me evmMempool)\<rparr>;
              abciProposalHandler = me_SetEthSignerExtraction me (me_NewDefaultProposalHandler me evmMempool);
              app3 = app2\<lparr>ms_PrepareProposal := Some (me_PrepareProposalHandler me abciProposalHandler)\<rparr>;
              app4 = app3\<lparr>ms_ProcessProposal := Some (me_ProcessProposalHandler me abciProposalHandler)\<rparr>
          in (app4, Ok ())) app)"

section \<open>Shutting down\<close>

text \<open>
  \<^verbatim>\<open>errors.Join\<close> keeps the errors that are not nil and is nil when there is none. A close
  returns a possibly nil error or panics. \<^verbatim>\<open>GetMempool\<close> converts the pointer field to an
  interface, which is not nil even when the pointer is: the type assertion in \<^verbatim>\<open>Close\<close> always
  succeeds, and the method runs on the pointer, nil (\<open>None\<close>) or not.
\<close>

fun errors_Join :: "go_error option list \<Rightarrow> go_error list option" where
  "errors_Join errs = (case [e. Some e \<leftarrow> errs] of [] \<Rightarrow> None | es \<Rightarrow> Some es)"

definition GetMempool :: "('m, 'ct, 'pr, 'pc) mempool_slots \<Rightarrow> 'm option" where
  "GetMempool app = ms_EVMMempool app"

definition App_Close ::
  "('m option \<Rightarrow> ('w, go_error option) action) \<Rightarrow> ('w, go_error option) action \<Rightarrow>
   ('m, 'ct, 'pr, 'pc) mempool_slots \<Rightarrow> ('w, go_error list option) action" where
  "App_Close closeMempool closeBase app =
     bindA (closeMempool (GetMempool app)) (\<lambda>mErr.
     bindA closeBase (\<lambda>bErr.
     returnA (errors_Join [mErr, bErr])))"

section \<open>Lemmas\<close>

lemma configureEVMMempool_Ok: "\<exists>app'. configureEVMMempool me appOpts app = (app', Ok ())"
  by (simp add: configureEVMMempool_def createMempoolConfig_def Let_def bindA_def wrapErrA_def liftO_def)

lemma configureEVMMempool_on:
  assumes "me_chainConfigSet me" and "0 \<le> me_GetCosmosPoolMaxTx me appOpts"
  obtains m where "ms_EVMMempool (fst (configureEVMMempool me appOpts app)) = Some m"
    "ms_Mempool (fst (configureEVMMempool me appOpts app)) = Some m"
    "ms_CheckTxHandler (fst (configureEVMMempool me appOpts app)) = Some (me_NewCheckTxHandler me m)"
    "\<exists>h. h = me_SetEthSignerExtraction me (me_NewDefaultProposalHandler me m) \<and>
       ms_PrepareProposal (fst (configureEVMMempool me appOpts app)) = Some (me_PrepareProposalHandler me h) \<and>
       ms_ProcessProposal (fst (configureEVMMempool me appOpts app)) = Some (me_ProcessProposalHandler me h)"
  using assms that
  by (simp add: configureEVMMempool_def createMempoolConfig_def Let_def bindA_def wrapErrA_def liftO_def)

text \<open>A close without error means both parts closed without error, the mempool first.\<close>

lemma App_Close_nil_error:
  "App_Close closeMempool closeBase app w = (w', Ok None) \<longleftrightarrow>
     (\<exists>w1. closeMempool (GetMempool app) w = (w1, Ok None) \<and> closeBase w1 = (w', Ok None))"
  by (force simp: App_Close_def outcome_inv split: option.splits list.splits)

text \<open>An application without a mempool closes only if the method survives a nil receiver.\<close>

lemma App_Close_nil_mempool:
  assumes "ms_EVMMempool app = None" and "closeMempool None w = (w1, Panic p)"
  shows "App_Close closeMempool closeBase app w = (w1, Panic p)"
  using assms by (simp add: App_Close_def GetMempool_def bindA_def)

end
