(* ===== verification/App_Reference.thy ===== *)
theory App_Reference
  imports App_Blocks Cosmos_Reference
begin

text \<open>
  An executable instance for the block hooks and the whole chain: a chain with the single denomination
  uGNOD, its supply, its balances, and the parameters of the fee market and of the distro module.
\<close>

record mono_chain =
  mo_supply :: int
  mo_balance :: "bytes \<Rightarrow> nat"
  mo_feemarket :: feemarket_params
  mo_params :: "params option"

definition only_uGNOD :: "coins \<Rightarrow> bool" where
  "only_uGNOD cs \<longleftrightarrow> (\<forall>c \<in> set cs. coin_Denom c = ''uGNOD'')"

definition uGNOD_coin :: "string \<Rightarrow> int \<Rightarrow> coin" where
  "uGNOD_coin d n = \<lparr>coin_Denom = d, coin_Amount = (if d = ''uGNOD'' then n else 0)\<rparr>"

definition mono_debit :: "bytes \<Rightarrow> coins \<Rightarrow> (mono_chain, unit) action" where
  "mono_debit a cs s =
     (if only_uGNOD cs \<and> 0 \<le> coins_amount ''uGNOD'' cs \<and> coins_amount ''uGNOD'' cs \<le> int (mo_balance s a)
      then (s\<lparr>mo_balance := (mo_balance s)(a := mo_balance s a - nat (coins_amount ''uGNOD'' cs))\<rparr>, Ok ())
      else (s, Err (ErrForeign ''insufficient funds'')))"

definition mono_credit :: "bytes \<Rightarrow> coins \<Rightarrow> (mono_chain, unit) action" where
  "mono_credit a cs s =
     (if only_uGNOD cs \<and> 0 \<le> coins_amount ''uGNOD'' cs
      then (s\<lparr>mo_balance := (mo_balance s)(a := mo_balance s a + nat (coins_amount ''uGNOD'' cs))\<rparr>, Ok ())
      else (s, Err (ErrForeign ''denomination'')))"

definition mono_issue :: "int \<Rightarrow> (mono_chain, unit) action" where
  "mono_issue n s = (s\<lparr>mo_supply := mo_supply s + n\<rparr>, Ok ())"

definition mono_bank :: "mono_chain bank_keeper" where
  "mono_bank =
     \<lparr>bank_GetSupply = (\<lambda>s d. uGNOD_coin d (mo_supply s)),
      bank_GetBalance = (\<lambda>s a d. uGNOD_coin d (int (mo_balance s a))),
      bank_GetAllBalances = (\<lambda>s a. if mo_balance s a = 0 then [] else [uGNOD_coin ''uGNOD'' (int (mo_balance s a))]),
      bank_MintCoins = (\<lambda>m cs. bindA (mono_credit (ref_module_address m) cs) (\<lambda>_. mono_issue (coins_amount ''uGNOD'' cs))),
      bank_BurnCoins = (\<lambda>m cs. bindA (mono_debit (ref_module_address m) cs) (\<lambda>_. mono_issue (- coins_amount ''uGNOD'' cs))),
      bank_SendCoinsFromModuleToAccount = (\<lambda>m a cs. bindA (mono_debit (ref_module_address m) cs) (\<lambda>_. mono_credit a cs)),
      bank_SendCoinsFromAccountToModule = (\<lambda>a m cs. bindA (mono_debit a cs) (\<lambda>_. mono_credit (ref_module_address m) cs))\<rparr>"

definition mono_feemarket :: "mono_chain feemarket_keeper" where
  "mono_feemarket =
     \<lparr>fmk_GetParams = mo_feemarket, fmk_SetParams = (\<lambda>p s. (s\<lparr>mo_feemarket := p\<rparr>, Ok ()))\<rparr>"

definition mono_env :: "mono_chain app_env" where
  "mono_env =
     \<lparr>app_lib = ref_lib, app_BankKeeper = mono_bank, app_FeeMarketKeeper = mono_feemarket, evm_ModuleName = ''evm'',
      coins_IsZero = (\<lambda>cs. cs = []), mm_PreBlock = returnA (), mm_BeginBlock = returnA (), mm_EndBlock = returnA ()\<rparr>"

lemma mono_env_sel [simp]:
  "app_lib mono_env = ref_lib" "app_BankKeeper mono_env = mono_bank" "app_FeeMarketKeeper mono_env = mono_feemarket"
  "evm_ModuleName mono_env = ''evm''" "coins_IsZero mono_env cs = (cs = [])" "mm_BeginBlock mono_env = returnA ()"
  by (simp_all add: mono_env_def)

lemma only_uGNOD_amount: "only_uGNOD cs \<Longrightarrow> d \<noteq> ''uGNOD'' \<Longrightarrow> coins_amount d cs = 0"
  by (induction cs) (auto simp: only_uGNOD_def)

lemma mono_debit_Ok:
  "mono_debit a cs s = (s', Ok ()) \<Longrightarrow>
     only_uGNOD cs \<and> 0 \<le> coins_amount ''uGNOD'' cs \<and> coins_amount ''uGNOD'' cs \<le> int (mo_balance s a) \<and>
     s' = s\<lparr>mo_balance := (mo_balance s)(a := mo_balance s a - nat (coins_amount ''uGNOD'' cs))\<rparr>"
  by (auto simp: mono_debit_def split: if_splits)

lemma mono_credit_Ok:
  "mono_credit a cs s = (s', Ok ()) \<Longrightarrow>
     only_uGNOD cs \<and> 0 \<le> coins_amount ''uGNOD'' cs \<and>
     s' = s\<lparr>mo_balance := (mo_balance s)(a := mo_balance s a + nat (coins_amount ''uGNOD'' cs))\<rparr>"
  by (auto simp: mono_credit_def split: if_splits)

lemma mono_burn_laws: "bank_burn_laws mono_env ref_module_address"
  by (auto simp: bank_burn_laws_def Let_def mono_bank_def uGNOD_coin_def mono_issue_def outcome_inv only_uGNOD_amount
      dest!: mono_debit_Ok mono_credit_Ok)

lemma mono_mint_laws: "bank_mint_laws mono_bank ref_module_address"
  by (auto simp: bank_mint_laws_def mono_bank_def uGNOD_coin_def mono_issue_def outcome_inv only_uGNOD_amount
      dest!: mono_debit_Ok mono_credit_Ok)

lemma mono_send_laws: "bank_send_laws mono_bank ref_module_address"
  by (auto simp: bank_send_laws_def mono_bank_def uGNOD_coin_def mono_issue_def outcome_inv only_uGNOD_amount
      dest!: mono_debit_Ok mono_credit_Ok)

text \<open>A chain on which the first of the listed accounts holds the whole supply.\<close>

definition exploited_chain :: mono_chain where
  "exploited_chain =
     \<lparr>mo_supply = 1000, mo_balance = (\<lambda>a. if a = string_bytes (hd securityBurnAccounts) then 1000 else 0),
      mo_feemarket = \<lparr>fm_NoBaseFee = False, fm_BaseFee = 1, fm_MinGasPrice = 1000000000\<rparr>, mo_params = None\<rparr>"

lemma burn_addresses_distinct: "distinct (map (sdk_AccAddressFromBech32 ref_lib) securityBurnAccounts)"
  by (simp add: securityBurnAccounts_def ref_lib_def)

lemma exploited_burn: "\<exists>s'. applySecurityBurn mono_env exploited_chain = (s', Ok ())"
proof -
  have d: "string_bytes ''gnodi18kmwswajr0khc2xuxy7s7mnljnsscd6x25s98x'' \<noteq> ref_module_address ''evm''"
    "string_bytes ''gnodi1drflazqqvadznpgaz5q4ypx8rm9gevhv7u645k'' \<noteq> ref_module_address ''evm''"
    "string_bytes ''gnodi1l9w2uje6z6gf23el4589sy55fkrp0ljxsq8vyl'' \<noteq> ref_module_address ''evm''"
    by (simp_all add: ref_module_address_def)
  have lib: "sdk_AccAddressFromBech32 ref_lib (c # cs) = Ok (string_bytes (c # cs))" for c cs
    by (simp add: ref_lib_def)
  show ?thesis
    using d d [symmetric]
    by (simp add: applySecurityBurn_def securityBurnAccounts_def burnAccount_def lib bindA_def outcome_simps wrapErrA_def
        mono_bank_def exploited_chain_def uGNOD_coin_def mono_debit_def mono_credit_def only_uGNOD_def mono_issue_def)
qed
section \<open>The distro keeper on this chain\<close>

definition mono_item :: "(mono_chain, params) store_item" where
  "mono_item =
     \<lparr>item_Get = (\<lambda>s. case mo_params s of Some p \<Rightarrow> Ok p | None \<Rightarrow> Err collections_ErrNotFound),
      item_Set = (\<lambda>p s. (s\<lparr>mo_params := Some p\<rparr>, Ok ()))\<rparr>"

definition mono_keeper :: "mono_chain keeper" where
  "mono_keeper =
     \<lparr>k_addressCodec = ref_codec, k_authority = string_bytes ''gov'', k_Params = mono_item, k_bankKeeper = mono_bank\<rparr>"

lemma mono_keeper_sel [simp]:
  "k_addressCodec mono_keeper = ref_codec" "k_authority mono_keeper = string_bytes ''gov''"
  "k_Params mono_keeper = mono_item" "k_bankKeeper mono_keeper = mono_bank"
  by (simp_all add: mono_keeper_def)

lemma mono_item_laws: "item_laws mono_item"
  by (auto simp: item_laws_def mono_item_def)

lemma mono_keeps_params:
  "mono_debit a cs s = (s', r) \<Longrightarrow> mo_params s' = mo_params s"
  "mono_credit a cs s = (s', r) \<Longrightarrow> mo_params s' = mo_params s"
  "mono_issue n s = (s', r) \<Longrightarrow> mo_params s' = mo_params s"
  by (auto simp: mono_debit_def mono_credit_def mono_issue_def split: if_splits)

lemma mono_bank_frame: "bank_frame mono_bank mono_item"
  unfolding bank_frame_def mono_bank_def mono_item_def
  by (auto simp: bindA_def split: prod.splits outcome.splits dest!: mono_keeps_params)

end
