(* ===== verification/App_Wiring.thy ===== *)
theory App_Wiring
  imports App_Modules
begin

text \<open>
  The construction of the application (\<^verbatim>\<open>New\<close> of \<^verbatim>\<open>app/app.go\<close> and \<^verbatim>\<open>registerIBCModules\<close> of
  \<^verbatim>\<open>app/ibc.go\<close>). Both are sequences of assignments whose right-hand sides call constructors of
  other packages. These constructors are not interpreted: an object is the term that built it. What
  the sequences decide themselves is kept: which field is copied by value, passed by pointer or
  by address, at which moment, and with which store key. In Go a field that is copied before its
  assignment gives a zero value without any error, and a store key that was not declared a nil key.
\<close>

section \<open>Fields, objects and assignments\<close>

datatype place =
    BaseApp | TxConfig | Configurator | SimulationManager | ModuleManager | BasicModuleManager
  | AccountKeeper | BankKeeper | StakingKeeper | SlashingKeeper | MintKeeper | DistrKeeper | GovKeeper
  | UpgradeKeeper | AuthzKeeper | EvidenceKeeper | FeeGrantKeeper | ConsensusParamsKeeper
  | CircuitBreakerKeeper | ParamsKeeper | EpochsKeeper | NftKeeper | GroupKeeper
  | IBCKeeper | TransferKeeper | ICAControllerKeeper | ICAHostKeeper
  | FeeMarketKeeper | EVMKeeper | Erc20Keeper | PreciseBankKeeper | DistroKeeper
  | Local string

text \<open>\<open>Zero\<close> is the zero value of a field that has not been assigned, \<open>NilKey\<close> a store key that is missing.\<close>

datatype go_obj =
    Zero place | Ref place | KVKey sdk_name | TransientKey sdk_name | NilKey
  | Modules "sdk_name list" | Const string | Call string "go_obj list"

text \<open>
  Right-hand sides: a field of a value type is copied, a field of a pointer type gives the pointer
  it holds, and \<open>Addr\<close> is the address of a field, which need not have been assigned.
\<close>

datatype go_expr =
    Copy place | Ptr place | Addr place | Key sdk_name | TKey sdk_name
  | Names "sdk_name list" | Sym string | App string "go_expr list"

type_synonym app_heap = "place \<rightharpoonup> go_obj"
type_synonym statement = "place \<times> go_expr"

definition copy_of :: "app_heap \<Rightarrow> place \<Rightarrow> go_obj" where
  "copy_of h p = (case h p of Some v \<Rightarrow> v | None \<Rightarrow> Zero p)"

fun eval_expr :: "sdk_name list \<Rightarrow> sdk_name list \<Rightarrow> app_heap \<Rightarrow> go_expr \<Rightarrow> go_obj" where
  "eval_expr keys tkeys h (Copy p) = copy_of h p"
| "eval_expr keys tkeys h (Ptr p) = (if h p = None then Zero p else Ref p)"
| "eval_expr keys tkeys h (Addr p) = Ref p"
| "eval_expr keys tkeys h (Key k) = (if k \<in> set keys then KVKey k else NilKey)"
| "eval_expr keys tkeys h (TKey k) = (if k \<in> set tkeys then TransientKey k else NilKey)"
| "eval_expr keys tkeys h (Names ms) = Modules ms"
| "eval_expr keys tkeys h (Sym c) = Const c"
| "eval_expr keys tkeys h (App f es) = Call f (map (eval_expr keys tkeys h) es)"

fun run :: "sdk_name list \<Rightarrow> sdk_name list \<Rightarrow> statement list \<Rightarrow> app_heap \<Rightarrow> app_heap" where
  "run keys tkeys [] h = h"
| "run keys tkeys ((p, e) # prog) h = run keys tkeys prog (h(p \<mapsto> eval_expr keys tkeys h e))"

section \<open>Recurring arguments\<close>

text \<open>The parts of the encoding configuration, which \<^verbatim>\<open>New\<close> also stores in the application.\<close>

abbreviation appCodec :: go_expr where "appCodec \<equiv> Copy (Local ''appCodec'')"
abbreviation legacyAmino :: go_expr where "legacyAmino \<equiv> Copy (Local ''legacyAmino'')"
abbreviation interfaceRegistry :: go_expr where "interfaceRegistry \<equiv> Copy (Local ''interfaceRegistry'')"
abbreviation txConfig :: go_expr where "txConfig \<equiv> Copy (Local ''txConfig'')"
abbreviation nil_arg :: go_expr where "nil_arg \<equiv> Sym ''nil''"

text \<open>The address of the governance account, as an address and as a string.\<close>

abbreviation govAddr :: go_expr where "govAddr \<equiv> Sym ''authtypes.NewModuleAddress(govtypes.ModuleName)''"
abbreviation authAddr :: go_expr where "authAddr \<equiv> App ''String'' [govAddr]"

abbreviation kvService :: "sdk_name \<Rightarrow> go_expr" where
  "kvService k \<equiv> App ''runtime.NewKVStoreService'' [Key k]"

abbreviation msgRouter :: go_expr where "msgRouter \<equiv> App ''MsgServiceRouter'' [Ptr BaseApp]"
abbreviation queryRouter :: go_expr where "queryRouter \<equiv> App ''GRPCQueryRouter'' [Ptr BaseApp]"
abbreviation channelKeeper :: go_expr where "channelKeeper \<equiv> App ''ChannelKeeper'' [Ptr IBCKeeper]"
abbreviation addressCodec :: go_expr where "addressCodec \<equiv> App ''AddressCodec'' [Copy AccountKeeper]"
abbreviation evmCodec :: "string \<Rightarrow> go_expr" where "evmCodec prefix \<equiv> App ''evmaddress.NewEvmCodec'' [Sym prefix]"
section \<open>The keepers\<close>

text \<open>The chain id of the EVM is an option; without it it is the zero that \<^verbatim>\<open>cast.ToUint64\<close> makes of nil.\<close>

definition encodingSetup :: "statement list" where
  "encodingSetup =
     [(Local ''evmChainID'', App ''cast.ToUint64'' [App ''appOpts.Get'' [Sym ''srvflags.EVMChainID'']]),
      (Local ''encodingConfig'', App ''evmencoding.MakeConfig'' [Copy (Local ''evmChainID'')]),
      (Local ''appCodec'', App ''Codec'' [Copy (Local ''encodingConfig'')]),
      (Local ''legacyAmino'', App ''Amino'' [Copy (Local ''encodingConfig'')]),
      (Local ''interfaceRegistry'', App ''InterfaceRegistry'' [Copy (Local ''encodingConfig'')]),
      (Local ''txConfig'', App ''TxConfig'' [Copy (Local ''encodingConfig'')])]"

text \<open>Up to the bank keeper, on which the final transaction configuration depends.\<close>

definition baseKeepers :: "statement list" where
  "baseKeepers =
     [(BaseApp, App ''baseapp.NewBaseApp'' [Sym ''Name'', Sym ''logger'', Sym ''db'', App ''TxDecoder'' [App ''TxConfig'' [Copy (Local ''encodingConfig'')]], Sym ''baseAppOptions'']),
      (BaseApp, App ''SetCommitMultiStoreTracer'' [Copy BaseApp, Sym ''traceStore'']),
      (BaseApp, App ''SetVersion'' [Copy BaseApp, Sym ''version.Version'']),
      (BaseApp, App ''SetInterfaceRegistry'' [Copy BaseApp, interfaceRegistry]),
      (BaseApp, App ''SetTxEncoder'' [Copy BaseApp, App ''TxEncoder'' [txConfig]]),
      (TxConfig, txConfig),
      (ConsensusParamsKeeper, App ''consensuskeeper.NewKeeper'' [appCodec, kvService Consensus, authAddr, Sym ''runtime.EventService'']),
      (BaseApp, App ''SetParamStore'' [Copy BaseApp, App ''ParamsStore'' [Copy ConsensusParamsKeeper]]),
      (ParamsKeeper, App ''paramskeeper.NewKeeper'' [appCodec, legacyAmino, Key ParamsName, TKey ParamsName]),
      (AccountKeeper, App ''authkeeper.NewAccountKeeper''
         [appCodec, kvService Auth, Sym ''authtypes.ProtoBaseAccount'', Sym ''maccPerms'',
          evmCodec ''Bech32AccountAddrPrefix'', Sym ''Bech32AccountAddrPrefix'', authAddr]),
      (BankKeeper, App ''bankkeeper.NewBaseKeeper''
         [appCodec, kvService Bank, Copy AccountKeeper, Sym ''blockedAddrs()'', authAddr, Sym ''logger''])]"

text \<open>The options of the transaction configuration.\<close>

definition txConfigOpts :: go_expr where
  "txConfigOpts = App ''authtx.ConfigOptions''
     [App ''append'' [Sym ''authtx.DefaultSignModes'', Sym ''SignMode_SIGN_MODE_TEXTUAL''],
      App ''txmodule.NewBankKeeperCoinMetadataQueryFn'' [Copy BankKeeper]]"

definition sdkKeepers :: "statement list" where
  "sdkKeepers =
     [(TxConfig, App ''authtx.NewTxConfigWithOptions'' [appCodec, txConfigOpts]),
      (StakingKeeper, App ''stakingkeeper.NewKeeper''
         [appCodec, kvService Staking, Copy AccountKeeper, Copy BankKeeper, authAddr,
          evmCodec ''Bech32ValidatorAddrPrefix'', evmCodec ''Bech32ConsensusAddrPrefix'']),
      (MintKeeper, App ''mintkeeper.NewKeeper''
         [appCodec, kvService SdkMint, Ptr StakingKeeper, Copy AccountKeeper, Copy BankKeeper,
          Sym ''authtypes.FeeCollectorName'', authAddr]),
      (DistrKeeper, App ''distrkeeper.NewKeeper''
         [appCodec, kvService Distribution, Copy AccountKeeper, Copy BankKeeper, Ptr StakingKeeper,
          Sym ''authtypes.FeeCollectorName'', authAddr]),
      (SlashingKeeper, App ''slashingkeeper.NewKeeper''
         [appCodec, legacyAmino, kvService Slashing, Ptr StakingKeeper, authAddr]),
      (FeeGrantKeeper, App ''feegrantkeeper.NewKeeper'' [appCodec, kvService Feegrant, Copy AccountKeeper]),
      (StakingKeeper, App ''SetHooks''
         [Copy StakingKeeper, App ''stakingtypes.NewMultiStakingHooks''
            [App ''Hooks'' [Copy DistrKeeper], App ''Hooks'' [Copy SlashingKeeper]]]),
      (AuthzKeeper, App ''authzkeeper.NewKeeper'' [kvService Authz, appCodec, msgRouter, Copy AccountKeeper]),
      (UpgradeKeeper, App ''upgradekeeper.NewKeeper''
         [Sym ''skipUpgradeHeights'', kvService Upgrade, appCodec, Sym ''homePath'', Ptr BaseApp, authAddr]),
      (Local ''govKeeper'', App ''govkeeper.NewKeeper''
         [appCodec, kvService Gov, Copy AccountKeeper, Copy BankKeeper, Ptr StakingKeeper, Copy DistrKeeper,
          msgRouter, Sym ''govtypes.DefaultConfig'', authAddr]),
      (GovKeeper, App ''SetHooks'' [Copy (Local ''govKeeper''), App ''govtypes.NewMultiGovHooks'' []]),
      (Local ''evidenceKeeper'', App ''evidencekeeper.NewKeeper''
         [appCodec, kvService Evidence, Ptr StakingKeeper, Copy SlashingKeeper, addressCodec, Sym ''runtime.ProvideCometInfoService'']),
      (EvidenceKeeper, Copy (Local ''evidenceKeeper'')),
      (CircuitBreakerKeeper, App ''circuitkeeper.NewKeeper'' [appCodec, kvService Circuit, authAddr, addressCodec]),
      (BaseApp, App ''SetCircuitBreaker'' [Copy BaseApp, Addr CircuitBreakerKeeper]),
      (NftKeeper, App ''nftkeeper.NewKeeper'' [kvService Nft, appCodec, Copy AccountKeeper, Copy BankKeeper]),
      (GroupKeeper, App ''groupkeeper.NewKeeper'' [Key Group, appCodec, msgRouter, Copy AccountKeeper, Sym ''group.DefaultConfig'']),
      (EpochsKeeper, App ''epochskeeper.NewKeeper'' [kvService Epochs, appCodec]),
      (IBCKeeper, App ''ibckeeper.NewKeeper'' [appCodec, kvService Ibc, nil_arg, Ptr UpgradeKeeper, authAddr])]"

text \<open>
  The EVM keepers. The EVM keeper gets the whole map of store keys, and the addresses of the
  ERC-20 and transfer keepers, which are assigned later.
\<close>

definition evmKeepers :: "statement list" where
  "evmKeepers =
     [(FeeMarketKeeper, App ''feemarketkeeper.NewKeeper'' [appCodec, govAddr, Key FeeMarket, TKey FeeMarket]),
      (PreciseBankKeeper, App ''precisebankkeeper.NewKeeper'' [appCodec, Key PreciseBank, Copy BankKeeper, Copy AccountKeeper]),
      (EVMKeeper, App ''WithStaticPrecompiles''
         [App ''WithDefaultEvmCoinInfo''
            [App ''evmkeeper.NewKeeper''
               [appCodec, Key Evm, TKey Evm, Sym ''keys'', govAddr, Copy AccountKeeper, Copy PreciseBankKeeper,
                Ptr StakingKeeper, Copy FeeMarketKeeper, Addr ConsensusParamsKeeper, Addr Erc20Keeper,
                Copy (Local ''evmChainID''), Sym ''tracer''],
             App ''evmtypes.EvmCoinInfo'' [Sym ''uGNOD'', Sym ''aGNOD'', Sym ''GNOD'', Sym ''SixDecimals'']],
          App ''precompiletypes.DefaultStaticPrecompiles''
            [Copy StakingKeeper, Copy DistrKeeper, Copy PreciseBankKeeper, Addr Erc20Keeper, Addr TransferKeeper,
             channelKeeper, Copy GovKeeper, Copy SlashingKeeper, appCodec]]),
      (Erc20Keeper, App ''erc20keeper.NewKeeper''
         [Key Erc20, appCodec, govAddr, Copy AccountKeeper, Copy PreciseBankKeeper, Ptr EVMKeeper,
          Ptr StakingKeeper, Addr TransferKeeper])]"

section \<open>The IBC stacks\<close>

text \<open>\<^verbatim>\<open>registerIBCModules\<close> up to the assembled stack of version 1.\<close>

definition ibcStack :: "statement list" where
  "ibcStack =
     [(ICAHostKeeper, App ''icahostkeeper.NewKeeper''
         [appCodec, kvService IcaHost, nil_arg, channelKeeper, channelKeeper, Copy AccountKeeper, msgRouter, queryRouter, authAddr]),
      (ICAControllerKeeper, App ''icacontrollerkeeper.NewKeeper''
         [appCodec, kvService IcaController, nil_arg, channelKeeper, channelKeeper, msgRouter, authAddr]),
      (TransferKeeper, App ''transferkeeper.NewKeeper''
         [appCodec, kvService Transfer, nil_arg, channelKeeper, channelKeeper, msgRouter, Copy AccountKeeper, Copy BankKeeper, authAddr]),
      (TransferKeeper, App ''SetAddressCodec'' [Copy TransferKeeper, evmCodec ''Bech32AccountAddrPrefix'']),
      (Local ''transferStack'', App ''transfer.NewIBCModule'' [Copy TransferKeeper]),
      (Local ''transferStack'', App ''erc20.NewIBCMiddleware'' [Copy Erc20Keeper, Copy (Local ''transferStack'')]),
      (Local ''callbackKeeper'', App ''ibccallbackskeeper.NewKeeper'' [Copy AccountKeeper, Ptr EVMKeeper, Copy Erc20Keeper]),
      (Local ''transferStack'', App ''ibccallbacks.NewIBCMiddleware''
         [Copy (Local ''transferStack''), channelKeeper, Copy (Local ''callbackKeeper''), Sym ''1000000''])]"

text \<open>The rest: the keeper's wrapper is bound to the stack, and the routers are filled.\<close>

definition ibcRouting :: "statement list" where
  "ibcRouting =
     [(TransferKeeper, App ''WithICS4Wrapper'' [Copy TransferKeeper, Copy (Local ''transferStack'')]),
      (Local ''transferStackV2'', App ''transferv2.NewIBCModule'' [Copy TransferKeeper]),
      (Local ''transferStackV2'', App ''erc20v2.NewIBCMiddleware'' [Copy (Local ''transferStackV2''), Copy Erc20Keeper]),
      (Local ''icaControllerStack'', App ''icacontroller.NewIBCMiddleware'' [Copy ICAControllerKeeper]),
      (Local ''icaHostStack'', App ''icahost.NewIBCModule'' [Copy ICAHostKeeper]),
      (Local ''ibcRouter'', App ''AddRoute''
         [App ''AddRoute''
            [App ''AddRoute'' [App ''porttypes.NewRouter'' [], Names [Transfer], Copy (Local ''transferStack'')],
             Names [IcaController], Copy (Local ''icaControllerStack'')],
          Names [IcaHost], Copy (Local ''icaHostStack'')]),
      (IBCKeeper, App ''SetRouter'' [Copy IBCKeeper, Copy (Local ''ibcRouter'')]),
      (Local ''ibcv2Router'', App ''AddRoute'' [App ''ibcapi.NewRouter'' [], Names [Transfer], Copy (Local ''transferStackV2'')]),
      (IBCKeeper, App ''SetRouterV2'' [Copy IBCKeeper, Copy (Local ''ibcv2Router'')])]"

text \<open>\<open>isICS4Wrapper\<close> is the outcome of the type assertion on the assembled stack.\<close>

definition registerIBCModules ::
  "(go_obj \<Rightarrow> bool) \<Rightarrow> sdk_name list \<Rightarrow> sdk_name list \<Rightarrow> app_heap \<Rightarrow> app_heap outcome" where
  "registerIBCModules isICS4Wrapper keys tkeys h =
     (let h1 = run keys tkeys ibcStack h in
      if \<not> isICS4Wrapper (copy_of h1 (Local ''transferStack'')) then
        Panic ''transfer middleware stack does not implement porttypes.ICS4Wrapper''
      else Ok (run keys tkeys ibcRouting h1))"
section \<open>Modules and hooks\<close>

definition distroWiring :: "statement list" where
  "distroWiring =
     [(DistroKeeper, App ''distromodulekeeper.NewKeeper''
         [kvService Distro, appCodec, evmCodec ''Bech32AccountAddrPrefix'', govAddr, Copy BankKeeper, Copy AccountKeeper]),
      (Local ''tmLightClientModule'', App ''ibctm.NewLightClientModule''
         [appCodec, App ''ClientKeeper.GetStoreProvider'' [Ptr IBCKeeper]]),
      (IBCKeeper, App ''ClientKeeper.AddRoute'' [Copy IBCKeeper, Names [IbcTm], Addr (Local ''tmLightClientModule'')]),
      (Local ''transferModule'', App ''ibctransfer.NewAppModule'' [Copy TransferKeeper])]"

text \<open>The arguments of \<^verbatim>\<open>module.NewManager\<close>, each with the module it constructs.\<close>

definition moduleObjects :: "(sdk_name \<times> go_expr) list" where
  "moduleObjects =
     [(Genutil, App ''genutil.NewAppModule'' [Copy AccountKeeper, Ptr StakingKeeper, Sym ''app'', Copy TxConfig]),
      (Auth, App ''auth.NewAppModule'' [appCodec, Copy AccountKeeper, Sym ''authsims.RandomGenesisAccounts'', nil_arg]),
      (Vesting, App ''vesting.NewAppModule'' [Copy AccountKeeper, Copy BankKeeper]),
      (Bank, App ''bank.NewAppModule'' [appCodec, Copy BankKeeper, Copy AccountKeeper, nil_arg]),
      (Feegrant, App ''feegrantmodule.NewAppModule'' [appCodec, Copy AccountKeeper, Copy BankKeeper, Copy FeeGrantKeeper, interfaceRegistry]),
      (Gov, App ''gov.NewAppModule'' [appCodec, Addr GovKeeper, Copy AccountKeeper, Copy BankKeeper, nil_arg]),
      (SdkMint, App ''mint.NewAppModule'' [appCodec, Copy MintKeeper, Copy AccountKeeper, nil_arg, nil_arg]),
      (Slashing, App ''slashing.NewAppModule''
         [appCodec, Copy SlashingKeeper, Copy AccountKeeper, Copy BankKeeper, Ptr StakingKeeper, nil_arg, interfaceRegistry]),
      (Distribution, App ''distr.NewAppModule'' [appCodec, Copy DistrKeeper, Copy AccountKeeper, Copy BankKeeper, Ptr StakingKeeper, nil_arg]),
      (Staking, App ''staking.NewAppModule'' [appCodec, Ptr StakingKeeper, Copy AccountKeeper, Copy BankKeeper, nil_arg]),
      (Upgrade, App ''upgrade.NewAppModule'' [Ptr UpgradeKeeper, addressCodec]),
      (Evidence, App ''evidence.NewAppModule'' [Copy EvidenceKeeper]),
      (Authz, App ''authzmodule.NewAppModule'' [appCodec, Copy AuthzKeeper, Copy AccountKeeper, Copy BankKeeper, interfaceRegistry]),
      (Consensus, App ''consensus.NewAppModule'' [appCodec, Copy ConsensusParamsKeeper]),
      (Circuit, App ''circuitmodule.NewAppModule'' [appCodec, Copy CircuitBreakerKeeper]),
      (Nft, App ''nftmodule.NewAppModule'' [appCodec, Copy NftKeeper, Copy AccountKeeper, Copy BankKeeper, interfaceRegistry]),
      (Group, App ''groupmodule.NewAppModule'' [appCodec, Copy GroupKeeper, Copy AccountKeeper, Copy BankKeeper, interfaceRegistry]),
      (ParamsName, App ''paramsmodule.NewAppModule'' [Copy ParamsKeeper]),
      (Epochs, App ''epochs.NewAppModule'' [Copy EpochsKeeper]),
      (Ibc, App ''ibc.NewAppModule'' [Ptr IBCKeeper]),
      (IbcTm, App ''ibctm.NewAppModule'' [Copy (Local ''tmLightClientModule'')]),
      (Transfer, Copy (Local ''transferModule'')),
      (Ica, App ''icamodule.NewAppModule'' [Addr ICAControllerKeeper, Addr ICAHostKeeper]),
      (Evm, App ''vm.NewAppModule'' [Ptr EVMKeeper, Copy AccountKeeper, Copy BankKeeper, addressCodec]),
      (FeeMarket, App ''feemarket.NewAppModule'' [Copy FeeMarketKeeper]),
      (Erc20, App ''erc20.NewAppModule'' [Copy Erc20Keeper, Copy AccountKeeper]),
      (PreciseBank, App ''precisebank.NewAppModule'' [Copy PreciseBankKeeper, Copy BankKeeper, Copy AccountKeeper]),
      (Distro, App ''distromodule.NewAppModule'' [appCodec, Copy DistroKeeper, Copy AccountKeeper, Copy BankKeeper])]"

definition moduleWiring :: "statement list" where
  "moduleWiring =
     [(ModuleManager, App ''module.NewManager'' (map snd moduleObjects)),
      (BasicModuleManager, App ''module.NewBasicManagerFromManager''
         [Ptr ModuleManager, App ''genutil.NewAppModuleBasic'' [Sym ''genutiltypes.DefaultMessageValidator''],
          App ''gov.NewAppModuleBasic'' [nil_arg], Sym ''ibctransfer.AppModuleBasic'']),
      (ModuleManager, App ''SetOrderPreBlockers'' [Copy ModuleManager, Names orderPreBlockers]),
      (ModuleManager, App ''SetOrderBeginBlockers'' [Copy ModuleManager, Names orderBeginBlockers]),
      (ModuleManager, App ''SetOrderEndBlockers'' [Copy ModuleManager, Names orderEndBlockers]),
      (ModuleManager, App ''SetOrderInitGenesis'' [Copy ModuleManager, Names genesisModuleOrder]),
      (ModuleManager, App ''SetOrderExportGenesis'' [Copy ModuleManager, Names genesisModuleOrder]),
      (Configurator, App ''module.NewConfigurator'' [appCodec, msgRouter, queryRouter])]"

definition serviceWiring :: "statement list" where
  "serviceWiring =
     [(BaseApp, App ''autocliv1.RegisterQueryServer''
         [Copy BaseApp, App ''runtimeservices.NewAutoCLIQueryService'' [App ''Modules'' [Ptr ModuleManager]]])]"

definition reflectionWiring :: "statement list" where
  "reflectionWiring =
     [(Local ''reflectionSvc'', App ''runtimeservices.NewReflectionService'' []),
      (BaseApp, App ''reflectionv1.RegisterReflectionServiceServer'' [Copy BaseApp, Copy (Local ''reflectionSvc'')])]"

definition hookWiring :: "statement list" where
  "hookWiring =
     [(SimulationManager, App ''module.NewSimulationManagerFromAppModules''
         [App ''Modules'' [Ptr ModuleManager],
          App ''auth.NewAppModule'' [appCodec, Copy AccountKeeper, Sym ''authsims.RandomGenesisAccounts'', nil_arg]]),
      (BaseApp, App ''MountKVStores'' [Copy BaseApp, Names kvStoreKeys]),
      (BaseApp, App ''MountTransientStores'' [Copy BaseApp, Names transientStoreKeys]),
      (BaseApp, App ''SetInitChainer'' [Copy BaseApp, Sym ''app.InitChainer'']),
      (BaseApp, App ''SetPreBlocker'' [Copy BaseApp, Sym ''app.PreBlocker'']),
      (BaseApp, App ''SetBeginBlocker'' [Copy BaseApp, Sym ''app.BeginBlocker'']),
      (BaseApp, App ''SetEndBlocker'' [Copy BaseApp, Sym ''app.EndBlocker''])]"

section \<open>The whole construction\<close>

text \<open>
  The calls of \<^verbatim>\<open>New\<close> that may fail. Three of them are functions of the application that this
  development models elsewhere; they write what \<^verbatim>\<open>New\<close> leaves to them: \<open>'rt\<close> is the part of the
  application that they read and write.
\<close>

record 'rt new_env =
  ne_RegisterStreamingServices :: "unit outcome"
  ne_NewTxConfigWithOptions :: "unit outcome"
  ne_isICS4Wrapper :: "go_obj \<Rightarrow> bool"
  ne_RegisterServices :: "unit outcome"
  ne_RegisterUpgradeHandlers :: "'rt \<Rightarrow> 'rt outcome"
  ne_NewReflectionService :: "unit outcome"
  ne_setAnteHandler :: "'rt \<Rightarrow> 'rt outcome"
  ne_NewPostHandler :: "unit outcome"
  ne_configureEVMMempool :: "'rt \<Rightarrow> 'rt outcome"
  ne_MergedRegistry :: "unit outcome"
  ne_ValidateProtoAnnotations :: "unit outcome"
  ne_LoadLatestVersion :: "unit outcome"

text \<open>An error that is only printed.\<close>

definition printErr :: "unit outcome \<Rightarrow> unit outcome" where
  "printErr r = (case r of Panic p \<Rightarrow> Panic p | _ \<Rightarrow> Ok ())"

definition setPostHandler :: "'rt new_env \<Rightarrow> app_heap \<Rightarrow> app_heap outcome" where
  "setPostHandler ne h =
     bindO (mustO ''post handler'' (ne_NewPostHandler ne)) (\<lambda>_.
     Ok (h(BaseApp \<mapsto> Call ''SetPostHandler'' [copy_of h BaseApp, Const ''postHandler''])))"

text \<open>\<^verbatim>\<open>New\<close> up to the configurator, the services of the modules, and what follows the hooks.\<close>

definition newKeepers :: "'rt new_env \<Rightarrow> app_heap outcome" where
  "newKeepers ne =
     (let keys = kvStoreKeys; tkeys = transientStoreKeys in
      bindO (mustO ''exit_1'' (ne_RegisterStreamingServices ne)) (\<lambda>_.
      let h1 = run keys tkeys baseKeepers (run keys tkeys encodingSetup Map.empty) in
      bindO (mustO ''tx config'' (ne_NewTxConfigWithOptions ne)) (\<lambda>_.
      let h2 = run keys tkeys evmKeepers (run keys tkeys sdkKeepers h1) in
      bindO (mustO ''ibc modules'' (registerIBCModules (ne_isICS4Wrapper ne) keys tkeys h2)) (\<lambda>h3.
      Ok (run keys tkeys moduleWiring (run keys tkeys distroWiring h3))))))"

definition newServices :: "'rt new_env \<Rightarrow> app_heap \<Rightarrow> 'rt \<Rightarrow> (app_heap \<times> 'rt) outcome" where
  "newServices ne h rt =
     bindO (mustO ''failed to register module services'' (ne_RegisterServices ne)) (\<lambda>_.
     bindO (mustO ''upgrade handlers'' (ne_RegisterUpgradeHandlers ne rt)) (\<lambda>rt1.
     let h1 = run kvStoreKeys transientStoreKeys serviceWiring h in
     bindO (mustO ''reflection service'' (ne_NewReflectionService ne)) (\<lambda>_.
     Ok (run kvStoreKeys transientStoreKeys reflectionWiring h1, rt1))))"

definition newHandlers :: "'rt new_env \<Rightarrow> bool \<Rightarrow> app_heap \<Rightarrow> 'rt \<Rightarrow> (app_heap \<times> 'rt) outcome" where
  "newHandlers ne loadLatest h rt =
     bindO (mustO ''ante handler'' (ne_setAnteHandler ne rt)) (\<lambda>rt1.
     bindO (setPostHandler ne h) (\<lambda>h1.
     bindO (mustO ''failed to configure EVM mempool'' (ne_configureEVMMempool ne rt1)) (\<lambda>rt2.
     bindO (mustO ''proto registry'' (ne_MergedRegistry ne)) (\<lambda>_.
     bindO (printErr (ne_ValidateProtoAnnotations ne)) (\<lambda>_.
     bindO (if loadLatest then mustO ''exit_1'' (ne_LoadLatestVersion ne) else Ok ()) (\<lambda>_.
     Ok (h1, rt2)))))))"

definition New :: "'rt new_env \<Rightarrow> bool \<Rightarrow> 'rt \<Rightarrow> (app_heap \<times> 'rt) outcome" where
  "New ne loadLatest rt =
     bindO (newKeepers ne) (\<lambda>h.
     bindO (newServices ne h rt) (\<lambda>(h1, rt1).
     newHandlers ne loadLatest (run kvStoreKeys transientStoreKeys hookWiring h1) rt1))"

lemmas New_defs = New_def newKeepers_def newServices_def newHandlers_def

section \<open>Plans in which nothing is read too early\<close>

text \<open>An object is sound over a set of places if it has no zero value, no nil key and no pointer out of the set.\<close>

fun sound_obj :: "place set \<Rightarrow> go_obj \<Rightarrow> bool" where
  "sound_obj R (Zero p) \<longleftrightarrow> False"
| "sound_obj R (Ref p) \<longleftrightarrow> p \<in> R"
| "sound_obj R NilKey \<longleftrightarrow> False"
| "sound_obj R (KVKey k) \<longleftrightarrow> True"
| "sound_obj R (TransientKey k) \<longleftrightarrow> True"
| "sound_obj R (Modules ms) \<longleftrightarrow> True"
| "sound_obj R (Const c) \<longleftrightarrow> True"
| "sound_obj R (Call f vs) \<longleftrightarrow> (\<forall>v \<in> set vs. sound_obj R v)"

text \<open>The expression reads assigned places only (\<open>D\<close>), takes addresses of places of \<open>R\<close> and uses declared keys.\<close>

fun ready :: "sdk_name list \<Rightarrow> sdk_name list \<Rightarrow> place list \<Rightarrow> place list \<Rightarrow> go_expr \<Rightarrow> bool" where
  "ready keys tkeys R D (Copy p) \<longleftrightarrow> p \<in> set D"
| "ready keys tkeys R D (Ptr p) \<longleftrightarrow> p \<in> set D"
| "ready keys tkeys R D (Addr p) \<longleftrightarrow> p \<in> set R"
| "ready keys tkeys R D (Key k) \<longleftrightarrow> k \<in> set keys"
| "ready keys tkeys R D (TKey k) \<longleftrightarrow> k \<in> set tkeys"
| "ready keys tkeys R D (Names ms) \<longleftrightarrow> True"
| "ready keys tkeys R D (Sym c) \<longleftrightarrow> True"
| "ready keys tkeys R D (App f es) \<longleftrightarrow> list_all (ready keys tkeys R D) es"

fun scheduled :: "sdk_name list \<Rightarrow> sdk_name list \<Rightarrow> place list \<Rightarrow> place list \<Rightarrow> statement list \<Rightarrow> bool" where
  "scheduled keys tkeys R D [] \<longleftrightarrow> True"
| "scheduled keys tkeys R D ((p, e) # prog) \<longleftrightarrow>
     p \<in> set R \<and> ready keys tkeys R D e \<and> scheduled keys tkeys R (p # D) prog"

fun expr_keys :: "go_expr \<Rightarrow> sdk_name list" where
  "expr_keys (Key k) = [k]"
| "expr_keys (App f es) = concat (map expr_keys es)"
| "expr_keys _ = []"

lemma run_append [simp]: "run keys tkeys (xs @ ys) h = run keys tkeys ys (run keys tkeys xs h)"
  by (induction xs arbitrary: h) auto

lemma dom_run: "dom (run keys tkeys prog h) = fst ` set prog \<union> dom h"
proof (induction prog arbitrary: h)
  case (Cons s prog)
  then show ?case by (cases s) (auto simp: dom_def)
qed simp

lemma run_other: "p \<notin> fst ` set prog \<Longrightarrow> run keys tkeys prog h p = h p"
  by (induction prog arbitrary: h) auto

definition sound_heap :: "place set \<Rightarrow> app_heap \<Rightarrow> bool" where
  "sound_heap R h \<longleftrightarrow> (\<forall>p v. h p = Some v \<longrightarrow> p \<in> R \<and> sound_obj R v)"

lemma sound_heap_update: "sound_heap R h \<Longrightarrow> p \<in> R \<Longrightarrow> sound_obj R v \<Longrightarrow> sound_heap R (h(p \<mapsto> v))"
  by (simp add: sound_heap_def)

lemma eval_expr_sound:
  assumes "sound_heap (set R) h" and "set D \<subseteq> dom h"
  shows "ready keys tkeys R D e \<Longrightarrow> sound_obj (set R) (eval_expr keys tkeys h e)"
proof (induction e)
  case (Copy p)
  with assms show ?case by (auto simp: copy_of_def sound_heap_def)
next
  case (Ptr p)
  with assms show ?case by (auto simp: sound_heap_def)
qed (auto simp: list_all_iff)

lemma run_sound:
  "scheduled keys tkeys R D prog \<Longrightarrow> sound_heap (set R) h \<Longrightarrow> set D \<subseteq> dom h \<Longrightarrow>
     sound_heap (set R) (run keys tkeys prog h)"
proof (induction prog arbitrary: D h)
  case (Cons s prog)
  obtain p e where s: "s = (p, e)" by force
  with Cons.prems have "sound_heap (set R) (h(p \<mapsto> eval_expr keys tkeys h e))"
    by (intro sound_heap_update eval_expr_sound) auto
  with Cons s show ?case by (auto intro!: Cons.IH [of "p # D"])
qed simp

text \<open>The interface of a construction: what has to be checked of its statements, once.\<close>

locale construction =
  fixes keys tkeys :: "sdk_name list" and prog :: "statement list"
  assumes in_order: "scheduled keys tkeys (map fst prog) [] prog"
    and keys_once: "distinct (concat (map (\<lambda>s. expr_keys (snd s)) prog))"
begin

abbreviation result :: app_heap where "result \<equiv> run keys tkeys prog Map.empty"

lemma complete: "dom result = fst ` set prog"
  by (simp add: dom_run)

lemma sound: "sound_heap (fst ` set prog) result"
  using run_sound [OF in_order, of Map.empty] by (simp add: sound_heap_def)

lemma one_owner:
  assumes "s \<in> set prog" and "t \<in> set prog" and "k \<in> set (expr_keys (snd s))" and "k \<in> set (expr_keys (snd t))"
  shows "s = t"
  using distinct_concat_owner [OF keys_once] assms by blast

end

text \<open>The statements of \<^verbatim>\<open>New\<close> in one sequence.\<close>

definition wiring :: "statement list" where
  "wiring = encodingSetup @ baseKeepers @ sdkKeepers @ evmKeepers @ ibcStack @ ibcRouting @ distroWiring @ moduleWiring @
     serviceWiring @ reflectionWiring @ hookWiring"

lemmas wiring_defs = wiring_def encodingSetup_def baseKeepers_def txConfigOpts_def sdkKeepers_def evmKeepers_def ibcStack_def ibcRouting_def
  distroWiring_def moduleWiring_def moduleObjects_def serviceWiring_def reflectionWiring_def hookWiring_def

interpretation app: construction kvStoreKeys transientStoreKeys wiring
proof unfold_locales
  show "scheduled kvStoreKeys transientStoreKeys (map fst wiring) [] wiring"
    by code_simp
  show "distinct (concat (map (\<lambda>s. expr_keys (snd s)) wiring))"
    by code_simp
qed

section \<open>The paths of packets\<close>

text \<open>
  A received packet enters at the outermost layer of a stack, and every middleware hands it to the
  module it wraps; the path lists the constructors of the layers. A packet that a keeper sends goes
  to its wrapper, and from a middleware to the wrapper it was given.
\<close>

fun recv_path :: "go_obj \<Rightarrow> string list" where
  "recv_path (Call f [a]) = [f]"
| "recv_path (Call f (a # b # vs)) = f # (if f = ''erc20.NewIBCMiddleware'' then recv_path b else recv_path a)"
| "recv_path _ = []"

fun send_path :: "go_obj \<Rightarrow> string list" where
  "send_path (Call f [a]) = [f]"
| "send_path (Call f [a, b]) = (if f = ''WithICS4Wrapper'' then send_path b else send_path a)"
| "send_path (Call f [a, b, c, d]) = f # send_path b"
| "send_path (Call f (a # b # c # d # e # vs)) = send_path d"
| "send_path _ = []"

text \<open>The stack that a router has for a port, and the keeper at the bottom of a stack.\<close>

fun route_of :: "go_obj \<Rightarrow> sdk_name \<Rightarrow> go_obj option" where
  "route_of (Call f [r, Modules [m], stack]) n = (if m = n then Some stack else route_of r n)"
| "route_of _ n = None"

fun bottom_keeper :: "go_obj \<Rightarrow> go_obj option" where
  "bottom_keeper (Call f [a]) = Some a"
| "bottom_keeper (Call f (a # b # vs)) = (if f = ''erc20.NewIBCMiddleware'' then bottom_keeper b else bottom_keeper a)"
| "bottom_keeper _ = None"

section \<open>The result of the construction\<close>

lemma New_Ok:
  assumes "New ne loadLatest rt = Ok (h, rt')"
  shows "h = app.result(BaseApp \<mapsto> Call ''SetPostHandler'' [copy_of app.result BaseApp, Const ''postHandler''])"
  using assms
  by (auto simp: New_defs registerIBCModules_def setPostHandler_def wiring_def Let_def outcome_inv split: if_splits)

lemma New_no_Err: "New ne loadLatest rt \<noteq> Err e"
proof -
  have bind: "m \<noteq> Err e \<Longrightarrow> (\<And>x. f x \<noteq> Err e) \<Longrightarrow> bindO m f \<noteq> Err e" for m :: "'x outcome" and f :: "'x \<Rightarrow> 'y outcome"
    by (cases m) simp_all
  show ?thesis
    unfolding New_defs case_prod_beta Let_def setPostHandler_def printErr_def
    by (intro bind mustO_no_Err) (auto simp: mustO_no_Err split: outcome.splits)
qed

text \<open>The modules handed to the manager are the managed modules, in their order.\<close>

lemma moduleObjects_managed: "map fst moduleObjects = managedModules"
  by (simp add: moduleObjects_def managedModules_def)
text \<open>The stacks and routers, seen from the final fields; the statements after them leave them alone.\<close>

lemma New_ibc:
  assumes "New ne loadLatest rt = Ok (h, rt')"
  obtains h0 where "h TransferKeeper = run kvStoreKeys transientStoreKeys (ibcStack @ ibcRouting) h0 TransferKeeper"
    "h (Local ''ibcRouter'') = run kvStoreKeys transientStoreKeys (ibcStack @ ibcRouting) h0 (Local ''ibcRouter'')"
    "h (Local ''ibcv2Router'') = run kvStoreKeys transientStoreKeys (ibcStack @ ibcRouting) h0 (Local ''ibcv2Router'')"
    "h IBCKeeper = run kvStoreKeys transientStoreKeys (ibcStack @ ibcRouting @ distroWiring) h0 IBCKeeper"
proof (rule that)
  let ?h0 = "run kvStoreKeys transientStoreKeys (encodingSetup @ baseKeepers @ sdkKeepers @ evmKeepers) Map.empty"
  have h: "h p = run kvStoreKeys transientStoreKeys (moduleWiring @ serviceWiring @ reflectionWiring @ hookWiring)
      (run kvStoreKeys transientStoreKeys distroWiring (run kvStoreKeys transientStoreKeys (ibcStack @ ibcRouting) ?h0)) p"
    if "p \<noteq> BaseApp" for p
    using New_Ok [OF assms] that by (simp add: wiring_def)
  have late: "p \<notin> fst ` set (moduleWiring @ serviceWiring @ reflectionWiring @ hookWiring)"
    if "p \<in> {TransferKeeper, IBCKeeper, Local ''ibcRouter'', Local ''ibcv2Router''}" for p
    using that by (auto simp: moduleWiring_def serviceWiring_def reflectionWiring_def hookWiring_def)
  have mid: "p \<notin> fst ` set distroWiring"
    if "p \<in> {TransferKeeper, Local ''ibcRouter'', Local ''ibcv2Router''}" for p
    using that by (auto simp: distroWiring_def)
  show "h TransferKeeper = run kvStoreKeys transientStoreKeys (ibcStack @ ibcRouting) ?h0 TransferKeeper"
    "h (Local ''ibcRouter'') = run kvStoreKeys transientStoreKeys (ibcStack @ ibcRouting) ?h0 (Local ''ibcRouter'')"
    "h (Local ''ibcv2Router'') = run kvStoreKeys transientStoreKeys (ibcStack @ ibcRouting) ?h0 (Local ''ibcv2Router'')"
    using h run_other [OF late] run_other [OF mid] by simp_all
  show "h IBCKeeper = run kvStoreKeys transientStoreKeys (ibcStack @ ibcRouting @ distroWiring) ?h0 IBCKeeper"
    using h run_other [OF late] by simp
qed

text \<open>The unbound keeper and the assembled stack.\<close>

lemma ibcStack_result:
  "\<exists>k stack. run keys tkeys ibcStack h0 TransferKeeper = Some k \<and> send_path k = [''ChannelKeeper''] \<and>
     run keys tkeys ibcStack h0 (Local ''transferStack'') = Some stack \<and>
     send_path (Call ''WithICS4Wrapper'' [k, stack]) = [''ibccallbacks.NewIBCMiddleware'', ''ChannelKeeper''] \<and>
     recv_path stack = [''ibccallbacks.NewIBCMiddleware'', ''erc20.NewIBCMiddleware'', ''transfer.NewIBCModule''] \<and>
     bottom_keeper stack = Some k \<and>
     run keys tkeys ibcStack h0 IBCKeeper = h0 IBCKeeper"
  by (simp add: ibcStack_def copy_of_def)

text \<open>The bound keeper and the two routers.\<close>

lemma ibcRouting_result:
  assumes "h TransferKeeper = Some k" and "h (Local ''transferStack'') = Some stack"
  shows "\<exists>router routerV2 stackV2.
     run keys tkeys ibcRouting h TransferKeeper = Some (Call ''WithICS4Wrapper'' [k, stack]) \<and>
     run keys tkeys ibcRouting h (Local ''ibcRouter'') = Some router \<and> route_of router Transfer = Some stack \<and>
     run keys tkeys ibcRouting h (Local ''ibcv2Router'') = Some routerV2 \<and> route_of routerV2 Transfer = Some stackV2 \<and>
     recv_path stackV2 = [''erc20v2.NewIBCMiddleware'', ''transferv2.NewIBCModule''] \<and>
     bottom_keeper stackV2 = Some (Call ''WithICS4Wrapper'' [k, stack]) \<and>
     run keys tkeys ibcRouting h IBCKeeper = Some (Call ''SetRouterV2'' [Call ''SetRouter'' [copy_of h IBCKeeper, router], routerV2])"
  using assms by (simp add: ibcRouting_def copy_of_def)

end
