(* ===== verification/App_Api.thy ===== *)
theory App_Api
  imports App_Wiring
begin

text \<open>
  What the constructed application offers to the server, the command line and the tests
  (\<^verbatim>\<open>app/app.go\<close>, \<^verbatim>\<open>RegisterIBC\<close> of \<^verbatim>\<open>app/ibc.go\<close> and \<^verbatim>\<open>docs/docs.go\<close>): the methods that return its
  fields, the two that replace a keeper, the modules for the command line, and the routes of the
  API server. The fields are those of the construction; the API server is an argument.
\<close>

section \<open>Methods that return a field\<close>

text \<open>
  The result of a method as the expression it returns: a copy of the field, the pointer it holds,
  or its address. The first table is that of \<^verbatim>\<open>cosmosevmserver.Application\<close>.
\<close>

definition serverGetters :: "(string \<times> go_expr) list" where
  "serverGetters =
     [(''GetEVMKeeper'', Ptr EVMKeeper),
      (''GetErc20Keeper'', Addr Erc20Keeper),
      (''GetFeeMarketKeeper'', Addr FeeMarketKeeper),
      (''GetPreciseBankKeeper'', Addr PreciseBankKeeper),
      (''GetAccountKeeper'', Copy AccountKeeper),
      (''GetBankKeeper'', Copy BankKeeper),
      (''GetStakingKeeper'', Ptr StakingKeeper),
      (''GetDistrKeeper'', Copy DistrKeeper),
      (''GetGovKeeper'', Copy GovKeeper),
      (''GetSlashingKeeper'', Copy SlashingKeeper),
      (''GetMintKeeper'', Copy MintKeeper),
      (''GetFeeGrantKeeper'', Copy FeeGrantKeeper),
      (''GetAuthzKeeper'', Copy AuthzKeeper),
      (''GetEvidenceKeeper'', Addr EvidenceKeeper),
      (''GetConsensusParamsKeeper'', Copy ConsensusParamsKeeper),
      (''GetIBCKeeper'', Ptr IBCKeeper),
      (''GetTransferKeeper'', Copy TransferKeeper)]"

definition codecGetters :: "(string \<times> go_expr) list" where
  "codecGetters =
     [(''LegacyAmino'', legacyAmino),
      (''AppCodec'', appCodec),
      (''InterfaceRegistry'', interfaceRegistry),
      (''TxConfig'', Copy TxConfig),
      (''GetTxConfig'', Copy TxConfig)]"

definition getSimulationManager :: go_expr where "getSimulationManager = Ptr SimulationManager"

definition getConfigurator :: go_expr where "getConfigurator = Copy Configurator"

definition GetAnteHandler :: go_expr where "GetAnteHandler = App ''AnteHandler'' [Ptr BaseApp]"

definition getAppName :: go_expr where "getAppName = App ''Name'' [Ptr BaseApp]"

definition appGetters :: "(string \<times> go_expr) list" where
  "appGetters = serverGetters @ codecGetters @
     [(''SimulationManager'', getSimulationManager), (''Configurator'', getConfigurator), (''GetAnteHandler'', GetAnteHandler),
      (''Name'', getAppName)]"

text \<open>A method call in a state of the fields.\<close>

definition call_method :: "app_heap \<Rightarrow> go_expr \<Rightarrow> go_obj" where
  "call_method h e = eval_expr kvStoreKeys transientStoreKeys h e"

text \<open>The subspace of a module that has none is the zero subspace: whether there is one is dropped.\<close>

definition GetSubspace :: "(string \<Rightarrow> 'sub \<times> bool) \<Rightarrow> string \<Rightarrow> 'sub" where
  "GetSubspace paramsKeeper moduleName = (let (subspace, _) = paramsKeeper moduleName in subspace)"

definition LoadHeight :: "(int \<Rightarrow> ('w, unit) action) \<Rightarrow> int \<Rightarrow> ('w, unit) action" where
  "LoadHeight loadVersion height = loadVersion height"

section \<open>Methods that replace a keeper\<close>

definition SetErc20Keeper :: "go_obj \<Rightarrow> app_heap \<Rightarrow> app_heap" where
  "SetErc20Keeper k h = h(Erc20Keeper \<mapsto> k)"

definition SetTransferKeeper :: "go_obj \<Rightarrow> app_heap \<Rightarrow> app_heap" where
  "SetTransferKeeper k h = h(TransferKeeper \<mapsto> k)"

text \<open>The client context is a field that no method above returns.\<close>

definition SetClientCtx :: "go_obj \<Rightarrow> app_heap \<Rightarrow> app_heap" where
  "SetClientCtx clientCtx h = h(Local ''clientCtx'' \<mapsto> clientCtx)"

text \<open>The services of the node, as the calls they consist of.\<close>

definition RegisterTxService :: "string \<Rightarrow> go_expr" where
  "RegisterTxService clientCtx =
     App ''authtx.RegisterTxService'' [queryRouter, Sym clientCtx, App ''Simulate'' [Ptr BaseApp], interfaceRegistry]"

definition RegisterTendermintService :: "string \<Rightarrow> go_expr" where
  "RegisterTendermintService clientCtx =
     App ''cmtservice.RegisterTendermintService'' [Sym clientCtx, queryRouter, interfaceRegistry, App ''Query'' [Ptr BaseApp]]"

definition RegisterNodeService :: "string \<Rightarrow> string \<Rightarrow> go_expr" where
  "RegisterNodeService clientCtx cfg = App ''node.RegisterNodeService'' [Sym clientCtx, queryRouter, Sym cfg]"

section \<open>Modules for the command line\<close>

text \<open>
  \<open>hasName\<close> and \<open>isAppModule\<close> are the outcomes of the two type assertions, and \<open>mods\<close> the entries of
  the manager's map in the order in which the loop meets them.
\<close>

record 'o autocli_options =
  ao_Modules :: "string \<rightharpoonup> go_obj"
  ao_ModuleOptions :: 'o
  ao_AddressCodec :: go_expr
  ao_ValidatorAddressCodec :: go_expr
  ao_ConsensusAddressCodec :: go_expr

definition autoCliModules ::
  "names \<Rightarrow> (sdk_name \<Rightarrow> bool) \<Rightarrow> (sdk_name \<Rightarrow> bool) \<Rightarrow> (sdk_name \<times> go_obj) list \<Rightarrow> (string \<rightharpoonup> go_obj)" where
  "autoCliModules nm hasName isAppModule mods =
     foldl (\<lambda>modules (m, obj).
       if hasName m then (if isAppModule m then modules(name_of nm m \<mapsto> obj) else modules) else modules)
     Map.empty mods"

definition AutoCliOpts ::
  "names \<Rightarrow> (sdk_name \<Rightarrow> bool) \<Rightarrow> (sdk_name \<Rightarrow> bool) \<Rightarrow> ((sdk_name \<times> go_obj) list \<Rightarrow> 'o) \<Rightarrow> (sdk_name \<times> go_obj) list \<Rightarrow> 'o autocli_options" where
  "AutoCliOpts nm hasName isAppModule extractOptions mods =
     \<lparr>ao_Modules = autoCliModules nm hasName isAppModule mods,
      ao_ModuleOptions = extractOptions mods,
      ao_AddressCodec = evmCodec ''Bech32AccountAddrPrefix'',
      ao_ValidatorAddressCodec = evmCodec ''Bech32ValidatorAddrPrefix'',
      ao_ConsensusAddressCodec = evmCodec ''Bech32ConsensusAddrPrefix''\<rparr>"

text \<open>
  The IBC modules with empty keepers, for the interfaces only; \<open>isBasic\<close> is the outcome of the type
  assertion and \<open>register\<close> the method of a module.
\<close>

definition ibcClientModules :: "(sdk_name \<times> go_expr) list" where
  "ibcClientModules =
     [(Ibc, App ''ibc.NewAppModule'' [Sym ''&ibckeeper.Keeper{}'']),
      (Transfer, App ''transfer.NewAppModule'' [Sym ''transferkeeper.Keeper{}'']),
      (Ica, App ''icamodule.NewAppModule'' [Sym ''&icacontrollerkeeper.Keeper{}'', Sym ''&icahostkeeper.Keeper{}'']),
      (IbcTm, App ''ibctm.NewAppModule'' [App ''ibctm.NewLightClientModule'' [Sym ''cdc'', Sym ''ibcclienttypes.StoreProvider{}'']])]"

definition RegisterIBC ::
  "(sdk_name \<Rightarrow> bool) \<Rightarrow> (sdk_name \<Rightarrow> 'r \<Rightarrow> 'r) \<Rightarrow> 'r \<Rightarrow> (sdk_name \<rightharpoonup> go_expr) \<times> 'r" where
  "RegisterIBC isBasic register r0 =
     (let modules = map_of ibcClientModules;
          r = foldl (\<lambda>r (m, _). if isBasic m then register m r else r) r0 ibcClientModules
      in (modules, r))"

section \<open>The API server\<close>

text \<open>
  The router is the list of its routes; a request goes to the first one whose path it has.
\<close>

datatype docs_handler = FileServer string | Console string string

type_synonym router = "(string \<times> docs_handler) list"

definition apiFile :: string where "apiFile = ''/static/openapi.json''"

text \<open>The page is the embedded template, whose parsing error the code ignores, with a title and the place of the specification.\<close>

definition docs_page :: "string \<Rightarrow> docs_handler" where
  "docs_page title = Console title apiFile"

definition RegisterOpenAPIService :: "string \<Rightarrow> router \<Rightarrow> router" where
  "RegisterOpenAPIService appName rtr =
     (let rtr1 = rtr @ [(apiFile, FileServer ''static'')] in rtr1 @ [(''/'', docs_page appName)])"

text \<open>The gateways of the packages and of the modules, as actions on the server's world.\<close>

record 'w api_env =
  ae_authtx :: "('w, unit) action"
  ae_cmtservice :: "('w, unit) action"
  ae_node :: "('w, unit) action"
  ae_modules :: "('w, unit) action"
  ae_swagger :: "bool \<Rightarrow> ('w, unit) action"
  ae_routes :: "(router \<Rightarrow> router) \<Rightarrow> 'w \<Rightarrow> 'w"

definition App_Name :: string where "App_Name = ''gnodi''"

definition RegisterAPIRoutes :: "'w api_env \<Rightarrow> bool \<Rightarrow> ('w, unit) action" where
  "RegisterAPIRoutes ae swagger =
     bindA (ae_authtx ae) (\<lambda>_.
     bindA (ae_cmtservice ae) (\<lambda>_.
     bindA (ae_node ae) (\<lambda>_.
     bindA (ae_modules ae) (\<lambda>_.
     bindA (panicOnErr ''swagger'' (ae_swagger ae swagger)) (\<lambda>_ w.
     (ae_routes ae (RegisterOpenAPIService App_Name) w, Ok ()))))))"

section \<open>The home directory\<close>

text \<open>
  The package initialiser: the prefix of the environment variables is set first, because the lookup
  of the home directory reads it.
\<close>

record app_globals =
  gl_EnvPrefix :: string
  gl_DefaultNodeHome :: string

definition init_globals :: "(string \<Rightarrow> string \<Rightarrow> string outcome) \<Rightarrow> app_globals \<Rightarrow> app_globals outcome" where
  "init_globals getNodeHomeDirectory g =
     (let g1 = g\<lparr>gl_EnvPrefix := App_Name\<rparr> in
      bindO (mustO ''home directory'' (getNodeHomeDirectory (gl_EnvPrefix g1) (''.'' @ App_Name))) (\<lambda>home.
      Ok (g1\<lparr>gl_DefaultNodeHome := home\<rparr>)))"

section \<open>What the methods return\<close>

lemma New_sound:
  assumes "New ne loadLatest rt = Ok (h, rt')"
  shows "dom h = fst ` set wiring" and "sound_heap (dom h) h"
proof -
  from assms have h: "h = app.result(BaseApp \<mapsto> Call ''SetPostHandler'' [copy_of app.result BaseApp, Const ''postHandler''])"
    by (rule New_Ok)
  have base: "BaseApp \<in> fst ` set wiring" by (simp add: wiring_def baseKeepers_def)
  then show d: "dom h = fst ` set wiring" unfolding h by (auto simp: app.complete)
  have "app.result BaseApp \<noteq> None" using base app.complete by blast
  then have "sound_heap (fst ` set wiring) h"
    unfolding h using base app.sound by (intro sound_heap_update) (auto simp: copy_of_def sound_heap_def)
  then show "sound_heap (dom h) h" by (simp only: d)
qed

lemma getters_ready:
  "list_all (\<lambda>(_, e). ready kvStoreKeys transientStoreKeys (map fst wiring) (map fst wiring) e) appGetters"
  by code_simp

lemma getters_sound:
  assumes "New ne loadLatest rt = Ok (h, rt')" and "(m, e) \<in> set appGetters"
  shows "sound_obj (dom h) (call_method h e)"
proof -
  have R: "dom h = set (map fst wiring)" using New_sound(1) [OF assms(1)] by simp
  have "ready kvStoreKeys transientStoreKeys (map fst wiring) (map fst wiring) e"
    using getters_ready assms(2) by (auto simp: list_all_iff)
  moreover have "sound_heap (set (map fst wiring)) h" using New_sound(2) [OF assms(1)] by (simp only: R)
  ultimately show ?thesis
    unfolding call_method_def R by (intro eval_expr_sound) (simp_all add: R)
qed

text \<open>The value a pointer of an object leads to.\<close>

fun refers :: "place \<Rightarrow> go_obj \<Rightarrow> bool" where
  "refers p (Ref q) \<longleftrightarrow> p = q"
| "refers p (Call f vs) \<longleftrightarrow> (\<exists>v \<in> set vs. refers p v)"
| "refers p _ \<longleftrightarrow> False"

fun holds_obj :: "go_obj \<Rightarrow> go_obj \<Rightarrow> bool" where
  "holds_obj v (Call f vs) \<longleftrightarrow> v = Call f vs \<or> (\<exists>u \<in> set vs. holds_obj v u)"
| "holds_obj v u \<longleftrightarrow> v = u"
text \<open>
  A pointer in the last right-hand side assigned to a place is a pointer of its final object, and the
  manager of the modules keeps what its arguments were copies of.
\<close>

fun mentions :: "place \<Rightarrow> go_expr \<Rightarrow> bool" where
  "mentions p (Addr q) \<longleftrightarrow> p = q"
| "mentions p (App f es) \<longleftrightarrow> list_ex (mentions p) es"
| "mentions p _ \<longleftrightarrow> False"

fun last_write :: "statement list \<Rightarrow> place \<Rightarrow> go_expr option" where
  "last_write [] p = None"
| "last_write ((q, e) # prog) p =
     (case last_write prog p of Some e' \<Rightarrow> Some e' | None \<Rightarrow> if p = q then Some e else None)"

lemma mentions_refers: "mentions p e \<Longrightarrow> refers p (eval_expr keys tkeys h e)"
  by (induction e) (auto simp: list_ex_iff)

lemma last_write_None: "last_write prog p = None \<Longrightarrow> run keys tkeys prog h p = h p"
  by (induction prog p arbitrary: h rule: last_write.induct) (auto split: option.splits if_splits)

lemma last_write_Some: "last_write prog p = Some e \<Longrightarrow> \<exists>g. run keys tkeys prog h p = Some (eval_expr keys tkeys g e)"
proof (induction prog p arbitrary: h rule: last_write.induct)
  case (2 q e' prog p)
  then show ?case
    by (auto simp: last_write_None split: option.splits if_splits)
qed simp

lemma final_pointer:
  assumes "New ne loadLatest rt = Ok (h, rt')" and "p \<noteq> BaseApp" and "list_ex (mentions q) (case last_write wiring p of Some e \<Rightarrow> [e] | None \<Rightarrow> [])"
  shows "refers q (copy_of h p)"
proof -
  from assms(3) obtain e where e: "last_write wiring p = Some e" "mentions q e" by (auto split: option.splits)
  from last_write_Some [OF e(1)] obtain g where "app.result p = Some (eval_expr kvStoreKeys transientStoreKeys g e)" by blast
  with New_Ok [OF assms(1)] assms(2) mentions_refers [OF e(2)] show ?thesis by (simp add: copy_of_def)
qed

lemma late_pointers:
  "list_all (\<lambda>(q, p). list_ex (mentions q) (case last_write wiring p of Some e \<Rightarrow> [e] | None \<Rightarrow> []))
     [(Erc20Keeper, EVMKeeper), (TransferKeeper, EVMKeeper), (TransferKeeper, Erc20Keeper)]"
  by code_simp

lemma contains_refl [simp]: "holds_obj v v"
  by (cases v) simp_all

lemma moduleWiring_keeps:
  "holds_obj (copy_of g Erc20Keeper) (copy_of (run keys tkeys moduleWiring g) ModuleManager)"
  "holds_obj (copy_of g TransferKeeper) (copy_of g (Local ''transferModule'')) \<Longrightarrow>
     holds_obj (copy_of g TransferKeeper) (copy_of (run keys tkeys moduleWiring g) ModuleManager)"
  by (simp_all add: moduleWiring_def moduleObjects_def copy_of_def)

lemma managed_copies:
  assumes "New ne loadLatest rt = Ok (h, rt')"
  shows "holds_obj (copy_of h Erc20Keeper) (copy_of h ModuleManager)"
    and "holds_obj (copy_of h TransferKeeper) (copy_of h ModuleManager)"
proof -
  let ?run = "run kvStoreKeys transientStoreKeys"
  define g where "g = ?run (encodingSetup @ baseKeepers @ sdkKeepers @ evmKeepers @ ibcStack @ ibcRouting) Map.empty"
  define g' where "g' = ?run distroWiring g"
  have h: "h p = ?run (serviceWiring @ reflectionWiring @ hookWiring) (?run moduleWiring g') p" if "p \<noteq> BaseApp" for p
    using New_Ok [OF assms] that by (simp add: wiring_def g_def g'_def)
  have hook: "?run (serviceWiring @ reflectionWiring @ hookWiring) f p = f p" if "p \<in> {ModuleManager, Erc20Keeper, TransferKeeper}" for f p
    using that by (intro run_other) (auto simp: serviceWiring_def reflectionWiring_def hookWiring_def)
  have keepers: "?run moduleWiring f p = f p" if "p \<in> {Erc20Keeper, TransferKeeper}" for f p
    using that by (intro run_other) (auto simp: moduleWiring_def)
  have final: "copy_of h Erc20Keeper = copy_of g' Erc20Keeper" "copy_of h TransferKeeper = copy_of g' TransferKeeper"
    "copy_of h ModuleManager = copy_of (?run moduleWiring g') ModuleManager"
    by (simp_all add: copy_of_def h hook keepers del: run_append)
  show "holds_obj (copy_of h Erc20Keeper) (copy_of h ModuleManager)"
    unfolding final by (rule moduleWiring_keeps(1))
  have "holds_obj (copy_of g' TransferKeeper) (copy_of g' (Local ''transferModule''))"
    unfolding g'_def by (simp add: distroWiring_def copy_of_def)
  then show "holds_obj (copy_of h TransferKeeper) (copy_of h ModuleManager)"
    unfolding final by (rule moduleWiring_keeps(2))
qed

text \<open>A method sees a replaced keeper only through a copy of its field.\<close>

fun copies :: "place \<Rightarrow> go_expr \<Rightarrow> bool" where
  "copies p (Copy q) \<longleftrightarrow> p = q"
| "copies p (App f es) \<longleftrightarrow> list_ex (copies p) es"
| "copies p _ \<longleftrightarrow> False"

lemma eval_expr_update:
  "\<not> copies p e \<Longrightarrow> h p \<noteq> None \<Longrightarrow> eval_expr keys tkeys (h(p \<mapsto> v)) e = eval_expr keys tkeys h e"
  by (induction e) (auto simp: copy_of_def list_ex_iff)

section \<open>The map of modules\<close>

lemma autoCliModules_entries:
  "autoCliModules nm hasName isAppModule mods =
     map_of (rev (map (\<lambda>(m, obj). (name_of nm m, obj)) (filter (\<lambda>(m, _). hasName m \<and> isAppModule m) mods)))"
proof -
  have "foldl (\<lambda>modules (m, obj). if hasName m then (if isAppModule m then modules(name_of nm m \<mapsto> obj) else modules) else modules) f mods =
      f ++ map_of (rev (map (\<lambda>(m, obj). (name_of nm m, obj)) (filter (\<lambda>(m, _). hasName m \<and> isAppModule m) mods)))" for f
  proof (induction mods arbitrary: f)
    case (Cons y mods)
    then show ?case by (cases y) (simp add: map_add_assoc)
  qed simp
  then show ?thesis by (simp add: autoCliModules_def)
qed

lemma autoCliModules_lookup:
  assumes "inj_on (name_of nm) (fst ` set mods)" and "distinct (map fst mods)"
  shows "autoCliModules nm hasName isAppModule mods x = Some obj \<longleftrightarrow>
    (\<exists>m. (m, obj) \<in> set mods \<and> x = name_of nm m \<and> hasName m \<and> isAppModule m)"
proof -
  let ?L = "filter (\<lambda>(m, _). hasName m \<and> isAppModule m) mods"
  have fst_L: "map fst (map (\<lambda>(m, obj). (name_of nm m, obj)) ?L) = map (name_of nm) (map fst ?L)"
    by (simp add: case_prod_beta)
  have "inj_on (name_of nm) (fst ` set ?L)" using assms(1) by (rule inj_on_subset) auto
  then have "distinct (map fst (map (\<lambda>(m, obj). (name_of nm m, obj)) ?L))"
    unfolding fst_L distinct_map [of "name_of nm"] using distinct_map_filter [OF assms(2)] by simp
  then have "distinct (map fst (rev (map (\<lambda>(m, obj). (name_of nm m, obj)) ?L)))"
    by (simp only: flip: rev_map) simp
  then show ?thesis
    unfolding autoCliModules_entries by (subst map_of_eq_Some_iff) auto
qed

text \<open>The loop over the manager's map gives one result, whatever the order of the traversal.\<close>

lemma autoCliModules_order:
  assumes "inj_on (name_of nm) (fst ` set mods)" and "distinct (map fst mods)" and "set mods' = set mods" and "distinct (map fst mods')"
  shows "autoCliModules nm hasName isAppModule mods' = autoCliModules nm hasName isAppModule mods"
proof
  fix x
  have "autoCliModules nm hasName isAppModule mods' x = Some obj \<longleftrightarrow> autoCliModules nm hasName isAppModule mods x = Some obj" for obj
    using autoCliModules_lookup [OF assms(1,2)] autoCliModules_lookup [of nm mods', OF _ assms(4)] assms(1,3) by simp
  then show "autoCliModules nm hasName isAppModule mods' x = autoCliModules nm hasName isAppModule mods x"
    by (metis option.exhaust)
qed
section \<open>The documentation\<close>

text \<open>On a router without these paths, the page names a specification that the router serves.\<close>

lemma docs_spec_served:
  assumes "map_of rtr apiFile = None" and "map_of rtr ''/'' = None"
  shows "map_of (RegisterOpenAPIService n rtr) ''/'' = Some (Console n apiFile)"
    and "map_of (RegisterOpenAPIService n rtr) apiFile = Some (FileServer ''static'')"
    and "path \<notin> {apiFile, ''/''} \<Longrightarrow> map_of (RegisterOpenAPIService n rtr) path = map_of rtr path"
  using assms by (auto simp: RegisterOpenAPIService_def docs_page_def apiFile_def map_add_def Let_def split: option.splits)

text \<open>A failure of the file server's registration ends the process.\<close>

lemma RegisterAPIRoutes_swagger:
  assumes "ae_authtx ae = returnA ()" and "ae_cmtservice ae = returnA ()" and "ae_node ae = returnA ()" and "ae_modules ae = returnA ()"
    and "ae_swagger ae swagger w = (w', Err e)"
  shows "RegisterAPIRoutes ae swagger w = (w', Panic ''swagger'')"
  using assms by (simp add: RegisterAPIRoutes_def bindA_def returnA_def panicOnErr_def)

end
