(* ===== verification/App_Properties.thy ===== *)
theory App_Properties
  imports App_Ante App_Upgrade App_Export App_Mempool App_Reference App_Api Distro_Module
begin

text \<open>
  The properties of the application layer: the ante handler, the block hooks, the upgrade, the
  default genesis, the module tables, the genesis handling of the distro module, the export and
  the construction of the application.
\<close>

section \<open>The ante handler\<close>

definition nesting_allowed :: "string \<Rightarrow> sdk_msg \<Rightarrow> bool" where
  "nesting_allowed url m \<longleftrightarrow>
     (\<forall>n x. (contains ^^ n) m x \<longrightarrow>
        Suc n < maxGroupNestedMsgs \<and> locally_allowed (newGroupLimiterDecorator [url]) (0 < n) x)"

lemma nesting_allowed_check:
  "checkTopLevel (newGroupLimiterDecorator [url]) ms = Ok () \<longleftrightarrow> (\<forall>m \<in> set ms. nesting_allowed url m)"
  by (simp add: checkTopLevel_ok_iff checkMsg_ok_all nesting_allowed_def)

lemma setAnteHandler_admits:
  assumes "setAnteHandler validOptions evmAnteHandler url = Ok h"
  shows "if \<forall>m \<in> set (tx_GetMsgs tx). nesting_allowed url m
         then h ctx tx simulate = evmAnteHandler ctx tx simulate
         else fst (h ctx tx simulate) = ctx \<and> \<not> is_ok (snd (h ctx tx simulate))"
proof -
  have h: "h ctx tx simulate = AnteHandle (newGroupLimiterDecorator [url]) ctx tx simulate evmAnteHandler"
    using assms by (auto simp: setAnteHandler_def Let_def split: outcome.splits)
  show ?thesis
    unfolding h AnteHandle_def nesting_allowed_check [symmetric] by (auto split: outcome.split)
qed

text \<open>
  C4: The installed ante handler hands a transaction to the EVM ante handler exactly when no
  message unpacked from a group proposal or an authz execution, to any depth, is an Ethereum
  transaction, no grant authorises one, every payload can be unpacked and the nesting stays
  below the limit; otherwise it returns the context as it was and an error or panic.
\<close>

theorem ante_admits_iff:
  assumes "setAnteHandler validOptions evmAnteHandler url = Ok h"
  shows "if \<forall>m \<in> set (tx_GetMsgs tx). nesting_allowed url m
         then h ctx tx simulate = evmAnteHandler ctx tx simulate
         else fst (h ctx tx simulate) = ctx \<and> \<not> is_ok (snd (h ctx tx simulate))"
  by (rule setAnteHandler_admits [OF assms])

theorem ante_admits_iff_witness:
  "\<exists>h. setAnteHandler (Ok ()) (\<lambda>ctx tx simulate. (ctx + 1, Ok ())) ''/eth'' = Ok h \<and>
     h (0 :: nat) \<lparr>tx_GetMsgs = [OtherMsg ''/eth'']\<rparr> False = (1, Ok ()) \<and>
     \<not> is_ok (snd (h 0 \<lparr>tx_GetMsgs = [GroupMsgSubmitProposal (Ok [OtherMsg ''/eth''])]\<rparr> False))"
proof -
  obtain h where h: "setAnteHandler (Ok ()) (\<lambda>ctx tx simulate. (ctx + 1, Ok ())) ''/eth'' = Ok (h :: nat \<Rightarrow> _)"
    by (simp add: setAnteHandler_def Let_def)
  have "(contains ^^ n) (OtherMsg ''/eth'') x \<longrightarrow> n = 0 \<and> x = OtherMsg ''/eth''" for n x
    by (cases n) (auto dest!: relpowp_Suc_D2 simp del: relpowp.simps(2))
  then have 1: "nesting_allowed ''/eth'' (OtherMsg ''/eth'')"
    by (fastforce simp: nesting_allowed_def maxGroupNestedMsgs_def)
  have disabled: "\<not> locally_allowed (newGroupLimiterDecorator [''/eth'']) True (OtherMsg ''/eth'')"
    by (simp add: newGroupLimiterDecorator_def)
  have "(contains ^^ 1) (GroupMsgSubmitProposal (Ok [OtherMsg ''/eth''])) (OtherMsg ''/eth'')" by auto
  then have 2: "\<not> nesting_allowed ''/eth'' (GroupMsgSubmitProposal (Ok [OtherMsg ''/eth'']))"
    unfolding nesting_allowed_def by (metis disabled less_numeral_extra(1))
  from ante_admits_iff [OF h, of "\<lparr>tx_GetMsgs = [OtherMsg ''/eth'']\<rparr>" 0 False]
    ante_admits_iff [OF h, of "\<lparr>tx_GetMsgs = [GroupMsgSubmitProposal (Ok [OtherMsg ''/eth''])]\<rparr>" 0 False] h 1 2
  show ?thesis by auto
qed

section \<open>The block hooks\<close>

text \<open>
  C7: A successful begin-block at the security height empties every listed account, leaves all
  other balances as they were and reduces the supply of every denomination by exactly what the
  listed accounts held, before the modules' own begin-block hooks run.
\<close>

theorem security_burn_effect:
  assumes "bank_burn_laws env modAddr"
    and "distinct (map (sdk_AccAddressFromBech32 (app_lib env)) securityBurnAccounts)"
    and "ctx_BlockHeight ctx = SecurityBurnHeight"
    and "BeginBlocker env ctx s = (s', Ok ())"
  shows "\<exists>s1 addrs. map (sdk_AccAddressFromBech32 (app_lib env)) securityBurnAccounts = map Ok addrs \<and>
     (\<forall>d. total_supply env s1 d = total_supply env s d - (\<Sum>a \<leftarrow> addrs. balance env s a d)) \<and>
     (\<forall>b d. balance env s1 b d = (if b \<in> set addrs then 0 else balance env s b d)) \<and>
     mm_BeginBlock env s1 = (s', Ok ())"
proof -
  have "SecurityBurnHeight \<noteq> MinGasPriceHotfixHeight" by (simp add: SecurityBurnHeight_def MinGasPriceHotfixHeight_def)
  with assms(3,4) obtain s1 where burn: "forA securityBurnAccounts (burnAccount env) s = (s1, Ok ())"
    and mm: "mm_BeginBlock env s1 = (s', Ok ())"
    by (auto simp: BeginBlocker_def applySecurityBurn_def outcome_inv)
  from assms(1) burn assms(2) show ?thesis by (rule forA_burn_Ok) (use mm in blast)
qed

theorem security_burn_effect_witness:
  "\<exists>s1 s'. BeginBlocker mono_env (sample_ctx\<lparr>ctx_BlockHeight := SecurityBurnHeight\<rparr>) exploited_chain = (s', Ok ()) \<and>
     total_supply mono_env s1 ''uGNOD'' = 0 \<and> mm_BeginBlock mono_env s1 = (s', Ok ())"
proof -
  have "SecurityBurnHeight \<noteq> MinGasPriceHotfixHeight" by (simp add: SecurityBurnHeight_def MinGasPriceHotfixHeight_def)
  then obtain s' where b: "BeginBlocker mono_env (sample_ctx\<lparr>ctx_BlockHeight := SecurityBurnHeight\<rparr>) exploited_chain = (s', Ok ())"
    using exploited_burn by (auto simp: BeginBlocker_def bindA_def panicOnErr_def outcome_simps)
  have burn_dist: "distinct (map (sdk_AccAddressFromBech32 (app_lib mono_env)) securityBurnAccounts)"
    using burn_addresses_distinct by simp
  from security_burn_effect [OF mono_burn_laws burn_dist _ b]
  obtain s1 addrs where 1: "map (sdk_AccAddressFromBech32 ref_lib) securityBurnAccounts = map Ok addrs"
    "total_supply mono_env s1 ''uGNOD'' = total_supply mono_env exploited_chain ''uGNOD'' - (\<Sum>a \<leftarrow> addrs. balance mono_env exploited_chain a ''uGNOD'')"
    "mm_BeginBlock mono_env s1 = (s', Ok ())"
    by auto
  have "map Ok addrs = map Ok (map string_bytes securityBurnAccounts)"
    unfolding 1(1) [symmetric] by (simp add: securityBurnAccounts_def ref_lib_def)
  moreover have "inj (Ok :: bytes \<Rightarrow> bytes outcome)" by (simp add: inj_def)
  ultimately have "addrs = map string_bytes securityBurnAccounts" by (metis inj_map_eq_map)
  then have "total_supply mono_env s1 ''uGNOD'' = 0"
    using 1(2) by (simp add: exploited_chain_def mono_bank_def uGNOD_coin_def securityBurnAccounts_def)
  with b 1(3) show ?thesis by blast
qed

text \<open>
  C25: Away from the two special heights begin-block runs the modules' hooks and nothing else.
  At the hotfix height it first resets the minimum gas price and keeps the other fee parameters.
  A one-time change that fails stops the node: it never surfaces as an error value.
\<close>

theorem begin_blocker_one_time:
  assumes "\<forall>p s s'. fmk_SetParams (app_FeeMarketKeeper env) p s = (s', Ok ()) \<longrightarrow>
      fmk_GetParams (app_FeeMarketKeeper env) s' = p"
  shows "(ctx_BlockHeight ctx \<noteq> MinGasPriceHotfixHeight \<and> ctx_BlockHeight ctx \<noteq> SecurityBurnHeight \<longrightarrow>
      BeginBlocker env ctx s = mm_BeginBlock env s) \<and>
    (ctx_BlockHeight ctx = MinGasPriceHotfixHeight \<and> BeginBlocker env ctx s = (s', Ok ()) \<longrightarrow>
      (\<exists>s1. fmk_GetParams (app_FeeMarketKeeper env) s1 =
          (fmk_GetParams (app_FeeMarketKeeper env) s)\<lparr>fm_MinGasPrice := 0\<rparr> \<and>
        mm_BeginBlock env s1 = (s', Ok ()))) \<and>
    (BeginBlocker env ctx s = (s', Err e) \<longrightarrow> (\<exists>s1. mm_BeginBlock env s1 = (s', Err e)))"
proof (intro conjI impI)
  assume "ctx_BlockHeight ctx \<noteq> MinGasPriceHotfixHeight \<and> ctx_BlockHeight ctx \<noteq> SecurityBurnHeight"
  then show "BeginBlocker env ctx s = mm_BeginBlock env s"
    by (simp add: BeginBlocker_def bindA_def returnA_def)
next
  have "SecurityBurnHeight \<noteq> MinGasPriceHotfixHeight" by (simp add: SecurityBurnHeight_def MinGasPriceHotfixHeight_def)
  moreover assume "ctx_BlockHeight ctx = MinGasPriceHotfixHeight \<and> BeginBlocker env ctx s = (s', Ok ())"
  ultimately obtain s1
    where "fmk_SetParams (app_FeeMarketKeeper env) ((fmk_GetParams (app_FeeMarketKeeper env) s)\<lparr>fm_MinGasPrice := 0\<rparr>) s = (s1, Ok ())"
      and "mm_BeginBlock env s1 = (s', Ok ())"
    by (auto simp: BeginBlocker_def applyMinGasPriceHotfix_def outcome_inv)
  with assms show "\<exists>s1. fmk_GetParams (app_FeeMarketKeeper env) s1 =
      (fmk_GetParams (app_FeeMarketKeeper env) s)\<lparr>fm_MinGasPrice := 0\<rparr> \<and> mm_BeginBlock env s1 = (s', Ok ())"
    by blast
next
  assume "BeginBlocker env ctx s = (s', Err e)"
  then show "\<exists>s1. mm_BeginBlock env s1 = (s', Err e)"
    using panicOnErr_no_Err
    by (fastforce simp: BeginBlocker_def bindA_def returnA_def split: if_splits prod.splits outcome.splits)
qed

theorem begin_blocker_one_time_witness:
  "\<exists>s'. BeginBlocker mono_env (sample_ctx\<lparr>ctx_BlockHeight := MinGasPriceHotfixHeight\<rparr>) exploited_chain = (s', Ok ()) \<and>
     fm_MinGasPrice (mo_feemarket s') = 0"
proof -
  let ?ctx = "sample_ctx\<lparr>ctx_BlockHeight := MinGasPriceHotfixHeight\<rparr>"
  have law: "\<forall>p s s'. fmk_SetParams (app_FeeMarketKeeper mono_env) p s = (s', Ok ()) \<longrightarrow>
      fmk_GetParams (app_FeeMarketKeeper mono_env) s' = p"
    by (auto simp: mono_feemarket_def)
  obtain s' where s': "BeginBlocker mono_env ?ctx exploited_chain = (s', Ok ())"
    by (simp add: BeginBlocker_def applyMinGasPriceHotfix_def bindA_def outcome_simps panicOnErr_def
        mono_feemarket_def SecurityBurnHeight_def MinGasPriceHotfixHeight_def)
  with begin_blocker_one_time [OF law, of ?ctx exploited_chain s'] show ?thesis
    by (auto simp: outcome_simps mono_feemarket_def)
qed
section \<open>The upgrade\<close>

text \<open>
  C24: A successful run of the upgrade handler has disabled every message of the group module and
  set the minimum gas price to zero before the migrations run, and hands them a version map in
  which the two modules it initialised itself are marked as present, so that they are not
  initialised again.
\<close>

theorem upgrade_prepares_migrations:
  assumes "upgrade_laws ue" and "upgradeHandler ue fromVM s = (s', Ok vm)"
  shows "\<exists>s1. ue_RunMigrations ue (fromVM(ue_evmName ue \<mapsto> 1, ue_feemarketName ue \<mapsto> 1)) s1 = (s', Ok vm) \<and>
     (\<forall>m. ue_DisableListHas ue s1 (ue_typeURL ue m)) \<and>
     fm_MinGasPrice (fmk_GetParams (ue_FeeMarketKeeper ue) s1) = 0"
  using assms by (rule upgradeHandler_Ok) blast

record upgrade_chain =
  uc_feemarket :: feemarket_params
  uc_disabled :: "string set"

definition sample_feemarket :: feemarket_params where
  "sample_feemarket = \<lparr>fm_NoBaseFee = False, fm_BaseFee = 1, fm_MinGasPrice = 1000000000\<rparr>"

definition sample_coin_info :: coin_info where
  "sample_coin_info = \<lparr>ci_Denom = ''uGNOD'', ci_ExtendedDenom = ''aGNOD'', ci_DisplayDenom = ''GNOD'', ci_Decimals = 6\<rparr>"

definition sample_evm :: "unit evm_genesis" where
  "sample_evm = \<lparr>eg_Params = \<lparr>ep_EvmDenom = ''aatom'', ep_ExtendedDenomOptions = None, ep_ActiveStaticPrecompiles = []\<rparr>, eg_Preinstalls = []\<rparr>"

definition sample_upgrade :: "(upgrade_chain, unit) upgrade_env" where
  "sample_upgrade =
     \<lparr>ue_SetDenomMetaData = (\<lambda>_. returnA ()), ue_evmInitGenesis = (\<lambda>_. returnA ()),
      ue_feemarketInitGenesis = (\<lambda>p s. (s\<lparr>uc_feemarket := p\<rparr>, Ok ())),
      ue_FeeMarketKeeper = \<lparr>fmk_GetParams = uc_feemarket, fmk_SetParams = (\<lambda>p s. (s\<lparr>uc_feemarket := p\<rparr>, Ok ()))\<rparr>,
      ue_DisableListSet = (\<lambda>u s. (s\<lparr>uc_disabled := insert u (uc_disabled s)\<rparr>, Ok ())),
      ue_DisableListHas = (\<lambda>s u. u \<in> uc_disabled s),
      ue_RunMigrations = (\<lambda>vm. returnA vm), ue_evmName = ''evm'', ue_feemarketName = ''feemarket'',
      ue_typeURL = (\<lambda>_. ''/cosmos.group.v1''), ue_defaultEvm = sample_evm, ue_preinstalls = [],
      ue_coinInfo = sample_coin_info, ue_defaultFeeMarket = sample_feemarket\<rparr>"

theorem upgrade_prepares_migrations_witness:
  "\<exists>s'. upgradeHandler sample_upgrade Map.empty \<lparr>uc_feemarket = sample_feemarket, uc_disabled = {}\<rparr>
        = (s', Ok [''evm'' \<mapsto> 1, ''feemarket'' \<mapsto> 1]) \<and>
     ''/cosmos.group.v1'' \<in> uc_disabled s' \<and> fm_MinGasPrice (uc_feemarket s') = 0"
proof -
  let ?s = "\<lparr>uc_feemarket = sample_feemarket, uc_disabled = {}\<rparr>"
  have laws: "upgrade_laws sample_upgrade" by (auto simp: upgrade_laws_def sample_upgrade_def)
  obtain s' where s': "upgradeHandler sample_upgrade Map.empty ?s = (s', Ok [''evm'' \<mapsto> 1, ''feemarket'' \<mapsto> 1])"
    by (simp add: upgradeHandler_def Let_def bindA_def outcome_simps sample_upgrade_def groupMsgTypeURLs_def groupMsgs_def)
  from upgrade_prepares_migrations [OF laws s'] s' show ?thesis
    by (simp add: sample_upgrade_def returnA_def)
qed

section \<open>The default genesis\<close>

text \<open>
  The default genesis uses one denomination throughout: the EVM parameters name the base
  denomination of the coin info, and the bank section carries metadata for exactly that
  denomination, with the display unit at the coin's decimals, after the metadata that was there.
\<close>

theorem default_genesis_denoms:
  assumes "App_DefaultGenesis ge = Ok genesis" and "ge_basic ge (ge_bank ge) = Some raw"
    and "distinct [ge_evm ge, ge_erc20 ge, ge_feemarket ge, ge_bank ge]"
  shows "\<exists>evm bank old. genesis (ge_evm ge) = Some (ge_marshalEvm ge evm) \<and>
     genesis (ge_bank ge) = Some (ge_marshalBank ge bank) \<and> ge_unmarshalBank ge raw = Ok old \<and>
     ep_EvmDenom (eg_Params evm) = ci_Denom (ge_coinInfo ge) \<and>
     (\<exists>md. bg_DenomMetadata bank = bg_DenomMetadata old @ [md] \<and> md_Base md = ep_EvmDenom (eg_Params evm) \<and>
        (md_Display md, ci_Decimals (ge_coinInfo ge)) \<in> set (md_DenomUnits md)) \<and>
     bg_rest bank = bg_rest old \<and>
     (\<forall>m. m \<notin> {ge_evm ge, ge_erc20 ge, ge_feemarket ge, ge_bank ge} \<longrightarrow> genesis m = ge_basic ge m)"
proof -
  from assms obtain old where old: "ge_unmarshalBank ge raw = Ok old"
    and gen: "genesis = (ge_basic ge)
      (ge_evm ge \<mapsto> ge_marshalEvm ge (NewEVMGenesisState (ge_defaultEvm ge) (ge_preinstalls ge) (ge_coinInfo ge)),
       ge_erc20 ge \<mapsto> ge_marshalErc20 ge (NewErc20GenesisState (ge_defaultErc20 ge)),
       ge_feemarket ge \<mapsto> ge_marshalFeeMarket ge (NewFeeMarketGenesisState (ge_defaultFeeMarket ge)),
       ge_bank ge \<mapsto> ge_marshalBank ge (old\<lparr>bg_DenomMetadata := bg_DenomMetadata old @ [nativeMetadata (ge_coinInfo ge)]\<rparr>))"
    by (auto simp: App_DefaultGenesis_def Let_def split: outcome.splits option.splits)
  show ?thesis
    by (rule exI [of _ "NewEVMGenesisState (ge_defaultEvm ge) (ge_preinstalls ge) (ge_coinInfo ge)"],
        rule exI [of _ "old\<lparr>bg_DenomMetadata := bg_DenomMetadata old @ [nativeMetadata (ge_coinInfo ge)]\<rparr>"], rule exI [of _ old])
      (use assms(3) old in \<open>simp add: gen NewEVMGenesisState_def nativeMetadata_def\<close>)
qed

datatype section_json =
    EvmJson "unit evm_genesis" | FeeMarketJson feemarket_params | BankJson "unit bank_genesis" | OtherJson

definition sample_genesis :: "(unit, unit, unit, section_json) genesis_env" where
  "sample_genesis =
     \<lparr>ge_evm = ''evm'', ge_erc20 = ''erc20'', ge_feemarket = ''feemarket'', ge_bank = ''bank'',
      ge_basic = [''bank'' \<mapsto> BankJson \<lparr>bg_DenomMetadata = [], bg_rest = ()\<rparr>, ''gov'' \<mapsto> OtherJson],
      ge_marshalEvm = EvmJson, ge_marshalErc20 = (\<lambda>_. OtherJson), ge_marshalFeeMarket = FeeMarketJson,
      ge_marshalBank = BankJson,
      ge_unmarshalBank = (\<lambda>j. case j of BankJson b \<Rightarrow> Ok b | _ \<Rightarrow> Err (ErrForeign ''json'')),
      ge_defaultEvm = sample_evm, ge_preinstalls = [], ge_defaultErc20 = (), ge_defaultFeeMarket = sample_feemarket,
      ge_coinInfo = sample_coin_info\<rparr>"

theorem default_genesis_denoms_witness:
  "\<exists>genesis bank md. App_DefaultGenesis sample_genesis = Ok genesis \<and> genesis ''bank'' = Some (BankJson bank) \<and>
     bg_DenomMetadata bank = [md] \<and> md_Base md = ''uGNOD'' \<and> genesis ''gov'' = Some OtherJson"
proof -
  obtain genesis where g: "App_DefaultGenesis sample_genesis = Ok genesis"
    by (simp add: App_DefaultGenesis_def sample_genesis_def Let_def)
  from default_genesis_denoms [OF g, of "BankJson \<lparr>bg_DenomMetadata = [], bg_rest = ()\<rparr>"] g
  show ?thesis by (force simp: sample_genesis_def sample_coin_info_def)
qed
section \<open>The module tables\<close>

text \<open>
  An address is blocked from receiving funds exactly when it is the address of a module
  account other than governance; in particular the distro account is blocked and governance is not.
\<close>

theorem blocked_addresses_iff:
  assumes "inj_on (\<lambda>m. addr (name_of nm m)) (fst ` set maccPermsList)"
  shows "(BlockedAddresses nm addr a = Some True \<longleftrightarrow>
      (\<exists>m \<in> fst ` set maccPermsList. m \<noteq> Gov \<and> a = addr (name_of nm m))) \<and>
    (BlockedAddresses nm addr a = None \<or> BlockedAddresses nm addr a = Some True) \<and>
    BlockedAddresses nm addr (addr ModuleName) = Some True \<and> BlockedAddresses nm addr (addr (nm Gov)) = None"
proof -
  define M where "M = fst ` set maccPermsList"
  have gov: "Gov \<in> M" and distro: "Distro \<in> M" by (simp_all add: M_def maccPermsList_def)
  have ne: "addr (name_of nm m) \<noteq> addr (name_of nm Gov)" if "m \<in> M" "m \<noteq> Gov" for m
    using inj_onD [OF assms [folded M_def] _ that(1) gov] that(2) by blast
  have names: "addr ModuleName = addr (name_of nm Distro)" "addr (nm Gov) = addr (name_of nm Gov)"
    by (simp_all add: name_of_def)
  have "(a \<noteq> addr (name_of nm Gov) \<and> (\<exists>m \<in> M. a = addr (name_of nm m))) \<longleftrightarrow> (\<exists>m \<in> M. m \<noteq> Gov \<and> a = addr (name_of nm m))"
    by (metis ne)
  moreover have "addr (name_of nm Distro) \<noteq> addr (name_of nm Gov) \<and> (\<exists>m \<in> M. addr (name_of nm Distro) = addr (name_of nm m))"
    using ne [OF distro] distro by blast
  moreover have "BlockedAddresses nm addr b =
      (if b \<noteq> addr (name_of nm Gov) \<and> (\<exists>m \<in> M. b = addr (name_of nm m)) then Some True else None)" for b
    unfolding BlockedAddresses_def M_def by (rule blockedAddrs_eq)
  ultimately show ?thesis unfolding names M_def [symmetric] by (metis option.distinct(1))
qed

text \<open>An injective naming, for the sample.\<close>

definition sample_names :: names where
  "sample_names m = (case m of
     FeeCollector \<Rightarrow> ''fee_collector'' | Distribution \<Rightarrow> ''distribution'' | SdkMint \<Rightarrow> ''mint''
   | BondedPool \<Rightarrow> ''bonded_tokens_pool'' | NotBondedPool \<Rightarrow> ''not_bonded_tokens_pool'' | Gov \<Rightarrow> ''gov''
   | Nft \<Rightarrow> ''nft'' | Transfer \<Rightarrow> ''transfer'' | Ica \<Rightarrow> ''interchainaccounts'' | Evm \<Rightarrow> ''evm''
   | FeeMarket \<Rightarrow> ''feemarket'' | Erc20 \<Rightarrow> ''erc20'' | PreciseBank \<Rightarrow> ''precisebank'' | _ \<Rightarrow> ''other'')"

lemma sample_names_inj: "inj_on (\<lambda>m. (''addr-'' @ name_of sample_names m)) (fst ` set maccPermsList)"
  by (simp add: maccPermsList_def inj_on_def name_of_def sample_names_def ModuleName_def)

theorem blocked_addresses_iff_witness:
  "BlockedAddresses sample_names (\<lambda>n. ''addr-'' @ n) ''addr-evm'' = Some True \<and>
   BlockedAddresses sample_names (\<lambda>n. ''addr-'' @ n) ''addr-gov'' = None"
  using blocked_addresses_iff [of "\<lambda>n. ''addr-'' @ n" sample_names "''addr-evm''", OF sample_names_inj]
  by (auto simp: maccPermsList_def name_of_def sample_names_def)

text \<open>
  The account through which coins are minted (distro) and the one through which the security
  burn and the EVM burn (EVM) hold the permission for it, the governance account cannot mint, and
  the copy returned to callers is the table itself.
\<close>

theorem module_permissions:
  assumes "inj_on (name_of nm) (fst ` set maccPermsList)"
  shows "(\<exists>ps. maccPerms nm ModuleName = Some ps \<and> Minter \<in> set ps) \<and>
    (\<exists>ps. maccPerms nm (nm Evm) = Some ps \<and> Burner \<in> set ps) \<and>
    maccPerms nm (nm Gov) = Some [Burner] \<and> GetMaccPerms nm = maccPerms nm"
proof -
  have names: "ModuleName = name_of nm Distro" "nm Evm = name_of nm Evm" "nm Gov = name_of nm Gov"
    by (simp_all add: name_of_def)
  have "distinct (map (name_of nm) (map fst maccPermsList))"
    unfolding distinct_map [of "name_of nm"] using assms by (simp add: maccPermsList_def)
  then have "GetMaccPerms nm = maccPerms nm"
    using foldl_copy [of "name_of nm" maccPermsList Map.empty] by (simp add: GetMaccPerms_def maccPerms_def)
  moreover have "maccPerms nm (name_of nm Distro) = Some [Minter, Burner, StakingPerm]"
    "maccPerms nm (name_of nm Evm) = Some [Minter, Burner]" "maccPerms nm (name_of nm Gov) = Some [Burner]"
    by (rule maccPerms_lookup [OF assms], simp add: maccPermsList_def)+
  ultimately show ?thesis unfolding names by simp
qed

theorem module_permissions_witness: "maccPerms sample_names ''gov'' = Some [Burner]"
proof -
  have "inj_on (name_of sample_names) (fst ` set maccPermsList)"
    by (simp add: maccPermsList_def inj_on_def name_of_def sample_names_def ModuleName_def)
  from module_permissions [OF this] show ?thesis by (simp add: sample_names_def)
qed

text \<open>
  C26: In a pass over the begin-block, end-block or genesis order of the module manager the hook of
  every managed module runs exactly once, except for the light client, which has none, and the
  upgrade module, which runs before begin-block. The orders respect the stated dependencies
  (erc20 before fee market before EVM at begin-block, fee market before the genesis transactions,
  transfer after the EVM), and each store that the upgrade adds is mounted exactly once.
\<close>

theorem module_orders:
  "(\<forall>m. count_list orderBeginBlockers m = (if m \<in> set managedModules - {IbcTm, Upgrade} then 1 else 0) \<and>
        count_list orderEndBlockers m = (if m \<in> set managedModules - {IbcTm} then 1 else 0) \<and>
        count_list genesisModuleOrder m = (if m \<in> set managedModules - {IbcTm} then 1 else 0)) \<and>
   distinct orderPreBlockers \<and> set orderPreBlockers \<subseteq> set managedModules \<and> Upgrade \<in> set orderPreBlockers \<and>
   runs_before Erc20 FeeMarket orderBeginBlockers \<and> runs_before FeeMarket Evm orderBeginBlockers \<and>
   runs_before FeeMarket Genutil genesisModuleOrder \<and> runs_before Evm Transfer genesisModuleOrder \<and>
   runs_before Bank Evm genesisModuleOrder \<and>
   distinct (GetStoreKeys kvStoreKeys transientStoreKeys) \<and> set addedStores \<subseteq> set kvStoreKeys"
proof -
  have keys: "GetStoreKeys kvStoreKeys transientStoreKeys = map Inl kvStoreKeys @ map Inr transientStoreKeys"
    by (simp add: GetStoreKeys_def foldl_snoc)
  have pre: "distinct orderPreBlockers" "set orderPreBlockers \<subseteq> set managedModules" "Upgrade \<in> set orderPreBlockers"
    by (simp_all add: orderPreBlockers_def managedModules_def)
  have before: "runs_before Erc20 FeeMarket orderBeginBlockers" "runs_before FeeMarket Evm orderBeginBlockers"
    "runs_before FeeMarket Genutil genesisModuleOrder" "runs_before Evm Transfer genesisModuleOrder"
    "runs_before Bank Evm genesisModuleOrder"
    by code_simp+
  have stores: "distinct (GetStoreKeys kvStoreKeys transientStoreKeys)" "set addedStores \<subseteq> set kvStoreKeys"
    unfolding keys by (auto simp: kvStoreKeys_def transientStoreKeys_def addedStores_def)
  show ?thesis
    by (intro conjI allI begin_order.runs_once end_order.runs_once genesis_order.runs_once pre before stores)
qed

section \<open>The genesis of the distro module\<close>

text \<open>
  C22: Through the module's JSON interface, exporting right after importing gives JSON that
  decodes to the imported state, and leaves the store as it is; with a faulty document the
  import panics without writing.
\<close>

theorem module_genesis_roundtrip:
  assumes "codec_laws (am_cdc am)" and "item_laws (k_Params (am_keeper am))"
  shows "(Module_InitGenesis am bz s = (s', Ok ()) \<and> Module_ExportGenesis am s' = (s'', Ok bz') \<longrightarrow>
      s'' = s' \<and> cdc_UnmarshalJSON (am_cdc am) bz' = cdc_UnmarshalJSON (am_cdc am) bz) \<and>
    (\<not> is_ok (cdc_UnmarshalJSON (am_cdc am) bz) \<longrightarrow> (\<exists>p. Module_InitGenesis am bz s = (s, Panic p)))"
proof (intro conjI impI)
  assume a: "Module_InitGenesis am bz s = (s', Ok ()) \<and> Module_ExportGenesis am s' = (s'', Ok bz')"
  then obtain gs where gs: "cdc_UnmarshalJSON (am_cdc am) bz = Ok gs"
    and init: "item_Set (k_Params (am_keeper am)) (gs_Params gs) s = (s', Ok ())"
    by (auto simp: Module_InitGenesis_def InitGenesis_def outcome_inv)
  from assms(2) init have get: "item_Get (k_Params (am_keeper am)) s' = Ok (gs_Params gs)"
    by (auto simp: item_laws_def)
  with a have "s'' = s'" "cdc_MarshalJSON (am_cdc am) gs = Ok bz'"
    by (cases gs; auto simp: Module_ExportGenesis_def ExportGenesis_def outcome_inv DefaultGenesis_def)+
  with assms(1) gs show "s'' = s'" "cdc_UnmarshalJSON (am_cdc am) bz' = cdc_UnmarshalJSON (am_cdc am) bz"
    by (auto simp: codec_laws_def)
next
  assume "\<not> is_ok (cdc_UnmarshalJSON (am_cdc am) bz)"
  then show "\<exists>p. Module_InitGenesis am bz s = (s, Panic p)"
    by (cases "cdc_UnmarshalJSON (am_cdc am) bz") (simp_all add: Module_InitGenesis_def mustO_def bindA_def liftO_def)
qed

definition sample_module :: "(mem_chain, genesis_state option) app_module" where
  "sample_module = NewAppModule \<lparr>cdc_MarshalJSON = (\<lambda>g. Ok (Some g)),
     cdc_UnmarshalJSON = (\<lambda>j. case j of Some g \<Rightarrow> Ok g | None \<Rightarrow> Err (ErrForeign ''json''))\<rparr> ref_keeper ref_bank"

theorem module_genesis_roundtrip_witness:
  "(\<exists>s' bz'. Module_ExportGenesis sample_module s' = (s', Ok bz') \<and>
      cdc_UnmarshalJSON (am_cdc sample_module) bz' = Ok DefaultGenesis) \<and>
   (\<exists>p. Module_InitGenesis sample_module None sample_chain = (sample_chain, Panic p))"
proof -
  have laws: "codec_laws (am_cdc sample_module)" "item_laws (k_Params (am_keeper sample_module))"
    using ref_item_laws by (auto simp: codec_laws_def sample_module_def NewAppModule_def)
  have eval: "Module_InitGenesis sample_module (Some DefaultGenesis) sample_chain =
      (sample_chain\<lparr>mc_params := Some (gs_Params DefaultGenesis)\<rparr>, Ok ())"
    by (simp add: Module_InitGenesis_def InitGenesis_def sample_module_def NewAppModule_def mustO_def bindA_def outcome_simps
        panicOnErr_def ref_params_def)
  moreover obtain bz' where "Module_ExportGenesis sample_module (sample_chain\<lparr>mc_params := Some (gs_Params DefaultGenesis)\<rparr>) =
      (sample_chain\<lparr>mc_params := Some (gs_Params DefaultGenesis)\<rparr>, Ok bz')"
    by (simp add: Module_ExportGenesis_def ExportGenesis_def sample_module_def NewAppModule_def mustO_def bindA_def outcome_simps
        panicOnErr_def ref_params_def)
  ultimately show ?thesis
    using module_genesis_roundtrip [OF laws, of "Some DefaultGenesis" sample_chain _ _ bz']
      module_genesis_roundtrip [OF laws, of None sample_chain]
    by (auto simp: sample_module_def NewAppModule_def)
qed

section \<open>The export\<close>

text \<open>
  C27: After the validator reset of a zero-height export every validator under the iterated keys
  has unbonding height zero, and is jailed exactly when it was before or a non-empty allow list
  does not name it; all other fields and all other validators are unchanged.
\<close>

theorem zero_height_validators:
  assumes "validator_laws ex" and "distinct (ex_validatorKeys ex s)"
    and "resetValidators ex ctx allowed s = (s', Ok ())"
  shows "(\<forall>a \<in> set (ex_validatorKeys ex s). \<exists>v str.
      ex_GetValidator ex ctx s a = Ok v \<and> addr_BytesToString (ex_valCodec ex) a = Ok str \<and>
      ex_GetValidator ex ctx s' a =
        Ok (v\<lparr>v_UnbondingHeight := 0, v_Jailed := v_Jailed v \<or> allowed \<noteq> [] \<and> str \<notin> set allowed\<rparr>)) \<and>
    (\<forall>a. a \<notin> set (ex_validatorKeys ex s) \<longrightarrow> ex_GetValidator ex ctx s' a = ex_GetValidator ex ctx s a)"
  using resetValidators_loop [OF assms(1) assms(3) [unfolded resetValidators_def] assms(2)]
  unfolding zero_height_validator_def .

type_synonym mem_staking = "bytes \<rightharpoonup> unit validator"

definition sample_export :: "(mem_staking, unit, unit) export_env" where
  "sample_export =
     \<lparr>ex_valCodec = ref_codec, ex_accCodec = ref_codec,
      ex_IterateValidators = (\<lambda>_ _. returnA ()), ex_GetAllDelegations = (\<lambda>_ _. Ok []),
      ex_WithdrawValidatorCommission = (\<lambda>_ _. returnA ()), ex_WithdrawDelegationRewards = (\<lambda>_ _ _. returnA ()),
      ex_DeleteAllValidatorSlashEvents = (\<lambda>_ s. s), ex_DeleteAllValidatorHistoricalRewards = (\<lambda>_ s. s),
      ex_GetValidatorOutstandingRewardsCoins = (\<lambda>_ _ _. Ok ()),
      ex_FeePool = \<lparr>item_Get = (\<lambda>_. Ok \<lparr>fp_CommunityPool = ()\<rparr>), item_Set = (\<lambda>_. returnA ())\<rparr>,
      ex_addCoins = (\<lambda>_ _. ()), ex_AfterValidatorCreated = (\<lambda>_ _. returnA ()),
      ex_BeforeDelegationCreated = (\<lambda>_ _ _. returnA ()), ex_AfterDelegationModified = (\<lambda>_ _ _. returnA ()),
      ex_IterateRedelegations = (\<lambda>_ _. returnA ()), ex_SetRedelegation = (\<lambda>_ _. returnA ()),
      ex_IterateUnbondingDelegations = (\<lambda>_ _. returnA ()), ex_SetUnbondingDelegation = (\<lambda>_ _. returnA ()),
      ex_validatorKeys = (\<lambda>_. [string_bytes ''val1'', string_bytes ''val0'']), ex_iterClose = Ok (),
      ex_GetValidator = (\<lambda>_ s a. case s a of
          Some v \<Rightarrow> if addr_StringToBytes ref_codec (v_OperatorAddress v) = Ok a then Ok v else Err (ErrForeign ''corrupt'')
        | None \<Rightarrow> Err (ErrForeign ''validator does not exist'')),
      ex_SetValidator = (\<lambda>_ v s. case addr_StringToBytes ref_codec (v_OperatorAddress v) of
          Ok a \<Rightarrow> (s(a \<mapsto> v), Ok ()) | Err e \<Rightarrow> (s, Err e) | Panic p \<Rightarrow> (s, Panic p)),
      ex_ApplyAndReturnValidatorSetUpdates = (\<lambda>_. returnA ()),
      ex_IterateValidatorSigningInfos = (\<lambda>_ _. returnA ()), ex_SetValidatorSigningInfo = (\<lambda>_ _ _. returnA ())\<rparr>"

definition sample_validator :: "string \<Rightarrow> unit validator" where
  "sample_validator op = \<lparr>v_OperatorAddress = op, v_UnbondingHeight = 99, v_Jailed = False, v_rest = ()\<rparr>"

definition sample_staking :: mem_staking where
  "sample_staking = [string_bytes ''val0'' \<mapsto> sample_validator ''val0'', string_bytes ''val1'' \<mapsto> sample_validator ''val1'']"

lemma sample_validator_laws: "validator_laws sample_export"
  by (auto simp: validator_laws_def sample_export_def split: option.splits if_splits outcome.splits)

lemma sample_reset: "\<exists>s'. resetValidators sample_export sample_ctx [''val0''] sample_staking = (s', Ok ())"
  by (simp add: resetValidators_def resetValidator_def Let_def bindA_def outcome_simps panicOnErr_def sample_export_def
      sample_staking_def sample_validator_def ref_codec_def)

theorem zero_height_validators_witness:
  "\<exists>s'. resetValidators sample_export sample_ctx [''val0''] sample_staking = (s', Ok ()) \<and>
     ex_GetValidator sample_export sample_ctx s' (string_bytes ''val1'') =
       Ok ((sample_validator ''val1'')\<lparr>v_UnbondingHeight := 0, v_Jailed := True\<rparr>)"
proof -
  obtain s' where r: "resetValidators sample_export sample_ctx [''val0''] sample_staking = (s', Ok ())"
    using sample_reset by blast
  have keys: "ex_validatorKeys sample_export sample_staking = [string_bytes ''val1'', string_bytes ''val0'']"
    by (simp add: sample_export_def)
  have get: "ex_GetValidator sample_export sample_ctx sample_staking (string_bytes ''val1'') = Ok (sample_validator ''val1'')"
    "addr_BytesToString (ex_valCodec sample_export) (string_bytes ''val1'') = Ok ''val1''"
    by (simp_all add: sample_export_def sample_staking_def sample_validator_def ref_codec_def)
  have d: "distinct (ex_validatorKeys sample_export sample_staking)" by (simp add: keys)
  from zero_height_validators [OF sample_validator_laws d r] get r show ?thesis
    by (auto simp: keys sample_validator_def)
qed

text \<open>
  The preparation of a zero-height export never returns an error value: it completes or
  panics, and it panics before it has written anything when an allow-listed address is not a
  valid validator address. A normal export does not run it and continues at the next height.
\<close>

theorem zero_height_prep_errors:
  "(\<forall>s' e. prepForZeroHeightGenesis ex ctx allowed s \<noteq> (s', Err e)) \<and>
   (\<not> (\<forall>a \<in> set allowed. is_ok (addr_StringToBytes (ex_valCodec ex) a)) \<longrightarrow>
      (\<exists>p. prepForZeroHeightGenesis ex ctx allowed s = (s, Panic p))) \<and>
   (ExportAppStateAndValidators ex newContext exportGenesis marshalIndent writeValidators cp lastHeight zero allowed modules s
      = (s', Ok (ea, err)) \<longrightarrow>
    ea_Height ea = (if zero then 0 else go_int (lastHeight + 1)) \<and>
    (\<not> zero \<longrightarrow> (\<exists>g. exportGenesis modules s = (s', Ok g) \<and> marshalIndent g = Ok (ea_AppState ea))))"
proof (intro conjI impI)
  show no: "\<forall>s' e. prepForZeroHeightGenesis ex ctx allowed s \<noteq> (s', Err e)"
    using no_err_prep [of ex ctx allowed] by (simp add: no_err_def)
  assume "\<not> (\<forall>a \<in> set allowed. is_ok (addr_StringToBytes (ex_valCodec ex) a))"
  then have "snd (checkAllowedAddrs ex allowed s) \<noteq> Ok ()" by (simp add: checkAllowedAddrs_iff)
  then have "prepForZeroHeightGenesis ex ctx allowed s = (s, Panic p) \<or> prepForZeroHeightGenesis ex ctx allowed s = (s, Err e)"
    if "snd (checkAllowedAddrs ex allowed s) = Panic p \<or> snd (checkAllowedAddrs ex allowed s) = Err e" for p e
    using that checkAllowedAddrs_state [of ex allowed s]
    by (cases "checkAllowedAddrs ex allowed s") (auto simp: prepForZeroHeightGenesis_def bindA_def)
  with \<open>snd (checkAllowedAddrs ex allowed s) \<noteq> Ok ()\<close> no show "\<exists>p. prepForZeroHeightGenesis ex ctx allowed s = (s, Panic p)"
    by (cases "snd (checkAllowedAddrs ex allowed s)") auto
next
  assume e: "ExportAppStateAndValidators ex newContext exportGenesis marshalIndent writeValidators cp lastHeight zero allowed modules s
      = (s', Ok (ea, err))"
  then show "ea_Height ea = (if zero then 0 else go_int (lastHeight + 1))"
    by (auto simp: ExportAppStateAndValidators_def Let_def outcome_inv case_prod_beta)
  assume "\<not> zero"
  with e show "\<exists>g. exportGenesis modules s = (s', Ok g) \<and> marshalIndent g = Ok (ea_AppState ea)"
    by (auto simp: ExportAppStateAndValidators_def Let_def outcome_inv case_prod_beta)
qed

theorem zero_height_prep_errors_witness:
  "\<exists>p. prepForZeroHeightGenesis sample_export sample_ctx [''val0'', []] sample_staking = (sample_staking, Panic p)"
proof -
  have "\<not> is_ok (addr_StringToBytes (ex_valCodec sample_export) [])" by (simp add: sample_export_def ref_codec_def)
  then have "\<not> (\<forall>a \<in> set [''val0'', []]. is_ok (addr_StringToBytes (ex_valCodec sample_export) a))" by simp
  then show ?thesis
    by (rule zero_height_prep_errors [THEN conjunct2, THEN conjunct1, rule_format])
qed
section \<open>The construction of the application\<close>


text \<open>Every fallible call of the construction succeeds.\<close>

definition sample_new :: "unit new_env" where
  "sample_new =
     \<lparr>ne_RegisterStreamingServices = Ok (), ne_NewTxConfigWithOptions = Ok (), ne_isICS4Wrapper = (\<lambda>_. True),
      ne_RegisterServices = Ok (), ne_RegisterUpgradeHandlers = Ok, ne_NewReflectionService = Ok (),
      ne_setAnteHandler = Ok, ne_NewPostHandler = Ok (), ne_configureEVMMempool = Ok,
      ne_MergedRegistry = Ok (), ne_ValidateProtoAnnotations = Err (ErrText ''annotation''), ne_LoadLatestVersion = Ok ()\<rparr>"

lemma sample_new_Ok: "\<exists>h. New sample_new True () = Ok (h, ())"
  by (simp add: New_defs registerIBCModules_def setPostHandler_def sample_new_def mustO_def printErr_def Let_def)



text \<open>
  C31: In the constructed application a packet received on the transfer port passes the callbacks and
  the ERC-20 layer before it reaches the transfer module, and what the final transfer keeper sends
  goes through the callbacks layer to the channel keeper. The module at the bottom of that stack
  keeps the copy of the keeper made before the binding, which sends to the channel directly; the
  stack of version 2 holds the bound keeper. Both routers are those of the IBC keeper.
\<close>

theorem ibc_packet_paths:
  "New ne loadLatest rt = Ok (h, rt') \<longrightarrow>
   (\<exists>keeper unbound stack stackV2 router routerV2 k0 args.
      h TransferKeeper = Some keeper \<and>
      send_path keeper = [''ibccallbacks.NewIBCMiddleware'', ''ChannelKeeper''] \<and>
      h (Local ''ibcRouter'') = Some router \<and> route_of router Transfer = Some stack \<and>
      recv_path stack = [''ibccallbacks.NewIBCMiddleware'', ''erc20.NewIBCMiddleware'', ''transfer.NewIBCModule''] \<and>
      bottom_keeper stack = Some unbound \<and> send_path unbound = [''ChannelKeeper''] \<and>
      h (Local ''ibcv2Router'') = Some routerV2 \<and> route_of routerV2 Transfer = Some stackV2 \<and>
      recv_path stackV2 = [''erc20v2.NewIBCMiddleware'', ''transferv2.NewIBCModule''] \<and>
      bottom_keeper stackV2 = Some keeper \<and>
      h IBCKeeper = Some (Call ''ClientKeeper.AddRoute'' (Call ''SetRouterV2'' [Call ''SetRouter'' [k0, router], routerV2] # args)))"
proof
  assume "New ne loadLatest rt = Ok (h, rt')"
  then obtain h0 where h0: "h TransferKeeper = run kvStoreKeys transientStoreKeys (ibcStack @ ibcRouting) h0 TransferKeeper"
    "h (Local ''ibcRouter'') = run kvStoreKeys transientStoreKeys (ibcStack @ ibcRouting) h0 (Local ''ibcRouter'')"
    "h (Local ''ibcv2Router'') = run kvStoreKeys transientStoreKeys (ibcStack @ ibcRouting) h0 (Local ''ibcv2Router'')"
    "h IBCKeeper = run kvStoreKeys transientStoreKeys (ibcStack @ ibcRouting @ distroWiring) h0 IBCKeeper"
    by (rule New_ibc)
  let ?h1 = "run kvStoreKeys transientStoreKeys ibcStack h0" and ?h2 = "run kvStoreKeys transientStoreKeys (ibcStack @ ibcRouting) h0"
  obtain k stack where 1: "?h1 TransferKeeper = Some k" "send_path k = [''ChannelKeeper'']" "?h1 (Local ''transferStack'') = Some stack"
    "send_path (Call ''WithICS4Wrapper'' [k, stack]) = [''ibccallbacks.NewIBCMiddleware'', ''ChannelKeeper'']"
    "recv_path stack = [''ibccallbacks.NewIBCMiddleware'', ''erc20.NewIBCMiddleware'', ''transfer.NewIBCModule'']"
    "bottom_keeper stack = Some k"
    using ibcStack_result [of kvStoreKeys transientStoreKeys h0] by blast
  obtain router routerV2 stackV2 where 2: "?h2 TransferKeeper = Some (Call ''WithICS4Wrapper'' [k, stack])"
    "?h2 (Local ''ibcRouter'') = Some router" "route_of router Transfer = Some stack"
    "?h2 (Local ''ibcv2Router'') = Some routerV2" "route_of routerV2 Transfer = Some stackV2"
    "recv_path stackV2 = [''erc20v2.NewIBCMiddleware'', ''transferv2.NewIBCModule'']"
    "bottom_keeper stackV2 = Some (Call ''WithICS4Wrapper'' [k, stack])"
    "?h2 IBCKeeper = Some (Call ''SetRouterV2'' [Call ''SetRouter'' [copy_of ?h1 IBCKeeper, router], routerV2])"
    using ibcRouting_result [OF 1(1,3), of kvStoreKeys transientStoreKeys] by auto
  have "\<exists>args. run kvStoreKeys transientStoreKeys distroWiring g IBCKeeper =
      Some (Call ''ClientKeeper.AddRoute'' (copy_of g IBCKeeper # args))" for g
    by (simp add: distroWiring_def copy_of_def)
  from this [of ?h2] 2(8) obtain args where 3: "h IBCKeeper = Some (Call ''ClientKeeper.AddRoute''
      (Call ''SetRouterV2'' [Call ''SetRouter'' [copy_of ?h1 IBCKeeper, router], routerV2] # args))"
    unfolding h0(4) run_append copy_of_def by auto
  show "\<exists>keeper unbound stack stackV2 router routerV2 k0 args.
      h TransferKeeper = Some keeper \<and>
      send_path keeper = [''ibccallbacks.NewIBCMiddleware'', ''ChannelKeeper''] \<and>
      h (Local ''ibcRouter'') = Some router \<and> route_of router Transfer = Some stack \<and>
      recv_path stack = [''ibccallbacks.NewIBCMiddleware'', ''erc20.NewIBCMiddleware'', ''transfer.NewIBCModule''] \<and>
      bottom_keeper stack = Some unbound \<and> send_path unbound = [''ChannelKeeper''] \<and>
      h (Local ''ibcv2Router'') = Some routerV2 \<and> route_of routerV2 Transfer = Some stackV2 \<and>
      recv_path stackV2 = [''erc20v2.NewIBCMiddleware'', ''transferv2.NewIBCModule''] \<and>
      bottom_keeper stackV2 = Some keeper \<and>
      h IBCKeeper = Some (Call ''ClientKeeper.AddRoute'' (Call ''SetRouterV2'' [Call ''SetRouter'' [k0, router], routerV2] # args))"
    unfolding h0(1-3)
    by (intro exI conjI) (rule 2(1) 1(4) 2(2) 2(3) 1(5) 1(6) 1(2) 2(4) 2(5) 2(6) 2(7) 3)+
qed

theorem ibc_packet_paths_witness:
  "\<exists>h keeper. New sample_new True () = Ok (h, ()) \<and> h TransferKeeper = Some keeper \<and>
     send_path keeper = [''ibccallbacks.NewIBCMiddleware'', ''ChannelKeeper'']"
proof -
  obtain h where "New sample_new True () = Ok (h, ())" using sample_new_Ok by blast
  with ibc_packet_paths [of sample_new True "()" h "()"] show ?thesis by blast
qed
section \<open>The application's methods\<close>



end
