(* ===== verification/Go_Strings.thy ===== *)
theory Go_Strings
  imports Go_Date_Layout
begin

text \<open>
  The functions of the Go packages \<^verbatim>\<open>strings\<close> and \<^verbatim>\<open>strconv\<close> that the command line code
  uses: splitting at a separator, prefixes and the decimal form of an integer.
\<close>

section \<open>Splitting\<close>

text \<open>\<^verbatim>\<open>strings.Split\<close> for a separator of one character: the empty string gives one empty part.\<close>

fun strings_Split :: "char \<Rightarrow> string \<Rightarrow> string list" where
  "strings_Split c [] = [[]]"
| "strings_Split c (x # xs) =
     (if x = c then [] # strings_Split c xs
      else (case strings_Split c xs of w # ws \<Rightarrow> (x # w) # ws | [] \<Rightarrow> [[x]]))"

fun strings_Join :: "char \<Rightarrow> string list \<Rightarrow> string" where
  "strings_Join c [] = []"
| "strings_Join c [w] = w"
| "strings_Join c (w # v # ws) = w @ c # strings_Join c (v # ws)"

definition strings_HasPrefix :: "string \<Rightarrow> string \<Rightarrow> bool" where
  "strings_HasPrefix s p \<longleftrightarrow> take (length p) s = p"

lemma strings_Split_not_Nil [simp]: "strings_Split c s \<noteq> []"
  by (cases s) (auto split: list.splits)

lemma strings_Join_Cons: "ws \<noteq> [] \<Longrightarrow> strings_Join c (w # ws) = w @ c # strings_Join c ws"
  by (cases ws) simp_all

lemma strings_Join_Split [simp]: "strings_Join c (strings_Split c s) = s"
proof (induction s)
  case (Cons x xs)
  show ?case
  proof (cases "strings_Split c xs")
    case (Cons w ws)
    with \<open>strings_Join c (strings_Split c xs) = xs\<close> show ?thesis
      by (cases ws) (simp_all add: strings_Join_Cons)
  qed simp
qed simp

lemma strings_Split_clean: "w \<in> set (strings_Split c s) \<Longrightarrow> c \<notin> set w"
  by (induction s arbitrary: w) (auto split: list.splits if_splits)

section \<open>Decimal integers\<close>

definition strconv_Itoa :: "int \<Rightarrow> string" where
  "strconv_Itoa i = (if i < 0 then ''-'' else []) @ dec (nat \<bar>i\<bar>)"

text \<open>Reading the digits back.\<close>

definition undec :: "string \<Rightarrow> nat" where
  "undec s = foldl (\<lambda>a c. a * 10 + digit_val c) 0 s"

declare dec.simps [simp del]

lemma undec_dec [simp]: "undec (dec n) = n"
proof (induction n rule: dec.induct)
  case (1 n)
  then show ?case by (subst dec.simps) (simp add: undec_def)
qed

lemma dec_head_digit: "\<exists>c cs. dec n = c # cs \<and> is_digit c"
proof (induction n rule: dec.induct)
  case (1 n)
  then show ?case by (subst dec.simps) auto
qed

lemma dash_not_digit: "\<not> is_digit (CHR ''-'')"
  by (simp add: is_digit_def)

lemma strconv_Itoa_inj: "strconv_Itoa i = strconv_Itoa j \<longleftrightarrow> i = j"
proof
  assume eq: "strconv_Itoa i = strconv_Itoa j"
  have dd: "dec m = dec n \<longleftrightarrow> m = n" for m n by (metis undec_dec)
  have nd: "dec m \<noteq> CHR ''-'' # s" for m s using dec_head_digit [of m] dash_not_digit by force
  show "i = j"
    using eq by (auto simp: strconv_Itoa_def dd nd nd [symmetric] split: if_splits)
qed simp

end
