(* ===== verification/Cmd_InPlace.thy ===== *)
theory Cmd_InPlace
  imports Cosmos_Env Go_Strings
begin

text \<open>
  The in-place testnet (\<^verbatim>\<open>cmd/gnodid/cmd/testnet.go\<close>): reading the command's options and
  rewriting the state of a node so that one new validator runs the chain. The keepers and the
  staking store are arguments; \<^verbatim>\<open>os.Exit(1)\<close> is the panic \<open>exit_1\<close>.
\<close>

section \<open>Options\<close>

text \<open>The dynamic value of an option: the types the code asks for, and any other.\<close>

datatype 'pk opt_value = OptNil | OptHexBytes bytes | OptPubKey 'pk | OptString string | OptOther string

record 'pk valArgs =
  va_newValAddr :: bytes
  va_newOperatorAddress :: string
  va_newValPubKey :: 'pk
  va_accountsToFund :: "string list"
  va_upgradeToTrigger :: string
  va_homeDir :: string

datatype opt_key = KeyNewValAddr | KeyUserPubKey | KeyNewOpAddr | KeyTriggerTestnetUpgrade | FlagAccountsToFund | FlagHome

definition asHexBytes :: "'pk opt_value \<Rightarrow> bytes outcome" where
  "asHexBytes v = (case v of OptHexBytes b \<Rightarrow> Ok b | _ \<Rightarrow> Err (ErrText ''newValAddr is not of type bytes.HexBytes''))"

definition asPubKey :: "'pk opt_value \<Rightarrow> 'pk outcome" where
  "asPubKey v = (case v of OptPubKey k \<Rightarrow> Ok k | _ \<Rightarrow> Err (ErrText ''newValPubKey is not of type crypto.PubKey''))"

definition asString :: "string \<Rightarrow> 'pk opt_value \<Rightarrow> string outcome" where
  "asString name v = (case v of OptString s \<Rightarrow> Ok s | _ \<Rightarrow> Err (ErrText (name @ '' is not of type string'')))"

text \<open>\<open>castToString\<close> is \<^verbatim>\<open>cast.ToString\<close>.\<close>

definition getCommandArgs :: "('pk opt_value \<Rightarrow> string) \<Rightarrow> (opt_key \<Rightarrow> 'pk opt_value) \<Rightarrow> 'pk valArgs outcome" where
  "getCommandArgs castToString appOpts =
     bindO (asHexBytes (appOpts KeyNewValAddr)) (\<lambda>newValAddr.
     bindO (asPubKey (appOpts KeyUserPubKey)) (\<lambda>newValPubKey.
     bindO (asString ''newOperatorAddress'' (appOpts KeyNewOpAddr)) (\<lambda>newOperatorAddress.
     bindO (asString ''upgradeToTrigger'' (appOpts KeyTriggerTestnetUpgrade)) (\<lambda>upgradeToTrigger.
     let accountsString = castToString (appOpts FlagAccountsToFund);
         accountsToFund = [] @ strings_Split (CHR '','') accountsString;
         homeDir = castToString (appOpts FlagHome)
     in if homeDir = [] then Err (ErrText ''invalid home dir'')
        else Ok \<lparr>va_newValAddr = newValAddr, va_newOperatorAddress = newOperatorAddress,
                 va_newValPubKey = newValPubKey, va_accountsToFund = accountsToFund,
                 va_upgradeToTrigger = upgradeToTrigger, va_homeDir = homeDir\<rparr>))))"

section \<open>Rewriting the state\<close>

definition valVotingPower :: int where
  "valVotingPower = 900000000000000"

datatype bond_status = Unbonded | Unbonding | Bonded

record ('any, 'dec) testnet_validator =
  tv_OperatorAddress :: string
  tv_ConsensusPubkey :: 'any
  tv_Jailed :: bool
  tv_Status :: bond_status
  tv_Tokens :: int
  tv_DelegatorShares :: 'dec
  tv_Moniker :: string
  tv_Rate :: 'dec
  tv_MaxRate :: 'dec
  tv_MaxChangeRate :: 'dec
  tv_MinSelfDelegation :: int

record testnet_signing_info =
  tsi_Address :: string
  tsi_StartHeight :: int
  tsi_Tombstoned :: bool

text \<open>
  The four stores that list validators are read by iterators, given by the list of the keys
  they visit. \<open>ip_distrInit\<close> is the list of the four records of the distribution module.
\<close>

datatype distr_record = HistoricalRewards | CurrentRewards | AccumulatedCommission | OutstandingRewards

record ('s, 'pk, 'any, 'dec) inplace_env =
  ip_pubkeyAny :: "'pk \<Rightarrow> 'any outcome"
  ip_dec :: "string \<Rightarrow> 'dec"
  ip_valCodec :: address_codec
  ip_accCodec :: address_codec
  ip_consString :: "bytes \<Rightarrow> string"
  ip_ValidatorsPowerStoreIterator :: "'s \<Rightarrow> bytes list outcome"
  ip_LastValidatorsIterator :: "'s \<Rightarrow> bytes list outcome"
  ip_ValidatorsKeyIterator :: "'s \<Rightarrow> bytes list"
  ip_ValidatorQueueKeyIterator :: "'s \<Rightarrow> bytes list"
  ip_stakingDelete :: "bytes \<Rightarrow> 's \<Rightarrow> 's"
  ip_SetValidator :: "('any, 'dec) testnet_validator \<Rightarrow> ('s, unit) action"
  ip_SetValidatorByConsAddr :: "('any, 'dec) testnet_validator \<Rightarrow> ('s, unit) action"
  ip_SetValidatorByPowerIndex :: "('any, 'dec) testnet_validator \<Rightarrow> ('s, unit) action"
  ip_SetLastValidatorPower :: "bytes \<Rightarrow> int \<Rightarrow> ('s, unit) action"
  ip_AfterValidatorCreated :: "bytes \<Rightarrow> ('s, unit) action"
  ip_distrInit :: "distr_record \<Rightarrow> bytes \<Rightarrow> ('s, unit) action"
  ip_SetValidatorSigningInfo :: "bytes \<Rightarrow> testnet_signing_info \<Rightarrow> ('s, unit) action"
  ip_BondDenom :: "'s \<Rightarrow> string outcome"
  ip_newCoins :: "string \<Rightarrow> int \<Rightarrow> coins outcome"
  ip_mintModule :: string
  ip_BankKeeper :: "'s bank_keeper"

text \<open>\<^verbatim>\<open>handleErr\<close>: print the error and exit.\<close>

definition handleErr :: "('s, 'a) action \<Rightarrow> ('s, 'a) action" where
  "handleErr m = panicOnErr ''exit_1'' m"

definition newTestnetValidator :: "('s, 'pk, 'any, 'dec) inplace_env \<Rightarrow> string \<Rightarrow> 'any \<Rightarrow> ('any, 'dec) testnet_validator" where
  "newTestnetValidator ip operatorAddress pubkeyAny =
     \<lparr>tv_OperatorAddress = operatorAddress,
      tv_ConsensusPubkey = pubkeyAny,
      tv_Jailed = False,
      tv_Status = Bonded,
      tv_Tokens = valVotingPower,
      tv_DelegatorShares = ip_dec ip ''10000000'',
      tv_Moniker = ''Testnet Validator'',
      tv_Rate = ip_dec ip ''0.05'',
      tv_MaxRate = ip_dec ip ''0.1'',
      tv_MaxChangeRate = ip_dec ip ''0.05'',
      tv_MinSelfDelegation = 1\<rparr>"

definition deleteKeys :: "('s, 'pk, 'any, 'dec) inplace_env \<Rightarrow> bytes list \<Rightarrow> ('s, unit) action" where
  "deleteKeys ip ks s = (foldl (\<lambda>s k. ip_stakingDelete ip k s) s ks, Ok ())"

definition removeValidators :: "('s, 'pk, 'any, 'dec) inplace_env \<Rightarrow> ('s, unit) action" where
  "removeValidators ip =
     bindA (handleErr (readA (ip_ValidatorsPowerStoreIterator ip))) (\<lambda>ks.
     bindA (deleteKeys ip ks) (\<lambda>_.
     bindA (handleErr (readA (ip_LastValidatorsIterator ip))) (\<lambda>ks.
     bindA (deleteKeys ip ks) (\<lambda>_.
     bindA (readA (\<lambda>s. Ok (ip_ValidatorsKeyIterator ip s))) (\<lambda>ks.
     bindA (deleteKeys ip ks) (\<lambda>_.
     bindA (readA (\<lambda>s. Ok (ip_ValidatorQueueKeyIterator ip s))) (\<lambda>ks.
     deleteKeys ip ks)))))))"

definition addTestnetValidator ::
  "('s, 'pk, 'any, 'dec) inplace_env \<Rightarrow> ('any, 'dec) testnet_validator \<Rightarrow> bytes \<Rightarrow> ('s, unit) action" where
  "addTestnetValidator ip newVal validator =
     bindA (handleErr (ip_SetValidator ip newVal)) (\<lambda>_.
     bindA (handleErr (ip_SetValidatorByConsAddr ip newVal)) (\<lambda>_.
     bindA (handleErr (ip_SetValidatorByPowerIndex ip newVal)) (\<lambda>_.
     bindA (handleErr (ip_SetLastValidatorPower ip validator 0)) (\<lambda>_.
     bindA (handleErr (ip_AfterValidatorCreated ip validator)) (\<lambda>_.
     forA [HistoricalRewards, CurrentRewards, AccumulatedCommission, OutstandingRewards]
       (\<lambda>r. handleErr (ip_distrInit ip r validator)))))))"

text \<open>The coins are minted before the address is decoded.\<close>

definition fundAccount :: "('s, 'pk, 'any, 'dec) inplace_env \<Rightarrow> coins \<Rightarrow> string \<Rightarrow> ('s, unit) action" where
  "fundAccount ip defaultCoins accountStr =
     bindA (handleErr (bank_MintCoins (ip_BankKeeper ip) (ip_mintModule ip) defaultCoins)) (\<lambda>_.
     bindA (handleErr (liftO (addr_StringToBytes (ip_accCodec ip) accountStr))) (\<lambda>account.
     handleErr (bank_SendCoinsFromModuleToAccount (ip_BankKeeper ip) (ip_mintModule ip) account defaultCoins)))"

definition initAppForTestnet ::
  "('s, 'pk, 'any, 'dec) inplace_env \<Rightarrow> int \<Rightarrow> 'pk valArgs \<Rightarrow> ('s, unit) action" where
  "initAppForTestnet ip lastBlockHeight args =
     bindA (handleErr (liftO (ip_pubkeyAny ip (va_newValPubKey args)))) (\<lambda>pubkeyAny.
     let newVal = newTestnetValidator ip (va_newOperatorAddress args) pubkeyAny in
     bindA (handleErr (liftO (addr_StringToBytes (ip_valCodec ip) (tv_OperatorAddress newVal)))) (\<lambda>validator.
     bindA (removeValidators ip) (\<lambda>_.
     bindA (addTestnetValidator ip newVal validator) (\<lambda>_.
     let newConsAddr = va_newValAddr args;
         newValidatorSigningInfo =
           \<lparr>tsi_Address = ip_consString ip newConsAddr, tsi_StartHeight = go_int (lastBlockHeight - 1), tsi_Tombstoned = False\<rparr>
     in
     bindA (\<lambda>s. case ip_SetValidatorSigningInfo ip newConsAddr newValidatorSigningInfo s of
              (s', r) \<Rightarrow> (s', case r of Panic p \<Rightarrow> Panic p | _ \<Rightarrow> Ok ())) (\<lambda>_.
     bindA (handleErr (readA (ip_BondDenom ip))) (\<lambda>bondDenom.
     bindA (liftO (ip_newCoins ip bondDenom 1000000000)) (\<lambda>defaultCoins.
     forA (va_accountsToFund args) (fundAccount ip defaultCoins))))))))"

text \<open>The application is the one built by \<^verbatim>\<open>newApp\<close>, whose type assertion cannot fail; an error in the options is a panic.\<close>

definition newTestnetApp ::
  "('s, 'pk, 'any, 'dec) inplace_env \<Rightarrow> ('pk opt_value \<Rightarrow> string) \<Rightarrow> int \<Rightarrow> (opt_key \<Rightarrow> 'pk opt_value) \<Rightarrow> ('s, unit) action" where
  "newTestnetApp ip castToString lastBlockHeight appOpts =
     bindA (panicOnErr ''options'' (liftO (getCommandArgs castToString appOpts))) (\<lambda>args.
     initAppForTestnet ip lastBlockHeight args)"

section \<open>Lemmas\<close>

lemma getCommandArgs_accounts:
  assumes "getCommandArgs cast appOpts = Ok args"
  shows "va_accountsToFund args = strings_Split (CHR '','') (cast (appOpts FlagAccountsToFund))" "va_homeDir args \<noteq> []"
  using assms by (auto simp: getCommandArgs_def bindO_eq_Ok Let_def split: if_splits)

text \<open>One funded account gets the coins and the supply grows by them.\<close>

lemma fundAccount_Ok:
  assumes "bank_mint_laws (ip_BankKeeper ip) modAddr" "bank_send_laws (ip_BankKeeper ip) modAddr"
    and "fundAccount ip cs a s = (s', Ok ())"
  obtains b where "addr_StringToBytes (ip_accCodec ip) a = Ok b"
    "\<forall>d. coin_Amount (bank_GetSupply (ip_BankKeeper ip) s' d) = coin_Amount (bank_GetSupply (ip_BankKeeper ip) s d) + coins_amount d cs"
    "\<forall>c d. coin_Amount (bank_GetBalance (ip_BankKeeper ip) s' c d) =
       coin_Amount (bank_GetBalance (ip_BankKeeper ip) s c d) + (if c = b then coins_amount d cs else 0)"
proof -
  from assms(3) obtain s1 b where mint: "bank_MintCoins (ip_BankKeeper ip) (ip_mintModule ip) cs s = (s1, Ok ())"
    and b: "addr_StringToBytes (ip_accCodec ip) a = Ok b"
    and send: "bank_SendCoinsFromModuleToAccount (ip_BankKeeper ip) (ip_mintModule ip) b cs s1 = (s', Ok ())"
    by (auto simp: fundAccount_def handleErr_def outcome_inv)
  note 1 = assms(1) [unfolded bank_mint_laws_def, rule_format, OF mint]
  note 2 = assms(2) [unfolded bank_send_laws_def, rule_format, OF send]
  show thesis by (rule that [OF b]) (simp_all add: 1 2)
qed

lemma fundAccounts_Ok:
  assumes "bank_mint_laws (ip_BankKeeper ip) modAddr" "bank_send_laws (ip_BankKeeper ip) modAddr"
    and "forA as (fundAccount ip cs) s = (s', Ok ())"
  shows "\<exists>bs. map (addr_StringToBytes (ip_accCodec ip)) as = map Ok bs \<and>
    (\<forall>d. coin_Amount (bank_GetSupply (ip_BankKeeper ip) s' d) =
       coin_Amount (bank_GetSupply (ip_BankKeeper ip) s d) + int (length bs) * coins_amount d cs) \<and>
    (\<forall>c d. coin_Amount (bank_GetBalance (ip_BankKeeper ip) s' c d) =
       coin_Amount (bank_GetBalance (ip_BankKeeper ip) s c d) + int (count_list bs c) * coins_amount d cs)"
  using assms(3)
proof (induction as arbitrary: s)
  case Nil
  then show ?case by (simp add: outcome_inv)
next
  case (Cons a as)
  then obtain s1 where 1: "fundAccount ip cs a s = (s1, Ok ())" and 2: "forA as (fundAccount ip cs) s1 = (s', Ok ())"
    by (auto simp: outcome_inv)
  from assms(1,2) 1 obtain b where b: "addr_StringToBytes (ip_accCodec ip) a = Ok b"
    "\<forall>d. coin_Amount (bank_GetSupply (ip_BankKeeper ip) s1 d) = coin_Amount (bank_GetSupply (ip_BankKeeper ip) s d) + coins_amount d cs"
    "\<forall>c d. coin_Amount (bank_GetBalance (ip_BankKeeper ip) s1 c d) =
       coin_Amount (bank_GetBalance (ip_BankKeeper ip) s c d) + (if c = b then coins_amount d cs else 0)"
    by (rule fundAccount_Ok)
  from Cons.IH [OF 2] obtain bs where "map (addr_StringToBytes (ip_accCodec ip)) as = map Ok bs"
    "\<forall>d. coin_Amount (bank_GetSupply (ip_BankKeeper ip) s' d) =
       coin_Amount (bank_GetSupply (ip_BankKeeper ip) s1 d) + int (length bs) * coins_amount d cs"
    "\<forall>c d. coin_Amount (bank_GetBalance (ip_BankKeeper ip) s' c d) =
       coin_Amount (bank_GetBalance (ip_BankKeeper ip) s1 c d) + int (count_list bs c) * coins_amount d cs"
    by blast
  with b show ?case by (intro exI [of _ "b # bs"]) (auto simp: algebra_simps)
qed

lemma initAppForTestnet_Ok:
  assumes "initAppForTestnet ip h args s = (s', Ok ())"
  obtains s1 denom cs where "ip_BondDenom ip s1 = Ok denom" "ip_newCoins ip denom 1000000000 = Ok cs"
    "forA (va_accountsToFund args) (fundAccount ip cs) s1 = (s', Ok ())"
  using assms by (auto simp: initAppForTestnet_def Let_def handleErr_def outcome_inv)
section \<open>Removing the old validators\<close>

text \<open>A deleted key is no longer visited by any of the iterators, and the other keys still are.\<close>

definition delete_laws :: "('s, 'pk, 'any, 'dec) inplace_env \<Rightarrow> bool" where
  "delete_laws ip \<longleftrightarrow>
     (\<forall>k s. ip_ValidatorsKeyIterator ip (ip_stakingDelete ip k s) = removeAll k (ip_ValidatorsKeyIterator ip s) \<and>
        ip_ValidatorQueueKeyIterator ip (ip_stakingDelete ip k s) = removeAll k (ip_ValidatorQueueKeyIterator ip s) \<and>
        (\<forall>ks. ip_ValidatorsPowerStoreIterator ip s = Ok ks \<longrightarrow>
           ip_ValidatorsPowerStoreIterator ip (ip_stakingDelete ip k s) = Ok (removeAll k ks)) \<and>
        (\<forall>ks. ip_LastValidatorsIterator ip s = Ok ks \<longrightarrow>
           ip_LastValidatorsIterator ip (ip_stakingDelete ip k s) = Ok (removeAll k ks)))"

lemma foldl_delete:
  assumes "\<And>k s ks. it s = Ok ks \<Longrightarrow> it (del k s) = Ok (removeAll k ks)"
  shows "it s = Ok xs \<Longrightarrow> it (foldl (\<lambda>s k. del k s) s ks) = Ok (filter (\<lambda>x. x \<notin> set ks) xs)"
proof (induction ks arbitrary: s xs)
  case (Cons k ks)
  from Cons.IH [OF assms [OF Cons.prems]] show ?case
    by (simp add: removeAll_filter_not_eq conj_commute eq_commute [of k])
qed simp

lemma deleteKeys_Ok: "deleteKeys ip ks s = (s', Ok ()) \<longleftrightarrow> s' = foldl (\<lambda>s k. ip_stakingDelete ip k s) s ks"
  by (auto simp: deleteKeys_def)

lemma removeValidators_empty:
  assumes laws: "delete_laws ip" and ok: "removeValidators ip s = (s', Ok ())"
  shows "ip_ValidatorsPowerStoreIterator ip s' = Ok []" "ip_LastValidatorsIterator ip s' = Ok []"
    "ip_ValidatorsKeyIterator ip s' = []" "ip_ValidatorQueueKeyIterator ip s' = []"
proof -
  define del where "del ks s = foldl (\<lambda>s k. ip_stakingDelete ip k s) s ks" for ks s
  note fd = foldl_delete [where del = "ip_stakingDelete ip"]
  have power: "ip_ValidatorsPowerStoreIterator ip t = Ok xs \<Longrightarrow>
      ip_ValidatorsPowerStoreIterator ip (del ks t) = Ok (filter (\<lambda>x. x \<notin> set ks) xs)" for t xs ks
    unfolding del_def using laws by (intro fd) (simp_all add: delete_laws_def)
  have last: "ip_LastValidatorsIterator ip t = Ok xs \<Longrightarrow>
      ip_LastValidatorsIterator ip (del ks t) = Ok (filter (\<lambda>x. x \<notin> set ks) xs)" for t xs ks
    unfolding del_def using laws by (intro fd) (simp_all add: delete_laws_def)
  have vals: "ip_ValidatorsKeyIterator ip (del ks t) = filter (\<lambda>x. x \<notin> set ks) (ip_ValidatorsKeyIterator ip t)" for t ks
    using fd [of "\<lambda>s. Ok (ip_ValidatorsKeyIterator ip s)" t] laws by (simp add: del_def delete_laws_def)
  have queue: "ip_ValidatorQueueKeyIterator ip (del ks t) = filter (\<lambda>x. x \<notin> set ks) (ip_ValidatorQueueKeyIterator ip t)" for t ks
    using fd [of "\<lambda>s. Ok (ip_ValidatorQueueKeyIterator ip s)" t] laws by (simp add: del_def delete_laws_def)
  from ok obtain ks1 ks2 s2 where 1: "ip_ValidatorsPowerStoreIterator ip s = Ok ks1"
    and 2: "ip_LastValidatorsIterator ip (del ks1 s) = Ok ks2" and s2: "s2 = del ks2 (del ks1 s)"
    and s': "s' = del (ip_ValidatorQueueKeyIterator ip (del (ip_ValidatorsKeyIterator ip s2) s2)) (del (ip_ValidatorsKeyIterator ip s2) s2)"
    by (auto simp: removeValidators_def handleErr_def outcome_inv deleteKeys_Ok del_def)
  have pk: "ip_ValidatorsPowerStoreIterator ip (del ks t) = Ok []" if "ip_ValidatorsPowerStoreIterator ip t = Ok []" for ks t
    using power [OF that] by simp
  have lk: "ip_LastValidatorsIterator ip (del ks t) = Ok []" if "ip_LastValidatorsIterator ip t = Ok []" for ks t
    using last [OF that] by simp
  have p1: "ip_ValidatorsPowerStoreIterator ip (del ks1 s) = Ok []" using power [OF 1] by simp
  have l2: "ip_LastValidatorsIterator ip s2 = Ok []" using last [OF 2] by (simp add: s2)
  show "ip_ValidatorsPowerStoreIterator ip s' = Ok []"
    unfolding s' s2 by (intro pk p1)
  show "ip_LastValidatorsIterator ip s' = Ok []"
    unfolding s' by (intro lk l2)
  show "ip_ValidatorsKeyIterator ip s' = []" "ip_ValidatorQueueKeyIterator ip s' = []"
    by (simp_all add: s' vals queue)
qed

end
