(* ===== verification/Go_Filepath.thy ===== *)
theory Go_Filepath
  imports Go_Strings
begin

text \<open>
  The functions of the Go package \<^verbatim>\<open>path/filepath\<close> that the command line code uses, on Unix
  paths: cleaning, joining, the base name, absolute paths, and the relative path between two
  clean absolute paths.
\<close>

section \<open>Cleaning and joining\<close>

text \<open>The stack of components has its top first; \<open>rooted\<close> tells whether the path starts at the root.\<close>

fun clean_step :: "bool \<Rightarrow> string list \<Rightarrow> string \<Rightarrow> string list" where
  "clean_step rooted st c =
     (if c = [] \<or> c = ''.'' then st
      else if c = ''..'' then
        (case st of
           [] \<Rightarrow> if rooted then [] else [''..'']
         | x # xs \<Rightarrow> if x = ''..'' then ''..'' # st else xs)
      else c # st)"

definition clean_components :: "bool \<Rightarrow> string list \<Rightarrow> string list" where
  "clean_components rooted cs = rev (foldl (clean_step rooted) [] cs)"

definition filepath_Clean :: "string \<Rightarrow> string" where
  "filepath_Clean p =
     (case p of
        [] \<Rightarrow> ''.''
      | c # _ \<Rightarrow>
          let rooted = (c = CHR ''/'');
              comps = clean_components rooted (strings_Split (CHR ''/'') p)
          in if rooted then CHR ''/'' # strings_Join (CHR ''/'') comps
             else if comps = [] then ''.'' else strings_Join (CHR ''/'') comps)"

definition filepath_Join :: "string list \<Rightarrow> string" where
  "filepath_Join elems =
     (case dropWhile (\<lambda>e. e = []) elems of
        [] \<Rightarrow> []
      | es \<Rightarrow> filepath_Clean (strings_Join (CHR ''/'') es))"

definition filepath_Base :: "string \<Rightarrow> string" where
  "filepath_Base p =
     (if p = [] then ''.''
      else let q = rev (dropWhile (\<lambda>c. c = CHR ''/'') (rev p))
           in if q = [] then ''/'' else last (strings_Split (CHR ''/'') q))"

definition filepath_IsAbs :: "string \<Rightarrow> bool" where
  "filepath_IsAbs p = strings_HasPrefix p ''/''"

text \<open>\<open>getwd\<close> is the result of \<^verbatim>\<open>os.Getwd\<close>, asked for a relative path only.\<close>

definition filepath_Abs :: "string outcome \<Rightarrow> string \<Rightarrow> string outcome" where
  "filepath_Abs getwd p =
     (if filepath_IsAbs p then Ok (filepath_Clean p)
      else bindO getwd (\<lambda>wd. Ok (filepath_Join [wd, p])))"

section \<open>Relative paths\<close>

fun strip_common :: "'a list \<Rightarrow> 'a list \<Rightarrow> 'a list \<times> 'a list" where
  "strip_common (x # xs) (y # ys) = (if x = y then strip_common xs ys else (x # xs, y # ys))"
| "strip_common xs ys = (xs, ys)"

text \<open>The components of a clean absolute path; the root has none.\<close>

definition abs_components :: "string \<Rightarrow> string list" where
  "abs_components p = (if p = ''/'' then [] else tl (strings_Split (CHR ''/'') p))"

text \<open>
  \<^verbatim>\<open>filepath.Rel\<close> of two clean absolute paths: the components left of the base become steps up,
  followed by the components left of the target.
\<close>

definition filepath_Rel :: "string \<Rightarrow> string \<Rightarrow> string" where
  "filepath_Rel base targ =
     (if base = targ then ''.''
      else case strip_common (abs_components base) (abs_components targ) of
        (bs, ts) \<Rightarrow> strings_Join (CHR ''/'') (replicate (length bs) ''..'' @ ts))"

section \<open>Clean absolute paths\<close>

text \<open>A proper name: not empty, without separator, and not one of the two special names.\<close>

definition proper_name :: "string \<Rightarrow> bool" where
  "proper_name c \<longleftrightarrow> c \<noteq> [] \<and> CHR ''/'' \<notin> set c \<and> c \<noteq> ''.'' \<and> c \<noteq> ''..''"

definition abs_path :: "string list \<Rightarrow> string" where
  "abs_path cs = CHR ''/'' # strings_Join (CHR ''/'') cs"

lemma strings_Split_no_sep: "c \<notin> set w \<Longrightarrow> strings_Split c w = [w]"
  by (induction w) auto

lemma strings_Split_append: "c \<notin> set w \<Longrightarrow> strings_Split c (w @ c # xs) = w # strings_Split c xs"
  by (induction w) auto

lemma strings_Split_Join:
  "ws \<noteq> [] \<Longrightarrow> \<forall>w \<in> set ws. c \<notin> set w \<Longrightarrow> strings_Split c (strings_Join c ws) = ws"
  by (induction c ws rule: strings_Join.induct) (simp_all add: strings_Split_no_sep strings_Split_append)

lemma clean_components_proper:
  assumes "\<forall>c \<in> set cs. proper_name c"
  shows "clean_components rooted cs = cs"
proof -
  have "foldl (clean_step rooted) st cs = rev cs @ st" for st
    using assms by (induction cs arbitrary: st) (simp_all add: proper_name_def)
  then show ?thesis by (simp add: clean_components_def)
qed

lemma proper_no_sep: "\<forall>c \<in> set cs. proper_name c \<Longrightarrow> \<forall>c \<in> set cs. CHR ''/'' \<notin> set c"
  by (simp add: proper_name_def)

lemma split_abs_path:
  assumes "\<forall>c \<in> set cs. proper_name c"
  shows "strings_Split (CHR ''/'') (abs_path cs) = [] # (if cs = [] then [[]] else cs)"
  using strings_Split_Join [OF _ proper_no_sep [OF assms]] by (simp add: abs_path_def)

lemma clean_abs_path:
  assumes "\<forall>c \<in> set cs. proper_name c"
  shows "filepath_Clean (abs_path cs) = abs_path cs"
proof -
  have "clean_components True ([] # cs) = cs"
    using clean_components_proper [OF assms, of True] by (simp add: clean_components_def)
  moreover have "clean_components True [[], []] = []" by (simp add: clean_components_def)
  ultimately show ?thesis
    unfolding filepath_Clean_def split_abs_path [OF assms] by (simp add: abs_path_def Let_def)
qed

lemma abs_abs_path:
  assumes "\<forall>c \<in> set cs. proper_name c"
  shows "filepath_Abs getwd (abs_path cs) = Ok (abs_path cs)"
  using clean_abs_path [OF assms] by (simp add: filepath_Abs_def filepath_IsAbs_def strings_HasPrefix_def abs_path_def)

lemma components_abs_path:
  assumes "\<forall>c \<in> set cs. proper_name c"
  shows "abs_components (abs_path cs) = cs"
proof (cases cs)
  case Nil
  then show ?thesis by (simp add: abs_components_def abs_path_def)
next
  case (Cons c cs')
  then have "abs_path cs \<noteq> ''/''" using assms by (cases cs') (auto simp: abs_path_def proper_name_def)
  with split_abs_path [OF assms] Cons show ?thesis by (simp add: abs_components_def)
qed

lemma abs_path_inj:
  "\<forall>c \<in> set cs. proper_name c \<Longrightarrow> \<forall>c \<in> set ds. proper_name c \<Longrightarrow> abs_path cs = abs_path ds \<longleftrightarrow> cs = ds"
  by (metis components_abs_path)

lemma strip_common_prefix: "strip_common xs (xs @ ys) = ([], ys)"
  by (induction xs) (cases ys; simp)+

lemma strip_common_not_prefix: "strip_common xs ys = ([], zs) \<Longrightarrow> ys = xs @ zs"
  by (induction xs ys rule: strip_common.induct) (auto split: if_splits)

text \<open>The relative path goes up exactly when the target is not below the base.\<close>

lemma rel_goes_up:
  assumes d: "\<forall>c \<in> set ds. proper_name c" and s: "\<forall>c \<in> set ss. proper_name c \<and> \<not> strings_HasPrefix c ''..''"
  shows "strings_HasPrefix (filepath_Rel (abs_path ds) (abs_path ss)) ''..'' \<longleftrightarrow> \<not> (\<exists>rest. ss = ds @ rest)"
proof -
  have s': "\<forall>c \<in> set ss. proper_name c" using s by blast
  note comps = components_abs_path [OF d] components_abs_path [OF s'] abs_path_inj [OF d s']
  show ?thesis
  proof (cases "\<exists>rest. ss = ds @ rest")
    case True
    then obtain rest where rest: "ss = ds @ rest" by blast
    show ?thesis
    proof (cases rest)
      case Nil
      with rest comps show ?thesis by (simp add: filepath_Rel_def strings_HasPrefix_def)
    next
      case (Cons r rs)
      then have "proper_name r \<and> \<not> strings_HasPrefix r ''..''" using s rest by simp
      then have "\<not> strings_HasPrefix (strings_Join (CHR ''/'') (r # rs)) ''..''"
        by (cases rs; cases r; cases "tl r") (auto simp: strings_HasPrefix_def proper_name_def)
      with rest Cons comps show ?thesis by (simp add: filepath_Rel_def strip_common_prefix)
    qed
  next
    case False
    obtain bs ts where st: "strip_common ds ss = (bs, ts)" by fastforce
    with False strip_common_not_prefix have "bs \<noteq> []" by fastforce
    then obtain b bs' where b: "bs = b # bs'" by (cases bs) auto
    have "strings_HasPrefix (strings_Join (CHR ''/'') (''..'' # xs)) ''..''" for xs
      by (cases xs) (simp_all add: strings_HasPrefix_def)
    with False st b comps show ?thesis by (auto simp: filepath_Rel_def)
  qed
qed

end
