(* ===== verification/Cmd_Testnet.thy ===== *)
theory Cmd_Testnet
  imports Cosmos_Env Go_Filepath
begin

text \<open>
  The multi-node testnet (\<^verbatim>\<open>cmd/gnodid/cmd/testnet_multi_node.go\<close>): reading the stake and port
  lists, creating the directories, keys and genesis transactions of the validators, sharing the
  transactions between the nodes and writing the configurations. The operating system, the
  keyring, the transaction builder and the genesis functions of the SDK are arguments, over an
  arbitrary type \<open>'w\<close> of worlds.
\<close>

section \<open>Arguments\<close>

text \<open>The maps of the Go struct are partial functions on the index of the validator.\<close>

record initArgs =
  ia_algo :: string
  ia_chainID :: string
  ia_keyringBackend :: string
  ia_minGasPrices :: string
  ia_nodeDirPrefix :: string
  ia_numValidators :: int
  ia_outputDir :: string
  ia_startingIPAddress :: string
  ia_validatorsStakesAmount :: "nat \<rightharpoonup> coin"
  ia_ports :: "nat \<rightharpoonup> string"

text \<open>
  The loop over the stake amounts: an amount that is not an integer is skipped and does not use
  up an index. \<open>newIntFromString\<close> and \<open>newCoin\<close> are functions of the SDK.
\<close>

fun parseStakes ::
  "(string \<Rightarrow> int option) \<Rightarrow> (int \<Rightarrow> coin outcome) \<Rightarrow> string list \<Rightarrow> nat \<Rightarrow> (nat \<rightharpoonup> coin) \<Rightarrow> (nat \<rightharpoonup> coin) outcome" where
  "parseStakes newIntFromString newCoin [] idx m = Ok m"
| "parseStakes newIntFromString newCoin (amount # amounts) idx m =
     (case newIntFromString amount of
        None \<Rightarrow> parseStakes newIntFromString newCoin amounts idx m
      | Some a \<Rightarrow> bindO (newCoin a) (\<lambda>c. parseStakes newIntFromString newCoin amounts (idx + 1) (m(idx \<mapsto> c))))"

fun defaultPorts :: "nat \<Rightarrow> nat \<Rightarrow> (nat \<rightharpoonup> string) \<Rightarrow> (nat \<rightharpoonup> string)" where
  "defaultPorts 0 i m = m"
| "defaultPorts (Suc n) i m = defaultPorts n (Suc i) (m(i \<mapsto> strconv_Itoa (26657 - 3 * int i)))"

fun listedPorts :: "string list \<Rightarrow> nat \<Rightarrow> (nat \<rightharpoonup> string) \<Rightarrow> (nat \<rightharpoonup> string)" where
  "listedPorts [] idx m = m"
| "listedPorts (port # ports) idx m = listedPorts ports (idx + 1) (m(idx \<mapsto> port))"

definition parsePorts :: "int \<Rightarrow> string \<Rightarrow> (nat \<rightharpoonup> string)" where
  "parsePorts numValidators s =
     (if s = [] then defaultPorts (nat numValidators) 0 Map.empty
      else listedPorts (strings_Split (CHR '','') s) 0 Map.empty)"

text \<open>The command's run function, up to the call of \<open>initTestnetFiles\<close>.\<close>

definition testnetArgs ::
  "(string \<Rightarrow> int option) \<Rightarrow> (int \<Rightarrow> coin outcome) \<Rightarrow> initArgs \<Rightarrow> string \<Rightarrow> string \<Rightarrow> initArgs outcome" where
  "testnetArgs newIntFromString newCoin args stakeFlag portsFlag =
     bindO (parseStakes newIntFromString newCoin (strings_Split (CHR '','') stakeFlag) 0 Map.empty) (\<lambda>stakes.
     Ok (args\<lparr>ia_validatorsStakesAmount := stakes, ia_ports := parsePorts (ia_numValidators args) portsFlag\<rparr>))"

text \<open>Reading a missing key of a Go map of strings gives the empty string.\<close>

definition port_of :: "initArgs \<Rightarrow> nat \<Rightarrow> string" where
  "port_of args i = (case ia_ports args i of Some p \<Rightarrow> p | None \<Rightarrow> [])"

section \<open>The operating system and the SDK\<close>

record 'w os_env =
  os_MkdirAll :: "string \<Rightarrow> ('w, unit) action"
  os_RemoveAll :: "string \<Rightarrow> ('w, unit) action"
  os_WriteFile :: "string \<Rightarrow> string \<Rightarrow> ('w, unit) action"
  os_Open :: "string \<Rightarrow> 'w \<Rightarrow> string outcome"
  os_Create :: "string \<Rightarrow> ('w, unit) action"
  os_Copy :: "string \<Rightarrow> string \<Rightarrow> ('w, int) action"
  os_Sync :: "string \<Rightarrow> ('w, unit) action"
  os_Getwd :: "'w \<Rightarrow> string outcome"

record node_config =
  nc_RootDir :: string
  nc_Moniker :: string
  nc_RPCListenAddress :: string
  nc_P2PListenAddress :: string
  nc_ProxyApp :: string
  nc_PrometheusListenAddr :: string
  nc_Prometheus :: bool
  nc_PersistentPeers :: string
  nc_AllowDuplicateIP :: bool

text \<open>\<^verbatim>\<open>MinGasPrices\<close> is a field of the embedded base configuration: both names denote it.\<close>

record app_config =
  ac_MinGasPrices :: string
  ac_APIEnable :: bool
  ac_APIAddress :: string
  ac_GRPCAddress :: string
  ac_TelemetryEnabled :: bool
  ac_TelemetryEnableHostnameLabel :: bool
  ac_PrometheusRetentionTime :: int

record ('w, 'pk, 'kb, 'al, 'acc, 'msg, 'tx) testnet_env =
  te_os :: "'w os_env"
  te_genesisFile :: "node_config \<Rightarrow> string"
  te_InitializeNodeValidatorFiles :: "node_config \<Rightarrow> ('w, string \<times> 'pk) action"
  te_keyringNew :: "string \<Rightarrow> string \<Rightarrow> ('w, 'kb) action"
  te_NewSigningAlgoFromString :: "string \<Rightarrow> 'kb \<Rightarrow> 'al outcome"
  te_GenerateSaveCoinKey :: "'kb \<Rightarrow> string \<Rightarrow> 'al \<Rightarrow> ('w, bytes \<times> string) action"
  te_marshalSecret :: "string \<Rightarrow> string outcome"
  te_TokensFromConsensusPower :: "int \<Rightarrow> int"
  te_newCoin :: "string \<Rightarrow> int \<Rightarrow> coin outcome"
  te_DefaultBondDenom :: string
  te_sortCoins :: "coins \<Rightarrow> coins"
  te_accString :: "bytes \<Rightarrow> string"
  te_valString :: "bytes \<Rightarrow> string"
  te_NewBaseAccount :: "bytes \<Rightarrow> 'acc"
  te_NewMsgCreateValidator :: "string \<Rightarrow> 'pk \<Rightarrow> coin \<Rightarrow> string \<Rightarrow> 'msg outcome"
  te_buildTx :: "'msg \<Rightarrow> string \<Rightarrow> 'tx outcome"
  te_Sign :: "string \<Rightarrow> string \<Rightarrow> 'kb \<Rightarrow> string \<Rightarrow> 'tx \<Rightarrow> ('w, 'tx) action"
  te_TxJSONEncoder :: "'tx \<Rightarrow> string outcome"
  te_writeAppConfig :: "string \<Rightarrow> app_config \<Rightarrow> ('w, unit) action"
  te_writeNodeConfig :: "string \<Rightarrow> node_config \<Rightarrow> ('w, unit) action"

section \<open>Files\<close>

definition writeFile :: "'w os_env \<Rightarrow> string \<Rightarrow> string \<Rightarrow> string \<Rightarrow> ('w, unit) action" where
  "writeFile os file dir contents =
     bindA (wrapErrA (''could not create directory '' @ dir) (os_MkdirAll os dir)) (\<lambda>_.
     os_WriteFile os file contents)"

definition copyFile :: "'w os_env \<Rightarrow> string \<Rightarrow> string \<Rightarrow> ('w, int) action" where
  "copyFile os src dstDir =
     (let fileName = filepath_Base src;
          dst = filepath_Join [dstDir, fileName]
      in
      bindA (readA (os_Open os src)) (\<lambda>sourceFile.
      bindA (os_Create os dst) (\<lambda>_.
      bindA (os_Copy os dst sourceFile) (\<lambda>bytesCopied.
      bindA (os_Sync os dst) (\<lambda>_.
      returnA bytesCopied)))))"

text \<open>\<open>getwd\<close> is the result of asking for the working directory; the paths are absolute at the last step.\<close>

definition isSubDir :: "string outcome \<Rightarrow> string \<Rightarrow> string \<Rightarrow> bool outcome" where
  "isSubDir getwd src dstDir =
     bindO (filepath_Abs getwd src) (\<lambda>absSrc.
     bindO (filepath_Abs getwd dstDir) (\<lambda>absDstDir.
     let relativePath = filepath_Rel absDstDir absSrc;
         isInside = (\<not> strings_HasPrefix relativePath ''..'' \<and> \<not> filepath_IsAbs relativePath)
     in Ok isInside))"

text \<open>The random characters are given as indices into the character set.\<close>

definition generateRandomString :: "nat list \<Rightarrow> string" where
  "generateRandomString choices =
     (let charset = ''abcdefghijklmnopqrstuvwxyz0123456789''
      in map (\<lambda>n. charset ! (n mod length charset)) choices)"

section \<open>Creating the nodes\<close>

definition nodeDirName :: "string \<Rightarrow> nat \<Rightarrow> string" where
  "nodeDirName prefix i = prefix @ strconv_Itoa (int i)"

definition nodeDir :: "initArgs \<Rightarrow> nat \<Rightarrow> string" where
  "nodeDir args i = filepath_Join [ia_outputDir args, nodeDirName (ia_nodeDirPrefix args) i]"

record ('pk, 'acc) testnet_acc =
  ta_nodeIDs :: "string list"
  ta_valPubKeys :: "'pk list"
  ta_genAccounts :: "'acc list"
  ta_genBalances :: "(string \<times> coins) list"
  ta_genFiles :: "string list"
  ta_persistentPeers :: string
  ta_gentxsFiles :: "string list"
  ta_nodeConfig :: node_config
  ta_appConfig :: app_config

text \<open>\<^verbatim>\<open>_ = os.RemoveAll(args.outputDir); return err\<close> after a failed call.\<close>

definition cleanupOnErr :: "'w os_env \<Rightarrow> string \<Rightarrow> ('w, 'a) action \<Rightarrow> ('w, 'a) action" where
  "cleanupOnErr os dir m w =
     (case m w of
        (w1, Err e) \<Rightarrow> (case os_RemoveAll os dir w1 of (w2, Panic p) \<Rightarrow> (w2, Panic p) | (w2, _) \<Rightarrow> (w2, Err e))
      | (w1, r) \<Rightarrow> (w1, r))"

text \<open>The ports of the node with index \<open>i\<close>; the RPC port comes from the arguments.\<close>

definition p2pPort :: "nat \<Rightarrow> int" where "p2pPort i = 26656 - 3 * int i"
definition proxyPort :: "nat \<Rightarrow> int" where "proxyPort i = 26658 - 3 * int i"
definition prometheusPort :: "nat \<Rightarrow> int" where "prometheusPort i = 26660 + int i"
definition grpcPort :: "nat \<Rightarrow> int" where "grpcPort i = 9090 - 2 * int i"
definition apiPort :: "nat \<Rightarrow> int" where "apiPort i = 1317 - int i"

definition peerMemo :: "string \<Rightarrow> string \<Rightarrow> nat \<Rightarrow> string" where
  "peerMemo nodeID ip i = nodeID @ ''@'' @ ip @ '':'' @ strconv_Itoa (p2pPort i)"

text \<open>The coins of a validator's account.\<close>

definition accountCoins :: "('w, 'pk, 'kb, 'al, 'acc, 'msg, 'tx) testnet_env \<Rightarrow> coins outcome" where
  "accountCoins te =
     bindO (te_newCoin te ''testtoken'' (te_TokensFromConsensusPower te 1000)) (\<lambda>c1.
     bindO (te_newCoin te (te_DefaultBondDenom te) (te_TokensFromConsensusPower te 500)) (\<lambda>c2.
     Ok (te_sortCoins te [c1, c2])))"

definition validatorTokens :: "('w, 'pk, 'kb, 'al, 'acc, 'msg, 'tx) testnet_env \<Rightarrow> initArgs \<Rightarrow> nat \<Rightarrow> coin outcome" where
  "validatorTokens te args i =
     (case ia_validatorsStakesAmount args i of
        Some c \<Rightarrow> Ok c
      | None \<Rightarrow> te_newCoin te (te_DefaultBondDenom te) (te_TokensFromConsensusPower te 100))"

definition initNode ::
  "('w, 'pk, 'kb, 'al, 'acc, 'msg, 'tx) testnet_env \<Rightarrow> initArgs \<Rightarrow> nat \<Rightarrow> ('pk, 'acc) testnet_acc \<Rightarrow>
   ('w, ('pk, 'acc) testnet_acc) action" where
  "initNode te args i acc =
     (let os = te_os te;
          name = nodeDirName (ia_nodeDirPrefix args) i;
          dir = nodeDir args i;
          gentxsDir = filepath_Join [ia_outputDir args, name, ''config'', ''gentx''];
          nodeConfig = (ta_nodeConfig acc)\<lparr>nc_RootDir := dir, nc_Moniker := name,
                         nc_RPCListenAddress := ''tcp://0.0.0.0:'' @ port_of args i\<rparr>
      in
      bindA (cleanupOnErr os (ia_outputDir args) (os_MkdirAll os (filepath_Join [dir, ''config'']))) (\<lambda>_.
      bindA (cleanupOnErr os (ia_outputDir args) (te_InitializeNodeValidatorFiles te nodeConfig)) (\<lambda>(nodeID, pubKey).
      let memo = peerMemo nodeID (ia_startingIPAddress args) i;
          peers = (if ta_persistentPeers acc = [] then memo else ta_persistentPeers acc @ '','' @ memo)
      in
      bindA (te_keyringNew te (ia_keyringBackend args) dir) (\<lambda>kb.
      bindA (liftO (te_NewSigningAlgoFromString te (ia_algo args) kb)) (\<lambda>algo.
      bindA (cleanupOnErr os (ia_outputDir args) (te_GenerateSaveCoinKey te kb name algo)) (\<lambda>(addr, secret).
      bindA (liftO (te_marshalSecret te secret)) (\<lambda>cliPrint.
      bindA (writeFile os (filepath_Join [dir, ''key_seed.json'']) dir cliPrint) (\<lambda>_.
      bindA (liftO (accountCoins te)) (\<lambda>cs.
      bindA (liftO (validatorTokens te args i)) (\<lambda>valTokens.
      bindA (liftO (te_NewMsgCreateValidator te (te_valString te addr) pubKey valTokens name)) (\<lambda>createValMsg.
      bindA (liftO (te_buildTx te createValMsg memo)) (\<lambda>tx.
      bindA (te_Sign te (ia_chainID args) memo kb name tx) (\<lambda>signed.
      bindA (liftO (te_TxJSONEncoder te signed)) (\<lambda>txBz.
      let file = filepath_Join [gentxsDir, ''gentx-'' @ nodeID @ ''.json''] in
      bindA (writeFile os file gentxsDir txBz) (\<lambda>_.
      let appConfig = (ta_appConfig acc)
            \<lparr>ac_GRPCAddress := ia_startingIPAddress args @ '':'' @ strconv_Itoa (grpcPort i),
             ac_APIAddress := ''tcp://localhost:'' @ strconv_Itoa (apiPort i)\<rparr>
      in
      bindA (te_writeAppConfig te (filepath_Join [dir, ''config'', ''app.toml'']) appConfig) (\<lambda>_.
      returnA
        \<lparr>ta_nodeIDs = ta_nodeIDs acc @ [nodeID], ta_valPubKeys = ta_valPubKeys acc @ [pubKey],
         ta_genAccounts = ta_genAccounts acc @ [te_NewBaseAccount te addr],
         ta_genBalances = ta_genBalances acc @ [(te_accString te addr, cs)],
         ta_genFiles = ta_genFiles acc @ [te_genesisFile te nodeConfig],
         ta_persistentPeers = peers,
         ta_gentxsFiles = ta_gentxsFiles acc @ [file],
         ta_nodeConfig = nodeConfig, ta_appConfig = appConfig\<rparr>))))))))))))))))"

text \<open>The loop \<^verbatim>\<open>for i := 0; i < args.numValidators; i++\<close>: \<open>n\<close> rounds from index \<open>i\<close>.\<close>

fun initNodes ::
  "('w, 'pk, 'kb, 'al, 'acc, 'msg, 'tx) testnet_env \<Rightarrow> initArgs \<Rightarrow> nat \<Rightarrow> nat \<Rightarrow> ('pk, 'acc) testnet_acc \<Rightarrow>
   ('w, ('pk, 'acc) testnet_acc) action" where
  "initNodes te args 0 i acc = returnA acc"
| "initNodes te args (Suc n) i acc = bindA (initNode te args i acc) (\<lambda>acc'. initNodes te args n (Suc i) acc')"
section \<open>The shared genesis file\<close>

record 'b testnet_bank =
  tb_Balances :: "(string \<times> coins) list"
  tb_Supply :: coins
  tb_rest :: 'b

record ('w, 'acc, 'any, 'ag, 'b, 'j) genfile_env =
  gf_DefaultGenesis :: "string \<rightharpoonup> 'j"
  gf_auth :: string
  gf_bank :: string
  gf_unmarshalAuth :: "'j \<Rightarrow> 'ag outcome"
  gf_PackAccounts :: "'acc list \<Rightarrow> 'any list outcome"
  gf_setAccounts :: "'any list \<Rightarrow> 'ag \<Rightarrow> 'ag"
  gf_marshalAuth :: "'ag \<Rightarrow> 'j"
  gf_unmarshalBank :: "'j \<Rightarrow> 'b testnet_bank outcome"
  gf_marshalBank :: "'b testnet_bank \<Rightarrow> 'j"
  gf_SanitizeGenesisBalances :: "(string \<times> coins) list \<Rightarrow> (string \<times> coins) list"
  gf_coinsAdd :: "coins \<Rightarrow> coins \<Rightarrow> coins"
  gf_MarshalIndent :: "(string \<rightharpoonup> 'j) \<Rightarrow> string outcome"
  gf_SaveAs :: "string \<Rightarrow> string \<Rightarrow> string \<Rightarrow> ('w, unit) action"

text \<open>\<^verbatim>\<open>MustUnmarshalJSON\<close> of the section of a module: it panics on an error, and on a missing section.\<close>

definition mustSection :: "('j \<Rightarrow> 'a outcome) \<Rightarrow> (string \<rightharpoonup> 'j) \<Rightarrow> string \<Rightarrow> 'a outcome" where
  "mustSection unmarshal genesis name =
     (case genesis name of
        None \<Rightarrow> Panic ''unmarshal''
      | Some raw \<Rightarrow> mustO ''unmarshal'' (unmarshal raw))"

definition bankSection ::
  "('w, 'acc, 'any, 'ag, 'b, 'j) genfile_env \<Rightarrow> (string \<times> coins) list \<Rightarrow> 'b testnet_bank \<Rightarrow> 'b testnet_bank" where
  "bankSection gf genBalances bankGenState =
     (let bankGenState1 = bankGenState\<lparr>tb_Balances := gf_SanitizeGenesisBalances gf genBalances\<rparr>
      in foldl (\<lambda>st bal. st\<lparr>tb_Supply := gf_coinsAdd gf (tb_Supply st) (snd bal)\<rparr>) bankGenState1 (tb_Balances bankGenState1))"

definition genesisSections ::
  "('w, 'acc, 'any, 'ag, 'b, 'j) genfile_env \<Rightarrow> 'acc list \<Rightarrow> (string \<times> coins) list \<Rightarrow> (string \<rightharpoonup> 'j) outcome" where
  "genesisSections gf genAccounts genBalances =
     (let appGenState = gf_DefaultGenesis gf in
      bindO (mustSection (gf_unmarshalAuth gf) appGenState (gf_auth gf)) (\<lambda>authGenState.
      bindO (gf_PackAccounts gf genAccounts) (\<lambda>accounts.
      let appGenState1 = appGenState(gf_auth gf \<mapsto> gf_marshalAuth gf (gf_setAccounts gf accounts authGenState)) in
      bindO (mustSection (gf_unmarshalBank gf) appGenState1 (gf_bank gf)) (\<lambda>bankGenState.
      Ok (appGenState1(gf_bank gf \<mapsto> gf_marshalBank gf (bankSection gf genBalances bankGenState)))))))"

definition initGenFiles ::
  "('w, 'acc, 'any, 'ag, 'b, 'j) genfile_env \<Rightarrow> string \<Rightarrow> 'acc list \<Rightarrow> (string \<times> coins) list \<Rightarrow> string list \<Rightarrow> nat \<Rightarrow> ('w, unit) action" where
  "initGenFiles gf chainID genAccounts genBalances genFiles numValidators =
     bindA (liftO (genesisSections gf genAccounts genBalances)) (\<lambda>appGenState.
     bindA (liftO (gf_MarshalIndent gf appGenState)) (\<lambda>appGenStateJSON.
     forA [0..<numValidators] (\<lambda>i.
       if i < length genFiles then gf_SaveAs gf chainID appGenStateJSON (genFiles ! i)
       else liftO (Panic ''index out of range''))))"

section \<open>Sharing the genesis transactions\<close>

text \<open>A file that is already below the directory, or for which this cannot be decided, is left alone.\<close>

definition copyGentx :: "'w os_env \<Rightarrow> initArgs \<Rightarrow> nat \<Rightarrow> string \<Rightarrow> ('w, unit) action" where
  "copyGentx os args i file =
     (let gentxsDir = filepath_Join [nodeDir args i, ''config'', ''gentx''] in
      bindA (readA (\<lambda>w. Ok (isSubDir (os_Getwd os w) file gentxsDir))) (\<lambda>r.
      case r of
        Ok yes \<Rightarrow> if yes then returnA () else bindA (copyFile os file gentxsDir) (\<lambda>_. returnA ())
      | Err _ \<Rightarrow> returnA ()
      | Panic p \<Rightarrow> liftO (Panic p)))"

definition copyGentxs :: "'w os_env \<Rightarrow> initArgs \<Rightarrow> string list \<Rightarrow> nat \<Rightarrow> ('w, unit) action" where
  "copyGentxs os args gentxsFiles numValidators =
     forA [0..<numValidators] (\<lambda>i. forA gentxsFiles (copyGentx os args i))"

section \<open>The final configuration\<close>

record ('w, 'pk, 'gd, 'tm) collect_env =
  ce_AppGenesisFromFile :: "string \<Rightarrow> ('w, 'gd) action"
  ce_GenAppStateFromConfig :: "node_config \<Rightarrow> string \<Rightarrow> string \<Rightarrow> string \<Rightarrow> 'pk \<Rightarrow> 'gd \<Rightarrow> ('w, string) action"
  ce_ExportGenesisFileWithTime :: "string \<Rightarrow> string \<Rightarrow> string \<Rightarrow> 'tm \<Rightarrow> ('w, unit) action"

definition finalConfig :: "initArgs \<Rightarrow> string \<Rightarrow> nat \<Rightarrow> node_config \<Rightarrow> node_config" where
  "finalConfig args persistentPeers i nodeConfig =
     nodeConfig
       \<lparr>nc_PersistentPeers := persistentPeers,
        nc_AllowDuplicateIP := True,
        nc_P2PListenAddress := ''tcp://0.0.0.0:'' @ strconv_Itoa (p2pPort i),
        nc_RPCListenAddress := ''tcp://127.0.0.1:'' @ port_of args i,
        nc_ProxyApp := ''tcp://127.0.0.1:'' @ strconv_Itoa (proxyPort i),
        nc_PrometheusListenAddr := '':'' @ strconv_Itoa (prometheusPort i),
        nc_Prometheus := True\<rparr>"

text \<open>One round; the application state is nil (the empty string) until the first node sets it.\<close>

definition collectNode ::
  "('w, 'pk, 'kb, 'al, 'acc, 'msg, 'tx) testnet_env \<Rightarrow> ('w, 'pk, 'gd, 'tm) collect_env \<Rightarrow> initArgs \<Rightarrow> string \<Rightarrow> 'tm \<Rightarrow>
   nat \<Rightarrow> string \<Rightarrow> 'pk \<Rightarrow> node_config \<times> string \<Rightarrow> ('w, node_config \<times> string) action" where
  "collectNode te ce args persistentPeers genTime i nodeID valPubKey st =
     (let dir = nodeDir args i;
          gentxsDir = filepath_Join [dir, ''config'', ''gentx''];
          nodeConfig = (fst st)\<lparr>nc_Moniker := nodeDirName (ia_nodeDirPrefix args) i, nc_RootDir := dir\<rparr>;
          appState = snd st
      in
      bindA (ce_AppGenesisFromFile ce (te_genesisFile te nodeConfig)) (\<lambda>appGenesis.
      bindA (ce_GenAppStateFromConfig ce nodeConfig (ia_chainID args) gentxsDir nodeID valPubKey appGenesis) (\<lambda>nodeAppState.
      let nodeConfig1 = finalConfig args persistentPeers i nodeConfig in
      bindA (te_writeNodeConfig te (filepath_Join [nc_RootDir nodeConfig1, ''config'', ''config.toml'']) nodeConfig1) (\<lambda>_.
      let appState1 = (if appState = [] then nodeAppState else appState) in
      bindA (ce_ExportGenesisFileWithTime ce (te_genesisFile te nodeConfig1) (ia_chainID args) appState1 genTime) (\<lambda>_.
      returnA (nodeConfig1, appState1))))))"

fun collectNodes ::
  "('w, 'pk, 'kb, 'al, 'acc, 'msg, 'tx) testnet_env \<Rightarrow> ('w, 'pk, 'gd, 'tm) collect_env \<Rightarrow> initArgs \<Rightarrow> string \<Rightarrow> 'tm \<Rightarrow>
   nat \<Rightarrow> (string \<times> 'pk) list \<Rightarrow> node_config \<times> string \<Rightarrow> ('w, unit) action" where
  "collectNodes te ce args persistentPeers genTime i [] st = returnA ()"
| "collectNodes te ce args persistentPeers genTime i ((nodeID, valPubKey) # nodes) st =
     bindA (collectNode te ce args persistentPeers genTime i nodeID valPubKey st) (\<lambda>st'.
     collectNodes te ce args persistentPeers genTime (Suc i) nodes st')"

definition collectGenFiles ::
  "('w, 'pk, 'kb, 'al, 'acc, 'msg, 'tx) testnet_env \<Rightarrow> ('w, 'pk, 'gd, 'tm) collect_env \<Rightarrow> initArgs \<Rightarrow> string \<Rightarrow> 'tm \<Rightarrow>
   node_config \<Rightarrow> string list \<Rightarrow> 'pk list \<Rightarrow> ('w, unit) action" where
  "collectGenFiles te ce args persistentPeers genTime nodeConfig nodeIDs valPubKeys =
     collectNodes te ce args persistentPeers genTime 0 (zip nodeIDs valPubKeys) (nodeConfig, [])"

text \<open>
  The rest of the command after the nodes have been initialised: the genesis files, the shared genesis
  transactions and the collected genesis of each node; the final message is not modelled.
\<close>

definition shareTestnetFiles ::
  "('w, 'pk, 'kb, 'al, 'acc, 'msg, 'tx) testnet_env \<Rightarrow> ('w, 'acc, 'any, 'ag, 'b, 'j) genfile_env \<Rightarrow> ('w, 'pk, 'gd, 'tm) collect_env \<Rightarrow>
   'tm \<Rightarrow> initArgs \<Rightarrow> ('pk, 'acc) testnet_acc \<Rightarrow> ('w, unit) action" where
  "shareTestnetFiles te gf ce genTime args acc =
     (let n = nat (ia_numValidators args) in
      bindA (initGenFiles gf (ia_chainID args) (ta_genAccounts acc) (ta_genBalances acc) (ta_genFiles acc) n) (\<lambda>_.
      bindA (copyGentxs (te_os te) args (ta_gentxsFiles acc) n) (\<lambda>_.
      collectGenFiles te ce args (ta_persistentPeers acc) genTime (ta_nodeConfig acc) (ta_nodeIDs acc) (ta_valPubKeys acc))))"

text \<open>The whole command. A negative number of validators cannot size the arrays.\<close>

definition initTestnetFiles ::
  "('w, 'pk, 'kb, 'al, 'acc, 'msg, 'tx) testnet_env \<Rightarrow> ('w, 'acc, 'any, 'ag, 'b, 'j) genfile_env \<Rightarrow> ('w, 'pk, 'gd, 'tm) collect_env \<Rightarrow>
   node_config \<Rightarrow> app_config \<Rightarrow> nat list \<Rightarrow> 'tm \<Rightarrow> initArgs \<Rightarrow> ('w, unit) action" where
  "initTestnetFiles te gf ce nodeConfig defaultAppConfig choices genTime args0 =
     (let args = (if ia_chainID args0 = [] then args0\<lparr>ia_chainID := ''chain-'' @ generateRandomString choices\<rparr> else args0);
          n = nat (ia_numValidators args);
          appConfig1 = defaultAppConfig\<lparr>ac_MinGasPrices := ia_minGasPrices args, ac_APIEnable := False\<rparr>;
          appConfig = appConfig1\<lparr>ac_MinGasPrices := ''0.0001'' @ te_DefaultBondDenom te,
            ac_TelemetryEnableHostnameLabel := False, ac_TelemetryEnabled := False, ac_PrometheusRetentionTime := 0\<rparr>;
          acc0 = \<lparr>ta_nodeIDs = [], ta_valPubKeys = [], ta_genAccounts = [], ta_genBalances = [], ta_genFiles = [],
                  ta_persistentPeers = [], ta_gentxsFiles = [], ta_nodeConfig = nodeConfig, ta_appConfig = appConfig\<rparr>
      in
      if ia_numValidators args < 0 then liftO (Panic ''makeslice: len out of range'')
      else
        bindA (initNodes te args n 0 acc0) (shareTestnetFiles te gf ce genTime args))"

end
