(* ===== verification/Cmd_Testnet_Files.thy ===== *)
theory Cmd_Testnet_Files
  imports Cmd_Testnet
begin

text \<open>
  What the multi-node testnet leaves behind: the indices given to stakes and ports, the supply of
  the genesis file and the genesis transactions in every node's directory.
\<close>

section \<open>Stakes and ports\<close>

lemma defaultPorts_lookup:
  "defaultPorts n i m k = (if i \<le> k \<and> k < i + n then Some (strconv_Itoa (26657 - 3 * int k)) else m k)"
  by (induction n arbitrary: i m) (auto simp: le_less)

lemma parsePorts_default:
  "i < nat n \<Longrightarrow> port_of (args\<lparr>ia_ports := parsePorts n []\<rparr>) i = strconv_Itoa (26657 - 3 * int i)"
  by (simp add: port_of_def parsePorts_def defaultPorts_lookup)

lemma parseStakes_lookup:
  assumes "\<And>a. newCoin a = Ok (c a)"
  shows "parseStakes newInt newCoin xs k m =
    Ok (\<lambda>i. if k \<le> i \<and> i < k + length (List.map_filter newInt xs)
             then Some (c (List.map_filter newInt xs ! (i - k))) else m i)"
  by (induction xs arbitrary: k m)
    (auto simp: assms map_filter_simps fun_eq_iff nth_Cons' le_less split: option.split)

text \<open>All the ports a node listens on.\<close>

definition node_ports :: "initArgs \<Rightarrow> nat \<Rightarrow> string list" where
  "node_ports args i =
     [port_of args i, strconv_Itoa (p2pPort i), strconv_Itoa (proxyPort i),
      strconv_Itoa (prometheusPort i), strconv_Itoa (grpcPort i), strconv_Itoa (apiPort i)]"

lemma distinct_concat_upt:
  assumes "\<And>i. i < n \<Longrightarrow> distinct (f i)" and "\<And>i j. i < j \<Longrightarrow> j < n \<Longrightarrow> set (f i) \<inter> set (f j) = {}"
  shows "distinct (concat (map f [0..<n]))"
  using assms by (induction n) (fastforce simp: less_Suc_eq)+

lemma default_ports_distinct:
  assumes "\<And>i. i < n \<Longrightarrow> port_of args i = strconv_Itoa (26657 - 3 * int i)" and "n \<le> 1317"
  shows "distinct (concat (map (node_ports args) [0..<n]))"
proof (rule distinct_concat_upt)
  show "distinct (node_ports args i)" if "i < n" for i
    using that assms by (simp add: node_ports_def p2pPort_def proxyPort_def prometheusPort_def grpcPort_def apiPort_def strconv_Itoa_inj)
  show "set (node_ports args i) \<inter> set (node_ports args j) = {}" if "i < j" "j < n" for i j
    using that assms
    by (simp add: node_ports_def p2pPort_def proxyPort_def prometheusPort_def grpcPort_def apiPort_def strconv_Itoa_inj)
qed

section \<open>The supply\<close>

lemma bankSection_supply:
  fixes st :: "'b testnet_bank"
  assumes "\<And>a b. coins_amount d (gf_coinsAdd gf a b) = coins_amount d a + coins_amount d b"
  shows "coins_amount d (tb_Supply (bankSection gf bals st)) =
      coins_amount d (tb_Supply st) + (\<Sum>b \<leftarrow> tb_Balances (bankSection gf bals st). coins_amount d (snd b))"
    and "tb_Balances (bankSection gf bals st) = gf_SanitizeGenesisBalances gf bals" "tb_rest (bankSection gf bals st) = tb_rest st"
proof -
  have fold: "tb_Balances (foldl (\<lambda>st bal. st\<lparr>tb_Supply := gf_coinsAdd gf (tb_Supply st) (snd bal)\<rparr>) st xs) = tb_Balances st \<and>
      tb_rest (foldl (\<lambda>st bal. st\<lparr>tb_Supply := gf_coinsAdd gf (tb_Supply st) (snd bal)\<rparr>) st xs) = tb_rest st \<and>
      coins_amount d (tb_Supply (foldl (\<lambda>st bal. st\<lparr>tb_Supply := gf_coinsAdd gf (tb_Supply st) (snd bal)\<rparr>) st xs)) =
        coins_amount d (tb_Supply st) + (\<Sum>b \<leftarrow> xs. coins_amount d (snd b))" for st :: "'b testnet_bank" and xs :: "(string \<times> coins) list"
    by (induction xs arbitrary: st) (simp_all add: assms)
  show "tb_Balances (bankSection gf bals st) = gf_SanitizeGenesisBalances gf bals" "tb_rest (bankSection gf bals st) = tb_rest st"
    by (simp_all add: bankSection_def Let_def fold)
  show "coins_amount d (tb_Supply (bankSection gf bals st)) =
      coins_amount d (tb_Supply st) + (\<Sum>b \<leftarrow> tb_Balances (bankSection gf bals st). coins_amount d (snd b))"
    by (simp add: bankSection_def Let_def fold)
qed

section \<open>Paths below the output directory\<close>

lemma strings_Join_append:
  "xs \<noteq> [] \<Longrightarrow> ys \<noteq> [] \<Longrightarrow> strings_Join c (xs @ ys) = strings_Join c xs @ c # strings_Join c ys"
  by (induction c xs rule: strings_Join.induct) (simp_all add: strings_Join_Cons)

lemma Join_abs_path:
  assumes "ds \<noteq> []" "rest \<noteq> []" "\<forall>c \<in> set (ds @ rest). proper_name c"
  shows "filepath_Join (abs_path ds # rest) = abs_path (ds @ rest)"
proof -
  have "strings_Join (CHR ''/'') (abs_path ds # rest) = abs_path (ds @ rest)"
    using assms(1,2) by (simp add: strings_Join_Cons strings_Join_append abs_path_def)
  with clean_abs_path [OF assms(3)] show ?thesis by (simp add: filepath_Join_def abs_path_def)
qed

lemma Base_abs_path:
  assumes "ds \<noteq> []" "\<forall>c \<in> set ds. proper_name c"
  shows "filepath_Base (abs_path ds) = last ds"
proof -
  have l: "last ds \<noteq> []" "CHR ''/'' \<notin> set (last ds)" using assms last_in_set [of ds] by (auto simp: proper_name_def)
  have "\<exists>pre. abs_path ds = pre @ last ds"
  proof (cases "butlast ds")
    case Nil
    with assms(1) have "ds = [last ds]" by (metis append_Nil append_butlast_last_id)
    then show ?thesis by (metis abs_path_def append_Cons append_Nil strings_Join.simps(2))
  next
    case (Cons c cs)
    with assms(1) have "strings_Join (CHR ''/'') ds = (strings_Join (CHR ''/'') (butlast ds) @ ''/'') @ last ds"
      using strings_Join_append [of "butlast ds" "[last ds]" "CHR ''/''"] append_butlast_last_id [OF assms(1)] by simp
    then show ?thesis by (metis abs_path_def append_Cons)
  qed
  then obtain pre where "abs_path ds = pre @ last ds" ..
  moreover have "hd (rev (last ds)) \<noteq> CHR ''/''" using l by (metis hd_in_set rev_is_Nil_conv set_rev)
  ultimately have "dropWhile (\<lambda>c. c = CHR ''/'') (rev (abs_path ds)) = rev (abs_path ds)"
    using l(1) by (cases "rev (last ds)") simp_all
  with split_abs_path [OF assms(2)] assms(1) show ?thesis by (simp add: filepath_Base_def Let_def abs_path_def)
qed
section \<open>Sharing the genesis transactions\<close>

text \<open>
  Files of the operating system: opening reads the contents, creating empties a file, copying
  into an empty file writes the contents, and none of them touches another file.
\<close>

definition file_laws :: "'w os_env \<Rightarrow> ('w \<Rightarrow> string \<Rightarrow> string option) \<Rightarrow> bool" where
  "file_laws os content \<longleftrightarrow>
     (\<forall>p w c. os_Open os p w = Ok c \<longrightarrow> content w p = Some c) \<and>
     (\<forall>p w w'. os_Create os p w = (w', Ok ()) \<longrightarrow> content w' = (content w)(p \<mapsto> [])) \<and>
     (\<forall>p c w w' n. os_Copy os p c w = (w', Ok n) \<and> content w p = Some [] \<longrightarrow> content w' = (content w)(p \<mapsto> c)) \<and>
     (\<forall>p w w'. os_Sync os p w = (w', Ok ()) \<longrightarrow> content w' = content w)"

text \<open>
  A testnet in a directory below the root whose names are plain: the output directory with
  components \<open>ds\<close>, a plain prefix for the node directories and node identifiers without separator.
\<close>

definition plain_name :: "string \<Rightarrow> bool" where
  "plain_name c \<longleftrightarrow> c \<noteq> [] \<and> CHR ''/'' \<notin> set c \<and> hd c \<noteq> CHR ''.''"

definition plain_testnet :: "initArgs \<Rightarrow> string list \<Rightarrow> (nat \<Rightarrow> string) \<Rightarrow> bool" where
  "plain_testnet args ds nodeID \<longleftrightarrow>
     ds \<noteq> [] \<and> (\<forall>c \<in> set ds. plain_name c) \<and> ia_outputDir args = abs_path ds \<and>
     plain_name (ia_nodeDirPrefix args) \<and> (\<forall>i. CHR ''/'' \<notin> set (nodeID i))"

definition gentx_name :: "(nat \<Rightarrow> string) \<Rightarrow> nat \<Rightarrow> string" where
  "gentx_name nodeID j = ''gentx-'' @ nodeID j @ ''.json''"

text \<open>Where the transaction of node \<open>j\<close> lies in the directory of node \<open>i\<close>.\<close>

definition gentx_path :: "initArgs \<Rightarrow> string list \<Rightarrow> (nat \<Rightarrow> string) \<Rightarrow> nat \<Rightarrow> nat \<Rightarrow> string" where
  "gentx_path args ds nodeID i j =
     abs_path (ds @ [nodeDirName (ia_nodeDirPrefix args) i, ''config'', ''gentx'', gentx_name nodeID j])"

lemma plain_proper: "plain_name c \<Longrightarrow> proper_name c \<and> \<not> strings_HasPrefix c ''..''"
  by (cases c; cases "tl c") (auto simp: plain_name_def proper_name_def strings_HasPrefix_def)

lemma itoa_no_sep: "CHR ''/'' \<notin> set (strconv_Itoa (int i))"
proof -
  have "\<not> is_digit (CHR ''/'')" by (simp add: is_digit_def)
  moreover have "\<forall>c \<in> set (dec n). is_digit c" for n
    by (induction n rule: dec.induct) (subst dec.simps, simp)
  ultimately show ?thesis by (auto simp: strconv_Itoa_def)
qed

lemma plain_names:
  assumes "plain_testnet args ds nodeID"
  shows "\<forall>c \<in> set (ds @ [nodeDirName (ia_nodeDirPrefix args) i, ''config'', ''gentx'', gentx_name nodeID j]). plain_name c"
  using assms itoa_no_sep by (auto simp: plain_testnet_def nodeDirName_def plain_name_def gentx_name_def)

lemma gentxsDir_path:
  assumes "plain_testnet args ds nodeID"
  shows "filepath_Join [nodeDir args i, ''config'', ''gentx''] = abs_path (ds @ [nodeDirName (ia_nodeDirPrefix args) i, ''config'', ''gentx''])"
proof -
  let ?n = "nodeDirName (ia_nodeDirPrefix args) i"
  have p: "\<forall>c \<in> set (ds @ [?n, ''config'', ''gentx'']). proper_name c"
    using plain_names [OF assms, of i undefined] plain_proper by auto
  have "nodeDir args i = abs_path (ds @ [?n])"
    using assms p by (simp add: nodeDir_def plain_testnet_def Join_abs_path)
  with p show ?thesis using Join_abs_path [of "ds @ [?n]" "[''config'', ''gentx'']"] by simp
qed

lemma gentx_path_inj:
  assumes "plain_testnet args ds nodeID" "inj nodeID"
  shows "gentx_path args ds nodeID i j = gentx_path args ds nodeID k l \<longleftrightarrow> i = k \<and> j = l"
proof -
  have p: "\<forall>c \<in> set (ds @ [nodeDirName (ia_nodeDirPrefix args) i, ''config'', ''gentx'', gentx_name nodeID j]). proper_name c" for i j
    using plain_names [OF assms(1), of i j] plain_proper by blast
  show ?thesis
    unfolding gentx_path_def abs_path_inj [OF p p]
    using assms(2) by (auto simp: nodeDirName_def gentx_name_def strconv_Itoa_inj inj_eq)
qed

lemma gentx_isSubDir:
  assumes "plain_testnet args ds nodeID"
  shows "isSubDir getwd (gentx_path args ds nodeID j j) (abs_path (ds @ [nodeDirName (ia_nodeDirPrefix args) i, ''config'', ''gentx'']))
    = Ok (i = j)"
proof -
  let ?ss = "ds @ [nodeDirName (ia_nodeDirPrefix args) j, ''config'', ''gentx'', gentx_name nodeID j]"
  let ?ds = "ds @ [nodeDirName (ia_nodeDirPrefix args) i, ''config'', ''gentx'']"
  have s: "\<forall>c \<in> set ?ss. proper_name c \<and> \<not> strings_HasPrefix c ''..''"
    using plain_names [OF assms] plain_proper by blast
  have d: "\<forall>c \<in> set ?ds. proper_name c" using plain_names [OF assms, of i undefined] plain_proper by auto
  have s': "\<forall>c \<in> set ?ss. proper_name c" using s by blast
  have ne: "?ds \<noteq> ?ss" by auto
  have pre: "(\<exists>rest. ?ss = ?ds @ rest) \<longleftrightarrow> i = j"
    by (auto simp: nodeDirName_def strconv_Itoa_inj)
  have abs: "\<not> filepath_IsAbs (filepath_Rel (abs_path ?ds) (abs_path ?ss))"
  proof (cases "i = j")
    case True
    have "strip_common ?ds ?ss = ([], [gentx_name nodeID j])"
      using strip_common_prefix [of ?ds "[gentx_name nodeID j]"] True by simp
    then have "filepath_Rel (abs_path ?ds) (abs_path ?ss) = gentx_name nodeID j"
      unfolding filepath_Rel_def components_abs_path [OF d] components_abs_path [OF s'] abs_path_inj [OF d s'] using ne by simp
    then show ?thesis by (simp add: filepath_IsAbs_def strings_HasPrefix_def gentx_name_def)
  next
    case False
    then have up: "strings_HasPrefix (filepath_Rel (abs_path ?ds) (abs_path ?ss)) ''..''"
      using rel_goes_up [OF d s] pre by simp
    have "take 2 xs = ''..'' \<Longrightarrow> take 1 xs = ''/'' \<Longrightarrow> False" for xs :: string
      by (cases xs) (auto simp: numeral_2_eq_2)
    with up show ?thesis by (auto simp: filepath_IsAbs_def strings_HasPrefix_def numeral_2_eq_2)
  qed
  show ?thesis
    unfolding isSubDir_def gentx_path_def abs_abs_path [OF d] abs_abs_path [OF s']
    using rel_goes_up [OF d s] pre abs by (simp add: Let_def)
qed
lemma copyFile_content:
  assumes laws: "file_laws os content" and ok: "copyFile os src dir w = (w', Ok n)" and "content w src = Some c"
  shows "content w' = (content w)(filepath_Join [dir, filepath_Base src] \<mapsto> c)"
proof -
  let ?dst = "filepath_Join [dir, filepath_Base src]"
  from ok obtain c' w1 w2 where 1: "os_Open os src w = Ok c'" "os_Create os ?dst w = (w1, Ok ())"
    "os_Copy os ?dst c' w1 = (w2, Ok n)" "os_Sync os ?dst w2 = (w', Ok ())"
    by (auto simp: copyFile_def Let_def outcome_inv)
  with laws assms(3) have "c' = c" unfolding file_laws_def by (metis option.inject)
  moreover from laws 1(2) have "content w1 = (content w)(?dst \<mapsto> [])" by (auto simp: file_laws_def)
  moreover from laws 1(3) calculation(2) have "content w2 = (content w1)(?dst \<mapsto> c')"
    unfolding file_laws_def by (metis fun_upd_same)
  moreover from laws 1(4) have "content w' = content w2" by (auto simp: file_laws_def)
  ultimately show ?thesis by simp
qed

text \<open>One round of the loop: afterwards node \<open>i\<close> has the transaction of node \<open>j\<close>, and nothing is lost.\<close>

lemma copyGentx_content:
  assumes laws: "file_laws os content" and net: "plain_testnet args ds nodeID"
    and ok: "copyGentx os args i (gentx_path args ds nodeID j j) w = (w', Ok ())"
    and c: "content w (gentx_path args ds nodeID j j) = Some c"
  shows "content w' = (content w)(gentx_path args ds nodeID i j \<mapsto> c)"
proof -
  let ?n = "nodeDirName (ia_nodeDirPrefix args) i"
  have p: "\<forall>x \<in> set (ds @ [nodeDirName (ia_nodeDirPrefix args) k, ''config'', ''gentx'', gentx_name nodeID j]). proper_name x" for k
    using plain_names [OF net, of k j] plain_proper by blast
  have base: "filepath_Base (gentx_path args ds nodeID j j) = gentx_name nodeID j"
    unfolding gentx_path_def using Base_abs_path [OF _ p] by simp
  have dst: "filepath_Join [abs_path (ds @ [?n, ''config'', ''gentx'']), gentx_name nodeID j] = gentx_path args ds nodeID i j"
    unfolding gentx_path_def using Join_abs_path [of "ds @ [?n, ''config'', ''gentx'']" "[gentx_name nodeID j]"] p [of i] by simp
  show ?thesis
  proof (cases "i = j")
    case True
    with ok have "w' = w"
      by (auto simp: copyGentx_def Let_def gentxsDir_path [OF net] gentx_isSubDir [OF net] outcome_inv)
    with True c show ?thesis by (simp add: fun_upd_idem)
  next
    case False
    with ok obtain n where "copyFile os (gentx_path args ds nodeID j j) (abs_path (ds @ [?n, ''config'', ''gentx''])) w = (w', Ok n)"
      by (auto simp: copyGentx_def Let_def gentxsDir_path [OF net] gentx_isSubDir [OF net] outcome_inv)
    from copyFile_content [OF laws this c] show ?thesis unfolding base dst .
  qed
qed

lemma copyGentxs_content:
  assumes laws: "file_laws os content" and net: "plain_testnet args ds nodeID" "inj nodeID"
    and own: "\<And>j. j < n \<Longrightarrow> content w (gentx_path args ds nodeID j j) = Some (tx j)"
    and ok: "copyGentxs os args (map (\<lambda>j. gentx_path args ds nodeID j j) [0..<n]) n w = (w', Ok ())"
    and "i < n" "j < n"
  shows "content w' (gentx_path args ds nodeID i j) = Some (tx j)"
proof -
  define I where "I A w \<longleftrightarrow> (\<forall>(i, j) \<in> A \<union> {(j, j) | j. j < n}. content w (gentx_path args ds nodeID i j) = Some (tx j))" for A w
  have one: "I (A \<union> {(i, j)}) w'" if "j < n" "I A w" "copyGentx os args i (gentx_path args ds nodeID j j) w = (w', Ok ())" for i j A w w'
  proof -
    have "content w (gentx_path args ds nodeID j j) = Some (tx j)" using that(1,2) by (auto simp: I_def)
    from copyGentx_content [OF laws net(1) that(3) this] that(2) show ?thesis
      by (auto simp: I_def gentx_path_inj [OF net])
  qed
  have row: "I (A \<union> (\<lambda>j. (i, j)) ` {..<n}) w'"
    if "I A w" "forA (map (\<lambda>j. gentx_path args ds nodeID j j) [0..<n]) (copyGentx os args i) w = (w', Ok ())" for i A w w'
  proof -
    from that(2) have "forA [0..<n] (\<lambda>j. copyGentx os args i (gentx_path args ds nodeID j j)) w = (w', Ok ())" by (simp add: forA_map)
    moreover have "I (B \<union> {(i, j)}) v'" if "j \<in> set [0..<n]" "I B v" "copyGentx os args i (gentx_path args ds nodeID j j) v = (v', Ok ())" for j B v v'
      using one that by simp
    ultimately have "I (A \<union> \<Union> ((\<lambda>j. {(i, j)}) ` set [0..<n])) w'"
      using that(1) by (intro forA_collect [where f = "\<lambda>j. {(i, j)}" and I = I])
    moreover have "\<Union> ((\<lambda>j. {(i, j)}) ` set [0..<n]) = (\<lambda>j. (i, j)) ` {..<n}" by auto
    ultimately show ?thesis by simp
  qed
  have "I {} w" using own by (auto simp: I_def)
  moreover have "I (B \<union> (\<lambda>j. (i, j)) ` {..<n}) v'"
    if "i \<in> set [0..<n]" "I B v" "forA (map (\<lambda>j. gentx_path args ds nodeID j j) [0..<n]) (copyGentx os args i) v = (v', Ok ())" for i B v v'
    using row that by blast
  ultimately have "I ({} \<union> \<Union> ((\<lambda>i. (\<lambda>j. (i, j)) ` {..<n}) ` set [0..<n])) w'"
    using ok unfolding copyGentxs_def by (intro forA_collect [where f = "\<lambda>i. (\<lambda>j. (i, j)) ` {..<n}" and I = I])
  moreover have "(i, j) \<in> \<Union> ((\<lambda>i. (\<lambda>j. (i, j)) ` {..<n}) ` set [0..<n])" using assms(6,7) by auto
  ultimately show ?thesis unfolding I_def by fast
qed
section \<open>What the creation of the nodes records\<close>

definition gentxFile :: "initArgs \<Rightarrow> nat \<Rightarrow> string \<Rightarrow> string" where
  "gentxFile args i nodeID =
     filepath_Join [filepath_Join [ia_outputDir args, nodeDirName (ia_nodeDirPrefix args) i, ''config'', ''gentx''],
       ''gentx-'' @ nodeID @ ''.json'']"

lemma cleanupOnErr_eq_Ok [outcome_inv]: "cleanupOnErr os dir m w = (w', Ok x) \<longleftrightarrow> m w = (w', Ok x)"
  by (auto simp: cleanupOnErr_def split: prod.splits outcome.splits)

lemma initNode_Ok:
  assumes "initNode te args i acc w = (w', Ok acc')"
  obtains nodeID pubKey where "ta_nodeIDs acc' = ta_nodeIDs acc @ [nodeID]" "ta_valPubKeys acc' = ta_valPubKeys acc @ [pubKey]"
    "ta_gentxsFiles acc' = ta_gentxsFiles acc @ [gentxFile args i nodeID]"
    "length (ta_genFiles acc') = Suc (length (ta_genFiles acc))" "length (ta_genBalances acc') = Suc (length (ta_genBalances acc))"
    "ac_MinGasPrices (ta_appConfig acc') = ac_MinGasPrices (ta_appConfig acc)"
    "ac_GRPCAddress (ta_appConfig acc') = ia_startingIPAddress args @ '':'' @ strconv_Itoa (grpcPort i)"
  using assms unfolding initNode_def Let_def gentxFile_def
  by (auto simp: outcome_inv case_prod_beta)

lemma initNodes_Ok:
  assumes "initNodes te args n i acc w = (w', Ok acc')"
  shows "\<exists>ids. length ids = n \<and> ta_nodeIDs acc' = ta_nodeIDs acc @ ids \<and>
     ta_gentxsFiles acc' = ta_gentxsFiles acc @ map (\<lambda>k. gentxFile args (i + k) (ids ! k)) [0..<n] \<and>
     length (ta_valPubKeys acc') = length (ta_valPubKeys acc) + n \<and> length (ta_genFiles acc') = length (ta_genFiles acc) + n \<and>
     ac_MinGasPrices (ta_appConfig acc') = ac_MinGasPrices (ta_appConfig acc)"
  using assms
proof (induction n arbitrary: i acc w)
  case 0
  then show ?case by (simp add: outcome_inv)
next
  case (Suc n)
  then obtain w1 acc1 where 1: "initNode te args i acc w = (w1, Ok acc1)" and 2: "initNodes te args n (Suc i) acc1 w1 = (w', Ok acc')"
    by (auto simp: outcome_inv)
  from 1 obtain nodeID pubKey where s: "ta_nodeIDs acc1 = ta_nodeIDs acc @ [nodeID]" "ta_valPubKeys acc1 = ta_valPubKeys acc @ [pubKey]"
    "ta_gentxsFiles acc1 = ta_gentxsFiles acc @ [gentxFile args i nodeID]"
    "length (ta_genFiles acc1) = Suc (length (ta_genFiles acc))" "length (ta_genBalances acc1) = Suc (length (ta_genBalances acc))"
    "ac_MinGasPrices (ta_appConfig acc1) = ac_MinGasPrices (ta_appConfig acc)"
    "ac_GRPCAddress (ta_appConfig acc1) = ia_startingIPAddress args @ '':'' @ strconv_Itoa (grpcPort i)"
    by (rule initNode_Ok)
  from Suc.IH [OF 2] obtain ids where r: "length ids = n" "ta_nodeIDs acc' = ta_nodeIDs acc1 @ ids"
    "ta_gentxsFiles acc' = ta_gentxsFiles acc1 @ map (\<lambda>k. gentxFile args (Suc i + k) (ids ! k)) [0..<n]"
    "length (ta_valPubKeys acc') = length (ta_valPubKeys acc1) + n" "length (ta_genFiles acc') = length (ta_genFiles acc1) + n"
    "ac_MinGasPrices (ta_appConfig acc') = ac_MinGasPrices (ta_appConfig acc1)"
    by blast
  have "map (\<lambda>k. gentxFile args (i + k) ((nodeID # ids) ! k)) [0..<Suc n] =
      gentxFile args i nodeID # map (\<lambda>k. gentxFile args (Suc i + k) (ids ! k)) [0..<n]"
    by (simp add: upt_conv_Cons map_Suc_upt [symmetric] del: upt_Suc)
  with s r show ?case by (intro exI [of _ "nodeID # ids"]) simp
qed

text \<open>In a plain testnet the recorded files are the transactions in the nodes' own directories.\<close>

lemma gentxFile_path:
  assumes "plain_testnet args ds nodeID"
  shows "gentxFile args i (nodeID i) = gentx_path args ds nodeID i i"
proof -
  let ?n = "nodeDirName (ia_nodeDirPrefix args) i"
  have p: "\<forall>x \<in> set (ds @ [?n, ''config'', ''gentx'', gentx_name nodeID i]). proper_name x"
    using plain_names [OF assms, of i i] plain_proper by blast
  have "filepath_Join [ia_outputDir args, ?n, ''config'', ''gentx''] = abs_path (ds @ [?n, ''config'', ''gentx''])"
    using assms p by (simp add: plain_testnet_def Join_abs_path)
  moreover have "filepath_Join [abs_path (ds @ [?n, ''config'', ''gentx'']), gentx_name nodeID i] = gentx_path args ds nodeID i i"
    unfolding gentx_path_def using Join_abs_path [of "ds @ [?n, ''config'', ''gentx'']" "[gentx_name nodeID i]"] p by simp
  ultimately show ?thesis by (simp add: gentxFile_def gentx_name_def)
qed

end
