(* ===== verification/Cmd_Start.thy ===== *)
theory Cmd_Start
  imports App_Export
begin

text \<open>
  The commands that set up or read a node: \<^verbatim>\<open>gnodid init\<close> (\<^verbatim>\<open>cmd/gnodid/cmd/init.go\<close>), the choice
  of the chain identifier and the export command (\<^verbatim>\<open>cmd/gnodid/cmd/commands.go\<close>), and the
  address prefixes (\<^verbatim>\<open>app/config.go\<close>). Terminal, files and SDK functions are arguments over a type
  \<open>'w\<close> of worlds.
\<close>

section \<open>Address prefixes\<close>

definition AccountAddressPrefix :: string where "AccountAddressPrefix = ''gnodi''"

text \<open>The six prefixes that the application sets: for accounts, validators and consensus nodes, each with its public key form.\<close>

definition bech32Prefixes :: "string list" where
  "bech32Prefixes =
     (let accountPubKeyPrefix = AccountAddressPrefix @ ''pub'';
          validatorAddressPrefix = AccountAddressPrefix @ ''valoper'';
          validatorPubKeyPrefix = AccountAddressPrefix @ ''valoperpub'';
          consNodeAddressPrefix = AccountAddressPrefix @ ''valcons'';
          consNodePubKeyPrefix = AccountAddressPrefix @ ''valconspub''
      in [AccountAddressPrefix, accountPubKeyPrefix, validatorAddressPrefix, validatorPubKeyPrefix,
          consNodeAddressPrefix, consNodePubKeyPrefix])"

section \<open>The configuration of the SDK\<close>

definition ChainCoinType :: nat where "ChainCoinType = 118"
definition EVMChainID :: nat where "EVMChainID = 46634"

text \<open>
  The setters of the SDK's configuration, over a type \<open>'c\<close> of configurations, and the variable
  \<^verbatim>\<open>sdk.DefaultBondDenom\<close>. A setter panics once the configuration is sealed.
\<close>

record 'c sdk_globals_ops =
  cfg_SetCoinType :: "nat \<Rightarrow> ('c, unit) action"
  cfg_SetBech32PrefixForAccount :: "string \<Rightarrow> string \<Rightarrow> ('c, unit) action"
  cfg_SetBech32PrefixForValidator :: "string \<Rightarrow> string \<Rightarrow> ('c, unit) action"
  cfg_SetBech32PrefixForConsensusNode :: "string \<Rightarrow> string \<Rightarrow> ('c, unit) action"
  cfg_Seal :: "('c, unit) action"
  cfg_setDefaultBondDenom :: "string \<Rightarrow> ('c, unit) action"

definition config_init :: "'c sdk_globals_ops \<Rightarrow> ('c, unit) action" where
  "config_init ops =
     (let accountPubKeyPrefix = AccountAddressPrefix @ ''pub'';
          validatorAddressPrefix = AccountAddressPrefix @ ''valoper'';
          validatorPubKeyPrefix = AccountAddressPrefix @ ''valoperpub'';
          consNodeAddressPrefix = AccountAddressPrefix @ ''valcons'';
          consNodePubKeyPrefix = AccountAddressPrefix @ ''valconspub''
      in
      bindA (cfg_SetCoinType ops ChainCoinType) (\<lambda>_.
      bindA (cfg_SetBech32PrefixForAccount ops AccountAddressPrefix accountPubKeyPrefix) (\<lambda>_.
      bindA (cfg_SetBech32PrefixForValidator ops validatorAddressPrefix validatorPubKeyPrefix) (\<lambda>_.
      bindA (cfg_SetBech32PrefixForConsensusNode ops consNodeAddressPrefix consNodePubKeyPrefix) (\<lambda>_.
      bindA (cfg_Seal ops) (\<lambda>_.
      cfg_setDefaultBondDenom ops ''uGNOD''))))))"

text \<open>A configuration that records its settings and can be sealed.\<close>

record sdk_globals =
  sg_CoinType :: nat
  sg_Prefixes :: "string list"
  sg_Sealed :: bool
  sg_DefaultBondDenom :: string

definition unsealed :: "(sdk_globals \<Rightarrow> sdk_globals) \<Rightarrow> (sdk_globals, unit) action" where
  "unsealed f g = (if sg_Sealed g then (g, Panic ''config is sealed'') else (f g, Ok ()))"

definition recorded_globals :: "sdk_globals sdk_globals_ops" where
  "recorded_globals =
     (let add = (\<lambda>a b. unsealed (\<lambda>g. g\<lparr>sg_Prefixes := sg_Prefixes g @ [a, b]\<rparr>)) in
      \<lparr>cfg_SetCoinType = (\<lambda>n. unsealed (\<lambda>g. g\<lparr>sg_CoinType := n\<rparr>)),
       cfg_SetBech32PrefixForAccount = add, cfg_SetBech32PrefixForValidator = add, cfg_SetBech32PrefixForConsensusNode = add,
       cfg_Seal = (\<lambda>g. (g\<lparr>sg_Sealed := True\<rparr>, Ok ())),
       cfg_setDefaultBondDenom = (\<lambda>d g. (g\<lparr>sg_DefaultBondDenom := d\<rparr>, Ok ()))\<rparr>)"

text \<open>On a fresh configuration every setting is made and sealed; a second run panics and changes nothing.\<close>

lemma config_init_recorded:
  "config_init recorded_globals \<lparr>sg_CoinType = c, sg_Prefixes = [], sg_Sealed = False, sg_DefaultBondDenom = d\<rparr> =
     (\<lparr>sg_CoinType = 118, sg_Prefixes = bech32Prefixes, sg_Sealed = True, sg_DefaultBondDenom = ''uGNOD''\<rparr>, Ok ())"
  "sg_Sealed g \<Longrightarrow> config_init recorded_globals g = (g, Panic ''config is sealed'')"
  by (simp_all add: config_init_def recorded_globals_def unsealed_def bindA_def Let_def bech32Prefixes_def ChainCoinType_def)

section \<open>Initialising a node\<close>

datatype stat_result = StatOk | StatNotExist | StatErr go_error

record ('c, 'r) app_genesis =
  ag_AppName :: string
  ag_AppVersion :: string
  ag_ChainID :: string
  ag_AppState :: string
  ag_InitialHeight :: int
  ag_Consensus :: 'c
  ag_rest :: 'r

text \<open>
  \<open>in_ConsensusGenesis\<close> is a fresh consensus section without validators and with the default consensus
  parameters, but for the types of public keys; \<open>in_WriteConfigFile\<close> writes the node configuration
  with a moniker.
\<close>

record ('w, 'g, 'c, 'r) init_env =
  in_homeChainID :: string
  in_randomStr :: string
  in_GetMnemonic :: "('w, string) action"
  in_IsMnemonicValid :: "string \<Rightarrow> bool"
  in_InitializeNode :: "string \<Rightarrow> ('w, string) action"
  in_Stat :: "string \<Rightarrow> 'w \<Rightarrow> stat_result"
  in_DefaultGenesis :: "'g outcome"
  in_MarshalIndent :: "'g \<Rightarrow> string outcome"
  in_emptyGenesis :: "('c, 'r) app_genesis"
  in_AppGenesisFromFile :: "string \<Rightarrow> 'w \<Rightarrow> ('c, 'r) app_genesis outcome"
  in_ConsensusGenesis :: "string list \<Rightarrow> 'c"
  in_appName :: string
  in_appVersion :: string
  in_ExportGenesisFile :: "('c, 'r) app_genesis \<Rightarrow> string \<Rightarrow> ('w, unit) action"
  in_MarshalMessage :: "string \<Rightarrow> string \<Rightarrow> string \<Rightarrow> string outcome"
  in_WriteConfigFile :: "string \<Rightarrow> ('w, unit) action"
  in_Println :: "string \<Rightarrow> ('w, unit) action"

record init_flags =
  if_ChainID :: string
  if_Recover :: bool
  if_InitHeight :: int
  if_Overwrite :: bool
  if_ConsensusKeyAlgo :: "string outcome"

text \<open>The switch over the sources of the chain identifier.\<close>

definition initChainID :: "('w, 'g, 'c, 'r) init_env \<Rightarrow> init_flags \<Rightarrow> string" where
  "initChainID ie fl =
     (if if_ChainID fl \<noteq> [] then if_ChainID fl
      else if in_homeChainID ie \<noteq> [] then in_homeChainID ie
      else ''test-chain-'' @ in_randomStr ie)"

definition readMnemonic :: "('w, 'g, 'c, 'r) init_env \<Rightarrow> init_flags \<Rightarrow> ('w, string) action" where
  "readMnemonic ie fl =
     (if if_Recover fl then
        bindA (in_GetMnemonic ie) (\<lambda>mnemonic.
        if \<not> in_IsMnemonicValid ie mnemonic then liftO (Err (ErrText ''invalid mnemonic'')) else returnA mnemonic)
      else returnA [])"

definition loadGenesis :: "('w, 'g, 'c, 'r) init_env \<Rightarrow> string \<Rightarrow> ('w, ('c, 'r) app_genesis) action" where
  "loadGenesis ie genFile =
     readA (\<lambda>w. case in_Stat ie genFile w of
        StatNotExist \<Rightarrow> Ok (in_emptyGenesis ie)
      | StatErr e \<Rightarrow> Err e
      | StatOk \<Rightarrow> wrapErr ''failed to read genesis doc from file'' (in_AppGenesisFromFile ie genFile w))"

text \<open>The genesis file is a function of the home directory; here it is the argument \<open>genFile\<close>.\<close>

definition InitCmd :: "('w, 'g, 'c, 'r) init_env \<Rightarrow> string \<Rightarrow> string \<Rightarrow> init_flags \<Rightarrow> ('w, unit) action" where
  "InitCmd ie moniker genFile fl =
     (let chainID = initChainID ie fl in
      bindA (readMnemonic ie fl) (\<lambda>mnemonic.
      let initHeight = (if if_InitHeight fl < 1 then 1 else if_InitHeight fl) in
      bindA (in_InitializeNode ie mnemonic) (\<lambda>nodeID.
      bindA (readA (\<lambda>w. if \<not> if_Overwrite fl \<and> in_Stat ie genFile w \<noteq> StatNotExist
                        then Err (ErrText (''genesis.json file already exists: '' @ genFile)) else Ok ())) (\<lambda>_.
      bindA (liftO (in_DefaultGenesis ie)) (\<lambda>appGenState.
      bindA (liftO (wrapErr ''failed to marshal default genesis state'' (in_MarshalIndent ie appGenState))) (\<lambda>appState.
      bindA (loadGenesis ie genFile) (\<lambda>appGenesis.
      bindA (liftO (wrapErr ''failed to get consensus key algo'' (if_ConsensusKeyAlgo fl))) (\<lambda>consensusKey.
      let appGenesis1 = appGenesis
            \<lparr>ag_AppName := in_appName ie, ag_AppVersion := in_appVersion ie, ag_ChainID := chainID,
             ag_AppState := appState, ag_InitialHeight := initHeight, ag_Consensus := in_ConsensusGenesis ie [consensusKey]\<rparr>
      in
      bindA (wrapErrA ''failed to export genesis file'' (in_ExportGenesisFile ie appGenesis1 genFile)) (\<lambda>_.
      bindA (liftO (in_MarshalMessage ie chainID nodeID appState)) (\<lambda>out.
      bindA (in_WriteConfigFile ie moniker) (\<lambda>_.
      in_Println ie out)))))))))))"

section \<open>Chain identifier and export\<close>

text \<open>\<open>castToString\<close> is applied to the options already; \<open>chainIDFromHome\<close> reads the client configuration.\<close>

definition getChainIDFromOpts :: "(string \<Rightarrow> string outcome) \<Rightarrow> string \<Rightarrow> string \<Rightarrow> string outcome" where
  "getChainIDFromOpts chainIDFromHome chainIDFlag homeDir =
     (if chainIDFlag \<noteq> [] then Ok chainIDFlag else chainIDFromHome homeDir)"

text \<open>
  The options of the base application, and the application options they are read from, already
  cast to their types. \<open>na_New\<close> is the constructor of the application on the flag that asks for the
  latest version and the options.
\<close>

datatype ('p, 'c, 'ss, 'so) baseapp_option =
    SetChainID string | SetPruning 'p | SetMinGasPrices string | SetQueryGasLimit u64 | SetHaltHeight u64
  | SetHaltTime u64 | SetMinRetainBlocks u64 | SetInterBlockCache "'c option" | SetTrace bool
  | SetIndexEvents "string list" | SetSnapshot 'ss 'so | SetIAVLCacheSize int | SetIAVLDisableFastNode bool

record ('p, 'c, 'ss, 'so, 'a) new_app_env =
  na_InterBlockCache :: bool
  na_NewCache :: 'c
  na_GetPruningOptionsFromFlags :: "'p outcome"
  na_GetSnapshotStore :: "'ss outcome"
  na_NewSnapshotOptions :: "u64 \<Rightarrow> 32 word \<Rightarrow> 'so"
  na_SnapshotInterval :: u64
  na_SnapshotKeepRecent :: "32 word"
  na_chainIDFromHome :: "string \<Rightarrow> string outcome"
  na_ChainID :: string
  na_Home :: string
  na_MinGasPrices :: string
  na_QueryGasLimit :: u64
  na_HaltHeight :: u64
  na_HaltTime :: u64
  na_MinRetainBlocks :: u64
  na_Trace :: bool
  na_IndexEvents :: "string list"
  na_IAVLCacheSize :: int
  na_DisableIAVLFastNode :: bool
  na_New :: "bool \<Rightarrow> ('p, 'c, 'ss, 'so) baseapp_option list \<Rightarrow> 'a outcome"

definition newApp :: "('p, 'c, 'ss, 'so, 'a) new_app_env \<Rightarrow> 'a outcome" where
  "newApp na =
     (let cache = (if na_InterBlockCache na then Some (na_NewCache na) else None) in
      bindO (mustO ''err'' (na_GetPruningOptionsFromFlags na)) (\<lambda>pruningOpts.
      bindO (mustO ''err'' (na_GetSnapshotStore na)) (\<lambda>snapshotStore.
      let snapshotOptions = na_NewSnapshotOptions na (na_SnapshotInterval na) (na_SnapshotKeepRecent na) in
      bindO (mustO ''err'' (getChainIDFromOpts (na_chainIDFromHome na) (na_ChainID na) (na_Home na))) (\<lambda>chainID.
      na_New na True
        [SetChainID chainID,
         SetPruning pruningOpts,
         SetMinGasPrices (na_MinGasPrices na),
         SetQueryGasLimit (na_QueryGasLimit na),
         SetHaltHeight (na_HaltHeight na),
         SetHaltTime (na_HaltTime na),
         SetMinRetainBlocks (na_MinRetainBlocks na),
         SetInterBlockCache cache,
         SetTrace (na_Trace na),
         SetIndexEvents (na_IndexEvents na),
         SetSnapshot snapshotStore snapshotOptions,
         SetIAVLCacheSize (na_IAVLCacheSize na),
         SetIAVLDisableFastNode (na_DisableIAVLFastNode na)]))))"

text \<open>The option map of the upgrade keeper: the heights given on the command line.\<close>

definition skipUpgradeHeights :: "int list \<Rightarrow> (int \<rightharpoonup> bool)" where
  "skipUpgradeHeights hs = foldl (\<lambda>m h. m(h \<mapsto> True)) Map.empty hs"

text \<open>
  A new application is its state with the height of its last block. \<open>homeOption\<close> is the home
  option if it is a string, and \<open>isViper\<close> tells whether the options are a viper instance.
\<close>

record ('s, 'x, 'c, 'g, 'j, 'v, 'cp) export_cmd_env =
  ec_New :: "bool \<Rightarrow> string \<Rightarrow> ('s \<times> int) outcome"
  ec_LoadHeight :: "int \<Rightarrow> 's \<times> int \<Rightarrow> ('s \<times> int) outcome"
  ec_chainIDFromHome :: "string \<Rightarrow> string outcome"
  ec_export :: "('s, 'x, 'c) export_env"
  ec_newContext :: "int \<Rightarrow> sdk_context"
  ec_exportGenesis :: "string list \<Rightarrow> ('s, 'g) action"
  ec_marshal :: "'g \<Rightarrow> 'j outcome"
  ec_writeValidators :: "'s \<Rightarrow> 'v \<times> go_error option"
  ec_consensusParams :: "'s \<Rightarrow> 'cp"

definition appExport ::
  "('s, 'x, 'c, 'g, 'j, 'v, 'cp) export_cmd_env \<Rightarrow> int \<Rightarrow> bool \<Rightarrow> string list \<Rightarrow> string option \<Rightarrow> bool \<Rightarrow> string \<Rightarrow> string list \<Rightarrow>
   (('j, 'v, 'cp) exported_app \<times> go_error option) outcome" where
  "appExport ec height forZeroHeight jailAllowedAddrs homeOption isViper chainIDFlag modulesToExport =
     (case homeOption of
        None \<Rightarrow> Err (ErrText ''application home not set'')
      | Some homePath \<Rightarrow>
          if homePath = [] then Err (ErrText ''application home not set'')
          else if \<not> isViper then Err (ErrText ''appOpts is not viper.Viper'')
          else
            bindO (wrapErr ''failed to get chain-id'' (getChainIDFromOpts (ec_chainIDFromHome ec) chainIDFlag homePath)) (\<lambda>chainID.
            bindO (if height \<noteq> -1 then bindO (ec_New ec False chainID) (ec_LoadHeight ec height)
                   else ec_New ec True chainID) (\<lambda>(s, lastBlockHeight).
            snd (ExportAppStateAndValidators (ec_export ec) (ec_newContext ec) (ec_exportGenesis ec) (ec_marshal ec)
                   (ec_writeValidators ec) (ec_consensusParams ec) lastBlockHeight forZeroHeight jailAllowedAddrs modulesToExport s))))"

section \<open>Lemmas\<close>

lemma bech32Prefixes_distinct: "distinct bech32Prefixes"
  by (simp add: bech32Prefixes_def AccountAddressPrefix_def)

lemma skipUpgradeHeights_iff: "skipUpgradeHeights hs h = (if h \<in> set hs then Some True else None)"
proof -
  have "foldl (\<lambda>m h. m(h \<mapsto> True)) m hs h = (if h \<in> set hs then Some True else m h)" for m
    by (induction hs arbitrary: m) auto
  then show ?thesis by (simp add: skipUpgradeHeights_def)
qed

lemma loadGenesis_Ok: "loadGenesis ie genFile w = (w', Ok g) \<longleftrightarrow> w' = w \<and> snd (loadGenesis ie genFile w) = Ok g"
  by (auto simp: loadGenesis_def readA_def)

text \<open>A successful initialisation, step by step.\<close>

lemma InitCmd_Ok:
  assumes "InitCmd ie moniker genFile fl w = (w', Ok ())"
  obtains mnemonic w0 nodeID w1 g appState old algo w2 out w3 where
    "readMnemonic ie fl w = (w0, Ok mnemonic)" "in_InitializeNode ie mnemonic w0 = (w1, Ok nodeID)"
    "in_DefaultGenesis ie = Ok g" "in_MarshalIndent ie g = Ok appState" "if_ConsensusKeyAlgo fl = Ok algo"
    "if_Overwrite fl \<or> in_Stat ie genFile w1 = StatNotExist"
    "in_ExportGenesisFile ie (old\<lparr>ag_AppName := in_appName ie, ag_AppVersion := in_appVersion ie, ag_ChainID := initChainID ie fl,
       ag_AppState := appState, ag_InitialHeight := max 1 (if_InitHeight fl), ag_Consensus := in_ConsensusGenesis ie [algo]\<rparr>) genFile w1 = (w2, Ok ())"
    "in_MarshalMessage ie (initChainID ie fl) nodeID appState = Ok out"
    "in_WriteConfigFile ie moniker w2 = (w3, Ok ())" "in_Println ie out w3 = (w', Ok ())"
proof -
  have h: "(if if_InitHeight fl < 1 then 1 else if_InitHeight fl) = max 1 (if_InitHeight fl)" by simp
  from assms show thesis
    unfolding InitCmd_def Let_def h
    by (auto simp: outcome_inv loadGenesis_Ok split: if_splits intro: that)
qed

text \<open>Without the overwrite option nothing is written to an existing genesis file.\<close>

lemma InitCmd_refuses:
  assumes "\<not> if_Overwrite fl" and "readMnemonic ie fl w = (w0, Ok mnemonic)" and "in_InitializeNode ie mnemonic w0 = (w1, Ok nodeID)"
    and "in_Stat ie genFile w1 \<noteq> StatNotExist"
  shows "InitCmd ie moniker genFile fl w = (w1, Err (ErrText (''genesis.json file already exists: '' @ genFile)))"
  using assms by (simp add: InitCmd_def Let_def bindA_def readA_def)

text \<open>
  A running application was started on the chain of the option, or of the home directory if the
  option is empty; it was loaded at the latest version.
\<close>

lemma newApp_Ok:
  assumes "newApp na = Ok a"
  obtains chainID opts where "na_New na True (SetChainID chainID # opts) = Ok a"
    "na_ChainID na \<noteq> [] \<longrightarrow> chainID = na_ChainID na"
    "na_ChainID na = [] \<longrightarrow> na_chainIDFromHome na (na_Home na) = Ok chainID"
    "\<forall>c. SetChainID c \<notin> set opts"
  using assms
  by (auto simp: newApp_def Let_def outcome_inv getChainIDFromOpts_def split: if_splits; fastforce)

end
