(* ===== verification/Cmd_Flags.thy ===== *)
theory Cmd_Flags
  imports Cmd_Testnet_Files Cmd_Start
begin

text \<open>
  The flags of the commands (\<^verbatim>\<open>cmd/gnodid/cmd/testnet_multi_node.go\<close>, \<^verbatim>\<open>init.go\<close>, \<^verbatim>\<open>testnet.go\<close>):
  what each command declares, with which default, and what its run function reads. The run
  functions ignore the error of reading a flag, so that a flag which is not declared, or declared
  with another type, would silently give a zero value.
\<close>

section \<open>Flag sets\<close>

text \<open>Names that packages outside the repository define are constructors; the others are strings.\<close>

datatype flag_name =
    FlagHome | FlagChainID | FlagKeyringBackend | FlagMinGasPrices | FlagKeyType | FlagInitHeight
  | Flag string

datatype flag_value = StringFlag string | IntFlag int | Int64Flag int | BoolFlag bool

type_synonym flag_set = "flag_name \<rightharpoonup> flag_value"

text \<open>A second declaration of a name panics in \<^verbatim>\<open>pflag\<close>.\<close>

definition addFlag :: "flag_name \<Rightarrow> flag_value \<Rightarrow> flag_set \<Rightarrow> flag_set outcome" where
  "addFlag n v fs = (if fs n \<noteq> None then Panic ''flag redefined'' else Ok (fs(n \<mapsto> v)))"

fun addFlags :: "(flag_name \<times> flag_value) list \<Rightarrow> flag_set \<Rightarrow> flag_set outcome" where
  "addFlags [] fs = Ok fs"
| "addFlags ((n, v) # decls) fs = bindO (addFlag n v fs) (addFlags decls)"

text \<open>Options given on the command line replace the values of declared flags of the same type.\<close>

definition same_type :: "flag_value \<Rightarrow> flag_value \<Rightarrow> bool" where
  "same_type v w = (case (v, w) of
      (StringFlag _, StringFlag _) \<Rightarrow> True | (IntFlag _, IntFlag _) \<Rightarrow> True
    | (Int64Flag _, Int64Flag _) \<Rightarrow> True | (BoolFlag _, BoolFlag _) \<Rightarrow> True | _ \<Rightarrow> False)"

definition setFlag :: "flag_name \<Rightarrow> flag_value \<Rightarrow> flag_set \<Rightarrow> flag_set outcome" where
  "setFlag n v fs =
     (case fs n of
        None \<Rightarrow> Err (ErrForeign ''unknown flag'')
      | Some w \<Rightarrow> if same_type v w then Ok (fs(n \<mapsto> v)) else Err (ErrForeign ''invalid argument''))"

fun GetString :: "flag_set \<Rightarrow> flag_name \<Rightarrow> string outcome" where
  "GetString fs n = (case fs n of Some (StringFlag s) \<Rightarrow> Ok s | _ \<Rightarrow> Err (ErrForeign ''flag accessed but not defined''))"

fun GetInt :: "flag_set \<Rightarrow> flag_name \<Rightarrow> int outcome" where
  "GetInt fs n = (case fs n of Some (IntFlag i) \<Rightarrow> Ok i | _ \<Rightarrow> Err (ErrForeign ''flag accessed but not defined''))"

fun GetInt64 :: "flag_set \<Rightarrow> flag_name \<Rightarrow> int outcome" where
  "GetInt64 fs n = (case fs n of Some (Int64Flag i) \<Rightarrow> Ok i | _ \<Rightarrow> Err (ErrForeign ''flag accessed but not defined''))"

fun GetBool :: "flag_set \<Rightarrow> flag_name \<Rightarrow> bool outcome" where
  "GetBool fs n = (case fs n of Some (BoolFlag b) \<Rightarrow> Ok b | _ \<Rightarrow> Err (ErrForeign ''flag accessed but not defined''))"

text \<open>\<^verbatim>\<open>x, _ = ...\<close>: the zero value when there is an error.\<close>

definition orZero :: "'a \<Rightarrow> 'a outcome \<Rightarrow> 'a" where
  "orZero z r = (case r of Ok x \<Rightarrow> x | _ \<Rightarrow> z)"

section \<open>The multi-node testnet\<close>

definition flagNodeDirPrefix :: flag_name where "flagNodeDirPrefix = Flag ''node-dir-prefix''"
definition flagPorts :: flag_name where "flagPorts = Flag ''list-ports''"
definition flagNumValidators :: flag_name where "flagNumValidators = Flag ''v''"
definition flagOutputDir :: flag_name where "flagOutputDir = Flag ''output-dir''"
definition flagValidatorsStakeAmount :: flag_name where "flagValidatorsStakeAmount = Flag ''validators-stake-amount''"
definition flagStartingIPAddress :: flag_name where "flagStartingIPAddress = Flag ''starting-ip-address''"

lemmas testnet_flag_names = flagNodeDirPrefix_def flagPorts_def flagNumValidators_def flagOutputDir_def
  flagValidatorsStakeAmount_def flagStartingIPAddress_def

text \<open>The old name of the key type is still accepted.\<close>

definition normalizeFlag :: "flag_name \<Rightarrow> flag_name" where
  "normalizeFlag n = (if n = Flag ''algo'' then FlagKeyType else n)"

text \<open>\<open>bondDenom\<close> is the default denomination of the SDK; \<open>secp256k1\<close> the name of the key type.\<close>

definition testnetFlagDecls :: "string \<Rightarrow> (flag_name \<times> flag_value) list" where
  "testnetFlagDecls bondDenom =
     [(flagNumValidators, IntFlag 4),
      (flagOutputDir, StringFlag ''./.testnets''),
      (FlagChainID, StringFlag []),
      (FlagMinGasPrices, StringFlag (''0.0001'' @ bondDenom)),
      (FlagKeyType, StringFlag ''secp256k1'')]"

definition addTestnetFlagsToCmd :: "string \<Rightarrow> flag_set \<Rightarrow> flag_set outcome" where
  "addTestnetFlagsToCmd bondDenom fs = addFlags (testnetFlagDecls bondDenom) fs"

text \<open>The flags of \<^verbatim>\<open>NewTestnetMultiNodeCmd\<close>.\<close>

definition multiNodeFlags :: "string \<Rightarrow> flag_set outcome" where
  "multiNodeFlags bondDenom =
     bindO (addTestnetFlagsToCmd bondDenom Map.empty)
       (addFlags
          [(normalizeFlag flagPorts, StringFlag []),
           (normalizeFlag flagNodeDirPrefix, StringFlag ''validator''),
           (normalizeFlag flagValidatorsStakeAmount, StringFlag ''100000000,100000000,100000000,100000000''),
           (normalizeFlag flagStartingIPAddress, StringFlag ''localhost''),
           (normalizeFlag FlagKeyringBackend, StringFlag ''test'')])"

text \<open>
  The run function up to the call of \<open>initTestnetFiles\<close>. The client context is read first.
\<close>

definition multiNodeArgs ::
  "(string \<Rightarrow> int option) \<Rightarrow> (int \<Rightarrow> coin outcome) \<Rightarrow> unit outcome \<Rightarrow> flag_set \<Rightarrow> initArgs outcome" where
  "multiNodeArgs newIntFromString newCoin clientCtx fs =
     bindO clientCtx (\<lambda>_.
     let str = (\<lambda>n. orZero [] (GetString fs (normalizeFlag n)));
         args = \<lparr>ia_algo = str FlagKeyType,
                 ia_chainID = str FlagChainID,
                 ia_keyringBackend = str FlagKeyringBackend,
                 ia_minGasPrices = str FlagMinGasPrices,
                 ia_nodeDirPrefix = str flagNodeDirPrefix,
                 ia_numValidators = orZero 0 (GetInt fs (normalizeFlag flagNumValidators)),
                 ia_outputDir = str flagOutputDir,
                 ia_startingIPAddress = str flagStartingIPAddress,
                 ia_validatorsStakesAmount = Map.empty,
                 ia_ports = Map.empty\<rparr>
     in
     bindO (case GetString fs (normalizeFlag flagValidatorsStakeAmount) of
              Ok s \<Rightarrow> parseStakes newIntFromString newCoin (strings_Split (CHR '','') s) 0 Map.empty
            | _ \<Rightarrow> Ok Map.empty) (\<lambda>stakes.
     let ports = (case GetString fs (normalizeFlag flagPorts) of
                    Ok s \<Rightarrow> parsePorts (ia_numValidators args) s
                  | _ \<Rightarrow> Map.empty)
     in Ok (args\<lparr>ia_validatorsStakesAmount := stakes, ia_ports := ports\<rparr>)))"

section \<open>The other commands\<close>

definition flagOverwrite :: flag_name where "flagOverwrite = Flag ''overwrite''"
definition flagRecover :: flag_name where "flagRecover = Flag ''recover''"
definition flagDefaultBondDenom :: flag_name where "flagDefaultBondDenom = Flag ''default-denom''"
definition flagConsensusKeyAlgo :: flag_name where "flagConsensusKeyAlgo = Flag ''consensus-key-algo''"
definition flagAccountsToFund :: flag_name where "flagAccountsToFund = Flag ''accounts-to-fund''"

lemmas init_flag_names = flagOverwrite_def flagRecover_def flagDefaultBondDenom_def flagConsensusKeyAlgo_def

definition initFlags :: "string \<Rightarrow> flag_set outcome" where
  "initFlags defaultNodeHome =
     addFlags
       [(FlagHome, StringFlag defaultNodeHome),
        (flagOverwrite, BoolFlag False),
        (flagRecover, BoolFlag False),
        (flagDefaultBondDenom, StringFlag []),
        (flagConsensusKeyAlgo, StringFlag ''ed25519''),
        (FlagChainID, StringFlag []),
        (FlagInitHeight, Int64Flag 1)] Map.empty"

text \<open>What the run function of the init command reads.\<close>

definition readInitFlags :: "flag_set \<Rightarrow> init_flags" where
  "readInitFlags fs =
     \<lparr>if_ChainID = orZero [] (GetString fs FlagChainID),
      if_Recover = orZero False (GetBool fs flagRecover),
      if_InitHeight = orZero 0 (GetInt64 fs FlagInitHeight),
      if_Overwrite = orZero False (GetBool fs flagOverwrite),
      if_ConsensusKeyAlgo = GetString fs flagConsensusKeyAlgo\<rparr>"

text \<open>The in-place testnet adds one flag to those of the server's command.\<close>

definition inPlaceFlags :: "flag_set \<Rightarrow> flag_set outcome" where
  "inPlaceFlags serverFlags = addFlag flagAccountsToFund (StringFlag []) serverFlags"

section \<open>Lemmas\<close>

lemma addFlags_Ok:
  "distinct (map fst decls) \<Longrightarrow> fst ` set decls \<inter> dom fs = {} \<Longrightarrow>
     addFlags decls fs = Ok (fs ++ map_of decls)"
proof (induction decls arbitrary: fs)
  case (Cons d decls)
  obtain n v where d: "d = (n, v)" by force
  have n: "n \<notin> dom (map_of decls)" using Cons.prems(1) d by (simp add: dom_map_of_conv_image_fst)
  from Cons.prems d have "addFlags (d # decls) fs = addFlags decls (fs(n \<mapsto> v))"
    by (auto simp: addFlag_def)
  also have "\<dots> = Ok ((fs(n \<mapsto> v)) ++ map_of decls)"
    using Cons.prems d by (intro Cons.IH) (auto simp: dom_def)
  also have "(fs(n \<mapsto> v)) ++ map_of decls = fs ++ map_of (d # decls)"
    using d n by (simp add: map_add_upd_left)
  finally show ?case .
qed simp

text \<open>The names and defaults of the two commands, as maps.\<close>

lemma multiNodeFlags_Ok:
  "multiNodeFlags bondDenom = Ok (map_of (testnetFlagDecls bondDenom) ++ map_of
     [(flagPorts, StringFlag []), (flagNodeDirPrefix, StringFlag ''validator''),
      (flagValidatorsStakeAmount, StringFlag ''100000000,100000000,100000000,100000000''),
      (flagStartingIPAddress, StringFlag ''localhost''), (FlagKeyringBackend, StringFlag ''test'')])"
  by (simp add: multiNodeFlags_def addTestnetFlagsToCmd_def addFlags_Ok testnetFlagDecls_def normalizeFlag_def testnet_flag_names del: addFlags.simps)

lemma initFlags_Ok:
  "initFlags home = Ok (map_of
     [(FlagHome, StringFlag home), (flagOverwrite, BoolFlag False), (flagRecover, BoolFlag False),
      (flagDefaultBondDenom, StringFlag []), (flagConsensusKeyAlgo, StringFlag ''ed25519''),
      (FlagChainID, StringFlag []), (FlagInitHeight, Int64Flag 1)])"
  by (simp add: initFlags_def addFlags_Ok init_flag_names del: addFlags.simps)

lemma setFlag_Ok: "setFlag n v fs = Ok fs' \<longleftrightarrow> (\<exists>w. fs n = Some w \<and> same_type v w \<and> fs' = fs(n \<mapsto> v))"
  by (auto simp: setFlag_def split: option.split)
text \<open>Reading a flag set that has the defaults, but for the number of validators and the key type.\<close>

definition default_reads :: "string \<Rightarrow> nat \<Rightarrow> string \<Rightarrow> flag_set \<Rightarrow> bool" where
  "default_reads bondDenom n algo fs \<longleftrightarrow>
     fs flagNumValidators = Some (IntFlag (int n)) \<and> fs flagPorts = Some (StringFlag []) \<and>
     fs flagNodeDirPrefix = Some (StringFlag ''validator'') \<and> fs flagOutputDir = Some (StringFlag ''./.testnets'') \<and>
     fs flagValidatorsStakeAmount = Some (StringFlag ''100000000,100000000,100000000,100000000'') \<and>
     fs flagStartingIPAddress = Some (StringFlag ''localhost'') \<and> fs FlagKeyringBackend = Some (StringFlag ''test'') \<and>
     fs FlagChainID = Some (StringFlag []) \<and> fs FlagMinGasPrices = Some (StringFlag (''0.0001'' @ bondDenom)) \<and>
     fs FlagKeyType = Some (StringFlag algo)"

lemma default_reads_flags:
  assumes "multiNodeFlags bondDenom = Ok fs" and "setFlag (normalizeFlag flagNumValidators) (IntFlag (int n)) fs = Ok fs'"
  shows "default_reads bondDenom n ''secp256k1'' fs'"
  using assms
  by (auto simp: default_reads_def setFlag_Ok multiNodeFlags_Ok normalizeFlag_def testnet_flag_names testnetFlagDecls_def)

lemma default_reads_algo:
  assumes "default_reads bondDenom n algo fs" and "setFlag (normalizeFlag (Flag ''algo'')) (StringFlag a) fs = Ok fs'"
  shows "default_reads bondDenom n a fs'"
  using assms by (auto simp: default_reads_def setFlag_Ok normalizeFlag_def testnet_flag_names)

lemma multiNodeArgs_default:
  assumes "newIntFromString ''100000000'' = Some 100000000" and "newCoin 100000000 = Ok c" and "default_reads bondDenom n algo fs"
  shows "multiNodeArgs newIntFromString newCoin (Ok ()) fs = Ok
    \<lparr>ia_algo = algo, ia_chainID = [], ia_keyringBackend = ''test'', ia_minGasPrices = ''0.0001'' @ bondDenom,
     ia_nodeDirPrefix = ''validator'', ia_numValidators = int n, ia_outputDir = ''./.testnets'',
     ia_startingIPAddress = ''localhost'', ia_validatorsStakesAmount = [0 \<mapsto> c, 1 \<mapsto> c, 2 \<mapsto> c, 3 \<mapsto> c],
     ia_ports = parsePorts (int n) []\<rparr>"
proof -
  have split: "strings_Split (CHR '','') ''100000000,100000000,100000000,100000000'' =
      [''100000000'', ''100000000'', ''100000000'', ''100000000'']"
    by code_simp
  show ?thesis
    using assms(3) unfolding default_reads_def
    by (simp add: multiNodeArgs_def Let_def orZero_def normalizeFlag_def testnet_flag_names split assms(1,2) numeral_eq_Suc)
qed

lemma initFlags_read:
  assumes "initFlags home = Ok fs"
  shows "readInitFlags fs = \<lparr>if_ChainID = [], if_Recover = False, if_InitHeight = 1, if_Overwrite = False, if_ConsensusKeyAlgo = Ok ''ed25519''\<rparr>"
  using assms by (auto simp: initFlags_Ok readInitFlags_def orZero_def init_flag_names)

end
