(* ===== verification/Cmd_Root.thy ===== *)
theory Cmd_Root
  imports Cmd_Flags
begin

text \<open>
  The root of the command line (\<^verbatim>\<open>cmd/gnodid/main.go\<close>, \<^verbatim>\<open>cmd/root.go\<close>, \<^verbatim>\<open>cmd/commands.go\<close>,
  \<^verbatim>\<open>cmd/config.go\<close>): the client context, what runs before every command, and the tree of commands.
  Commands that other packages construct are named by their constructor; what these packages do to
  files is an action on a type \<open>'w\<close> of worlds.
\<close>

section \<open>The client context\<close>

record ('cc, 't, 'z) client_ctx =
  cx_CmdContext :: 'cc
  cx_Offline :: bool
  cx_TxConfig :: 't
  cx_HomeDir :: string
  cx_rest :: 'z

text \<open>
  \<^verbatim>\<open>ReadFromClientConfig\<close> returns a context also with an error. \<open>rt_newTxConfig\<close> builds the
  configuration with the textual sign mode, which queries the node of the context it is given.
\<close>

record ('w, 'cc, 't, 'z, 'ac, 'mc) root_env =
  rt_ReadPersistentCommandFlags :: "('cc, 't, 'z) client_ctx \<Rightarrow> ('w, ('cc, 't, 'z) client_ctx) action"
  rt_ReadFromClientConfig :: "('cc, 't, 'z) client_ctx \<Rightarrow> ('w, ('cc, 't, 'z) client_ctx \<times> go_error option) action"
  rt_newTxConfig :: "('cc, 't, 'z) client_ctx \<Rightarrow> ('w, 't) action"
  rt_SetCmdClientContextHandler :: "('cc, 't, 'z) client_ctx \<Rightarrow> ('w, unit) action"
  rt_InterceptConfigsPreRunHandler :: "string \<Rightarrow> 'ac \<Rightarrow> 'mc \<Rightarrow> ('w, unit) action"
  rt_DefaultConfigTemplate :: string
  rt_DefaultServerConfig :: 'ac
  rt_DefaultCometConfig :: 'mc

section \<open>Configuration defaults\<close>

text \<open>Both functions return the defaults of the packages; the custom configuration only embeds one.\<close>

definition initCometBFTConfig :: "('w, 'cc, 't, 'z, 'ac, 'mc) root_env \<Rightarrow> 'mc" where
  "initCometBFTConfig rt = (let cfg = rt_DefaultCometConfig rt in cfg)"

definition initAppConfig :: "('w, 'cc, 't, 'z, 'ac, 'mc) root_env \<Rightarrow> string \<times> 'ac" where
  "initAppConfig rt =
     (let srvCfg = rt_DefaultServerConfig rt;
          customAppConfig = srvCfg;
          customAppTemplate = rt_DefaultConfigTemplate rt
      in (customAppTemplate, customAppConfig))"

section \<open>Before every command\<close>

text \<open>\<^verbatim>\<open>x, err = f(); if err != nil { return err }\<close> for a call that returns both.\<close>

definition checkErr :: "('w, 'x \<times> go_error option) action \<Rightarrow> ('w, 'x) action" where
  "checkErr m = bindA m (\<lambda>(x, err). case err of None \<Rightarrow> returnA x | Some e \<Rightarrow> liftO (Err e))"

text \<open>
  The closure captures the variable of the initial context. Its first assignment writes that variable;
  the declaration after it introduces a new variable of the same name, which the rest of the
  closure uses. The state is the world and the captured variable.
\<close>

definition rebuildTxConfig ::
  "('w, 'cc, 't, 'z, 'ac, 'mc) root_env \<Rightarrow> ('cc, 't, 'z) client_ctx \<Rightarrow> ('w, ('cc, 't, 'z) client_ctx) action" where
  "rebuildTxConfig rt ctx =
     (if \<not> cx_Offline ctx
      then bindA (rt_newTxConfig rt ctx) (\<lambda>txConfig. returnA (ctx\<lparr>cx_TxConfig := txConfig\<rparr>))
      else returnA ctx)"

definition preRunBody :: "('w, 'cc, 't, 'z, 'ac, 'mc) root_env \<Rightarrow> ('cc, 't, 'z) client_ctx \<Rightarrow> ('w, unit) action" where
  "preRunBody rt ctx0 =
     bindA (rt_ReadPersistentCommandFlags rt ctx0) (\<lambda>ctx1.
     bindA (checkErr (rt_ReadFromClientConfig rt ctx1)) (\<lambda>ctx2.
     bindA (rebuildTxConfig rt ctx2) (\<lambda>ctx3.
     bindA (rt_SetCmdClientContextHandler rt ctx3) (\<lambda>_.
     let (customAppTemplate, customAppConfig) = initAppConfig rt;
         customCMTConfig = initCometBFTConfig rt
     in rt_InterceptConfigsPreRunHandler rt customAppTemplate customAppConfig customCMTConfig))))"

definition PersistentPreRunE ::
  "('w, 'cc, 't, 'z, 'ac, 'mc) root_env \<Rightarrow> 'cc \<Rightarrow> ('w \<times> ('cc, 't, 'z) client_ctx, unit) action" where
  "PersistentPreRunE rt cmdContext = (\<lambda>(w, captured).
     let captured1 = captured\<lparr>cx_CmdContext := cmdContext\<rparr>
     in case preRunBody rt captured1 w of (w', r) \<Rightarrow> ((w', captured1), r))"

section \<open>The tree of commands\<close>

datatype cobra_command =
    External string
  | Command string "string list" "(flag_name \<times> flag_value) list" "cobra_command list"

definition queryCommand :: cobra_command where
  "queryCommand =
     Command ''query'' [''q''] [(FlagChainID, StringFlag [])]
       [External ''rpc.QueryEventForTxCmd'',
        External ''rpc.ValidatorCommand'',
        External ''authcmd.QueryTxsByEventsCmd'',
        External ''authcmd.QueryTxCmd'',
        External ''sdkserver.QueryBlockCmd'',
        External ''sdkserver.QueryBlockResultsCmd'']"

definition txCommand :: cobra_command where
  "txCommand =
     Command ''tx'' [] [(FlagChainID, StringFlag [])]
       [External ''authcmd.GetSignCommand'',
        External ''authcmd.GetSignBatchCommand'',
        External ''authcmd.GetMultiSignCommand'',
        External ''authcmd.GetMultiSignBatchCmd'',
        External ''authcmd.GetValidateSignaturesCommand'',
        External ''authcmd.GetBroadcastCommand'',
        External ''authcmd.GetEncodeCommand'',
        External ''authcmd.GetDecodeCommand'',
        External ''authcmd.GetSimulateCmd'']"

text \<open>
  The commands of the repository appear under the word they are called by. \<open>addTxFlags\<close> is the
  outcome of adding the flags of the EVM to all of them.
\<close>

definition initRootCmd :: "unit outcome \<Rightarrow> cobra_command list outcome" where
  "initRootCmd addTxFlags =
     (let local =
            [Command ''init'' [] [] [],
             External ''genutilcli.Commands'',
             External ''cmtcli.NewCompletionCmd'',
             External ''evmdebug.Cmd'',
             External ''confixcmd.ConfigCommand'',
             External ''pruning.Cmd'',
             External ''snapshot.Cmd'',
             External ''server.InPlaceTestnetCreator'',
             Command ''multi-node'' [] [] []];
          server = [External ''cosmosevmserver.AddCommands''];
          keys = [External ''cosmosevmcmd.KeyCommands''];
          standard = [External ''sdkserver.StatusCommand'', queryCommand, txCommand]
      in bindO (mustO ''AddTxFlags'' addTxFlags) (\<lambda>_.
         Ok (local @ server @ keys @ standard)))"

text \<open>
  \<open>tempApp\<close> is the application made for the codecs and \<open>initialCtx\<close> the context made from it;
  \<open>enhance\<close> adds the generated commands for the modules, with the context read from the file, whose
  error is dropped.
\<close>

definition NewRootCmd ::
  "('w, 'cc, 't, 'z, 'ac, 'mc) root_env \<Rightarrow> string \<Rightarrow> 'app outcome \<Rightarrow> ('app \<Rightarrow> ('cc, 't, 'z) client_ctx) \<Rightarrow> unit outcome \<Rightarrow>
   (('cc, 't, 'z) client_ctx \<Rightarrow> cobra_command \<Rightarrow> cobra_command outcome) \<Rightarrow> ('w, cobra_command \<times> ('cc, 't, 'z) client_ctx) action" where
  "NewRootCmd rt appName tempApp initialCtx addTxFlags enhance =
     bindA (liftO (mustO ''app.New'' tempApp)) (\<lambda>app.
     let initClientCtx = initialCtx app in
     bindA (liftO (initRootCmd addTxFlags)) (\<lambda>subs.
     let rootCmd = Command (appName @ ''d'') [] [] subs in
     bindA (rt_ReadFromClientConfig rt initClientCtx) (\<lambda>(ctx, _).
     bindA (liftO (mustO ''EnhanceRootCommand'' (enhance ctx rootCmd))) (\<lambda>rootCmd1.
     returnA (rootCmd1, ctx)))))"

text \<open>The exit code of the process and what it prints, if anything.\<close>

definition gnodid_main :: "unit outcome \<Rightarrow> (go_error \<Rightarrow> string) \<Rightarrow> int \<times> string option" where
  "gnodid_main execute errorText =
     (case execute of
        Ok _ \<Rightarrow> (0, None)
      | Err e \<Rightarrow> (1, Some (errorText e))
      | Panic p \<Rightarrow> (2, Some p))"

section \<open>Lemmas\<close>

lemma checkErr_eq_Ok [outcome_inv]: "checkErr m w = (w', Ok x) \<longleftrightarrow> m w = (w', Ok (x, None))"
  by (auto simp: checkErr_def outcome_inv split: option.splits)

lemma initRootCmd_Ok:
  "initRootCmd r = Ok subs \<longleftrightarrow> r = Ok () \<and> subs =
     [Command ''init'' [] [] [], External ''genutilcli.Commands'', External ''cmtcli.NewCompletionCmd'',
      External ''evmdebug.Cmd'', External ''confixcmd.ConfigCommand'', External ''pruning.Cmd'', External ''snapshot.Cmd'',
      External ''server.InPlaceTestnetCreator'', Command ''multi-node'' [] [] [], External ''cosmosevmserver.AddCommands'',
      External ''cosmosevmcmd.KeyCommands'', External ''sdkserver.StatusCommand'', queryCommand, txCommand]"
  by (auto simp: initRootCmd_def Let_def outcome_inv)

text \<open>The captured variable changes in one field only.\<close>

lemma PreRun_captured:
  "snd (fst (PersistentPreRunE rt cc (w, captured))) = captured\<lparr>cx_CmdContext := cc\<rparr>"
  by (simp add: PersistentPreRunE_def Let_def split: prod.split)

lemma rebuildTxConfig_eq_Ok [outcome_inv]:
  "rebuildTxConfig rt ctx w = (w', Ok ctx') \<longleftrightarrow>
     (if cx_Offline ctx then w' = w \<and> ctx' = ctx
      else \<exists>t. rt_newTxConfig rt ctx w = (w', Ok t) \<and> ctx' = ctx\<lparr>cx_TxConfig := t\<rparr>)"
  by (auto simp: rebuildTxConfig_def outcome_inv)

lemma preRunBody_Ok:
  "preRunBody rt ctx0 w = (w', Ok ()) \<longleftrightarrow>
     (\<exists>w1 ctx1 w2 ctx2 w3 ctx3 w4.
       rt_ReadPersistentCommandFlags rt ctx0 w = (w1, Ok ctx1) \<and>
       rt_ReadFromClientConfig rt ctx1 w1 = (w2, Ok (ctx2, None)) \<and>
       rebuildTxConfig rt ctx2 w2 = (w3, Ok ctx3) \<and>
       rt_SetCmdClientContextHandler rt ctx3 w3 = (w4, Ok ()) \<and>
       rt_InterceptConfigsPreRunHandler rt (rt_DefaultConfigTemplate rt) (rt_DefaultServerConfig rt) (rt_DefaultCometConfig rt) w4 = (w', Ok ()))"
  unfolding preRunBody_def initAppConfig_def initCometBFTConfig_def Let_def
  by (simp add: bindA_eq_Ok checkErr_eq_Ok)

text \<open>An error of a step is the error of the run, and the steps after it do not happen.\<close>

lemma preRunBody_config_Err:
  assumes "rt_ReadPersistentCommandFlags rt ctx0 w = (w1, Ok ctx1)" and "rt_ReadFromClientConfig rt ctx1 w1 = (w2, Ok (ctx2, Some e))"
  shows "preRunBody rt ctx0 w = (w2, Err e)"
  using assms by (simp add: preRunBody_def checkErr_def bindA_def liftO_def)

text \<open>Offline, the body does not depend on the function that queries the node.\<close>

lemma preRunBody_offline:
  assumes "rt_ReadPersistentCommandFlags rt ctx0 w = (w1, Ok ctx1)" and "rt_ReadFromClientConfig rt ctx1 w1 = (w2, Ok (ctx2, None))"
    and "cx_Offline ctx2"
  shows "preRunBody (rt\<lparr>rt_newTxConfig := f\<rparr>) ctx0 w = preRunBody rt ctx0 w"
  using assms by (simp add: preRunBody_def checkErr_def bindA_def rebuildTxConfig_def initAppConfig_def initCometBFTConfig_def returnA_def)

end
