(* ===== verification/Cmd_Properties.thy ===== *)
theory Cmd_Properties
  imports Cmd_InPlace Cmd_Flags Cmd_Root App_Reference
begin

text \<open>The properties of the command line code that rewrites or creates node state.\<close>

section \<open>The in-place testnet\<close>

record inplace_chain =
  ic_chain :: mono_chain
  ic_power :: "bytes list"
  ic_last :: "bytes list"
  ic_validators :: "bytes list"
  ic_queue :: "bytes list"

definition on_chain :: "(mono_chain, 'a) action \<Rightarrow> (inplace_chain, 'a) action" where
  "on_chain m s = (case m (ic_chain s) of (c, r) \<Rightarrow> (s\<lparr>ic_chain := c\<rparr>, r))"

text \<open>The single-denomination bank, inside the larger state.\<close>

definition inplace_bank :: "inplace_chain bank_keeper" where
  "inplace_bank =
     \<lparr>bank_GetSupply = (\<lambda>s. bank_GetSupply mono_bank (ic_chain s)),
      bank_GetBalance = (\<lambda>s. bank_GetBalance mono_bank (ic_chain s)),
      bank_GetAllBalances = (\<lambda>s. bank_GetAllBalances mono_bank (ic_chain s)),
      bank_MintCoins = (\<lambda>m cs. on_chain (bank_MintCoins mono_bank m cs)),
      bank_BurnCoins = (\<lambda>m cs. on_chain (bank_BurnCoins mono_bank m cs)),
      bank_SendCoinsFromModuleToAccount = (\<lambda>m a cs. on_chain (bank_SendCoinsFromModuleToAccount mono_bank m a cs)),
      bank_SendCoinsFromAccountToModule = (\<lambda>a m cs. on_chain (bank_SendCoinsFromAccountToModule mono_bank a m cs))\<rparr>"

definition sample_inplace :: "(inplace_chain, unit, unit, string) inplace_env" where
  "sample_inplace =
     \<lparr>ip_pubkeyAny = Ok, ip_dec = (\<lambda>s. s), ip_valCodec = ref_codec, ip_accCodec = ref_codec, ip_consString = bytes_string,
      ip_ValidatorsPowerStoreIterator = (\<lambda>s. Ok (ic_power s)), ip_LastValidatorsIterator = (\<lambda>s. Ok (ic_last s)),
      ip_ValidatorsKeyIterator = ic_validators, ip_ValidatorQueueKeyIterator = ic_queue,
      ip_stakingDelete = (\<lambda>k s. s\<lparr>ic_power := removeAll k (ic_power s), ic_last := removeAll k (ic_last s),
         ic_validators := removeAll k (ic_validators s), ic_queue := removeAll k (ic_queue s)\<rparr>),
      ip_SetValidator = (\<lambda>_. returnA ()), ip_SetValidatorByConsAddr = (\<lambda>_. returnA ()),
      ip_SetValidatorByPowerIndex = (\<lambda>_. returnA ()), ip_SetLastValidatorPower = (\<lambda>_ _. returnA ()),
      ip_AfterValidatorCreated = (\<lambda>_. returnA ()), ip_distrInit = (\<lambda>_ _. returnA ()),
      ip_SetValidatorSigningInfo = (\<lambda>_ _. returnA ()), ip_BondDenom = (\<lambda>_. Ok ''uGNOD''),
      ip_newCoins = (\<lambda>d n. Ok [\<lparr>coin_Denom = d, coin_Amount = n\<rparr>]), ip_mintModule = ''mint'', ip_BankKeeper = inplace_bank\<rparr>"

definition sample_inplace_chain :: inplace_chain where
  "sample_inplace_chain =
     \<lparr>ic_chain = exploited_chain, ic_power = [[1], [2]], ic_last = [[3]], ic_validators = [[4], [5]], ic_queue = []\<rparr>"

definition sample_opts :: "string \<Rightarrow> opt_key \<Rightarrow> unit opt_value" where
  "sample_opts accounts k =
     (case k of KeyNewValAddr \<Rightarrow> OptHexBytes [7] | KeyUserPubKey \<Rightarrow> OptPubKey () | KeyNewOpAddr \<Rightarrow> OptString ''oper''
      | KeyTriggerTestnetUpgrade \<Rightarrow> OptString [] | FlagAccountsToFund \<Rightarrow> OptString accounts | opt_key.FlagHome \<Rightarrow> OptString ''home'')"

definition sample_cast :: "unit opt_value \<Rightarrow> string" where
  "sample_cast v = (case v of OptString s \<Rightarrow> s | _ \<Rightarrow> [])"

lemma on_chain_Ok: "on_chain m s = (s', Ok x) \<longleftrightarrow> (\<exists>c. m (ic_chain s) = (c, Ok x) \<and> s' = s\<lparr>ic_chain := c\<rparr>)"
  by (auto simp: on_chain_def split: prod.splits)

lemma inplace_bank_laws: "bank_mint_laws inplace_bank ref_module_address" "bank_send_laws inplace_bank ref_module_address"
proof -
  show "bank_mint_laws inplace_bank ref_module_address"
    using mono_mint_laws by (auto simp: bank_mint_laws_def inplace_bank_def on_chain_Ok)
  show "bank_send_laws inplace_bank ref_module_address"
    using mono_send_laws by (auto simp: bank_send_laws_def inplace_bank_def on_chain_Ok)
qed

lemma sample_delete_laws: "delete_laws sample_inplace"
  by (simp add: delete_laws_def sample_inplace_def)

text \<open>
  Rewriting the node state removes every validator of the old chain: afterwards the power
  index, the last-validator index, the validators and the unbonding queue are all empty.
\<close>

theorem inplace_old_validators_removed:
  assumes "delete_laws ip" and "removeValidators ip s = (s', Ok ())"
  shows "ip_ValidatorsPowerStoreIterator ip s' = Ok [] \<and> ip_LastValidatorsIterator ip s' = Ok [] \<and>
    ip_ValidatorsKeyIterator ip s' = [] \<and> ip_ValidatorQueueKeyIterator ip s' = []"
  using removeValidators_empty [OF assms] by simp

theorem inplace_old_validators_removed_witness:
  "\<exists>s'. removeValidators sample_inplace sample_inplace_chain = (s', Ok ()) \<and> ic_validators s' = [] \<and> ic_power s' = []"
proof -
  obtain s' where r: "removeValidators sample_inplace sample_inplace_chain = (s', Ok ())"
    by (simp add: removeValidators_def handleErr_def bindA_def outcome_simps panicOnErr_def deleteKeys_def sample_inplace_def)
  from inplace_old_validators_removed [OF sample_delete_laws r] r show ?thesis by (simp add: sample_inplace_def)
qed

text \<open>
  A successful start of the in-place testnet funds each listed account with one thousand
  million units of the bond denomination, once per mention, and mints exactly that much.
\<close>

theorem inplace_funding:
  assumes "bank_mint_laws (ip_BankKeeper ip) modAddr" "bank_send_laws (ip_BankKeeper ip) modAddr"
    and "newTestnetApp ip castToString h opts s = (s', Ok ())"
  shows "\<exists>s1 denom cs bs. ip_BondDenom ip s1 = Ok denom \<and> ip_newCoins ip denom 1000000000 = Ok cs \<and>
     map (addr_StringToBytes (ip_accCodec ip)) (strings_Split (CHR '','') (castToString (opts FlagAccountsToFund))) = map Ok bs \<and>
     (\<forall>d. coin_Amount (bank_GetSupply (ip_BankKeeper ip) s' d) =
        coin_Amount (bank_GetSupply (ip_BankKeeper ip) s1 d) + int (length bs) * coins_amount d cs) \<and>
     (\<forall>a d. coin_Amount (bank_GetBalance (ip_BankKeeper ip) s' a d) =
        coin_Amount (bank_GetBalance (ip_BankKeeper ip) s1 a d) + int (count_list bs a) * coins_amount d cs)"
proof -
  from assms(3) obtain args where args: "getCommandArgs castToString opts = Ok args"
    and init: "initAppForTestnet ip h args s = (s', Ok ())"
    by (auto simp: newTestnetApp_def outcome_inv)
  from init obtain s1 denom cs where "ip_BondDenom ip s1 = Ok denom" "ip_newCoins ip denom 1000000000 = Ok cs"
    and fund: "forA (va_accountsToFund args) (fundAccount ip cs) s1 = (s', Ok ())"
    by (rule initAppForTestnet_Ok)
  with fundAccounts_Ok [OF assms(1,2) fund] getCommandArgs_accounts(1) [OF args] show ?thesis by auto
qed

lemma sample_inplace_runs: "\<exists>s'. newTestnetApp sample_inplace sample_cast 10 (sample_opts ''alice'') sample_inplace_chain = (s', Ok ())"
  by (simp add: newTestnetApp_def getCommandArgs_def sample_opts_def sample_cast_def asHexBytes_def asPubKey_def asString_def
      initAppForTestnet_def removeValidators_def addTestnetValidator_def fundAccount_def handleErr_def deleteKeys_def
      bindA_def outcome_simps panicOnErr_def Let_def sample_inplace_def newTestnetValidator_def ref_codec_def
      inplace_bank_def on_chain_def mono_bank_def mono_debit_def mono_credit_def mono_issue_def only_uGNOD_def
      sample_inplace_chain_def exploited_chain_def ref_module_address_def securityBurnAccounts_def)

theorem inplace_funding_witness:
  "\<exists>(s1 :: inplace_chain) s'. newTestnetApp sample_inplace sample_cast 10 (sample_opts ''alice'') sample_inplace_chain = (s', Ok ()) \<and>
     mo_balance (ic_chain s') (string_bytes ''alice'') = mo_balance (ic_chain s1) (string_bytes ''alice'') + 1000000000"
proof -
  obtain s' where r: "newTestnetApp sample_inplace sample_cast 10 (sample_opts ''alice'') sample_inplace_chain = (s', Ok ())"
    using sample_inplace_runs by blast
  have laws: "bank_mint_laws (ip_BankKeeper sample_inplace) ref_module_address" "bank_send_laws (ip_BankKeeper sample_inplace) ref_module_address"
    using inplace_bank_laws by (simp_all add: sample_inplace_def)
  from inplace_funding [OF laws r] obtain s1 denom cs bs where
    1: "ip_BondDenom sample_inplace s1 = Ok denom" "ip_newCoins sample_inplace denom 1000000000 = Ok cs"
    and 2: "map (addr_StringToBytes (ip_accCodec sample_inplace))
       (strings_Split (CHR '','') (sample_cast (sample_opts ''alice'' FlagAccountsToFund))) = map Ok bs"
    and 3: "\<forall>a d. coin_Amount (bank_GetBalance (ip_BankKeeper sample_inplace) s' a d) =
        coin_Amount (bank_GetBalance (ip_BankKeeper sample_inplace) s1 a d) + int (count_list bs a) * coins_amount d cs"
    by blast
  have "cs = [\<lparr>coin_Denom = ''uGNOD'', coin_Amount = 1000000000\<rparr>]" using 1 by (auto simp: sample_inplace_def)
  moreover have "bs = [string_bytes ''alice'']"
    using 2 by (auto simp: sample_cast_def sample_opts_def sample_inplace_def ref_codec_def)
  ultimately have "mo_balance (ic_chain s') (string_bytes ''alice'') = mo_balance (ic_chain s1) (string_bytes ''alice'') + 1000000000"
    using 3 [rule_format, of "string_bytes ''alice''" "''uGNOD''"]
    by (simp add: sample_inplace_def inplace_bank_def mono_bank_def uGNOD_coin_def)
  with r show ?thesis by blast
qed

text \<open>
  C28: Without the option that lists accounts to fund, whose default is the empty string, the
  in-place testnet never starts: the list has one empty address, which no codec accepts.
\<close>

theorem inplace_needs_accounts:
  assumes "castToString (opts FlagAccountsToFund) = []" and "\<not> is_ok (addr_StringToBytes (ip_accCodec ip) [])"
  shows "\<not> is_ok (snd (newTestnetApp ip castToString h opts s))"
proof
  assume "is_ok (snd (newTestnetApp ip castToString h opts s))"
  then obtain s' where "newTestnetApp ip castToString h opts s = (s', Ok ())"
    by (cases "newTestnetApp ip castToString h opts s") (auto simp: is_ok_iff)
  then obtain args where args: "getCommandArgs castToString opts = Ok args"
    and init: "initAppForTestnet ip h args s = (s', Ok ())"
    by (auto simp: newTestnetApp_def outcome_inv)
  have "va_accountsToFund args = [[]]" using getCommandArgs_accounts(1) [OF args] assms(1) by simp
  with init obtain s1 cs s2 where "fundAccount ip cs [] s1 = (s2, Ok ())"
    by (auto elim!: initAppForTestnet_Ok simp: outcome_inv)
  with assms(2) show False by (auto simp: fundAccount_def handleErr_def outcome_inv)
qed

theorem inplace_needs_accounts_witness:
  "\<not> is_ok (snd (newTestnetApp sample_inplace sample_cast 10 (sample_opts []) sample_inplace_chain))"
  using inplace_needs_accounts [of sample_cast "sample_opts []" sample_inplace]
  by (simp add: sample_cast_def sample_opts_def sample_inplace_def ref_codec_def)
section \<open>The multi-node testnet\<close>

text \<open>
  C32: When the ports are not listed, no two nodes of a testnet of up to 1317 validators listen on
  the same port, and neither do two services of one node: the RPC, peer-to-peer, application,
  metrics, gRPC and API ports of all nodes are pairwise different.
\<close>

theorem testnet_ports_distinct:
  assumes "testnetArgs newIntFromString newCoin args stakes [] = Ok args'" and "ia_numValidators args = int n" and "n \<le> 1317"
  shows "distinct (concat (map (node_ports args') [0..<n]))"
proof (rule default_ports_distinct)
  fix i assume "i < n"
  moreover from assms(1) obtain st where "args' = args\<lparr>ia_validatorsStakesAmount := st, ia_ports := parsePorts (ia_numValidators args) []\<rparr>"
    by (auto simp: testnetArgs_def bindO_eq_Ok)
  ultimately show "port_of args' i = strconv_Itoa (26657 - 3 * int i)"
    using parsePorts_default [of i "ia_numValidators args" "args\<lparr>ia_validatorsStakesAmount := st\<rparr>"] assms(2) by simp
qed (rule assms(3))

definition sample_args :: initArgs where
  "sample_args =
     \<lparr>ia_algo = ''secp256k1'', ia_chainID = ''test'', ia_keyringBackend = ''test'', ia_minGasPrices = ''1uGNOD'',
      ia_nodeDirPrefix = ''validator'', ia_numValidators = 4, ia_outputDir = ''/testnets'', ia_startingIPAddress = ''localhost'',
      ia_validatorsStakesAmount = Map.empty, ia_ports = Map.empty\<rparr>"

definition sample_coin :: "int \<Rightarrow> coin" where
  "sample_coin a = \<lparr>coin_Denom = ''stake'', coin_Amount = a\<rparr>"

theorem testnet_ports_distinct_witness:
  "\<exists>args'. testnetArgs (\<lambda>_. None) (\<lambda>a. Ok (sample_coin a)) sample_args [] [] = Ok args' \<and>
     distinct (concat (map (node_ports args') [0..<4]))"
proof -
  obtain args' where a: "testnetArgs (\<lambda>_. None) (\<lambda>a. Ok (sample_coin a)) sample_args [] [] = Ok args'"
    by (simp add: testnetArgs_def)
  from testnet_ports_distinct [OF a, of 4] a show ?thesis by (simp add: sample_args_def)
qed

text \<open>
  The amounts of the stake option that are integers get the indices of the validators in order:
  an entry that is not an integer shifts the amounts after it to earlier validators.
\<close>

theorem testnet_stakes_shift:
  assumes "\<And>a. newCoin a = Ok (c a)"
  shows "\<exists>args'. testnetArgs newIntFromString newCoin args stakes ports = Ok args' \<and>
    (\<forall>i. ia_validatorsStakesAmount args' i =
      (let valid = List.map_filter newIntFromString (strings_Split (CHR '','') stakes)
       in if i < length valid then Some (c (valid ! i)) else None))"
  by (simp add: testnetArgs_def parseStakes_lookup [OF assms] Let_def)


text \<open>A file system in which every file exists and every call succeeds.\<close>

definition sample_os :: "(string \<Rightarrow> string) os_env" where
  "sample_os =
     \<lparr>os_MkdirAll = (\<lambda>_. returnA ()), os_RemoveAll = (\<lambda>_. returnA ()),
      os_WriteFile = (\<lambda>p c w. (w(p := c), Ok ())), os_Open = (\<lambda>p w. Ok (w p)), os_Create = (\<lambda>p w. (w(p := []), Ok ())),
      os_Copy = (\<lambda>p c w. (w(p := c), Ok (int (length c)))), os_Sync = (\<lambda>_. returnA ()), os_Getwd = (\<lambda>_. Ok ''/'')\<rparr>"

text \<open>The identifier of a node is its moniker.\<close>

definition sample_testnet :: "(string \<Rightarrow> string, unit, unit, unit, unit, unit, unit) testnet_env" where
  "sample_testnet =
     \<lparr>te_os = sample_os, te_genesisFile = (\<lambda>c. nc_RootDir c @ ''/config/genesis.json''),
      te_InitializeNodeValidatorFiles = (\<lambda>c. returnA (nc_Moniker c, ())), te_keyringNew = (\<lambda>_ _. returnA ()),
      te_NewSigningAlgoFromString = (\<lambda>_ _. Ok ()), te_GenerateSaveCoinKey = (\<lambda>_ _ _. returnA ([1], ''words'')),
      te_marshalSecret = Ok, te_TokensFromConsensusPower = (\<lambda>n. n * 1000000),
      te_newCoin = (\<lambda>d a. Ok \<lparr>coin_Denom = d, coin_Amount = a\<rparr>), te_DefaultBondDenom = ''stake'', te_sortCoins = (\<lambda>cs. cs),
      te_accString = bytes_string, te_valString = bytes_string, te_NewBaseAccount = (\<lambda>_. ()),
      te_NewMsgCreateValidator = (\<lambda>_ _ _ _. Ok ()), te_buildTx = (\<lambda>_ _. Ok ()), te_Sign = (\<lambda>_ _ _ _ _. returnA ()),
      te_TxJSONEncoder = (\<lambda>_. Ok ''tx''), te_writeAppConfig = (\<lambda>_ _. returnA ()), te_writeNodeConfig = (\<lambda>_ _. returnA ())\<rparr>"




lemma sample_testnet_sel [simp]:
  "te_os sample_testnet = sample_os" "te_InitializeNodeValidatorFiles sample_testnet c = returnA (nc_Moniker c, ())"
  "te_keyringNew sample_testnet b d = returnA ()" "te_NewSigningAlgoFromString sample_testnet a k = Ok ()"
  "te_GenerateSaveCoinKey sample_testnet k x al = returnA ([1], ''words'')" "te_marshalSecret sample_testnet = Ok"
  "te_NewMsgCreateValidator sample_testnet v pk t x = Ok ()" "te_buildTx sample_testnet m x = Ok ()"
  "te_Sign sample_testnet ch x k y tx = returnA ()" "te_TxJSONEncoder sample_testnet tx = Ok ''tx''"
  "te_writeAppConfig sample_testnet f cfg = returnA ()"
  by (simp_all add: sample_testnet_def)

lemma sample_os_sel [simp]:
  "os_MkdirAll sample_os d = returnA ()" "os_WriteFile sample_os p c = (\<lambda>w. (w(p := c), Ok ()))"
  by (simp_all add: sample_os_def)






text \<open>
  C34: In the genesis file of the testnet the recorded supply of every denomination is what the
  default genesis recorded plus the sum of the validators' balances.
\<close>

theorem testnet_genesis_supply:
  assumes "genesisSections gf accounts balances = Ok genesis" and "gf_auth gf \<noteq> gf_bank gf"
    and "gf_DefaultGenesis gf (gf_bank gf) = Some raw"
    and "\<forall>a b. coins_amount d (gf_coinsAdd gf a b) = coins_amount d a + coins_amount d b"
  shows "\<exists>old bank. gf_unmarshalBank gf raw = Ok old \<and> genesis (gf_bank gf) = Some (gf_marshalBank gf bank) \<and>
     tb_Balances bank = gf_SanitizeGenesisBalances gf balances \<and>
     coins_amount d (tb_Supply bank) = coins_amount d (tb_Supply old) + (\<Sum>b \<leftarrow> tb_Balances bank. coins_amount d (snd b))"
proof -
  from assms(1-3) obtain old where "gf_unmarshalBank gf raw = Ok old"
    "genesis (gf_bank gf) = Some (gf_marshalBank gf (bankSection gf balances old))"
    by (auto simp: genesisSections_def mustSection_def Let_def bindO_eq_Ok split: outcome.splits option.splits)
  with bankSection_supply [of d gf balances old] assms(4) show ?thesis by auto
qed

definition sample_genfiles :: "(unit, unit, unit, unit, unit, unit testnet_bank option) genfile_env" where
  "sample_genfiles =
     \<lparr>gf_DefaultGenesis = [''auth'' \<mapsto> None, ''bank'' \<mapsto> Some \<lparr>tb_Balances = [], tb_Supply = [], tb_rest = ()\<rparr>],
      gf_auth = ''auth'', gf_bank = ''bank'', gf_unmarshalAuth = (\<lambda>_. Ok ()), gf_PackAccounts = Ok, gf_setAccounts = (\<lambda>_ a. a),
      gf_marshalAuth = (\<lambda>_. None), gf_unmarshalBank = (\<lambda>j. case j of Some b \<Rightarrow> Ok b | None \<Rightarrow> Err (ErrForeign ''json'')),
      gf_marshalBank = Some, gf_SanitizeGenesisBalances = (\<lambda>b. b), gf_coinsAdd = (\<lambda>a b. a @ b),
      gf_MarshalIndent = (\<lambda>_. Ok []), gf_SaveAs = (\<lambda>_ _ _. returnA ())\<rparr>"

theorem testnet_genesis_supply_witness:
  "\<exists>genesis bank. genesisSections sample_genfiles [()] [(''a'', [sample_coin 5]), (''b'', [sample_coin 7])] = Ok genesis \<and>
     genesis ''bank'' = Some (Some bank) \<and> coins_amount ''stake'' (tb_Supply bank) = 12"
proof -
  let ?b = "[(''a'', [sample_coin 5]), (''b'', [sample_coin 7])]"
  obtain genesis where g: "genesisSections sample_genfiles [()] ?b = Ok genesis"
    by (simp add: genesisSections_def sample_genfiles_def mustSection_def Let_def)
  have "\<forall>a b. coins_amount ''stake'' (gf_coinsAdd sample_genfiles a b) = coins_amount ''stake'' a + coins_amount ''stake'' b"
    by (simp add: sample_genfiles_def coins_amount_def)
  from testnet_genesis_supply [OF g _ _ this] g show ?thesis
    by (fastforce simp: sample_genfiles_def sample_coin_def)
qed
section \<open>Initialising a node\<close>

text \<open>
  C35: \<^verbatim>\<open>gnodid init\<close> refuses an existing genesis file unless told to overwrite it, and then
  leaves it as it is. When it succeeds it has exported the application's own default genesis
  with a non-empty chain identifier and an initial height of at least one.
\<close>

theorem init_command:
  fixes ie :: "('w, 'g, 'c, 'r) init_env"
  shows
  "(\<not> if_Overwrite fl \<and> readMnemonic ie fl w = (w0, Ok mnemonic) \<and> in_InitializeNode ie mnemonic w0 = (w1, Ok nodeID) \<and>
      in_Stat ie genFile w1 \<noteq> StatNotExist \<longrightarrow>
      InitCmd ie moniker genFile fl w = (w1, Err (ErrText (''genesis.json file already exists: '' @ genFile)))) \<and>
   (InitCmd ie moniker genFile fl w = (w', Ok ()) \<longrightarrow>
      (\<exists>ag g m v0 n v1 v2 v3 out.
         readMnemonic ie fl w = (v0, Ok m) \<and> in_InitializeNode ie m v0 = (v1, Ok n) \<and>
         (if_Overwrite fl \<or> in_Stat ie genFile v1 = StatNotExist) \<and>
         in_ExportGenesisFile ie ag genFile v1 = (v2, Ok ()) \<and>
         in_WriteConfigFile ie moniker v2 = (v3, Ok ()) \<and> in_Println ie out v3 = (w', Ok ()) \<and>
         1 \<le> ag_InitialHeight ag \<and> ag_ChainID ag = initChainID ie fl \<and> ag_ChainID ag \<noteq> [] \<and>
         in_DefaultGenesis ie = Ok g \<and> in_MarshalIndent ie g = Ok (ag_AppState ag)))"
proof (intro conjI impI)
  assume "\<not> if_Overwrite fl \<and> readMnemonic ie fl w = (w0, Ok mnemonic) \<and> in_InitializeNode ie mnemonic w0 = (w1, Ok nodeID) \<and>
      in_Stat ie genFile w1 \<noteq> StatNotExist"
  then show "InitCmd ie moniker genFile fl w = (w1, Err (ErrText (''genesis.json file already exists: '' @ genFile)))"
    by (intro InitCmd_refuses) auto
next
  have ne: "initChainID ie fl \<noteq> []" by (simp add: initChainID_def)
  assume "InitCmd ie moniker genFile fl w = (w', Ok ())"
  then obtain m v0 n v1 g appState algo v2 out v3 and old :: "('c, 'r) app_genesis" where
    s: "readMnemonic ie fl w = (v0, Ok m)" "in_InitializeNode ie m v0 = (v1, Ok n)"
    "in_DefaultGenesis ie = Ok g" "in_MarshalIndent ie g = Ok appState"
    "if_Overwrite fl \<or> in_Stat ie genFile v1 = StatNotExist"
    "in_ExportGenesisFile ie (old\<lparr>ag_AppName := in_appName ie, ag_AppVersion := in_appVersion ie, ag_ChainID := initChainID ie fl,
       ag_AppState := appState, ag_InitialHeight := max 1 (if_InitHeight fl), ag_Consensus := in_ConsensusGenesis ie [algo]\<rparr>) genFile v1 = (v2, Ok ())"
    "in_WriteConfigFile ie moniker v2 = (v3, Ok ())" "in_Println ie out v3 = (w', Ok ())"
    by (elim InitCmd_Ok)
  let ?ag = "old\<lparr>ag_AppName := in_appName ie, ag_AppVersion := in_appVersion ie, ag_ChainID := initChainID ie fl,
       ag_AppState := appState, ag_InitialHeight := max 1 (if_InitHeight fl), ag_Consensus := in_ConsensusGenesis ie [algo]\<rparr>"
  have "1 \<le> ag_InitialHeight ?ag \<and> ag_ChainID ?ag = initChainID ie fl \<and> ag_ChainID ?ag \<noteq> [] \<and>
         in_DefaultGenesis ie = Ok g \<and> in_MarshalIndent ie g = Ok (ag_AppState ?ag)"
    using s ne by simp
  with s show "\<exists>ag g m v0 n v1 v2 v3 out.
         readMnemonic ie fl w = (v0, Ok m) \<and> in_InitializeNode ie m v0 = (v1, Ok n) \<and>
         (if_Overwrite fl \<or> in_Stat ie genFile v1 = StatNotExist) \<and>
         in_ExportGenesisFile ie ag genFile v1 = (v2, Ok ()) \<and>
         in_WriteConfigFile ie moniker v2 = (v3, Ok ()) \<and> in_Println ie out v3 = (w', Ok ()) \<and>
         1 \<le> ag_InitialHeight ag \<and> ag_ChainID ag = initChainID ie fl \<and> ag_ChainID ag \<noteq> [] \<and>
         in_DefaultGenesis ie = Ok g \<and> in_MarshalIndent ie g = Ok (ag_AppState ag)"
    by blast
qed

text \<open>A world that is the contents of the one genesis file.\<close>

definition sample_init :: "((string list, unit) app_genesis option, string, string list, unit) init_env" where
  "sample_init =
     \<lparr>in_homeChainID = [], in_randomStr = ''abcdef'', in_GetMnemonic = returnA [], in_IsMnemonicValid = (\<lambda>_. True),
      in_InitializeNode = (\<lambda>_. returnA ''node''), in_Stat = (\<lambda>_ w. if w = None then StatNotExist else StatOk),
      in_DefaultGenesis = Ok ''{}'', in_MarshalIndent = Ok,
      in_emptyGenesis = \<lparr>ag_AppName = [], ag_AppVersion = [], ag_ChainID = [], ag_AppState = [], ag_InitialHeight = 0, ag_Consensus = [], ag_rest = ()\<rparr>,
      in_AppGenesisFromFile = (\<lambda>_ w. case w of Some g \<Rightarrow> Ok g | None \<Rightarrow> Err (ErrForeign ''not found'')),
      in_ConsensusGenesis = id, in_appName = ''gnodid'', in_appVersion = ''v2'', in_ExportGenesisFile = (\<lambda>g _ _. (Some g, Ok ())),
      in_MarshalMessage = (\<lambda>_ _ _. Ok []), in_WriteConfigFile = (\<lambda>_. returnA ()), in_Println = (\<lambda>_. returnA ())\<rparr>"

definition sample_flags :: init_flags where
  "sample_flags = \<lparr>if_ChainID = [], if_Recover = False, if_InitHeight = 0, if_Overwrite = False, if_ConsensusKeyAlgo = Ok ''ed25519''\<rparr>"

theorem init_command_witness:
  "(\<exists>w' ag. InitCmd sample_init ''m'' ''genesis.json'' sample_flags None = (w', Ok ()) \<and>
      in_ExportGenesisFile sample_init ag ''genesis.json'' None = (w', Ok ()) \<and>
      ag_AppState ag = ''{}'' \<and> ag_ChainID ag = ''test-chain-abcdef'') \<and>
   InitCmd sample_init ''m'' ''genesis.json'' sample_flags (Some (in_emptyGenesis sample_init)) =
     (Some (in_emptyGenesis sample_init), Err (ErrText ''genesis.json file already exists: genesis.json''))"
proof -
  obtain w' where r: "InitCmd sample_init ''m'' ''genesis.json'' sample_flags None = (w', Ok ())"
    by (simp add: InitCmd_def readMnemonic_def loadGenesis_def sample_init_def sample_flags_def Let_def bindA_def outcome_simps wrapErrA_def)
  have id: "initChainID sample_init sample_flags = ''test-chain-abcdef''" "in_DefaultGenesis sample_init = Ok ''{}''"
    "in_MarshalIndent sample_init = Ok" "in_WriteConfigFile sample_init = (\<lambda>_. returnA ())" "in_Println sample_init = (\<lambda>_. returnA ())"
    "in_InitializeNode sample_init = (\<lambda>_. returnA ''node'')" "readMnemonic sample_init sample_flags = returnA []"
    "\<not> if_Overwrite sample_flags"
    by (simp_all add: readMnemonic_def initChainID_def sample_init_def sample_flags_def)
  let ?w = "Some (in_emptyGenesis sample_init)"
  have "in_Stat sample_init ''genesis.json'' ?w \<noteq> StatNotExist" by (simp add: sample_init_def)
  with init_command [of sample_flags sample_init ?w ?w "[]" ?w "''node''" "''genesis.json''" "''m''", THEN conjunct1] id
  have "InitCmd sample_init ''m'' ''genesis.json'' sample_flags ?w = (?w, Err (ErrText ''genesis.json file already exists: genesis.json''))"
    by (simp add: returnA_def)
  moreover from init_command [of sample_flags sample_init None None "[]" None "''node''" "''genesis.json''" "''m''" w', THEN conjunct2] r
  have "\<exists>ag. in_ExportGenesisFile sample_init ag ''genesis.json'' None = (w', Ok ()) \<and>
      ag_AppState ag = ''{}'' \<and> ag_ChainID ag = ''test-chain-abcdef''"
    by (auto simp: id returnA_def)
  ultimately show ?thesis using r by blast
qed
section \<open>Options\<close>

text \<open>
  Called with no options but the number of validators, at most 1317 of them, the multi-node
  command declares every flag that it reads: it gives the first four validators the default stake,
  leaves the stake of the others to the fallback, lets no two listeners share a port and writes
  below the default directory with the test keyring. The old name of the key type option is
  accepted.
\<close>

theorem multi_node_defaults:
  assumes "newIntFromString ''100000000'' = Some 100000000" and "newCoin 100000000 = Ok c"
    and "multiNodeFlags bondDenom = Ok fs" and "setFlag (normalizeFlag flagNumValidators) (IntFlag (int n)) fs = Ok fs'" and "n \<le> 1317"
  shows "(\<exists>args. multiNodeArgs newIntFromString newCoin (Ok ()) fs' = Ok args \<and>
      ia_numValidators args = int n \<and>
      (\<forall>i. ia_validatorsStakesAmount args i = (if i < 4 then Some c else None)) \<and>
      distinct (concat (map (node_ports args) [0..<n])) \<and>
      ia_outputDir args = ''./.testnets'' \<and> ia_nodeDirPrefix args = ''validator'' \<and> ia_keyringBackend args = ''test'' \<and>
      ia_minGasPrices args = ''0.0001'' @ bondDenom \<and> ia_chainID args = [] \<and>
      ia_startingIPAddress args = ''localhost'') \<and>
    (\<forall>a fs''. setFlag (normalizeFlag (Flag ''algo'')) (StringFlag a) fs' = Ok fs'' \<longrightarrow>
      (\<exists>args. multiNodeArgs newIntFromString newCoin (Ok ()) fs'' = Ok args \<and> ia_algo args = a))"
proof (intro conjI allI impI)
  from assms(3,4) have d: "default_reads bondDenom n ''secp256k1'' fs'" by (rule default_reads_flags)
  let ?args = "\<lparr>ia_algo = ''secp256k1'', ia_chainID = [], ia_keyringBackend = ''test'', ia_minGasPrices = ''0.0001'' @ bondDenom,
     ia_nodeDirPrefix = ''validator'', ia_numValidators = int n, ia_outputDir = ''./.testnets'',
     ia_startingIPAddress = ''localhost'', ia_validatorsStakesAmount = [0 \<mapsto> c, 1 \<mapsto> c, 2 \<mapsto> c, 3 \<mapsto> c],
     ia_ports = parsePorts (int n) []\<rparr>"
  have run: "multiNodeArgs newIntFromString newCoin (Ok ()) fs' = Ok ?args"
    by (rule multiNodeArgs_default [where newIntFromString = newIntFromString and newCoin = newCoin, OF assms(1,2) d])
  have ports: "distinct (concat (map (node_ports ?args) [0..<n]))"
  proof (rule default_ports_distinct)
    show "port_of ?args i = strconv_Itoa (26657 - 3 * int i)" if "i < n" for i
      using parsePorts_default [of i "int n" ?args] that by simp
  qed (rule assms(5))
  have stakes: "ia_validatorsStakesAmount ?args i = (if i < 4 then Some c else None)" for i
    by (auto simp: less_Suc_eq numeral_eq_Suc)
  show "\<exists>args. multiNodeArgs newIntFromString newCoin (Ok ()) fs' = Ok args \<and>
      ia_numValidators args = int n \<and>
      (\<forall>i. ia_validatorsStakesAmount args i = (if i < 4 then Some c else None)) \<and>
      distinct (concat (map (node_ports args) [0..<n])) \<and>
      ia_outputDir args = ''./.testnets'' \<and> ia_nodeDirPrefix args = ''validator'' \<and> ia_keyringBackend args = ''test'' \<and>
      ia_minGasPrices args = ''0.0001'' @ bondDenom \<and> ia_chainID args = [] \<and>
      ia_startingIPAddress args = ''localhost''"
    by (intro exI [of _ ?args] conjI allI run ports stakes) simp_all
  show "\<exists>args. multiNodeArgs newIntFromString newCoin (Ok ()) fs'' = Ok args \<and> ia_algo args = a"
    if "setFlag (normalizeFlag (Flag ''algo'')) (StringFlag a) fs' = Ok fs''" for a fs''
    using multiNodeArgs_default [where newIntFromString = newIntFromString and newCoin = newCoin, OF assms(1,2) default_reads_algo [OF d that]] by simp
qed

theorem multi_node_defaults_witness:
  "\<exists>fs fs' args. multiNodeFlags ''uGNOD'' = Ok fs \<and> setFlag (normalizeFlag flagNumValidators) (IntFlag 7) fs = Ok fs' \<and>
     multiNodeArgs (\<lambda>_. Some 100000000) (\<lambda>a. Ok (sample_coin a)) (Ok ()) fs' = Ok args \<and>
     ia_validatorsStakesAmount args 6 = None \<and> distinct (concat (map (node_ports args) [0..<7]))"
proof -
  obtain fs where fs: "multiNodeFlags ''uGNOD'' = Ok fs" by (simp add: multiNodeFlags_Ok)
  then have "\<exists>w. fs flagNumValidators = Some w \<and> same_type (IntFlag 7) w"
    by (auto simp: multiNodeFlags_Ok testnetFlagDecls_def testnet_flag_names same_type_def)
  then obtain fs' where fs': "setFlag (normalizeFlag flagNumValidators) (IntFlag (int 7)) fs = Ok fs'"
    by (auto simp: setFlag_Ok normalizeFlag_def testnet_flag_names)
  from multi_node_defaults [of "\<lambda>_. Some 100000000" "\<lambda>a. Ok (sample_coin a)", OF _ _ fs fs'] fs fs' show ?thesis
    by fastforce
qed

text \<open>
  Every option of \<^verbatim>\<open>gnodid init\<close> that the code means to honour reaches the run function with the
  value it was given, the others keep their defaults, and the default denomination is ignored, as
  its description says. With the defaults the height is one and nothing is overwritten.
\<close>

theorem init_options:
  assumes "initFlags home = Ok fs"
  shows "readInitFlags fs = \<lparr>if_ChainID = [], if_Recover = False, if_InitHeight = 1, if_Overwrite = False, if_ConsensusKeyAlgo = Ok ''ed25519''\<rparr> \<and>
    (\<forall>v gs. setFlag FlagChainID (StringFlag v) fs = Ok gs \<longrightarrow> readInitFlags gs = (readInitFlags fs)\<lparr>if_ChainID := v\<rparr>) \<and>
    (\<forall>v gs. setFlag flagRecover (BoolFlag v) fs = Ok gs \<longrightarrow> readInitFlags gs = (readInitFlags fs)\<lparr>if_Recover := v\<rparr>) \<and>
    (\<forall>v gs. setFlag FlagInitHeight (Int64Flag v) fs = Ok gs \<longrightarrow> readInitFlags gs = (readInitFlags fs)\<lparr>if_InitHeight := v\<rparr>) \<and>
    (\<forall>v gs. setFlag flagOverwrite (BoolFlag v) fs = Ok gs \<longrightarrow> readInitFlags gs = (readInitFlags fs)\<lparr>if_Overwrite := v\<rparr>) \<and>
    (\<forall>v gs. setFlag flagConsensusKeyAlgo (StringFlag v) fs = Ok gs \<longrightarrow> readInitFlags gs = (readInitFlags fs)\<lparr>if_ConsensusKeyAlgo := Ok v\<rparr>) \<and>
    (\<forall>v gs. setFlag flagDefaultBondDenom (StringFlag v) fs = Ok gs \<longrightarrow> readInitFlags gs = readInitFlags fs)"
proof (intro conjI)
  show "readInitFlags fs = \<lparr>if_ChainID = [], if_Recover = False, if_InitHeight = 1, if_Overwrite = False, if_ConsensusKeyAlgo = Ok ''ed25519''\<rparr>"
    by (rule initFlags_read [OF assms])
qed (auto simp: setFlag_Ok readInitFlags_def orZero_def init_flag_names)

theorem init_options_witness:
  "\<exists>fs gs. initFlags ''/home'' = Ok fs \<and> setFlag flagOverwrite (BoolFlag True) fs = Ok gs \<and> if_Overwrite (readInitFlags gs)"
proof -
  obtain fs where fs: "initFlags ''/home'' = Ok fs" by (simp add: initFlags_Ok)
  then obtain gs where "setFlag flagOverwrite (BoolFlag True) fs = Ok gs"
    by (auto simp: setFlag_Ok initFlags_Ok init_flag_names same_type_def)
  with init_options [OF fs] fs show ?thesis by fastforce
qed
text \<open>
  Before a command, the context the command gets is the one read from the flags and then from the
  configuration file, with the textual configuration built from that context when it is online.
  The node's configuration is intercepted last, with the defaults of the packages; a faulty
  configuration file stops the command with its error before any later call. Offline, no node is
  queried. The variable of the initial context only takes the command's context, in every case.
\<close>

theorem root_prerun:
  "snd (fst (PersistentPreRunE rt cc (w, captured))) = captured\<lparr>cx_CmdContext := cc\<rparr> \<and>
   (snd (PersistentPreRunE rt cc (w, captured)) = Ok () \<longleftrightarrow>
      (\<exists>w1 ctx1 w2 ctx2 w3 ctx3 w4 w5.
        rt_ReadPersistentCommandFlags rt (captured\<lparr>cx_CmdContext := cc\<rparr>) w = (w1, Ok ctx1) \<and>
        rt_ReadFromClientConfig rt ctx1 w1 = (w2, Ok (ctx2, None)) \<and>
        (if cx_Offline ctx2 then w3 = w2 \<and> ctx3 = ctx2
         else \<exists>t. rt_newTxConfig rt ctx2 w2 = (w3, Ok t) \<and> ctx3 = ctx2\<lparr>cx_TxConfig := t\<rparr>) \<and>
        rt_SetCmdClientContextHandler rt ctx3 w3 = (w4, Ok ()) \<and>
        rt_InterceptConfigsPreRunHandler rt (rt_DefaultConfigTemplate rt) (rt_DefaultServerConfig rt) (rt_DefaultCometConfig rt) w4 = (w5, Ok ()))) \<and>
   (\<forall>w1 ctx1 w2 ctx2 e. rt_ReadPersistentCommandFlags rt (captured\<lparr>cx_CmdContext := cc\<rparr>) w = (w1, Ok ctx1) \<longrightarrow>
      rt_ReadFromClientConfig rt ctx1 w1 = (w2, Ok (ctx2, Some e)) \<longrightarrow>
      PersistentPreRunE rt cc (w, captured) = ((w2, captured\<lparr>cx_CmdContext := cc\<rparr>), Err e)) \<and>
   (\<forall>w1 ctx1 w2 ctx2 f. rt_ReadPersistentCommandFlags rt (captured\<lparr>cx_CmdContext := cc\<rparr>) w = (w1, Ok ctx1) \<longrightarrow>
      rt_ReadFromClientConfig rt ctx1 w1 = (w2, Ok (ctx2, None)) \<longrightarrow> cx_Offline ctx2 \<longrightarrow>
      PersistentPreRunE (rt\<lparr>rt_newTxConfig := f\<rparr>) cc (w, captured) = PersistentPreRunE rt cc (w, captured))"
proof (intro conjI allI impI)
  show "snd (fst (PersistentPreRunE rt cc (w, captured))) = captured\<lparr>cx_CmdContext := cc\<rparr>"
    by (rule PreRun_captured)
next
  have "snd (PersistentPreRunE rt cc (w, captured)) = Ok () \<longleftrightarrow> (\<exists>w5. preRunBody rt (captured\<lparr>cx_CmdContext := cc\<rparr>) w = (w5, Ok ()))"
    by (simp add: PersistentPreRunE_def Let_def split: prod.split)
  then show "snd (PersistentPreRunE rt cc (w, captured)) = Ok () \<longleftrightarrow>
      (\<exists>w1 ctx1 w2 ctx2 w3 ctx3 w4 w5.
        rt_ReadPersistentCommandFlags rt (captured\<lparr>cx_CmdContext := cc\<rparr>) w = (w1, Ok ctx1) \<and>
        rt_ReadFromClientConfig rt ctx1 w1 = (w2, Ok (ctx2, None)) \<and>
        (if cx_Offline ctx2 then w3 = w2 \<and> ctx3 = ctx2
         else \<exists>t. rt_newTxConfig rt ctx2 w2 = (w3, Ok t) \<and> ctx3 = ctx2\<lparr>cx_TxConfig := t\<rparr>) \<and>
        rt_SetCmdClientContextHandler rt ctx3 w3 = (w4, Ok ()) \<and>
        rt_InterceptConfigsPreRunHandler rt (rt_DefaultConfigTemplate rt) (rt_DefaultServerConfig rt) (rt_DefaultCometConfig rt) w4 = (w5, Ok ()))"
    unfolding preRunBody_Ok rebuildTxConfig_eq_Ok by blast
qed (simp_all add: PersistentPreRunE_def preRunBody_config_Err preRunBody_offline)

definition sample_root :: "bool \<Rightarrow> go_error option \<Rightarrow> (string list, nat, string, unit, unit, unit) root_env" where
  "sample_root offline err = \<lparr>
     rt_ReadPersistentCommandFlags = (\<lambda>ctx w. (w @ [''flags''], Ok (ctx\<lparr>cx_Offline := offline\<rparr>))),
     rt_ReadFromClientConfig = (\<lambda>ctx w. (w @ [''config''], Ok (ctx, err))),
     rt_newTxConfig = (\<lambda>ctx w. (w @ [''query''], Ok ''textual'')),
     rt_SetCmdClientContextHandler = (\<lambda>ctx w. (w @ [''set''], Ok ())),
     rt_InterceptConfigsPreRunHandler = (\<lambda>_ _ _ w. (w @ [''intercept''], Ok ())),
     rt_DefaultConfigTemplate = ''template'', rt_DefaultServerConfig = (), rt_DefaultCometConfig = ()\<rparr>"

theorem root_prerun_witness:
  "PersistentPreRunE (sample_root False (Some (PlainErr ''bad file''))) 7
     ([], \<lparr>cx_CmdContext = 0, cx_Offline = False, cx_TxConfig = '''', cx_HomeDir = '''', cx_rest = ()\<rparr>) =
   (([''flags'', ''config''], \<lparr>cx_CmdContext = 7, cx_Offline = False, cx_TxConfig = '''', cx_HomeDir = '''', cx_rest = ()\<rparr>),
    Err (PlainErr ''bad file''))"
  using root_prerun [of "sample_root False (Some (PlainErr ''bad file''))" 7 "[]"
      "\<lparr>cx_CmdContext = 0, cx_Offline = False, cx_TxConfig = '''', cx_HomeDir = '''', cx_rest = ()\<rparr>"]
  by (simp add: sample_root_def)

end
