(* ===== verification/App_Chain.thy ===== *)
theory App_Chain
  imports App_Blocks App_Ante Distro_Service
begin

text \<open>
  The chain as a whole: the transactions that the installed ante handler lets through and whose
  messages run on the registered services, and the block hooks of \<^verbatim>\<open>app/app.go\<close> between blocks, over
  one state. The order in which \<^verbatim>\<open>BaseApp\<close> calls these parts is that of its documentation: a
  transaction whose ante handler fails changes nothing, one whose messages fail keeps what the ante
  handler wrote, and messages run one after the other. What other modules do is bounded by the
  hypotheses of the invariant.
\<close>

section \<open>Transactions\<close>

text \<open>
  A message is executed by delivering its bytes to the distro services or by the handler of another
  module. The ante handler sees the form that the decorator inspects.
\<close>

datatype 's routed_msg = ToDistro string bytes | ToOther "('s, unit) action"

type_synonym 's chain_msgs = "(sdk_msg \<times> 's routed_msg) list"

fun run_msg ::
  "('r \<Rightarrow> string \<Rightarrow> ('s rpc_server \<times> 's rpc_handler) option) \<Rightarrow> 'r \<Rightarrow> 's interceptor option \<Rightarrow> sdk_context \<Rightarrow>
   's routed_msg \<Rightarrow> ('s, unit) action" where
  "run_msg route r intercept ctx (ToDistro path bz) = bindA (deliver route r intercept path bz ctx) (\<lambda>_. returnA ())"
| "run_msg route r intercept ctx (ToOther f) = f"

type_synonym 's ante_handler = "'s \<times> sdk_context \<Rightarrow> sdk_tx \<Rightarrow> bool \<Rightarrow> ('s \<times> sdk_context) \<times> unit outcome"

section \<open>Steps\<close>

text \<open>\<open>admitted\<close> bounds the lists of messages that are considered.\<close>

inductive chain_step ::
  "'s app_env \<Rightarrow> 's ante_handler \<Rightarrow> ('r \<Rightarrow> string \<Rightarrow> ('s rpc_server \<times> 's rpc_handler) option) \<Rightarrow> 'r \<Rightarrow> 's interceptor option \<Rightarrow>
   ('s chain_msgs \<Rightarrow> bool) \<Rightarrow> 's \<times> sdk_context \<Rightarrow> 's \<times> sdk_context \<Rightarrow> bool"
  for env :: "'s app_env" and ante :: "'s ante_handler"
    and route :: "'r \<Rightarrow> string \<Rightarrow> ('s rpc_server \<times> 's rpc_handler) option" and r :: 'r and intercept :: "'s interceptor option"
    and admitted :: "'s chain_msgs \<Rightarrow> bool" where
  chain_tx: "admitted msgs \<Longrightarrow> ante (s, ctx) \<lparr>tx_GetMsgs = map fst msgs\<rparr> False = ((s1, ctx1), Ok ()) \<Longrightarrow>
    forA (map snd msgs) (run_msg route r intercept ctx1) s1 = (s2, Ok ()) \<Longrightarrow>
    chain_step env ante route r intercept admitted (s, ctx) (s2, ctx)"
| chain_failed_tx: "ante (s, ctx) tx False = ((s1, ctx1), Ok ()) \<Longrightarrow>
    chain_step env ante route r intercept admitted (s, ctx) (s1, ctx)"
| chain_block: "chain_time (ctx_BlockTime ctx') \<Longrightarrow> instant (ctx_BlockTime ctx) \<le> instant (ctx_BlockTime ctx') \<Longrightarrow>
    EndBlocker env ctx s = (s1, Ok ()) \<Longrightarrow> PreBlocker env ctx' s1 = (s2, Ok ()) \<Longrightarrow> BeginBlocker env ctx' s2 = (s3, Ok ()) \<Longrightarrow>
    chain_step env ante route r intercept admitted (s, ctx) (s3, ctx')"

inductive_cases chain_stepE [consumes 1, case_names tx failed_tx block]:
  "chain_step env ante route r intercept admitted (s, ctx) (s', ctx')"

section \<open>What other modules may do\<close>

text \<open>A step of the state that keeps the stored parameters and does not issue the coin.\<close>

definition quiet :: "'s app_env \<Rightarrow> ('s, params) store_item \<Rightarrow> string \<Rightarrow> 's \<Rightarrow> 's \<Rightarrow> bool" where
  "quiet env I d s s' \<longleftrightarrow> item_Get I s' = item_Get I s \<and> total_supply env s' d \<le> total_supply env s d"

definition quiet_action :: "'s app_env \<Rightarrow> ('s, params) store_item \<Rightarrow> string \<Rightarrow> ('s, unit) action \<Rightarrow> bool" where
  "quiet_action env I d f \<longleftrightarrow> (\<forall>s s'. f s = (s', Ok ()) \<longrightarrow> quiet env I d s s')"

text \<open>
  Transactions without a parameter update, whose other messages are quiet; an EVM ante handler that
  is quiet and stays at the block; quiet hooks of the module manager and the fee market.
\<close>

definition plain_msgs :: "'s app_env \<Rightarrow> ('s, params) store_item \<Rightarrow> string \<Rightarrow> 's chain_msgs \<Rightarrow> bool" where
  "plain_msgs env I d msgs \<longleftrightarrow>
     (\<forall>m \<in> snd ` set msgs. case m of ToDistro path bz \<Rightarrow> path \<noteq> ''/gnodi.distro.v1.Msg/UpdateParams'' | ToOther f \<Rightarrow> quiet_action env I d f)"

definition quiet_ante :: "'s app_env \<Rightarrow> ('s, params) store_item \<Rightarrow> string \<Rightarrow> 's ante_handler \<Rightarrow> bool" where
  "quiet_ante env I d h \<longleftrightarrow>
     (\<forall>s ctx tx sim s' ctx'. h (s, ctx) tx sim = ((s', ctx'), Ok ()) \<longrightarrow> quiet env I d s s' \<and> ctx_BlockTime ctx' = ctx_BlockTime ctx)"

definition quiet_hooks :: "'s app_env \<Rightarrow> ('s, params) store_item \<Rightarrow> string \<Rightarrow> bool" where
  "quiet_hooks env I d \<longleftrightarrow>
     quiet_action env I d (mm_PreBlock env) \<and> quiet_action env I d (mm_BeginBlock env) \<and> quiet_action env I d (mm_EndBlock env) \<and>
     (\<forall>p. quiet_action env I d (fmk_SetParams (app_FeeMarketKeeper env) p))"

text \<open>The two bank calls of the burn do not write the item either, and balances are not negative.\<close>

definition burn_frame :: "'s app_env \<Rightarrow> ('s, params) store_item \<Rightarrow> bool" where
  "burn_frame env I \<longleftrightarrow>
     (\<forall>a m cs s s'. bank_SendCoinsFromAccountToModule (app_BankKeeper env) a m cs s = (s', Ok ()) \<longrightarrow> item_Get I s' = item_Get I s) \<and>
     (\<forall>m cs s s'. bank_BurnCoins (app_BankKeeper env) m cs s = (s', Ok ()) \<longrightarrow> item_Get I s' = item_Get I s) \<and>
     (\<forall>s a d. 0 \<le> balance env s a d)"

section \<open>Quiet parts\<close>

lemma quiet_refl [simp]: "quiet env I d s s"
  by (simp add: quiet_def)

lemma quiet_trans: "quiet env I d s s1 \<Longrightarrow> quiet env I d s1 s2 \<Longrightarrow> quiet env I d s s2"
  by (simp add: quiet_def)

lemma quiet_actionD: "quiet_action env I d f \<Longrightarrow> f s = (s', Ok ()) \<Longrightarrow> quiet env I d s s'"
  by (simp add: quiet_action_def)

lemma quiet_forA:
  assumes "\<And>x. x \<in> set xs \<Longrightarrow> quiet_action env I d (body x)"
  shows "quiet_action env I d (forA xs body)"
  unfolding quiet_action_def
proof (intro allI impI)
  fix s s' assume run: "forA xs body s = (s', Ok ())"
  show "quiet env I d s s'"
    by (rule forA_collect [where I = "\<lambda>A. quiet env I d s" and f = "\<lambda>_. {}", OF _ _ run])
      (use assms in \<open>auto dest: quiet_actionD intro: quiet_trans\<close>)
qed

text \<open>The decorator in front of the EVM ante handler adds no effect.\<close>

lemma AnteHandle_Ok:
  "AnteHandle g c tx simulate next = (c', Ok ()) \<Longrightarrow> next c tx simulate = (c', Ok ())"
  by (auto simp: AnteHandle_def split: outcome.splits)

lemma setAnteHandler_Ok:
  assumes "setAnteHandler v evmAnte url = Ok h"
  shows "h = (\<lambda>c tx simulate. AnteHandle (newGroupLimiterDecorator [url]) c tx simulate evmAnte)"
  using assms by (auto simp: setAnteHandler_def Let_def split: outcome.splits)

lemma installed_ante_quiet:
  assumes "setAnteHandler v evmAnte url = Ok h" and "quiet_ante env I d evmAnte"
  shows "quiet_ante env I d h"
  using assms(2) unfolding quiet_ante_def setAnteHandler_Ok [OF assms(1)] by (blast dest: AnteHandle_Ok)

text \<open>The burn of one account, the whole burn, and the begin-block hook.\<close>

lemma burnAccount_quiet:
  assumes laws: "bank_burn_laws env modAddr" and frame: "burn_frame env I"
  shows "quiet_action env I d (burnAccount env x)"
  unfolding quiet_action_def quiet_def
proof (intro allI impI conjI)
  fix s s' assume run: "burnAccount env x s = (s', Ok ())"
  from laws run obtain addr where "\<forall>d. total_supply env s' d = total_supply env s d - balance env s addr d"
    by (rule burnAccount_Ok)
  moreover have "0 \<le> balance env s addr d" using frame by (simp add: burn_frame_def)
  ultimately show "total_supply env s' d \<le> total_supply env s d" by simp
  from run frame show "item_Get I s' = item_Get I s"
    by (auto simp: burnAccount_def outcome_inv burn_frame_def split: if_splits)
qed

lemma BeginBlocker_quiet:
  assumes "bank_burn_laws env modAddr" and "burn_frame env I" and "quiet_hooks env I d"
  shows "quiet_action env I d (BeginBlocker env ctx)"
proof -
  have burn: "quiet_action env I d (applySecurityBurn env)"
    unfolding applySecurityBurn_def by (rule quiet_forA) (rule burnAccount_quiet [OF assms(1,2)])
  have hotfix: "quiet_action env I d (applyMinGasPriceHotfix env)"
    using assms(3) by (auto simp: applyMinGasPriceHotfix_def quiet_hooks_def quiet_action_def outcome_inv)
  have mm: "quiet_action env I d (mm_BeginBlock env)" using assms(3) by (simp add: quiet_hooks_def)
  show ?thesis
    unfolding quiet_action_def BeginBlocker_def
    by (auto simp: outcome_inv split: if_splits
        dest!: quiet_actionD [OF burn] quiet_actionD [OF hotfix] quiet_actionD [OF mm] intro: quiet_trans)
qed

section \<open>The supply of the chain\<close>

text \<open>
  \<open>B\<close> is a bound on the supply at the start, which a genesis file may have put above the schedule.
\<close>

definition supply_capped :: "'s keeper \<Rightarrow> params \<Rightarrow> int \<Rightarrow> 's \<times> sdk_context \<Rightarrow> bool" where
  "supply_capped k p B = (\<lambda>(s, ctx).
     item_Get (k_Params k) s = Ok p \<and> chain_time (ctx_BlockTime ctx) \<and>
     coin_Amount (bank_GetSupply (k_bankKeeper k) s (p_Denom p)) \<le> max B (int (emission_limit p (ctx_BlockTime ctx))))"

lemma supply_capped_quiet:
  assumes "app_BankKeeper env = k_bankKeeper k" and "quiet env (k_Params k) (p_Denom p) s s'"
    and "supply_capped k p B (s, ctx)" and "ctx_BlockTime ctx' = ctx_BlockTime ctx"
  shows "supply_capped k p B (s', ctx')"
  using assms by (auto simp: supply_capped_def quiet_def)

text \<open>
  The hypotheses that the proofs below share: the bank that the hooks use is that of the keeper and
  behaves as documented, the module's services are all that is registered, and the hooks and the ante
  handler are quiet about the parameters and the denomination of \<open>p\<close>.
\<close>

definition gnodi_chain ::
  "'s app_env \<Rightarrow> cosmos_lib \<Rightarrow> ('s, 'j) app_module \<Rightarrow> (string \<Rightarrow> bytes) \<Rightarrow> ('s, 'r) registrar \<Rightarrow>
   ('r \<Rightarrow> string \<Rightarrow> ('s rpc_server \<times> 's rpc_handler) option) \<Rightarrow> 'r \<Rightarrow> 's interceptor option \<Rightarrow> 's ante_handler \<Rightarrow> params \<Rightarrow> bool" where
  "gnodi_chain env L am modAddr register route r intercept ante p \<longleftrightarrow>
     (let k = am_keeper am; I = k_Params k; B = k_bankKeeper k in
      app_BankKeeper env = B \<and> math_laws L \<and> coin_laws L \<and> bank_mint_laws B modAddr \<and> bank_send_laws B modAddr \<and>
      bank_burn_laws env modAddr \<and> bank_frame B I \<and> burn_frame env I \<and>
      only_distro L route register am r \<and> transparent intercept \<and>
      quiet_hooks env I (p_Denom p) \<and> quiet_ante env I (p_Denom p) ante \<and> schedule_fits p)"

lemma gnodi_chainD:
  assumes "gnodi_chain env L am modAddr register route r intercept ante p"
  shows "app_BankKeeper env = k_bankKeeper (am_keeper am)" "math_laws L" "coin_laws L"
    "bank_mint_laws (k_bankKeeper (am_keeper am)) modAddr" "bank_send_laws (k_bankKeeper (am_keeper am)) modAddr"
    "bank_burn_laws env modAddr" "bank_frame (k_bankKeeper (am_keeper am)) (k_Params (am_keeper am))"
    "burn_frame env (k_Params (am_keeper am))" "only_distro L route register am r" "transparent intercept"
    "quiet_hooks env (k_Params (am_keeper am)) (p_Denom p)" "quiet_ante env (k_Params (am_keeper am)) (p_Denom p) ante" "schedule_fits p"
  using assms unfolding gnodi_chain_def Let_def by blast+

text \<open>The ante handler and the hooks between two blocks.\<close>

lemma chain_ante_quiet:
  assumes "gnodi_chain env L am modAddr register route r intercept ante p" and "ante (s, ctx) tx sim = ((s', ctx'), Ok ())"
  shows "quiet env (k_Params (am_keeper am)) (p_Denom p) s s'" and "ctx_BlockTime ctx' = ctx_BlockTime ctx"
  using gnodi_chainD(12) [OF assms(1)] assms(2) by (auto simp: quiet_ante_def)

lemma chain_hooks_quiet:
  assumes chain: "gnodi_chain env L am modAddr register route r intercept ante p"
    and "EndBlocker env ctx s = (s1, Ok ())" and "PreBlocker env ctx' s1 = (s2, Ok ())" and "BeginBlocker env ctx' s2 = (s', Ok ())"
  shows "quiet env (k_Params (am_keeper am)) (p_Denom p) s s'"
proof -
  note hooks = gnodi_chainD(11) [OF chain]
  then have "quiet_action env (k_Params (am_keeper am)) (p_Denom p) (mm_EndBlock env)"
    "quiet_action env (k_Params (am_keeper am)) (p_Denom p) (mm_PreBlock env)"
    by (simp_all add: quiet_hooks_def)
  with assms(2-4) show ?thesis
    unfolding EndBlocker_def PreBlocker_def
    by (blast dest: quiet_actionD quiet_actionD [OF BeginBlocker_quiet [OF gnodi_chainD(6,8) [OF chain] hooks]] intro: quiet_trans)
qed

lemma run_msg_capped:
  fixes am :: "('s, 'j) app_module"
  defines "k \<equiv> am_keeper am"
  assumes chain: "gnodi_chain env L am modAddr register route r intercept ante p"
    and m: "case m of ToDistro path bz \<Rightarrow> path \<noteq> ''/gnodi.distro.v1.Msg/UpdateParams'' | ToOther f \<Rightarrow> quiet_action env (k_Params k) (p_Denom p) f"
    and inv: "supply_capped k p B (s, ctx)" and run: "run_msg route r intercept ctx m s = (s', Ok ())"
  shows "supply_capped k p B (s', ctx)"
proof (cases m)
  case (ToDistro path bz)
  note laws = gnodi_chainD [OF chain, folded k_def]
  from ToDistro run obtain resp where "deliver route r intercept path bz ctx s = (s', Ok resp)"
    by (auto simp: outcome_inv)
  with laws(9,10) show ?thesis
  proof (cases rule: deliver_cases)
    case (mint msg)
    note mint = mint(1) mint(2) [folded k_def]
    from inv have t: "chain_time (ctx_BlockTime ctx)" and get: "item_Get (k_Params k) s = Ok p"
      by (simp_all add: supply_capped_def)
    have "coin_Amount (bank_GetSupply (k_bankKeeper k) s' (p_Denom p)) \<le> int (emission_limit p (ctx_BlockTime ctx))"
      by (rule Mint_within_limit [OF laws(2-5,13) t get mint(2)])
    with t get Mint_params_unchanged [OF laws(7) mint(2)] show ?thesis
      by (simp add: supply_capped_def)
  qed (use m inv ToDistro in auto)
next
  case (ToOther f)
  with m run have "quiet env (k_Params k) (p_Denom p) s s'" by (auto dest: quiet_actionD)
  then show ?thesis using supply_capped_quiet [OF gnodi_chainD(1) [OF chain, folded k_def] _ inv] by simp
qed

lemma step_capped:
  fixes am :: "('s, 'j) app_module"
  defines "k \<equiv> am_keeper am"
  assumes chain: "gnodi_chain env L am modAddr register route r intercept ante p"
    and step: "chain_step env ante route r intercept (plain_msgs env (k_Params k) (p_Denom p)) (s, ctx) (s', ctx')"
    and inv: "supply_capped k p B (s, ctx)"
  shows "supply_capped k p B (s', ctx')"
  using step
proof (cases rule: chain_stepE)
  case (tx msgs s1 ctx1)
  note laws = gnodi_chainD [OF chain, folded k_def]
  note ante = chain_ante_quiet [OF chain tx(3), folded k_def]
  then have 1: "supply_capped k p B (s1, ctx1)" using supply_capped_quiet [OF laws(1) _ inv] by blast
  have "supply_capped k p B (s', ctx1)"
    by (rule forA_collect [where I = "\<lambda>A s. supply_capped k p B (s, ctx1)" and f = "\<lambda>_. {}", OF _ 1 tx(4)])
      (use tx(2) run_msg_capped [OF chain, folded k_def] in \<open>auto simp: plain_msgs_def\<close>)
  with ante(2) tx(1) show ?thesis by (simp add: supply_capped_def)
next
  case (failed_tx tx ctx1)
  from chain_ante_quiet(1) [OF chain failed_tx(2), folded k_def] failed_tx(1) show ?thesis
    using supply_capped_quiet [OF gnodi_chainD(1) [OF chain, folded k_def] _ inv] by simp
next
  case (block s1 s2)
  note laws = gnodi_chainD [OF chain, folded k_def]
  from chain_hooks_quiet [OF chain block(3-5), folded k_def]
  have "supply_capped k p B (s', ctx)" using supply_capped_quiet [OF laws(1) _ inv] by simp
  moreover have "emission_limit p (ctx_BlockTime ctx) \<le> emission_limit p (ctx_BlockTime ctx')"
    using laws(13) inv block by (intro emission_limit_mono) (simp_all add: supply_capped_def)
  ultimately show ?thesis using block(1) by (auto simp: supply_capped_def)
qed

lemma reachable_capped:
  assumes "gnodi_chain env L am modAddr register route r intercept ante p"
    and "(chain_step env ante route r intercept (plain_msgs env (k_Params (am_keeper am)) (p_Denom p)))\<^sup>*\<^sup>* c c'"
    and "supply_capped (am_keeper am) p B c"
  shows "supply_capped (am_keeper am) p B c'"
  using assms(2,3)
proof (induction rule: rtranclp_induct)
  case (step c1 c2)
  then show ?case using step_capped [OF assms(1)] by (metis prod.collapse)
qed
section \<open>The parameters of the chain\<close>

text \<open>With parameter updates admitted: messages of other modules are quiet, those of the module are any.\<close>

definition framed_msgs :: "'s app_env \<Rightarrow> ('s, params) store_item \<Rightarrow> string \<Rightarrow> 's chain_msgs \<Rightarrow> bool" where
  "framed_msgs env I d msgs \<longleftrightarrow>
     (\<forall>m \<in> snd ` set msgs. case m of ToDistro path bz \<Rightarrow> True | ToOther f \<Rightarrow> quiet_action env I d f)"

lemma params_valid_quiet: "quiet env (k_Params k) d s s' \<Longrightarrow> params_valid k L s' = params_valid k L s"
  by (simp add: params_valid_def quiet_def)

lemma run_msg_params_valid:
  assumes chain: "gnodi_chain env L am modAddr register route r intercept ante p" and item: "item_laws (k_Params (am_keeper am))"
    and m: "case m of ToDistro path bz \<Rightarrow> True | ToOther f \<Rightarrow> quiet_action env (k_Params (am_keeper am)) (p_Denom p) f"
    and inv: "params_valid (am_keeper am) L s" and run: "run_msg route r intercept ctx m s = (s', Ok ())"
  shows "params_valid (am_keeper am) L s'"
proof (cases m)
  case (ToDistro path bz)
  with run obtain resp where "deliver route r intercept path bz ctx s = (s', Ok resp)" by (auto simp: outcome_inv)
  with gnodi_chainD(9,10) [OF chain] have "distro_step (am_keeper am) L (s, ctx) (s', ctx) \<or> s' = s"
    by (cases rule: deliver_cases) (auto intro: step_mint step_update)
  with inv show ?thesis using distro_step_params_valid [OF item gnodi_chainD(7) [OF chain]] by blast
next
  case (ToOther f)
  with m run inv show ?thesis by (auto dest: quiet_actionD params_valid_quiet)
qed

lemma step_params_valid:
  assumes chain: "gnodi_chain env L am modAddr register route r intercept ante p" and item: "item_laws (k_Params (am_keeper am))"
    and step: "chain_step env ante route r intercept (framed_msgs env (k_Params (am_keeper am)) (p_Denom p)) (s, ctx) (s', ctx')"
    and inv: "params_valid (am_keeper am) L s"
  shows "params_valid (am_keeper am) L s'"
  using step
proof (cases rule: chain_stepE)
  case (tx msgs s1 ctx1)
  have 1: "params_valid (am_keeper am) L s1"
    using inv params_valid_quiet [OF chain_ante_quiet(1) [OF chain tx(3)]] by simp
  show ?thesis
    by (rule forA_collect [where I = "\<lambda>A. params_valid (am_keeper am) L" and f = "\<lambda>_. {}", OF _ 1 tx(4)])
      (use tx(2) run_msg_params_valid [OF chain item] in \<open>auto simp: framed_msgs_def\<close>)
next
  case (failed_tx tx ctx1)
  with inv show ?thesis using params_valid_quiet [OF chain_ante_quiet(1) [OF chain failed_tx(2)]] by simp
next
  case (block s1 s2)
  with inv show ?thesis using params_valid_quiet [OF chain_hooks_quiet [OF chain block(3-5)]] by simp
qed

lemma reachable_params_valid:
  assumes "gnodi_chain env L am modAddr register route r intercept ante p" and "item_laws (k_Params (am_keeper am))"
    and "(chain_step env ante route r intercept (framed_msgs env (k_Params (am_keeper am)) (p_Denom p)))\<^sup>*\<^sup>* c c'"
    and "params_valid (am_keeper am) L (fst c)"
  shows "params_valid (am_keeper am) L (fst c')"
  using assms(3,4)
proof (induction rule: rtranclp_induct)
  case (step c1 c2)
  then show ?case using step_params_valid [OF assms(1,2)] by (metis prod.collapse)
qed

text \<open>The hypotheses about the ante handler are those about the one that the decorator precedes.\<close>

lemma gnodi_chain_installed:
  assumes "gnodi_chain env L am modAddr register route r intercept evmAnte p" and "setAnteHandler v evmAnte url = Ok h"
  shows "gnodi_chain env L am modAddr register route r intercept h p"
  using assms installed_ante_quiet unfolding gnodi_chain_def Let_def by blast

end
