(* ===== verification/App_Start.thy ===== *)
theory App_Start
  imports App_Wiring App_Ante App_Mempool App_Upgrade
begin

text \<open>
  The parts of the application that \<^verbatim>\<open>New\<close> delegates to its own methods, in the order in which it
  calls them: \<^verbatim>\<open>RegisterUpgradeHandlers\<close>, \<^verbatim>\<open>setAnteHandler\<close> and \<^verbatim>\<open>configureEVMMempool\<close>. Each is the
  model of its own theory, here as a step on the fields that it writes. The order matters: the
  mempool takes the ante handler that the application has at that moment.
\<close>

section \<open>The fields that the methods write\<close>

text \<open>\<open>None\<close> is a nil handler or the default store loader.\<close>

record ('s, 'ctx, 'm, 'ct, 'pr, 'pc) app_runtime =
  rt_upgradeHandlers :: "string \<rightharpoonup> version_map \<Rightarrow> ('s, version_map) action"
  rt_storeLoader :: "(int \<times> string list) option"
  rt_anteHandler :: "('ctx \<Rightarrow> sdk_tx \<Rightarrow> bool \<Rightarrow> 'ctx \<times> unit outcome) option"
  rt_mempool :: "('m, 'ct, 'pr, 'pc) mempool_slots"

section \<open>The methods\<close>

text \<open>\<^verbatim>\<open>SetUpgradeHandler\<close> is an assignment into the keeper's map of handlers.\<close>

definition RegisterUpgradeHandlers ::
  "('s, 'p) upgrade_env \<Rightarrow> upgrade_plan outcome \<Rightarrow> (int \<Rightarrow> bool) \<Rightarrow> (sdk_name \<Rightarrow> string) \<Rightarrow>
   ('s, 'ctx, 'm, 'ct, 'pr, 'pc) app_runtime \<Rightarrow> ('s, 'ctx, 'm, 'ct, 'pr, 'pc) app_runtime outcome" where
  "RegisterUpgradeHandlers ue readUpgradeInfo isSkipHeight storeKey app =
     (let app1 = app\<lparr>rt_upgradeHandlers := (rt_upgradeHandlers app)(EVMUpgradeName \<mapsto> upgradeHandler ue)\<rparr> in
      bindO (storeUpgrades readUpgradeInfo isSkipHeight storeKey) (\<lambda>loader.
      Ok (case loader of None \<Rightarrow> app1 | Some l \<Rightarrow> app1\<lparr>rt_storeLoader := Some l\<rparr>)))"

text \<open>\<^verbatim>\<open>app.SetAnteHandler\<close> at the end of \<^verbatim>\<open>setAnteHandler\<close>.\<close>

definition SetAnteHandler ::
  "unit outcome \<Rightarrow> ('ctx \<Rightarrow> sdk_tx \<Rightarrow> bool \<Rightarrow> 'ctx \<times> unit outcome) \<Rightarrow> string \<Rightarrow>
   ('s, 'ctx, 'm, 'ct, 'pr, 'pc) app_runtime \<Rightarrow> ('s, 'ctx, 'm, 'ct, 'pr, 'pc) app_runtime outcome" where
  "SetAnteHandler validateOptions evmAnteHandler ethereumTxURL app =
     bindO (setAnteHandler validateOptions evmAnteHandler ethereumTxURL) (\<lambda>h. Ok (app\<lparr>rt_anteHandler := Some h\<rparr>))"

text \<open>\<^verbatim>\<open>createMempoolConfig\<close> asks the application for its ante handler.\<close>

type_synonym ('opts, 'ctx, 'lp, 'm, 'ct, 'ph, 'pr, 'pc) ante_mempool_env =
  "('opts, ('ctx \<Rightarrow> sdk_tx \<Rightarrow> bool \<Rightarrow> 'ctx \<times> unit outcome) option, 'lp, 'm, 'ct, 'ph, 'pr, 'pc) mempool_env"

definition ConfigureMempool ::
  "('opts, 'ctx, 'lp, 'm, 'ct, 'ph, 'pr, 'pc) ante_mempool_env \<Rightarrow> 'opts \<Rightarrow>
   ('s, 'ctx, 'm, 'ct, 'pr, 'pc) app_runtime \<Rightarrow> ('s, 'ctx, 'm, 'ct, 'pr, 'pc) app_runtime outcome" where
  "ConfigureMempool me appOpts app =
     (case configureEVMMempool (me\<lparr>me_GetAnteHandler := rt_anteHandler app\<rparr>) appOpts (rt_mempool app) of
        (slots, r) \<Rightarrow> bindO r (\<lambda>_. Ok (app\<lparr>rt_mempool := slots\<rparr>)))"

text \<open>The environment of \<^verbatim>\<open>New\<close> with the application's own methods in place.\<close>

definition withMethods ::
  "('s, 'p) upgrade_env \<Rightarrow> upgrade_plan outcome \<Rightarrow> (int \<Rightarrow> bool) \<Rightarrow> (sdk_name \<Rightarrow> string) \<Rightarrow>
   unit outcome \<Rightarrow> ('ctx \<Rightarrow> sdk_tx \<Rightarrow> bool \<Rightarrow> 'ctx \<times> unit outcome) \<Rightarrow> string \<Rightarrow>
   ('opts, 'ctx, 'lp, 'm, 'ct, 'ph, 'pr, 'pc) ante_mempool_env \<Rightarrow> 'opts \<Rightarrow>
   ('s, 'ctx, 'm, 'ct, 'pr, 'pc) app_runtime new_env \<Rightarrow> ('s, 'ctx, 'm, 'ct, 'pr, 'pc) app_runtime new_env" where
  "withMethods ue readUpgradeInfo isSkipHeight storeKey validateOptions evmAnteHandler url me appOpts ne =
     ne\<lparr>ne_RegisterUpgradeHandlers := RegisterUpgradeHandlers ue readUpgradeInfo isSkipHeight storeKey,
        ne_setAnteHandler := SetAnteHandler validateOptions evmAnteHandler url,
        ne_configureEVMMempool := ConfigureMempool me appOpts\<rparr>"

section \<open>What each method leaves\<close>

lemma RegisterUpgradeHandlers_Ok:
  assumes "RegisterUpgradeHandlers ue readInfo isSkip storeKey app = Ok app'"
  obtains info where "readInfo = Ok info" "rt_upgradeHandlers app' = (rt_upgradeHandlers app)(EVMUpgradeName \<mapsto> upgradeHandler ue)"
    "rt_storeLoader app' =
       (if plan_Name info = EVMUpgradeName \<and> \<not> isSkip (plan_Height info)
        then Some (plan_Height info, map storeKey addedStores) else rt_storeLoader app)"
    "rt_mempool app' = rt_mempool app"
proof (cases readInfo)
  case (Ok info)
  then show ?thesis using assms that [of info]
    by (cases "plan_Name info = EVMUpgradeName \<and> \<not> isSkip (plan_Height info)")
       (auto simp: RegisterUpgradeHandlers_def storeUpgrades_def)
qed (use assms in \<open>simp_all add: RegisterUpgradeHandlers_def storeUpgrades_def\<close>)

lemma SetAnteHandler_Ok:
  assumes "SetAnteHandler v ante url app = Ok app'"
  obtains h where "setAnteHandler v ante url = Ok h" "app' = app\<lparr>rt_anteHandler := Some h\<rparr>"
  using assms by (auto simp: SetAnteHandler_def outcome_inv)

text \<open>The mempool configuration always succeeds and writes the slots only.\<close>

lemma ConfigureMempool_eq:
  "ConfigureMempool me appOpts app =
     Ok (app\<lparr>rt_mempool := fst (configureEVMMempool (me\<lparr>me_GetAnteHandler := rt_anteHandler app\<rparr>) appOpts (rt_mempool app))\<rparr>)"
proof -
  obtain slots where "configureEVMMempool (me\<lparr>me_GetAnteHandler := rt_anteHandler app\<rparr>) appOpts (rt_mempool app) = (slots, Ok ())"
    using configureEVMMempool_Ok [of "me\<lparr>me_GetAnteHandler := rt_anteHandler app\<rparr>" appOpts "rt_mempool app"] by (elim exE)
  then show ?thesis by (simp add: ConfigureMempool_def)
qed

text \<open>The slots with the mempool on, and with it off.\<close>

definition mempool_built ::
  "('opts, 'an, 'lp, 'm, 'ct, 'ph, 'pr, 'pc) mempool_env \<Rightarrow> 'opts \<Rightarrow> ('m, 'ct, 'pr, 'pc) mempool_slots" where
  "mempool_built me opts =
     (let m = me_NewMempool me \<lparr>mc_AnteHandler = me_GetAnteHandler me, mc_LegacyPoolConfig = me_GetLegacyPoolConfig me opts,
            mc_BlockGasLimit = me_GetBlockGasLimit me opts, mc_MinTip = me_GetMinTip me opts\<rparr> (me_GetCosmosPoolMaxTx me opts);
          p = me_SetEthSignerExtraction me (me_NewDefaultProposalHandler me m)
      in \<lparr>ms_EVMMempool = Some m, ms_Mempool = Some m, ms_CheckTxHandler = Some (me_NewCheckTxHandler me m),
          ms_PrepareProposal = Some (me_PrepareProposalHandler me p), ms_ProcessProposal = Some (me_ProcessProposalHandler me p)\<rparr>)"

lemma configureEVMMempool_slots:
  "fst (configureEVMMempool me opts slots) =
     (if me_chainConfigSet me \<and> 0 \<le> me_GetCosmosPoolMaxTx me opts then mempool_built me opts else slots)"
  by (simp add: configureEVMMempool_def createMempoolConfig_def mempool_built_def Let_def bindA_def wrapErrA_def liftO_def)

text \<open>A start that returns has run the three methods, the ante handler before the mempool.\<close>

lemma New_runtime:
  assumes "New (withMethods ue readInfo isSkip storeKey v ante url me opts ne) loadLatest rt = Ok (h, rt')"
  obtains rt1 a where "RegisterUpgradeHandlers ue readInfo isSkip storeKey rt = Ok rt1" "setAnteHandler v ante url = Ok a"
    "rt' = rt1\<lparr>rt_anteHandler := Some a,
       rt_mempool := fst (configureEVMMempool (me\<lparr>me_GetAnteHandler := Some a\<rparr>) opts (rt_mempool rt1))\<rparr>"
  using assms
  by (auto simp: New_defs withMethods_def ConfigureMempool_eq outcome_inv split: if_splits elim!: SetAnteHandler_Ok)

end
