(* ===== verification/Chain_Properties.thy ===== *)
theory Chain_Properties
  imports App_Chain App_Start App_Reference App_Properties Service_Properties
begin

text \<open>
  The properties of the chain as a whole, where the ante handler, the services of the distro module
  and the block hooks with their one-time changes act on one state.
\<close>

section \<open>A chain that satisfies the hypotheses\<close>









section \<open>The supply\<close>










section \<open>The parameters\<close>




section \<open>The start of the application\<close>

text \<open>
  C13: An application that \<^verbatim>\<open>New\<close> returns is guarded everywhere: the ante handler it executes
  transactions with is the one with the group limiter, and the EVM mempool, when there is one, checks
  transactions with that same handler, so a transaction that nests an Ethereum transaction is turned
  away at both. The upgrade handler is registered, the stores are added exactly when the plan on disk
  is the upgrade and its height is not skipped, and without a chain configuration or with a negative
  pool size every mempool slot is left as it was.
\<close>

theorem started_application:
  assumes "New (withMethods ue readInfo isSkip storeKey v ante url me opts ne) loadLatest rt = Ok (h, rt')"
  shows "\<exists>a info. rt_anteHandler rt' = Some a \<and> readInfo = Ok info \<and>
    (\<forall>ctx tx simulate. if \<forall>m \<in> set (tx_GetMsgs tx). nesting_allowed url m then a ctx tx simulate = ante ctx tx simulate
       else fst (a ctx tx simulate) = ctx \<and> \<not> is_ok (snd (a ctx tx simulate))) \<and>
    rt_mempool rt' = (if me_chainConfigSet me \<and> 0 \<le> me_GetCosmosPoolMaxTx me opts
       then mempool_built (me\<lparr>me_GetAnteHandler := Some a\<rparr>) opts else rt_mempool rt) \<and>
    rt_upgradeHandlers rt' = (rt_upgradeHandlers rt)(EVMUpgradeName \<mapsto> upgradeHandler ue) \<and>
    rt_storeLoader rt' = (if plan_Name info = EVMUpgradeName \<and> \<not> isSkip (plan_Height info)
       then Some (plan_Height info, map storeKey addedStores) else rt_storeLoader rt)"
proof -
  from assms obtain rt1 a where reg: "RegisterUpgradeHandlers ue readInfo isSkip storeKey rt = Ok rt1"
    and a: "setAnteHandler v ante url = Ok a"
    and rt': "rt' = rt1\<lparr>rt_anteHandler := Some a,
       rt_mempool := fst (configureEVMMempool (me\<lparr>me_GetAnteHandler := Some a\<rparr>) opts (rt_mempool rt1))\<rparr>"
    by (rule New_runtime)
  from reg show ?thesis
  proof (rule RegisterUpgradeHandlers_Ok, goal_cases)
    case (1 info)
    with rt' setAnteHandler_admits [OF a] show ?case
      by (intro exI [of _ a] exI [of _ info]) (simp add: configureEVMMempool_slots)
  qed
qed

text \<open>A start with the mempool on, whose handlers count what they admit.\<close>

definition counting_ante :: "nat \<Rightarrow> sdk_tx \<Rightarrow> bool \<Rightarrow> nat \<times> unit outcome" where
  "counting_ante ctx tx simulate = (Suc ctx, Ok ())"

definition counting_mempool ::
  "(unit, nat, unit, nat \<Rightarrow> sdk_tx \<Rightarrow> bool \<Rightarrow> nat \<times> unit outcome, unit, unit, unit, unit) ante_mempool_env" where
  "counting_mempool =
     \<lparr>me_chainConfigSet = True, me_GetCosmosPoolMaxTx = (\<lambda>_. 10), me_GetAnteHandler = None, me_GetLegacyPoolConfig = (\<lambda>_. ()),
      me_GetBlockGasLimit = (\<lambda>_. 0), me_GetMinTip = (\<lambda>_. None),
      me_NewMempool = (\<lambda>cfg n. case mc_AnteHandler cfg of Some h \<Rightarrow> h | None \<Rightarrow> \<lambda>ctx tx sim. (ctx, Panic ''nil handler'')),
      me_NewCheckTxHandler = (\<lambda>_. ()), me_NewDefaultProposalHandler = (\<lambda>_. ()), me_SetEthSignerExtraction = id,
      me_PrepareProposalHandler = id, me_ProcessProposalHandler = id\<rparr>"

definition calm_new :: "'rt new_env" where
  "calm_new =
     \<lparr>ne_RegisterStreamingServices = Ok (), ne_NewTxConfigWithOptions = Ok (), ne_isICS4Wrapper = (\<lambda>_. True),
      ne_RegisterServices = Ok (), ne_RegisterUpgradeHandlers = Ok, ne_NewReflectionService = Ok (),
      ne_setAnteHandler = Ok, ne_NewPostHandler = Ok (), ne_configureEVMMempool = Ok,
      ne_MergedRegistry = Ok (), ne_ValidateProtoAnnotations = Ok (), ne_LoadLatestVersion = Ok ()\<rparr>"

definition blank_runtime :: "('s, 'ctx, 'm, 'ct, 'pr, 'pc) app_runtime" where
  "blank_runtime = \<lparr>rt_upgradeHandlers = Map.empty, rt_storeLoader = None, rt_anteHandler = None,
     rt_mempool = \<lparr>ms_EVMMempool = None, ms_Mempool = None, ms_CheckTxHandler = None, ms_PrepareProposal = None, ms_ProcessProposal = None\<rparr>\<rparr>"

abbreviation counting_new where
  "counting_new ue \<equiv> withMethods ue (Ok \<lparr>plan_Name = EVMUpgradeName, plan_Height = 5\<rparr>) (\<lambda>_. False) (\<lambda>_. ''key'')
     (Ok ()) counting_ante ''/eth'' counting_mempool () calm_new"

lemma counting_start: "\<exists>h rt. New (counting_new ue) True blank_runtime = Ok (h, rt)"
  by (simp add: New_defs withMethods_def calm_new_def registerIBCModules_def setPostHandler_def printErr_def Let_def
      RegisterUpgradeHandlers_def storeUpgrades_def SetAnteHandler_def setAnteHandler_def ConfigureMempool_eq)

theorem started_application_witness:
  "\<forall>ue. \<exists>h rt m. New (counting_new ue) True blank_runtime = Ok (h, rt) \<and> ms_EVMMempool (rt_mempool rt) = Some m \<and>
     m 0 \<lparr>tx_GetMsgs = []\<rparr> False = (1, Ok ()) \<and>
     \<not> is_ok (snd (m 0 \<lparr>tx_GetMsgs = [AuthzMsgGrant (Ok ''/eth'')]\<rparr> False)) \<and>
     rt_storeLoader rt = Some (5, [''key'', ''key'', ''key'', ''key''])"
proof
  fix ue
  obtain h rt where new: "New (counting_new ue) True blank_runtime = Ok (h, rt)" using counting_start by blast
  have "(contains ^^ 0) (AuthzMsgGrant (Ok ''/eth'')) (AuthzMsgGrant (Ok ''/eth''))" by simp
  moreover have "\<not> locally_allowed (newGroupLimiterDecorator [''/eth'']) False (AuthzMsgGrant (Ok ''/eth''))"
    by (simp add: newGroupLimiterDecorator_def)
  ultimately have nested: "\<not> nesting_allowed ''/eth'' (AuthzMsgGrant (Ok ''/eth''))"
    unfolding nesting_allowed_def by (metis less_irrefl)
  from started_application [OF new] obtain a where
    a: "rt_mempool rt = mempool_built (counting_mempool\<lparr>me_GetAnteHandler := Some a\<rparr>) ()"
    "rt_storeLoader rt = Some (5, map (\<lambda>_. ''key'') addedStores)"
    "\<And>tx. if \<forall>m \<in> set (tx_GetMsgs tx). nesting_allowed ''/eth'' m then a 0 tx False = counting_ante 0 tx False
       else fst (a 0 tx False) = 0 \<and> \<not> is_ok (snd (a 0 tx False))"
    by (auto simp: counting_mempool_def)
  have "ms_EVMMempool (rt_mempool rt) = Some a"
    by (simp add: a(1) mempool_built_def counting_mempool_def Let_def)
  with new a(2) a(3) [of "\<lparr>tx_GetMsgs = []\<rparr>"] a(3) [of "\<lparr>tx_GetMsgs = [AuthzMsgGrant (Ok ''/eth'')]\<rparr>"] nested
  show "\<exists>h rt m. New (counting_new ue) True blank_runtime = Ok (h, rt) \<and> ms_EVMMempool (rt_mempool rt) = Some m \<and>
     m 0 \<lparr>tx_GetMsgs = []\<rparr> False = (1, Ok ()) \<and>
     \<not> is_ok (snd (m 0 \<lparr>tx_GetMsgs = [AuthzMsgGrant (Ok ''/eth'')]\<rparr> False)) \<and>
     rt_storeLoader rt = Some (5, [''key'', ''key'', ''key'', ''key''])"
    by (auto simp: counting_ante_def addedStores_def)
qed

end
